(* ===== verification/Prelude.thy ===== *)
theory Prelude
  imports Main "HOL-Library.Word" "HOL-Library.Multiset" "HOL-Library.Char_ord" "HOL-Library.List_Lexorder"
    "HOL-Library.Product_Lexorder"
begin

text \<open>
  What every component shares: the crate's error type (\<^verbatim>\<open>utils/error.rs\<close>), Rust's
  \<^verbatim>\<open>Result\<close> and its \<^verbatim>\<open>?\<close> operator, the parts of the standard library the sources
  use (saturating \<^verbatim>\<open>i64\<close> arithmetic, \<^verbatim>\<open>str::trim\<close>, ASCII classification, decimal
  printing and parsing), and generic lemmas on lists of rows, which the storage components use as
  tables.

  A Rust \<^verbatim>\<open>String\<close> is the list of its UTF-8 bytes, so \<^verbatim>\<open>len()\<close> is \<^const>\<open>length\<close>;
  an \<^verbatim>\<open>i64\<close> is an \<^typ>\<open>int\<close> whose saturation is written out; an unsigned integer is
  a word of its width.
\<close>

named_theorems result_simps \<open>success and failure of chained fallible steps\<close>
named_theorems table_simps \<open>rows of a table after an insert or an update\<close>
named_theorems frame_simps \<open>tables an operation leaves alone\<close>

section \<open>Errors and results\<close>

datatype error =
    Config string
  | InvalidKey string
  | InvalidRequest string
  | Unauthenticated
  | Forbidden
  | NotFound string
  | PaymentConflict string
  | PolicyDenied string
  | InvalidTransition string
  | PaymentProtocol string
  | Settlement string
  | StorageConflict string
  | Storage string
  | DependencyUnavailable string
  | Crypto string
  | ReadFile string string
  | Io string
  | Json string

type_synonym 'a result = "error + 'a"

definition and_then :: "'e + 'a \<Rightarrow> ('a \<Rightarrow> 'e + 'b) \<Rightarrow> 'e + 'b" where
  "and_then r f = (case r of Inl e \<Rightarrow> Inl e | Inr a \<Rightarrow> f a)"

definition map_err :: "('e \<Rightarrow> 'f) \<Rightarrow> 'e + 'a \<Rightarrow> 'f + 'a" where
  "map_err g r = (case r of Inl e \<Rightarrow> Inl (g e) | Inr a \<Rightarrow> Inr a)"

definition ok_or :: "'a option \<Rightarrow> 'e \<Rightarrow> 'e + 'a" where
  "ok_or x e = (case x of None \<Rightarrow> Inl e | Some a \<Rightarrow> Inr a)"

definition is_ok :: "'e + 'a \<Rightarrow> bool" where
  "is_ok r = (case r of Inl e \<Rightarrow> False | Inr a \<Rightarrow> True)"

primrec try_each :: "('a \<Rightarrow> 'e + unit) \<Rightarrow> 'a list \<Rightarrow> 'e + unit" where
  "try_each f [] = Inr ()"
| "try_each f (x # xs) = and_then (f x) (\<lambda>_. try_each f xs)"

primrec try_map :: "('a \<Rightarrow> 'e + 'b) \<Rightarrow> 'a list \<Rightarrow> 'e + 'b list" where
  "try_map f [] = Inr []"
| "try_map f (x # xs) = and_then (f x) (\<lambda>y. and_then (try_map f xs) (\<lambda>ys. Inr (y # ys)))"

primrec try_fold :: "('s \<Rightarrow> 'a \<Rightarrow> 'e + 's) \<Rightarrow> 's \<Rightarrow> 'a list \<Rightarrow> 'e + 's" where
  "try_fold f s [] = Inr s"
| "try_fold f s (x # xs) = and_then (f s x) (\<lambda>t. try_fold f t xs)"

definition is_some_and :: "'a option \<Rightarrow> ('a \<Rightarrow> bool) \<Rightarrow> bool" where
  "is_some_and x p = (case x of None \<Rightarrow> False | Some a \<Rightarrow> p a)"

definition is_none_or :: "'a option \<Rightarrow> ('a \<Rightarrow> bool) \<Rightarrow> bool" where
  "is_none_or x p = (case x of None \<Rightarrow> True | Some a \<Rightarrow> p a)"

section \<open>Code outside the repository\<close>

text \<open>
  Third-party functions the sources call, as one record that the definitions take as an argument:
  \<^verbatim>\<open>x_pubkey\<close> is \<^verbatim>\<open>Pubkey::from_str(s).ok().map(to_string)\<close> of \<^verbatim>\<open>solana_pubkey\<close>,
  \<^verbatim>\<open>x_signature\<close> the same for \<^verbatim>\<open>solana_signature\<close>, \<^verbatim>\<open>x_sha256\<close> the
  SHA-256 digest of a byte string, as bytes, and \<^verbatim>\<open>x_url\<close> is \<^verbatim>\<open>Url::parse(s).ok()\<close>, with
  what the sources read of a URL: its scheme, host, user information and fragment, and the ASCII
  serialization of its origin.
\<close>

record url =
  url_scheme :: string
  url_host :: "string option"
  url_username :: string
  url_password :: "string option"
  url_fragment :: "string option"
  url_origin :: string

record externals =
  x_pubkey :: "string \<Rightarrow> string option"
  x_signature :: "string \<Rightarrow> string option"
  x_sha256 :: "string \<Rightarrow> string"
  x_url :: "string \<Rightarrow> url option"

section \<open>Machine integers\<close>

type_synonym u8 = "8 word"
type_synonym u32 = "32 word"
type_synonym u128 = "128 word"

definition i64_min :: int where "i64_min = - (2 ^ 63)"
definition i64_max :: int where "i64_max = 2 ^ 63 - 1"

definition in_i64 :: "int \<Rightarrow> bool" where
  "in_i64 a \<longleftrightarrow> i64_min \<le> a \<and> a \<le> i64_max"

definition i64_clamp :: "int \<Rightarrow> int" where
  "i64_clamp a = max i64_min (min i64_max a)"

definition saturating_add :: "int \<Rightarrow> int \<Rightarrow> int" where
  "saturating_add a b = i64_clamp (a + b)"

definition saturating_sub :: "int \<Rightarrow> int \<Rightarrow> int" where
  "saturating_sub a b = i64_clamp (a - b)"

definition i64_checked_add :: "int \<Rightarrow> int \<Rightarrow> int option" where
  "i64_checked_add a b = (if in_i64 (a + b) then Some (a + b) else None)"

definition u32_checked_add :: "u32 \<Rightarrow> u32 \<Rightarrow> u32 option" where
  "u32_checked_add a b = (if unat a + unat b < 2 ^ 32 then Some (a + b) else None)"

section \<open>Strings\<close>

definition ascii :: "char \<Rightarrow> nat" where "ascii c = of_char c"

definition is_ascii_digit :: "char \<Rightarrow> bool" where
  "is_ascii_digit c \<longleftrightarrow> 48 \<le> ascii c \<and> ascii c \<le> 57"

definition is_ascii_upper :: "char \<Rightarrow> bool" where
  "is_ascii_upper c \<longleftrightarrow> 65 \<le> ascii c \<and> ascii c \<le> 90"

definition is_ascii_lower :: "char \<Rightarrow> bool" where
  "is_ascii_lower c \<longleftrightarrow> 97 \<le> ascii c \<and> ascii c \<le> 122"

definition is_ascii_alphanumeric :: "char \<Rightarrow> bool" where
  "is_ascii_alphanumeric c \<longleftrightarrow> is_ascii_digit c \<or> is_ascii_upper c \<or> is_ascii_lower c"

definition is_ascii_hexdigit :: "char \<Rightarrow> bool" where
  "is_ascii_hexdigit c \<longleftrightarrow> is_ascii_digit c \<or> (65 \<le> ascii c \<and> ascii c \<le> 70)
     \<or> (97 \<le> ascii c \<and> ascii c \<le> 102)"

definition lower_char :: "char \<Rightarrow> char" where
  "lower_char c = (if is_ascii_upper c then char_of (ascii c + 32) else c)"

definition to_ascii_lowercase :: "string \<Rightarrow> string" where
  "to_ascii_lowercase s = map lower_char s"

definition eq_ignore_ascii_case :: "string \<Rightarrow> string \<Rightarrow> bool" where
  "eq_ignore_ascii_case s t \<longleftrightarrow> to_ascii_lowercase s = to_ascii_lowercase t"

definition strip_prefix :: "string \<Rightarrow> string \<Rightarrow> string option" where
  "strip_prefix p s = (if take (length p) s = p then Some (drop (length p) s) else None)"

definition starts_with :: "string \<Rightarrow> string \<Rightarrow> bool" where
  "starts_with s p \<longleftrightarrow> take (length p) s = p"

text \<open>
  The byte length of the Unicode \<^verbatim>\<open>White_Space\<close> scalar that a UTF-8 string starts with, and
  zero where there is none: TAB to CR, SPACE, U+0085, U+00A0, U+1680, U+2000 to U+200A, U+2028,
  U+2029, U+202F, U+205F and U+3000. The second function reads the same scalars from the end of a
  reversed string.
\<close>

definition ws1 :: "char \<Rightarrow> bool" where
  "ws1 a \<longleftrightarrow> (9 \<le> ascii a \<and> ascii a \<le> 13) \<or> ascii a = 32"

definition ws2 :: "char \<Rightarrow> char \<Rightarrow> bool" where
  "ws2 a b \<longleftrightarrow> ascii a = 194 \<and> (ascii b = 133 \<or> ascii b = 160)"

definition ws3 :: "char \<Rightarrow> char \<Rightarrow> char \<Rightarrow> bool" where
  "ws3 a b c \<longleftrightarrow>
     (ascii a = 225 \<and> ascii b = 154 \<and> ascii c = 128)
     \<or> (ascii a = 226 \<and> ascii b = 128 \<and>
         ((128 \<le> ascii c \<and> ascii c \<le> 138) \<or> ascii c = 168 \<or> ascii c = 169 \<or> ascii c = 175))
     \<or> (ascii a = 226 \<and> ascii b = 129 \<and> ascii c = 159)
     \<or> (ascii a = 227 \<and> ascii b = 128 \<and> ascii c = 128)"

fun trim_start :: "string \<Rightarrow> string" where
  "trim_start (a # b # c # s) =
     (if ws1 a then trim_start (b # c # s)
      else if ws2 a b then trim_start (c # s)
      else if ws3 a b c then trim_start s
      else a # b # c # s)"
| "trim_start [a, b] =
     (if ws1 a then trim_start [b] else if ws2 a b then [] else [a, b])"
| "trim_start [a] = (if ws1 a then [] else [a])"
| "trim_start [] = []"

fun trim_start_rev :: "string \<Rightarrow> string" where
  "trim_start_rev (a # b # c # s) =
     (if ws1 a then trim_start_rev (b # c # s)
      else if ws2 b a then trim_start_rev (c # s)
      else if ws3 c b a then trim_start_rev s
      else a # b # c # s)"
| "trim_start_rev [a, b] =
     (if ws1 a then trim_start_rev [b] else if ws2 b a then [] else [a, b])"
| "trim_start_rev [a] = (if ws1 a then [] else [a])"
| "trim_start_rev [] = []"

definition trim_end :: "string \<Rightarrow> string" where
  "trim_end s = rev (trim_start_rev (rev s))"

definition trim :: "string \<Rightarrow> string" where
  "trim s = trim_end (trim_start s)"

definition is_blank :: "string \<Rightarrow> bool" where
  "is_blank s \<longleftrightarrow> trim s = ''''"

section \<open>Decimal numbers\<close>

definition digit_char :: "nat \<Rightarrow> char" where
  "digit_char d = char_of (48 + d)"

function show_nat :: "nat \<Rightarrow> string" where
  "show_nat n = (if n < 10 then [digit_char n] else show_nat (n div 10) @ [digit_char (n mod 10)])"
  by auto

termination show_nat
  by (relation "measure (\<lambda>n. n)") auto

declare show_nat.simps [simp del]

text \<open>
  \<^verbatim>\<open>str::parse\<close> of an unsigned integer below \<open>bound\<close>: an optional plus sign, at least one
  digit, leading zeros allowed, and an error as soon as the value overflows.
\<close>

fun parse_digits :: "nat \<Rightarrow> nat \<Rightarrow> string \<Rightarrow> nat option" where
  "parse_digits bound acc [] = Some acc"
| "parse_digits bound acc (c # s) =
     (if is_ascii_digit c then
        let v = acc * 10 + (ascii c - 48)
        in if v < bound then parse_digits bound v s else None
      else None)"

definition parse_unsigned :: "nat \<Rightarrow> string \<Rightarrow> nat option" where
  "parse_unsigned bound s =
     (case s of
        [] \<Rightarrow> None
      | c # t \<Rightarrow>
          if c = CHR ''+'' then (if t = [] then None else parse_digits bound 0 t)
          else parse_digits bound 0 s)"

section \<open>Lemmas on results\<close>

lemma and_then_Inl [simp]: "and_then (Inl e) f = Inl e"
  by (simp add: and_then_def)

lemma and_then_Inr [simp]: "and_then (Inr a) f = f a"
  by (simp add: and_then_def)

lemma and_then_ok [result_simps]:
  "and_then r f = Inr b \<longleftrightarrow> (\<exists>a. r = Inr a \<and> f a = Inr b)"
  by (cases r) auto

lemma and_then_err [result_simps]:
  "and_then r f = Inl e \<longleftrightarrow> r = Inl e \<or> (\<exists>a. r = Inr a \<and> f a = Inl e)"
  by (cases r) auto

lemma if_err_ok [result_simps]:
  "(if c then Inl e else r) = Inr b \<longleftrightarrow> \<not> c \<and> r = Inr b"
  by simp

lemma map_err_ok [result_simps, simp]: "map_err g r = Inr a \<longleftrightarrow> r = Inr a"
  by (cases r) (auto simp: map_err_def)

lemma map_err_simps [simp]: "map_err g (Inl e) = Inl (g e)" "map_err g (Inr a) = Inr a"
  by (simp_all add: map_err_def)

lemma ok_or_ok [result_simps, simp]: "ok_or x e = Inr a \<longleftrightarrow> x = Some a"
  by (cases x) (auto simp: ok_or_def)

lemma ok_or_err [result_simps, simp]: "ok_or x e = Inl d \<longleftrightarrow> x = None \<and> d = e"
  by (cases x) (auto simp: ok_or_def)

lemma ok_or_simps [simp]: "ok_or None e = Inl e" "ok_or (Some a) e = Inr a"
  by (simp_all add: ok_or_def)

lemma is_ok_simps [simp]: "is_ok (Inl e) = False" "is_ok (Inr a) = True"
  by (simp_all add: is_ok_def)

lemma is_ok_iff: "is_ok r \<longleftrightarrow> (\<exists>a. r = Inr a)"
  by (cases r) auto

lemma try_each_ok [result_simps]:
  "try_each f xs = Inr u \<longleftrightarrow> (\<forall>x \<in> set xs. is_ok (f x))"
  by (induction xs) (auto simp: and_then_ok is_ok_iff)

lemma try_map_ok [result_simps]:
  "try_map f xs = Inr ys \<longleftrightarrow> list_all2 (\<lambda>x y. f x = Inr y) xs ys"
  by (induction xs arbitrary: ys) (auto simp: and_then_ok list_all2_Cons1)

lemma is_some_and_simps [simp]: "is_some_and None p = False" "is_some_and (Some a) p = p a"
  by (simp_all add: is_some_and_def)

lemma is_none_or_simps [simp]: "is_none_or None p = True" "is_none_or (Some a) p = p a"
  by (simp_all add: is_none_or_def)

lemma is_some_and_iff: "is_some_and x p \<longleftrightarrow> (\<exists>a. x = Some a \<and> p a)"
  by (cases x) auto

lemma is_none_or_iff: "is_none_or x p \<longleftrightarrow> (\<forall>a. x = Some a \<longrightarrow> p a)"
  by (cases x) auto

section \<open>Lemmas on machine integers\<close>

lemma i64_clamp_id [simp]: "in_i64 a \<Longrightarrow> i64_clamp a = a"
  by (auto simp: in_i64_def i64_clamp_def)

lemma in_i64_clamp [simp]: "in_i64 (i64_clamp a)"
  by (auto simp: in_i64_def i64_clamp_def i64_min_def i64_max_def)

lemma i64_clamp_mono: "a \<le> b \<Longrightarrow> i64_clamp a \<le> i64_clamp b"
  by (auto simp: i64_clamp_def)

lemma saturating_add_mono: "a \<le> b \<Longrightarrow> saturating_add a c \<le> saturating_add b c"
  by (simp add: saturating_add_def i64_clamp_mono)

lemma saturating_add_ge: "in_i64 a \<Longrightarrow> 0 \<le> b \<Longrightarrow> a \<le> saturating_add a b"
  by (auto simp: saturating_add_def i64_clamp_def in_i64_def)

lemma u32_checked_add_unat:
  assumes "u32_checked_add a b = Some c"
  shows "unat c = unat a + unat b"
  using assms by (auto simp: u32_checked_add_def unat_word_ariths split: if_splits)

section \<open>Decimal round trip\<close>

lemma ascii_digit_char [simp]: "d < 10 \<Longrightarrow> ascii (digit_char d) = 48 + d"
  by (simp add: ascii_def digit_char_def)

lemma is_ascii_digit_digit_char [simp]: "d < 10 \<Longrightarrow> is_ascii_digit (digit_char d)"
  by (simp add: is_ascii_digit_def)

lemma show_nat_digits: "list_all is_ascii_digit (show_nat n)"
proof (induction n rule: show_nat.induct)
  case (1 n)
  then show ?case by (subst show_nat.simps) simp
qed

lemma show_nat_not_Nil [simp]: "show_nat n \<noteq> []"
  by (subst show_nat.simps) simp

lemma parse_digits_show_nat:
  assumes "acc * 10 ^ length (show_nat n) + n < bound"
  shows "parse_digits bound acc (show_nat n @ rest)
    = parse_digits bound (acc * 10 ^ length (show_nat n) + n) rest"
  using assms
proof (induction n arbitrary: rest rule: show_nat.induct)
  case (1 n)
  show ?case
  proof (cases "n < 10")
    case True
    then have "show_nat n = [digit_char n]" by (subst show_nat.simps) simp
    then show ?thesis using 1(2) True by simp
  next
    case False
    let ?m = "n div 10" and ?k = "length (show_nat (n div 10))"
    have sn: "show_nat n = show_nat ?m @ [digit_char (n mod 10)]"
      using False by (subst show_nat.simps) simp
    have val: "(acc * 10 ^ ?k + ?m) * 10 + n mod 10 = acc * 10 ^ Suc ?k + n"
      by (simp add: algebra_simps)
    have lt: "acc * 10 ^ Suc ?k + n < bound" using 1(2) by (simp add: sn)
    have "x \<le> x * 10 + y" for x y :: nat by simp
    from this [of "acc * 10 ^ ?k + ?m" "n mod 10"]
    have "acc * 10 ^ ?k + ?m < bound" using lt unfolding val by (rule le_less_trans)
    from 1(1) [OF False this, of "digit_char (n mod 10) # rest"]
    show ?thesis using lt val by (simp add: sn Let_def ac_simps)
  qed
qed

lemma parse_unsigned_show_nat:
  assumes "n < bound"
  shows "parse_unsigned bound (show_nat n) = Some n"
proof -
  have digits: "parse_digits bound 0 (show_nat n) = Some n"
    using parse_digits_show_nat [of 0 n bound "[]"] assms by simp
  obtain c t where ct: "show_nat n = c # t"
    by (cases "show_nat n") auto
  then have "is_ascii_digit c"
    using show_nat_digits [of n] by simp
  then have "c \<noteq> CHR ''+''"
    by (auto simp: is_ascii_digit_def ascii_def)
  then show ?thesis
    using digits by (simp add: parse_unsigned_def ct)
qed

lemma show_nat_inj: "show_nat m = show_nat n \<longleftrightarrow> m = n"
  by (metis lessI less_Suc_eq linorder_neqE_nat option.inject parse_unsigned_show_nat
      order_less_trans)

section \<open>Tables as lists of rows\<close>

lemma map_of_sort_key_fst [simp]:
  "distinct (map fst kvs) \<Longrightarrow> map_of (sort_key fst kvs) k = map_of kvs k"
proof -
  assume d: "distinct (map fst kvs)"
  moreover have "distinct (map fst (sort_key fst kvs))"
    using mset_eq_imp_distinct_iff [of "map fst (sort_key fst kvs)" "map fst kvs"] d by simp
  ultimately show ?thesis
    by (metis map_of_eq_None_iff map_of_eq_Some_iff not_Some_eq set_map set_sort)
qed

lemma find_Some_in: "find P xs = Some x \<Longrightarrow> x \<in> set xs \<and> P x"
  by (auto simp: find_Some_iff)

lemma find_None_notin: "find P xs = None \<Longrightarrow> x \<in> set xs \<Longrightarrow> \<not> P x"
  by (auto simp: find_None_iff)

lemma find_append: "find P (xs @ ys) = (case find P xs of None \<Rightarrow> find P ys | Some x \<Rightarrow> Some x)"
  by (induction xs) auto

lemma find_map_same:
  "(\<And>x. x \<in> set xs \<Longrightarrow> P (f x) = P x) \<Longrightarrow> find P (map f xs) = map_option f (find P xs)"
  by (induction xs) auto

lemma find_distinct:
  assumes "distinct (map key xs)" "x \<in> set xs"
  shows "find (\<lambda>y. key y = key x) xs = Some x"
  using assms by (induction xs) (auto simp: rev_image_eqI)

end
