(* ===== verification/Money.thy ===== *)
theory Money
  imports Prelude
begin

text \<open>
  Amounts, assets and budget units (\<^verbatim>\<open>model/payment.rs\<close>). An \<^verbatim>\<open>Amount\<close> is a 128-bit
  word with checked addition and subtraction; its text form, which SQLite and JSON store, is the
  decimal numeral.
\<close>

section \<open>Definitions\<close>

type_synonym amount = u128

definition is_zero :: "amount \<Rightarrow> bool" where
  "is_zero a \<longleftrightarrow> a = 0"

definition checked_add :: "amount \<Rightarrow> amount \<Rightarrow> amount option" where
  "checked_add a b = (if unat a + unat b < 2 ^ 128 then Some (a + b) else None)"

definition checked_sub :: "amount \<Rightarrow> amount \<Rightarrow> amount option" where
  "checked_sub a b = (if b \<le> a then Some (a - b) else None)"

definition amount_from_str :: "string \<Rightarrow> amount option" where
  "amount_from_str s = map_option of_nat (parse_unsigned (2 ^ 128) s)"

definition amount_to_string :: "amount \<Rightarrow> string" where
  "amount_to_string a = show_nat (unat a)"

record AssetIdentity =
  ai_network :: string
  ai_asset :: string
  ai_token_contract :: "string option"
  ai_decimals :: u8

record BudgetUnit =
  bu_asset :: string
  bu_decimals :: u8

definition BudgetUnit_validate :: "BudgetUnit \<Rightarrow> string + unit" where
  "BudgetUnit_validate u = (if is_blank (bu_asset u) then Inl ''asset'' else Inr ())"

definition BudgetUnit_matches :: "BudgetUnit \<Rightarrow> AssetIdentity \<Rightarrow> bool" where
  "BudgetUnit_matches u a \<longleftrightarrow> bu_asset u = ai_asset a \<and> bu_decimals u = ai_decimals a"

definition AssetIdentity_validate :: "AssetIdentity \<Rightarrow> string + unit" where
  "AssetIdentity_validate a =
     (if is_blank (ai_network a) then Inl ''network''
      else if is_blank (ai_asset a) then Inl ''asset''
      else if is_some_and (ai_token_contract a) is_blank then Inl ''token_contract''
      else Inr ())"

definition budget_unit :: "AssetIdentity \<Rightarrow> BudgetUnit" where
  "budget_unit a = \<lparr>bu_asset = ai_asset a, bu_decimals = ai_decimals a\<rparr>"

datatype PaymentDirection = Inbound | Outbound

primrec PaymentDirection_as_str :: "PaymentDirection \<Rightarrow> string" where
  "PaymentDirection_as_str Inbound = ''inbound''"
| "PaymentDirection_as_str Outbound = ''outbound''"

text \<open>A fold of \<open>checked_add\<close>: the sum of a list, or \<open>None\<close> on overflow.\<close>

primrec checked_sum :: "amount \<Rightarrow> amount list \<Rightarrow> amount option" where
  "checked_sum acc [] = Some acc"
| "checked_sum acc (x # xs) = (case checked_add acc x of None \<Rightarrow> None | Some t \<Rightarrow> checked_sum t xs)"

section \<open>Checked arithmetic\<close>

lemma checked_add_unat: "checked_add a b = Some c \<Longrightarrow> unat c = unat a + unat b"
  by (auto simp: checked_add_def unat_word_ariths split: if_splits)

lemma checked_add_eq_Some:
  "checked_add a b = Some c \<longleftrightarrow> unat c = unat a + unat b"
proof
  assume c: "unat c = unat a + unat b"
  have bound: "unat a + unat b < 2 ^ 128"
    using unsigned_less [of c, where 'a = nat] by (simp add: c)
  then have "c = a + b"
    using c by (simp add: word_unat_eq_iff unat_word_ariths)
  with bound show "checked_add a b = Some c"
    by (simp add: checked_add_def)
qed (rule checked_add_unat)

lemma checked_add_None: "checked_add a b = None \<longleftrightarrow> 2 ^ 128 \<le> unat a + unat b"
  by (simp add: checked_add_def)

lemma checked_add_zero [simp]: "checked_add 0 a = Some a" "checked_add a 0 = Some a"
  by (simp_all add: checked_add_eq_Some)

lemma checked_add_mono: "checked_add a b = Some c \<Longrightarrow> a \<le> c \<and> b \<le> c"
  by (auto simp: word_le_nat_alt dest: checked_add_unat)

lemma checked_sub_unat: "checked_sub a b = Some c \<longleftrightarrow> unat a = unat b + unat c"
  by (auto simp: checked_sub_def word_le_nat_alt unat_sub word_unat_eq_iff)

lemma checked_sum_unat:
  "checked_sum acc xs = Some s \<longleftrightarrow> unat s = unat acc + sum_list (map unat xs)"
proof (induction xs arbitrary: acc)
  case Nil
  then show ?case by (auto simp: word_unat_eq_iff)
next
  case (Cons x xs)
  show ?case
  proof (cases "checked_add acc x")
    case None
    then have "2 ^ 128 \<le> unat acc + unat x" by (simp add: checked_add_None)
    moreover have "unat s < 2 ^ 128" using unsigned_less [of s, where 'a = nat] by simp
    ultimately show ?thesis using None by simp
  next
    case (Some t)
    then show ?thesis by (simp add: Cons.IH checked_add_unat add.assoc)
  qed
qed

section \<open>Budget units\<close>

lemma BudgetUnit_matches_iff: "BudgetUnit_matches u a \<longleftrightarrow> u = budget_unit a"
  by (cases u) (auto simp: BudgetUnit_matches_def budget_unit_def)

section \<open>Text form\<close>

lemma amount_from_str_to_string [simp]: "amount_from_str (amount_to_string a) = Some a"
proof -
  have "unat a < 2 ^ 128"
    using unsigned_less [of a, where 'a = nat] by simp
  then show ?thesis
    by (simp add: amount_from_str_def amount_to_string_def parse_unsigned_show_nat)
qed

lemma amount_to_string_inj [simp]: "amount_to_string a = amount_to_string b \<longleftrightarrow> a = b"
  by (simp add: amount_to_string_def show_nat_inj word_unat_eq_iff)

end
