(* ===== verification/Intent.thy ===== *)
theory Intent
  imports Money
begin

text \<open>
  Payment intents, challenges, credentials and operational events (\<^verbatim>\<open>model/payment.rs\<close>,
  \<^verbatim>\<open>model/domain/payment.rs\<close>, \<^verbatim>\<open>model/domain/event.rs\<close>), with the JSON values that events
  carry and serde's encoding of a challenge into one.
\<close>

section \<open>JSON values\<close>

text \<open>
  \<^verbatim>\<open>serde_json::Value\<close> with integer numbers. An object is the association list of a
  \<^verbatim>\<open>BTreeMap\<close>, in key order, so that structural equality is the crate's equality.
\<close>

datatype json =
    JNull
  | JBool bool
  | JNumber int
  | JString string
  | JArray "json list"
  | JObject "(string \<times> json) list"

definition json_object :: "(string \<times> json) list \<Rightarrow> json" where
  "json_object fs = JObject (sort_key fst fs)"

fun json_get :: "json \<Rightarrow> string \<Rightarrow> json option" where
  "json_get (JObject fs) k = map_of fs k"
| "json_get _ k = None"

definition opt_field :: "string \<Rightarrow> ('a \<Rightarrow> json) \<Rightarrow> 'a option \<Rightarrow> (string \<times> json) list" where
  "opt_field k enc v = (case v of None \<Rightarrow> [] | Some a \<Rightarrow> [(k, enc a)])"

section \<open>Status values\<close>

datatype PaymentStatus =
    Created | PendingApproval | Authorized | Signed | Submitted | PendingSettlement
  | Settled | Failed | Expired | Unknown

primrec PaymentStatus_as_str :: "PaymentStatus \<Rightarrow> string" where
  "PaymentStatus_as_str Created = ''created''"
| "PaymentStatus_as_str PendingApproval = ''pending_approval''"
| "PaymentStatus_as_str Authorized = ''authorized''"
| "PaymentStatus_as_str Signed = ''signed''"
| "PaymentStatus_as_str Submitted = ''submitted''"
| "PaymentStatus_as_str PendingSettlement = ''pending_settlement''"
| "PaymentStatus_as_str Settled = ''settled''"
| "PaymentStatus_as_str Failed = ''failed''"
| "PaymentStatus_as_str Expired = ''expired''"
| "PaymentStatus_as_str Unknown = ''unknown''"

definition is_final :: "PaymentStatus \<Rightarrow> bool" where
  "is_final s \<longleftrightarrow> s \<in> {Settled, Failed, Expired}"

datatype ReservationStatus = Unreserved | Reserved | Consumed | Released

primrec ReservationStatus_as_str :: "ReservationStatus \<Rightarrow> string" where
  "ReservationStatus_as_str Unreserved = ''unreserved''"
| "ReservationStatus_as_str Reserved = ''reserved''"
| "ReservationStatus_as_str Consumed = ''consumed''"
| "ReservationStatus_as_str Released = ''released''"

datatype ReplayCheck = Replay | Conflict

section \<open>Challenges and credentials\<close>

record PaymentChallenge =
  pc_scenario_id :: string
  pc_price_id :: "string option"
  pc_resource :: string
  pc_protocol :: string
  pc_asset :: AssetIdentity
  pc_amount :: amount
  pc_recipient :: string
  pc_nonce :: string
  pc_challenge_hash :: string
  pc_expires_at :: int
  pc_payload :: json

record PaymentCredential =
  cr_protocol :: string
  cr_challenge_hash :: string
  cr_credential_hash :: string
  cr_payload :: json

datatype PaymentAuthorizationResult =
    Denied string string
  | RequiresApproval string string
  | AuthorizedResult string amount

record AuthorizePayment =
  ap_scenario_id :: string
  ap_run_id :: string
  ap_challenge :: PaymentChallenge

definition asset_to_value :: "AssetIdentity \<Rightarrow> json" where
  "asset_to_value a = json_object
     ([(''network'', JString (ai_network a)), (''asset'', JString (ai_asset a))]
      @ opt_field ''token_contract'' JString (ai_token_contract a)
      @ [(''decimals'', JNumber (uint (ai_decimals a)))])"

definition challenge_to_value :: "PaymentChallenge \<Rightarrow> json" where
  "challenge_to_value c = json_object
     ([(''scenario_id'', JString (pc_scenario_id c))]
      @ opt_field ''price_id'' JString (pc_price_id c)
      @ [(''resource'', JString (pc_resource c)),
         (''protocol'', JString (pc_protocol c)),
         (''asset'', asset_to_value (pc_asset c)),
         (''amount'', JString (amount_to_string (pc_amount c))),
         (''recipient'', JString (pc_recipient c)),
         (''nonce'', JString (pc_nonce c)),
         (''challenge_hash'', JString (pc_challenge_hash c)),
         (''expires_at'', JNumber (pc_expires_at c)),
         (''payload'', pc_payload c)])"

fun json_string :: "json option \<Rightarrow> string option" where
  "json_string (Some (JString s)) = Some s"
| "json_string _ = None"

fun json_opt_string :: "json option \<Rightarrow> string option option" where
  "json_opt_string None = Some None"
| "json_opt_string (Some JNull) = Some None"
| "json_opt_string (Some (JString s)) = Some (Some s)"
| "json_opt_string _ = None"

fun json_u8 :: "json option \<Rightarrow> u8 option" where
  "json_u8 (Some (JNumber n)) = (if 0 \<le> n \<and> n < 256 then Some (of_int n) else None)"
| "json_u8 _ = None"

fun json_i64 :: "json option \<Rightarrow> int option" where
  "json_i64 (Some (JNumber n)) = (if in_i64 n then Some n else None)"
| "json_i64 _ = None"

definition known_fields :: "string list \<Rightarrow> (string \<times> json) list \<Rightarrow> bool" where
  "known_fields ks fs \<longleftrightarrow> list_all (\<lambda>f. fst f \<in> set ks) fs"

text \<open>
  Deserialisation with \<^verbatim>\<open>deny_unknown_fields\<close>; a missing or \<^verbatim>\<open>null\<close> optional field is
  \<open>None\<close>.
\<close>

fun asset_from_value :: "json \<Rightarrow> AssetIdentity option" where
  "asset_from_value (JObject fs) =
     (if known_fields [''network'', ''asset'', ''token_contract'', ''decimals''] fs then
        case (json_string (map_of fs ''network''), json_string (map_of fs ''asset''),
              json_opt_string (map_of fs ''token_contract''), json_u8 (map_of fs ''decimals'')) of
          (Some n, Some a, Some t, Some d) \<Rightarrow>
            Some \<lparr>ai_network = n, ai_asset = a, ai_token_contract = t, ai_decimals = d\<rparr>
        | _ \<Rightarrow> None
      else None)"
| "asset_from_value _ = None"

definition challenge_fields :: "string list" where
  "challenge_fields = [''scenario_id'', ''price_id'', ''resource'', ''protocol'', ''asset'', ''amount'',
     ''recipient'', ''nonce'', ''challenge_hash'', ''expires_at'', ''payload'']"

fun challenge_from_value :: "json \<Rightarrow> PaymentChallenge option" where
  "challenge_from_value (JObject fs) =
     (if known_fields challenge_fields fs then
        case (json_string (map_of fs ''scenario_id''), json_opt_string (map_of fs ''price_id''),
              json_string (map_of fs ''resource''), json_string (map_of fs ''protocol''),
              Option.bind (map_of fs ''asset'') asset_from_value,
              Option.bind (json_string (map_of fs ''amount'')) amount_from_str,
              json_string (map_of fs ''recipient''), json_string (map_of fs ''nonce''),
              json_string (map_of fs ''challenge_hash''), json_i64 (map_of fs ''expires_at''),
              map_of fs ''payload'') of
          (Some s, Some p, Some r, Some pr, Some a, Some am, Some rc, Some n, Some h, Some e, Some pl) \<Rightarrow>
            Some \<lparr>pc_scenario_id = s, pc_price_id = p, pc_resource = r, pc_protocol = pr, pc_asset = a,
                  pc_amount = am, pc_recipient = rc, pc_nonce = n, pc_challenge_hash = h,
                  pc_expires_at = e, pc_payload = pl\<rparr>
        | _ \<Rightarrow> None
      else None)"
| "challenge_from_value _ = None"

section \<open>Payment intents\<close>

record PaymentIntent =
  pi_id :: string
  pi_scenario_id :: string
  pi_run_id :: string
  pi_wallet_id :: "string option"
  pi_policy_id :: "string option"
  pi_price_id :: "string option"
  pi_direction :: PaymentDirection
  pi_protocol :: string
  pi_asset :: AssetIdentity
  pi_recipient :: string
  pi_amount :: amount
  pi_settled_amount :: amount
  pi_resource :: string
  pi_challenge_hash :: "string option"
  pi_request_hash :: string
  pi_status :: PaymentStatus
  pi_reservation_status :: ReservationStatus
  pi_reserved_amount :: amount
  pi_tx_hash :: "string option"
  pi_settlement_ref :: "string option"
  pi_next_reconcile_at :: "int option"
  pi_created_at :: int
  pi_updated_at :: int
  pi_expires_at :: "int option"
  pi_settled_at :: "int option"

definition check_replay :: "PaymentIntent \<Rightarrow> string \<Rightarrow> ReplayCheck" where
  "check_replay i request_hash = (if pi_request_hash i = request_hash then Replay else Conflict)"

definition authority_ids :: "PaymentIntent \<Rightarrow> string + (string \<times> string)" where
  "authority_ids i =
     and_then (case pi_policy_id i of
         Some p \<Rightarrow> if is_blank p then Inl ''policy_id'' else Inr p
       | None \<Rightarrow> Inl ''policy_id'') (\<lambda>policy_id.
     and_then (case pi_wallet_id i of
         Some w \<Rightarrow> if is_blank w then Inl ''wallet_id'' else Inr w
       | None \<Rightarrow> Inl ''wallet_id'') (\<lambda>wallet_id.
     Inr (policy_id, wallet_id)))"

definition same_immutable_identity_as :: "PaymentIntent \<Rightarrow> PaymentIntent \<Rightarrow> bool" where
  "same_immutable_identity_as i j \<longleftrightarrow>
     pi_id i = pi_id j
     \<and> pi_scenario_id i = pi_scenario_id j
     \<and> pi_run_id i = pi_run_id j
     \<and> pi_wallet_id i = pi_wallet_id j
     \<and> pi_policy_id i = pi_policy_id j
     \<and> pi_price_id i = pi_price_id j
     \<and> pi_direction i = pi_direction j
     \<and> pi_protocol i = pi_protocol j
     \<and> pi_asset i = pi_asset j
     \<and> pi_recipient i = pi_recipient j
     \<and> pi_amount i = pi_amount j
     \<and> pi_resource i = pi_resource j
     \<and> pi_challenge_hash i = pi_challenge_hash j
     \<and> pi_request_hash i = pi_request_hash j
     \<and> pi_created_at i = pi_created_at j
     \<and> pi_expires_at i = pi_expires_at j"

definition needs_reconciliation :: "PaymentIntent \<Rightarrow> bool" where
  "needs_reconciliation i \<longleftrightarrow> pi_status i \<in> {Signed, Submitted, PendingSettlement, Unknown}"

definition PaymentIntent_validate :: "PaymentIntent \<Rightarrow> string + unit" where
  "PaymentIntent_validate i =
     (if is_blank (pi_id i) then Inl ''id''
      else if is_blank (pi_scenario_id i) then Inl ''scenario_id''
      else if is_blank (pi_run_id i) then Inl ''run_id''
      else and_then (authority_ids i) (\<lambda>_.
      if pi_direction i = Inbound \<and> is_none_or (pi_price_id i) is_blank then Inl ''price_id''
      else if pi_direction i = Outbound \<and> pi_price_id i \<noteq> None then Inl ''price_id''
      else if is_blank (pi_protocol i) then Inl ''protocol''
      else and_then (AssetIdentity_validate (pi_asset i)) (\<lambda>_.
      if is_blank (pi_recipient i) then Inl ''recipient''
      else if is_zero (pi_amount i) then Inl ''amount''
      else if is_blank (pi_request_hash i) then Inl ''request_hash''
      else if pi_settled_amount i > pi_amount i then Inl ''settled_amount''
      else if pi_reserved_amount i > pi_amount i then Inl ''reserved_amount''
      else if pi_status i = Settled \<and> pi_settled_at i = None then Inl ''settled_at''
      else Inr ())))"

section \<open>Events\<close>

datatype PaymentEventType =
    ChallengeCreated | ChallengeReceived | SignRequested | EvSigned | ApprovalRequested
  | ApprovalGranted | ApprovalRejected | ApprovalConsumed | CredentialVerified | EvSubmitted
  | SettlementRequested | EvSettled | Retried | EvFailed | Reconciled

primrec PaymentEventType_as_str :: "PaymentEventType \<Rightarrow> string" where
  "PaymentEventType_as_str ChallengeCreated = ''challenge_created''"
| "PaymentEventType_as_str ChallengeReceived = ''challenge_received''"
| "PaymentEventType_as_str SignRequested = ''sign_requested''"
| "PaymentEventType_as_str EvSigned = ''signed''"
| "PaymentEventType_as_str ApprovalRequested = ''approval_requested''"
| "PaymentEventType_as_str ApprovalGranted = ''approval_granted''"
| "PaymentEventType_as_str ApprovalRejected = ''approval_rejected''"
| "PaymentEventType_as_str ApprovalConsumed = ''approval_consumed''"
| "PaymentEventType_as_str CredentialVerified = ''credential_verified''"
| "PaymentEventType_as_str EvSubmitted = ''submitted''"
| "PaymentEventType_as_str SettlementRequested = ''settlement_requested''"
| "PaymentEventType_as_str EvSettled = ''settled''"
| "PaymentEventType_as_str Retried = ''retried''"
| "PaymentEventType_as_str EvFailed = ''failed''"
| "PaymentEventType_as_str Reconciled = ''reconciled''"

record PaymentEvent =
  ev_id :: string
  ev_intent_id :: string
  ev_event_type :: PaymentEventType
  ev_attempt_no :: u32
  ev_signature_ref :: "string option"
  ev_tx_hash :: "string option"
  ev_payload :: json
  ev_created_at :: int

definition PaymentEvent_validate :: "PaymentEvent \<Rightarrow> string + unit" where
  "PaymentEvent_validate e =
     (if is_blank (ev_id e) then Inl ''id''
      else if is_blank (ev_intent_id e) then Inl ''intent_id''
      else Inr ())"

section \<open>Challenges survive their JSON form\<close>

lemma json_object_get [simp]:
  "distinct (map fst fs) \<Longrightarrow> json_get (json_object fs) k = map_of fs k"
  by (simp add: json_object_def)

lemma known_fields_sort [simp]: "known_fields ks (sort_key f fs) = known_fields ks fs"
  by (simp add: known_fields_def list_all_iff)

lemma asset_round_trip [simp]: "asset_from_value (asset_to_value a) = Some a"
proof (cases a)
  case (fields n s t d)
  have "uint d < 256" using uint_lt2p [of d] by simp
  then show ?thesis
    by (cases t) (simp_all add: fields asset_to_value_def json_object_def opt_field_def known_fields_def)
qed

lemma challenge_round_trip:
  "in_i64 (pc_expires_at c) \<Longrightarrow> challenge_from_value (challenge_to_value c) = Some c"
  by (cases c; cases "pc_price_id c")
    (simp_all add: challenge_to_value_def json_object_def opt_field_def known_fields_def
      challenge_fields_def)

section \<open>Intent validation\<close>

lemma authority_ids_ok:
  "authority_ids i = Inr (p, w) \<longleftrightarrow>
     pi_policy_id i = Some p \<and> \<not> is_blank p \<and> pi_wallet_id i = Some w \<and> \<not> is_blank w"
  by (auto simp: authority_ids_def result_simps split: option.splits)

lemma PaymentIntent_validate_ok:
  assumes "PaymentIntent_validate i = Inr ()"
  shows "\<exists>p w. authority_ids i = Inr (p, w)"
    and "pi_amount i \<noteq> 0"
    and "pi_settled_amount i \<le> pi_amount i"
    and "pi_reserved_amount i \<le> pi_amount i"
    and "pi_status i = Settled \<Longrightarrow> pi_settled_at i \<noteq> None"
    and "\<not> is_blank (pi_id i)" "\<not> is_blank (pi_scenario_id i)" "\<not> is_blank (pi_run_id i)"
  using assms by (auto simp: PaymentIntent_validate_def result_simps is_zero_def)

lemma same_immutable_identity_refl [simp]: "same_immutable_identity_as i i"
  by (simp add: same_immutable_identity_as_def)

lemma same_immutable_identity_sym:
  "same_immutable_identity_as i j \<Longrightarrow> same_immutable_identity_as j i"
  by (simp add: same_immutable_identity_as_def)

lemma same_immutable_identity_trans:
  "same_immutable_identity_as i j \<Longrightarrow> same_immutable_identity_as j k \<Longrightarrow>
     same_immutable_identity_as i k"
  by (simp add: same_immutable_identity_as_def)

lemma final_not_reconciled: "is_final (pi_status i) \<Longrightarrow> \<not> needs_reconciliation i"
  by (auto simp: is_final_def needs_reconciliation_def)

end
