(* ===== verification/Address.thy ===== *)
theory Address
  imports Prelude
begin

text \<open>
  Wallet addresses and payment recipients (\<^verbatim>\<open>model/wallet.rs\<close>): which algorithms and networks
  belong to the EVM and Solana families, and how an address is validated, canonicalised and
  compared. Base58 public keys are parsed by an external crate, the parameter \<^const>\<open>x_pubkey\<close>.
\<close>

section \<open>Definitions\<close>

datatype WalletSelectionStrategy = LeastSpent | StableRandom

definition is_evm_wallet_algorithm :: "string \<Rightarrow> bool" where
  "is_evm_wallet_algorithm algorithm \<longleftrightarrow>
     to_ascii_lowercase algorithm \<in> {''secp256k1'', ''evm'', ''ethereum'', ''eip155''}"

definition is_solana_wallet_algorithm :: "string \<Rightarrow> bool" where
  "is_solana_wallet_algorithm algorithm \<longleftrightarrow>
     to_ascii_lowercase algorithm \<in> {''ed25519'', ''solana''}"

definition evm_address_body :: "string \<Rightarrow> string option" where
  "evm_address_body address =
     (case (case strip_prefix ''0x'' address of
              Some encoded \<Rightarrow> Some encoded
            | None \<Rightarrow> strip_prefix ''0X'' address) of
        None \<Rightarrow> None
      | Some encoded \<Rightarrow>
          if length encoded = 40 \<and> list_all is_ascii_hexdigit encoded then Some encoded else None)"

definition is_evm_payment_network :: "string \<Rightarrow> bool" where
  "is_evm_payment_network network =
     is_some_and (strip_prefix ''eip155:'' network)
       (\<lambda>chain. chain \<noteq> [] \<and> list_all is_ascii_digit chain)"

definition is_solana_payment_network :: "string \<Rightarrow> bool" where
  "is_solana_payment_network network =
     is_some_and (strip_prefix ''solana:'' network)
       (\<lambda>reference. reference \<noteq> [] \<and> length reference \<le> 128)"

definition canonical_solana_address :: "externals \<Rightarrow> string \<Rightarrow> string option" where
  "canonical_solana_address X address = x_pubkey X address"

definition canonicalize_wallet_address :: "externals \<Rightarrow> string \<Rightarrow> string \<Rightarrow> string + string" where
  "canonicalize_wallet_address X algorithm address =
     (case evm_address_body address of
        Some encoded \<Rightarrow> Inr (''0x'' @ to_ascii_lowercase encoded)
      | None \<Rightarrow>
          if is_evm_wallet_algorithm algorithm then Inl ''address''
          else if is_solana_wallet_algorithm algorithm
          then ok_or (canonical_solana_address X address) ''address''
          else Inr address)"

definition canonicalize_payment_recipient :: "externals \<Rightarrow> string \<Rightarrow> string \<Rightarrow> string + string" where
  "canonicalize_payment_recipient X network address =
     (if is_evm_payment_network network
      then ok_or (map_option (\<lambda>encoded. ''0x'' @ to_ascii_lowercase encoded)
                    (evm_address_body address)) ''address''
      else if is_solana_payment_network network
      then ok_or (canonical_solana_address X address) ''address''
      else Inr address)"

definition wallet_addresses_match :: "externals \<Rightarrow> string \<Rightarrow> string \<Rightarrow> string \<Rightarrow> bool" where
  "wallet_addresses_match X algorithm left right =
     (case (canonicalize_wallet_address X algorithm left,
            canonicalize_wallet_address X algorithm right) of
        (Inr l, Inr r) \<Rightarrow> l = r
      | _ \<Rightarrow> False)"

definition payment_recipients_match :: "externals \<Rightarrow> string \<Rightarrow> string \<Rightarrow> string \<Rightarrow> bool" where
  "payment_recipients_match X network left right =
     (case (canonicalize_payment_recipient X network left,
            canonicalize_payment_recipient X network right) of
        (Inr l, Inr r) \<Rightarrow> l = r
      | _ \<Rightarrow> False)"

text \<open>
  What a caller relies on in the public-key crate: a printed key parses to itself, and it is a
  base58 numeral, whose alphabet has no zero.
\<close>

definition pubkey_stable :: "externals \<Rightarrow> bool" where
  "pubkey_stable X \<longleftrightarrow> 
     (\<forall>s t. x_pubkey X s = Some t \<longrightarrow> x_pubkey X t = Some t \<and> CHR ''0'' \<notin> set t)"

section \<open>Lower-casing and hexadecimal digits\<close>

lemma ascii_less [simp]: "ascii c < 256"
  by (simp add: ascii_def)

lemma ascii_char_of [simp]: "n < 256 \<Longrightarrow> ascii (char_of n) = n"
  by (simp add: ascii_def)

lemma ascii_lower_char:
  "ascii (lower_char c) = (if is_ascii_upper c then ascii c + 32 else ascii c)"
  by (auto simp: lower_char_def is_ascii_upper_def)

lemma lower_char_idem [simp]: "lower_char (lower_char c) = lower_char c"
proof -
  have "\<not> is_ascii_upper (lower_char c)"
    by (auto simp: is_ascii_upper_def ascii_lower_char)
  then show ?thesis
    unfolding lower_char_def [of "lower_char c"] by simp
qed

lemma hexdigit_lower_char [simp]: "is_ascii_hexdigit (lower_char c) = is_ascii_hexdigit c"
  by (auto simp: is_ascii_hexdigit_def is_ascii_digit_def ascii_lower_char is_ascii_upper_def)

lemma to_ascii_lowercase_idem [simp]: "to_ascii_lowercase (to_ascii_lowercase s) = to_ascii_lowercase s"
  by (simp add: to_ascii_lowercase_def o_def)

lemma length_to_ascii_lowercase [simp]: "length (to_ascii_lowercase s) = length s"
  by (simp add: to_ascii_lowercase_def)

lemma hexdigits_lowercase [simp]:
  "list_all is_ascii_hexdigit (to_ascii_lowercase s) = list_all is_ascii_hexdigit s"
  by (simp add: to_ascii_lowercase_def list_all_iff)

lemma evm_address_body_lower:
  assumes "evm_address_body address = Some encoded"
  shows "evm_address_body (''0x'' @ to_ascii_lowercase encoded) = Some (to_ascii_lowercase encoded)"
  using assms
  by (auto simp: evm_address_body_def strip_prefix_def split: option.splits if_splits)

lemma evm_address_body_lower_Cons:
  assumes "evm_address_body address = Some encoded"
  shows "evm_address_body (CHR ''0'' # CHR ''x'' # to_ascii_lowercase encoded)
    = Some (to_ascii_lowercase encoded)"
  using evm_address_body_lower [OF assms] by simp

lemma evm_address_body_zero:
  "evm_address_body address = Some encoded \<Longrightarrow> CHR ''0'' \<in> set address"
  by (cases address)
    (auto simp: evm_address_body_def strip_prefix_def split: option.splits if_splits)

section \<open>Canonical forms\<close>

lemma canonicalize_wallet_address_idem:
  assumes "pubkey_stable X" "canonicalize_wallet_address X algorithm address = Inr c"
  shows "canonicalize_wallet_address X algorithm c = Inr c"
proof (cases "evm_address_body address")
  case (Some encoded)
  then show ?thesis
    using assms(2) evm_address_body_lower [OF Some]
    by (auto simp: canonicalize_wallet_address_def)
next
  case None
  then show ?thesis
    using assms
    by (auto simp: canonicalize_wallet_address_def canonical_solana_address_def pubkey_stable_def
        split: if_splits option.splits dest: evm_address_body_zero)
qed

lemma canonicalize_payment_recipient_idem:
  assumes "pubkey_stable X" "canonicalize_payment_recipient X network address = Inr c"
  shows "canonicalize_payment_recipient X network c = Inr c"
  using assms
  by (auto simp: canonicalize_payment_recipient_def canonical_solana_address_def pubkey_stable_def
      evm_address_body_lower_Cons split: if_splits)

lemma payment_recipients_match_iff:
  "payment_recipients_match X network l r \<longleftrightarrow>
     (\<exists>c. canonicalize_payment_recipient X network l = Inr c
        \<and> canonicalize_payment_recipient X network r = Inr c)"
  by (auto simp: payment_recipients_match_def split: sum.splits)

lemma wallet_addresses_match_iff:
  "wallet_addresses_match X algorithm l r \<longleftrightarrow>
     (\<exists>c. canonicalize_wallet_address X algorithm l = Inr c
        \<and> canonicalize_wallet_address X algorithm r = Inr c)"
  by (auto simp: wallet_addresses_match_def split: sum.splits)

lemma payment_recipients_match_sym:
  "payment_recipients_match X n l r \<Longrightarrow> payment_recipients_match X n r l"
  by (auto simp: payment_recipients_match_iff)

lemma payment_recipients_match_trans:
  "payment_recipients_match X n a b \<Longrightarrow> payment_recipients_match X n b c \<Longrightarrow>
     payment_recipients_match X n a c"
  by (auto simp: payment_recipients_match_iff)

lemma evm_recipients_match_iff:
  assumes "is_evm_payment_network network"
  shows "payment_recipients_match X network l r \<longleftrightarrow>
    (\<exists>a b. evm_address_body l = Some a \<and> evm_address_body r = Some b \<and> eq_ignore_ascii_case a b)"
  using assms
  by (auto simp: payment_recipients_match_iff canonicalize_payment_recipient_def
      eq_ignore_ascii_case_def)

end
