(* ===== verification/Policy.thy ===== *)
theory Policy
  imports Intent Address
begin

text \<open>
  Payment policies and the deterministic policy engine (\<^verbatim>\<open>model/domain/policy.rs\<close>,
  \<^verbatim>\<open>model/policy.rs\<close>): scope predicates, directional limits with approval headroom, and
  \<^verbatim>\<open>PolicyEngine::evaluate\<close> with every early return in the order of the source.
\<close>

section \<open>Policies\<close>

record PaymentPolicyLimits =
  pl_max_per_payment :: amount
  pl_max_per_day :: amount
  pl_approval_threshold :: "amount option"
  pl_approval_enabled :: bool
  pl_approval_overage :: "amount option"

definition hard_daily_limit :: "PaymentPolicyLimits \<Rightarrow> amount option" where
  "hard_daily_limit l =
     checked_add (pl_max_per_day l) (case pl_approval_overage l of None \<Rightarrow> 0 | Some o' \<Rightarrow> o')"

definition limits_requires_approval :: "PaymentPolicyLimits \<Rightarrow> amount \<Rightarrow> bool" where
  "limits_requires_approval l amount \<longleftrightarrow>
     pl_approval_enabled l
     \<and> is_some_and (pl_approval_threshold l) (\<lambda>threshold. threshold \<le> amount)"

definition PaymentPolicyLimits_validate :: "PaymentPolicyLimits \<Rightarrow> string + unit" where
  "PaymentPolicyLimits_validate l =
     (if is_zero (pl_max_per_payment l) then Inl ''max_per_payment''
      else if is_zero (pl_max_per_day l) \<or> pl_max_per_payment l > pl_max_per_day l
      then Inl ''max_per_day''
      else if is_some_and (pl_approval_threshold l) is_zero then Inl ''approval_threshold''
      else if is_some_and (pl_approval_overage l) is_zero
           \<or> (\<not> pl_approval_enabled l \<and> pl_approval_overage l \<noteq> None)
           \<or> hard_daily_limit l = None
      then Inl ''approval_overage''
      else Inr ())"

record PaymentPolicy =
  pp_id :: string
  pp_scenario_id :: string
  pp_wallet_ids :: "string list"
  pp_protocols :: "string list"
  pp_networks :: "string list"
  pp_assets :: "AssetIdentity list"
  pp_budget_unit :: BudgetUnit
  pp_allowed_recipients :: "string list"
  pp_allowed_origins :: "string list"
  pp_inbound_limits :: "PaymentPolicyLimits option"
  pp_outbound_limits :: "PaymentPolicyLimits option"
  pp_enabled :: bool
  pp_created_at :: int
  pp_updated_at :: int

definition allows_wallet :: "PaymentPolicy \<Rightarrow> string \<Rightarrow> bool" where
  "allows_wallet p wallet_id \<longleftrightarrow> pp_enabled p \<and> wallet_id \<in> set (pp_wallet_ids p)"

primrec limits_for :: "PaymentPolicy \<Rightarrow> PaymentDirection \<Rightarrow> PaymentPolicyLimits option" where
  "limits_for p Inbound = pp_inbound_limits p"
| "limits_for p Outbound = pp_outbound_limits p"

definition allows_direction :: "PaymentPolicy \<Rightarrow> PaymentDirection \<Rightarrow> bool" where
  "allows_direction p d \<longleftrightarrow> pp_enabled p \<and> limits_for p d \<noteq> None"

definition allows_protocol :: "PaymentPolicy \<Rightarrow> string \<Rightarrow> bool" where
  "allows_protocol p protocol \<longleftrightarrow> pp_enabled p \<and> protocol \<in> set (pp_protocols p)"

definition allows_asset :: "PaymentPolicy \<Rightarrow> AssetIdentity \<Rightarrow> bool" where
  "allows_asset p asset \<longleftrightarrow>
     pp_enabled p \<and> ai_network asset \<in> set (pp_networks p) \<and> asset \<in> set (pp_assets p)"

definition allows_recipient :: "PaymentPolicy \<Rightarrow> string \<Rightarrow> bool" where
  "allows_recipient p recipient \<longleftrightarrow> pp_enabled p \<and> recipient \<in> set (pp_allowed_recipients p)"

definition allows_payment_recipient :: "externals \<Rightarrow> PaymentPolicy \<Rightarrow> string \<Rightarrow> string \<Rightarrow> bool" where
  "allows_payment_recipient X p network recipient \<longleftrightarrow>
     pp_enabled p
     \<and> list_ex (\<lambda>allowed. payment_recipients_match X network allowed recipient)
         (pp_allowed_recipients p)"

definition allows_origin :: "PaymentPolicy \<Rightarrow> string \<Rightarrow> bool" where
  "allows_origin p origin \<longleftrightarrow> pp_enabled p \<and> origin \<in> set (pp_allowed_origins p)"

definition policy_requires_approval :: "PaymentPolicy \<Rightarrow> PaymentDirection \<Rightarrow> amount \<Rightarrow> bool" where
  "policy_requires_approval p d amount =
     is_some_and (limits_for p d) (\<lambda>l. limits_requires_approval l amount)"

fun windows_not_ascending :: "string list \<Rightarrow> bool" where
  "windows_not_ascending (a # b # xs) \<longleftrightarrow> b \<le> a \<or> windows_not_ascending (b # xs)"
| "windows_not_ascending _ \<longleftrightarrow> False"

definition PaymentPolicy_validate :: "PaymentPolicy \<Rightarrow> string + unit" where
  "PaymentPolicy_validate p =
     (if is_blank (pp_id p) then Inl ''id''
      else if is_blank (pp_scenario_id p) then Inl ''scenario_id''
      else if pp_wallet_ids p = [] \<or> list_ex is_blank (pp_wallet_ids p)
           \<or> windows_not_ascending (pp_wallet_ids p)
      then Inl ''wallet_ids''
      else if pp_inbound_limits p = None \<and> pp_outbound_limits p = None then Inl ''direction_limits''
      else if is_some_and (pp_inbound_limits p) (\<lambda>l. \<not> is_ok (PaymentPolicyLimits_validate l))
      then Inl ''inbound_limits''
      else if is_some_and (pp_outbound_limits p) (\<lambda>l. \<not> is_ok (PaymentPolicyLimits_validate l))
      then Inl ''outbound_limits''
      else and_then (map_err (\<lambda>_. ''budget_unit'') (BudgetUnit_validate (pp_budget_unit p))) (\<lambda>_.
      if list_ex (\<lambda>a. \<not> is_ok (AssetIdentity_validate a)) (pp_assets p)
         \<or> list_ex (\<lambda>a. \<not> BudgetUnit_matches (pp_budget_unit p) a) (pp_assets p)
      then Inl ''assets''
      else if list_ex is_blank (pp_protocols p) then Inl ''protocols''
      else if list_ex is_blank (pp_networks p) then Inl ''networks''
      else if list_ex is_blank (pp_allowed_recipients p) then Inl ''allowed_recipients''
      else if list_ex is_blank (pp_allowed_origins p) then Inl ''allowed_origins''
      else Inr ()))"

section \<open>The policy engine\<close>

record WalletBudget =
  wb_usage :: amount
  wb_shared_across_scenarios :: bool
  wb_max_per_payment :: "amount option"
  wb_max_per_day :: "amount option"

datatype PolicyDecision = Allowed | PdRequiresApproval | PdDenied string

record PolicyEvaluation =
  pe_direction :: PaymentDirection
  pe_challenge :: PaymentChallenge
  pe_wallet_id :: string
  pe_origin :: string
  pe_scenario_usage :: amount
  pe_wallet_budget :: WalletBudget
  pe_now :: int

definition exceeds :: "amount \<Rightarrow> amount \<Rightarrow> amount \<Rightarrow> bool" where
  "exceeds current requested limit =
     is_none_or (checked_add current requested) (\<lambda>total. total > limit)"

definition policy_scope_matches :: "externals \<Rightarrow> PaymentPolicy \<Rightarrow> PolicyEvaluation \<Rightarrow> bool" where
  "policy_scope_matches X p e \<longleftrightarrow>
     allows_wallet p (pe_wallet_id e)
     \<and> pp_scenario_id p = pc_scenario_id (pe_challenge e)
     \<and> allows_protocol p (pc_protocol (pe_challenge e))
     \<and> allows_asset p (pc_asset (pe_challenge e))
     \<and> allows_payment_recipient X p (ai_network (pc_asset (pe_challenge e)))
         (pc_recipient (pe_challenge e))
     \<and> allows_origin p (pe_origin e)"

definition PolicyEngine_evaluate ::
  "externals \<Rightarrow> PaymentPolicy \<Rightarrow> PolicyEvaluation \<Rightarrow> PolicyDecision result" where
  "PolicyEngine_evaluate X p e =
     (let challenge = pe_challenge e; wallet_budget = pe_wallet_budget e in
      and_then (map_err (\<lambda>field. PolicyDenied (''invalid policy field: '' @ field))
        (PaymentPolicy_validate p)) (\<lambda>_.
      if pc_expires_at challenge \<le> pe_now e then Inr (PdDenied ''challenge expired'')
      else case limits_for p (pe_direction e) of
        None \<Rightarrow> Inr (PdDenied ''policy does not authorize this payment direction'')
      | Some limits \<Rightarrow>
          if \<not> policy_scope_matches X p e
          then Inr (PdDenied ''policy scope does not match the payment'')
          else if pc_amount challenge > pl_max_per_payment limits
          then Inr (PdDenied ''per-payment policy limit exceeded'')
          else let scenario_after = checked_add (pe_scenario_usage e) (pc_amount challenge) in
          and_then (ok_or (hard_daily_limit limits) (PolicyDenied ''daily policy limit overflow''))
            (\<lambda>hard_limit.
          if is_none_or scenario_after (\<lambda>total. total > hard_limit)
          then Inr (PdDenied ''daily scenario hard ceiling exceeded'')
          else if wb_shared_across_scenarios wallet_budget
               \<and> (wb_max_per_payment wallet_budget = None \<or> wb_max_per_day wallet_budget = None)
          then Inr (PdDenied ''shared-wallet hard limits are required'')
          else if is_some_and (wb_max_per_payment wallet_budget) (\<lambda>limit. pc_amount challenge > limit)
               \<or> is_some_and (wb_max_per_day wallet_budget)
                    (\<lambda>limit. exceeds (wb_usage wallet_budget) (pc_amount challenge) limit)
          then Inr (PdDenied ''shared-wallet hard limit exceeded'')
          else let exceeds_automatic_daily =
                 is_some_and scenario_after (\<lambda>total. total > pl_max_per_day limits) in
          if exceeds_automatic_daily \<and> \<not> pl_approval_enabled limits
          then Inr (PdDenied ''daily scenario budget exceeded'')
          else if exceeds_automatic_daily
               \<or> policy_requires_approval p (pe_direction e) (pc_amount challenge)
          then Inr PdRequiresApproval
          else Inr Allowed)))"

text \<open>
  What the limits mean, in natural numbers: the wallet-wide hard limits, and a directional ceiling
  on what a scenario has used so far.
\<close>

definition wallet_within_limits :: "WalletBudget \<Rightarrow> amount \<Rightarrow> bool" where
  "wallet_within_limits b amount \<longleftrightarrow>
     (wb_shared_across_scenarios b \<longrightarrow> wb_max_per_payment b \<noteq> None \<and> wb_max_per_day b \<noteq> None)
     \<and> is_none_or (wb_max_per_payment b) (\<lambda>m. amount \<le> m)
     \<and> is_none_or (wb_max_per_day b) (\<lambda>m. unat (wb_usage b) + unat amount \<le> unat m)"

definition usage_within :: "amount \<Rightarrow> amount \<Rightarrow> amount \<Rightarrow> bool" where
  "usage_within usage amount limit \<longleftrightarrow> unat usage + unat amount \<le> unat limit"

section \<open>Validation lemmas\<close>

lemma windows_not_ascending_iff: "\<not> windows_not_ascending xs \<longleftrightarrow> sorted_wrt (<) xs"
proof (induction xs rule: windows_not_ascending.induct)
  case (1 a b xs)
  then show ?case by (auto simp: not_le intro: less_trans)
qed auto

lemma limits_validate_ok:
  assumes "PaymentPolicyLimits_validate l = Inr ()"
  shows "pl_max_per_payment l \<le> pl_max_per_day l" "0 < pl_max_per_payment l"
    and "\<exists>h. hard_daily_limit l = Some h \<and> pl_max_per_day l \<le> h"
  using assms
  by (auto simp: PaymentPolicyLimits_validate_def result_simps is_zero_def word_gt_0
      dest: checked_add_mono simp: hard_daily_limit_def)

lemma PaymentPolicy_validate_limits:
  assumes "PaymentPolicy_validate p = Inr ()" "limits_for p d = Some l"
  shows "PaymentPolicyLimits_validate l = Inr ()"
  using assms
  by (cases d) (auto simp: PaymentPolicy_validate_def result_simps is_ok_iff)

lemma PaymentPolicy_validate_wallets:
  "PaymentPolicy_validate p = Inr () \<Longrightarrow> sorted_wrt (<) (pp_wallet_ids p) \<and> pp_wallet_ids p \<noteq> []"
  by (auto simp: PaymentPolicy_validate_def result_simps windows_not_ascending_iff)

lemma PaymentPolicy_validate_assets:
  "PaymentPolicy_validate p = Inr () \<Longrightarrow> a \<in> set (pp_assets p) \<Longrightarrow> budget_unit a = pp_budget_unit p"
  by (auto simp: PaymentPolicy_validate_def result_simps BudgetUnit_matches_iff list_ex_iff)

lemma exceeds_iff: "\<not> exceeds c r l \<longleftrightarrow> unat c + unat r \<le> unat l"
proof -
  have "unat l < 2 ^ 128" using unsigned_less [of l, where 'a = nat] by simp
  then show ?thesis
    by (auto simp: exceeds_def checked_add_None is_none_or_iff word_le_nat_alt not_less
        dest: checked_add_unat) (auto simp: checked_add_def unat_word_ariths)
qed

lemma usage_within_iff: "usage_within u a l \<longleftrightarrow> \<not> exceeds u a l"
  by (simp add: usage_within_def exceeds_iff)

lemma usage_within_mono: "usage_within u a l \<Longrightarrow> l \<le> h \<Longrightarrow> usage_within u a h"
  by (simp add: usage_within_def word_le_nat_alt)

section \<open>What the engine decides\<close>

lemma wallet_within_limits_iff:
  "wallet_within_limits b amount \<longleftrightarrow>
     \<not> (wb_shared_across_scenarios b \<and> (wb_max_per_payment b = None \<or> wb_max_per_day b = None))
     \<and> \<not> is_some_and (wb_max_per_payment b) (\<lambda>limit. amount > limit)
     \<and> \<not> is_some_and (wb_max_per_day b) (\<lambda>limit. exceeds (wb_usage b) amount limit)"
  by (auto simp: wallet_within_limits_def is_some_and_iff is_none_or_iff not_less
      exceeds_iff [unfolded not_not])

lemma not_exceeds_total:
  "\<not> exceeds u a l \<longleftrightarrow> (\<exists>t. checked_add u a = Some t \<and> t \<le> l)"
  by (auto simp: exceeds_def is_none_or_iff not_less)

lemma evaluate_normal_form:
  assumes "PaymentPolicy_validate p = Inr ()" "limits_for p (pe_direction e) = Some l"
    and "hard_daily_limit l = Some h"
  shows "PolicyEngine_evaluate X p e =
    (if pc_expires_at (pe_challenge e) \<le> pe_now e then Inr (PdDenied ''challenge expired'')
     else if \<not> policy_scope_matches X p e
     then Inr (PdDenied ''policy scope does not match the payment'')
     else if pc_amount (pe_challenge e) > pl_max_per_payment l
     then Inr (PdDenied ''per-payment policy limit exceeded'')
     else if exceeds (pe_scenario_usage e) (pc_amount (pe_challenge e)) h
     then Inr (PdDenied ''daily scenario hard ceiling exceeded'')
     else if wb_shared_across_scenarios (pe_wallet_budget e)
          \<and> (wb_max_per_payment (pe_wallet_budget e) = None \<or> wb_max_per_day (pe_wallet_budget e) = None)
     then Inr (PdDenied ''shared-wallet hard limits are required'')
     else if is_some_and (wb_max_per_payment (pe_wallet_budget e))
            (\<lambda>limit. pc_amount (pe_challenge e) > limit)
          \<or> is_some_and (wb_max_per_day (pe_wallet_budget e))
            (\<lambda>limit. exceeds (wb_usage (pe_wallet_budget e)) (pc_amount (pe_challenge e)) limit)
     then Inr (PdDenied ''shared-wallet hard limit exceeded'')
     else if is_some_and (checked_add (pe_scenario_usage e) (pc_amount (pe_challenge e)))
            (\<lambda>total. total > pl_max_per_day l) \<and> \<not> pl_approval_enabled l
     then Inr (PdDenied ''daily scenario budget exceeded'')
     else if is_some_and (checked_add (pe_scenario_usage e) (pc_amount (pe_challenge e)))
            (\<lambda>total. total > pl_max_per_day l)
          \<or> policy_requires_approval p (pe_direction e) (pc_amount (pe_challenge e))
     then Inr PdRequiresApproval
     else Inr Allowed)"
  by (simp only: PolicyEngine_evaluate_def Let_def assms map_err_simps and_then_Inr option.case
      ok_or_simps exceeds_def [of "pe_scenario_usage e"])

lemma automatic_daily:
  assumes "\<not> exceeds u a h"
  shows "is_some_and (checked_add u a) (\<lambda>total. total > m) \<longleftrightarrow> exceeds u a m"
  using assms by (auto simp: exceeds_def is_none_or_iff)

lemma evaluate_Inr_cases:
  assumes "PolicyEngine_evaluate X p e = Inr d" "d = Allowed \<or> d = PdRequiresApproval"
  obtains l h where "PaymentPolicy_validate p = Inr ()" "limits_for p (pe_direction e) = Some l"
    "hard_daily_limit l = Some h" "pl_max_per_day l \<le> h"
proof -
  have valid: "PaymentPolicy_validate p = Inr ()"
    using assms(1) by (auto simp: PolicyEngine_evaluate_def Let_def result_simps)
  have "limits_for p (pe_direction e) \<noteq> None"
  proof
    assume "limits_for p (pe_direction e) = None"
    with valid have "PolicyEngine_evaluate X p e = Inr
      (if pc_expires_at (pe_challenge e) \<le> pe_now e then PdDenied ''challenge expired''
       else PdDenied ''policy does not authorize this payment direction'')"
      by (simp add: PolicyEngine_evaluate_def Let_def)
    with assms show False by (auto split: if_splits)
  qed
  then obtain l where l: "limits_for p (pe_direction e) = Some l" by blast
  from limits_validate_ok(3) [OF PaymentPolicy_validate_limits [OF valid l]]
  show thesis using that valid l by blast
qed

lemma engine_allows_iff:
  "PolicyEngine_evaluate X p e = Inr Allowed \<longleftrightarrow>
     PaymentPolicy_validate p = Inr ()
     \<and> pe_now e < pc_expires_at (pe_challenge e)
     \<and> policy_scope_matches X p e
     \<and> (\<exists>l. limits_for p (pe_direction e) = Some l
          \<and> pc_amount (pe_challenge e) \<le> pl_max_per_payment l
          \<and> usage_within (pe_scenario_usage e) (pc_amount (pe_challenge e)) (pl_max_per_day l)
          \<and> \<not> limits_requires_approval l (pc_amount (pe_challenge e)))
     \<and> wallet_within_limits (pe_wallet_budget e) (pc_amount (pe_challenge e))"
  (is "?L \<longleftrightarrow> ?R")
proof
  assume ?L
  from evaluate_Inr_cases [OF this] obtain l h where
    "PaymentPolicy_validate p = Inr ()" "limits_for p (pe_direction e) = Some l"
    "hard_daily_limit l = Some h" by blast
  with \<open>?L\<close> show ?R
    by (simp add: evaluate_normal_form usage_within_iff wallet_within_limits_iff not_less not_le
        policy_requires_approval_def automatic_daily split: if_splits)
next
  assume R: ?R
  then obtain l where l: "limits_for p (pe_direction e) = Some l" by blast
  from limits_validate_ok(3) [OF PaymentPolicy_validate_limits [OF _ l]] R
  obtain h where h: "hard_daily_limit l = Some h" "pl_max_per_day l \<le> h" by blast
  have "\<not> exceeds (pe_scenario_usage e) (pc_amount (pe_challenge e)) h"
    using R l h(2) usage_within_mono by (force simp: usage_within_iff)
  with R l h show ?L
    by (auto simp: evaluate_normal_form usage_within_iff not_less wallet_within_limits_iff
        policy_requires_approval_def automatic_daily)
qed

text \<open>
  C30. The policy engine allows a payment without approval exactly when the policy is well formed, the
  challenge is unexpired and in scope, and the amount fits every limit: the per-payment limit, the
  scenario's automatic daily limit on top of what is already used, and the wallet's hard limits; and
  it stays below the approval threshold. The limits are compared as natural numbers, so no sum wraps.
\<close>

theorem evaluate_allowed_iff:
  "PolicyEngine_evaluate X p e = Inr Allowed \<longleftrightarrow>
     PaymentPolicy_validate p = Inr ()
     \<and> pe_now e < pc_expires_at (pe_challenge e)
     \<and> policy_scope_matches X p e
     \<and> (\<exists>l. limits_for p (pe_direction e) = Some l
          \<and> pc_amount (pe_challenge e) \<le> pl_max_per_payment l
          \<and> usage_within (pe_scenario_usage e) (pc_amount (pe_challenge e)) (pl_max_per_day l)
          \<and> \<not> limits_requires_approval l (pc_amount (pe_challenge e)))
     \<and> wallet_within_limits (pe_wallet_budget e) (pc_amount (pe_challenge e))"
  by (rule engine_allows_iff)

end
