(* ===== verification/Ledger.thy ===== *)
theory Ledger
  imports Intent
begin

text \<open>
  Ledger entries (\<^verbatim>\<open>model/domain/ledger.rs\<close>): validation, replay and reversal bindings, the
  posting key that identifies one external financial fact, and the clock-skew bounds on a
  settlement's effective time. The SHA-256 digest and the Solana signature parser are parameters.
\<close>

section \<open>Definitions\<close>

definition MAX_SETTLEMENT_EFFECTIVE_TIME_PAST_SKEW_SECONDS :: int where "MAX_SETTLEMENT_EFFECTIVE_TIME_PAST_SKEW_SECONDS = 10 * 60"
definition MAX_SETTLEMENT_EFFECTIVE_TIME_FUTURE_SKEW_SECONDS :: int where "MAX_SETTLEMENT_EFFECTIVE_TIME_FUTURE_SKEW_SECONDS = 60"

datatype LedgerEntryType = Payment | Fee | Refund | Deposit | Transfer | Reversal

primrec LedgerEntryType_as_str :: "LedgerEntryType \<Rightarrow> string" where
  "LedgerEntryType_as_str Payment = ''payment''"
| "LedgerEntryType_as_str Fee = ''fee''"
| "LedgerEntryType_as_str Refund = ''refund''"
| "LedgerEntryType_as_str Deposit = ''deposit''"
| "LedgerEntryType_as_str Transfer = ''transfer''"
| "LedgerEntryType_as_str Reversal = ''reversal''"

record PaymentLedgerEntry =
  le_id :: string
  le_intent_id :: "string option"
  le_scenario_id :: "string option"
  le_wallet_id :: string
  le_entry_type :: LedgerEntryType
  le_direction :: PaymentDirection
  le_asset :: AssetIdentity
  le_amount :: amount
  le_posting_key :: string
  le_tx_hash :: "string option"
  le_settlement_ref :: "string option"
  le_effect_ref :: "string option"
  le_transfer_ref :: "string option"
  le_reversal_of :: "string option"
  le_effective_at :: int
  le_created_at :: int

text \<open>
  A Solana signature is compared with \<^verbatim>\<open>Signature::default()\<close>, 64 zero bytes, through its
  base58 text: 64 times the digit one.
\<close>

definition default_signature :: string where
  "default_signature = replicate 64 (CHR ''1'')"

definition canonical_transaction :: "externals \<Rightarrow> string \<Rightarrow> string \<Rightarrow> string + string" where
  "canonical_transaction X network transaction =
     (let transaction = trim transaction in
      if starts_with network ''eip155:'' then
        if length transaction \<noteq> 66
           \<or> \<not> starts_with transaction ''0x''
           \<or> \<not> list_all is_ascii_hexdigit (drop 2 transaction)
        then Inl ''tx_hash''
        else Inr (to_ascii_lowercase transaction)
      else if starts_with network ''solana:'' then
        and_then (ok_or (x_signature X transaction) ''tx_hash'') (\<lambda>signature.
        if signature = default_signature then Inl ''tx_hash'' else Inr signature)
      else Inl ''network'')"

fun has_control :: "string \<Rightarrow> bool" where
  "has_control [] \<longleftrightarrow> False"
| "has_control [a] \<longleftrightarrow> ascii a < 32 \<or> ascii a = 127"
| "has_control (a # b # s) \<longleftrightarrow>
     ascii a < 32 \<or> ascii a = 127 \<or> (ascii a = 194 \<and> 128 \<le> ascii b \<and> ascii b < 160)
     \<or> has_control (b # s)"

definition validate_effect_ref :: "string \<Rightarrow> string + string" where
  "validate_effect_ref effect_ref =
     (let normalized = trim effect_ref in
      if normalized = '''' \<or> length normalized > 256 \<or> has_control normalized
      then Inl ''effect_ref'' else Inr normalized)"

definition PaymentLedgerEntry_validate :: "PaymentLedgerEntry \<Rightarrow> string + unit" where
  "PaymentLedgerEntry_validate e =
     (if is_blank (le_id e) then Inl ''id''
      else if is_blank (le_wallet_id e) then Inl ''wallet_id''
      else and_then (AssetIdentity_validate (le_asset e)) (\<lambda>_.
      if is_zero (le_amount e) then Inl ''amount''
      else if is_blank (le_posting_key e) then Inl ''posting_key''
      else if le_tx_hash e = None \<and> le_settlement_ref e = None then Inl ''financial_evidence''
      else and_then (case le_effect_ref e of
          None \<Rightarrow> Inr ()
        | Some r \<Rightarrow> and_then (validate_effect_ref r) (\<lambda>_. Inr ())) (\<lambda>_.
      case le_entry_type e of
        Transfer \<Rightarrow>
          if le_transfer_ref e = None then Inl ''transfer_ref''
          else if le_reversal_of e \<noteq> None then Inl ''reversal_of''
          else Inr ()
      | Reversal \<Rightarrow> if le_reversal_of e = None then Inl ''reversal_of'' else Inr ()
      | _ \<Rightarrow> if le_reversal_of e \<noteq> None then Inl ''reversal_of'' else Inr ())))"

definition same_posting_as :: "PaymentLedgerEntry \<Rightarrow> PaymentLedgerEntry \<Rightarrow> bool" where
  "same_posting_as a b \<longleftrightarrow> le_wallet_id a = le_wallet_id b \<and> le_posting_key a = le_posting_key b"

definition same_fact_content_as :: "PaymentLedgerEntry \<Rightarrow> PaymentLedgerEntry \<Rightarrow> bool" where
  "same_fact_content_as a b \<longleftrightarrow>
     same_posting_as a b
     \<and> le_intent_id a = le_intent_id b
     \<and> le_scenario_id a = le_scenario_id b
     \<and> le_entry_type a = le_entry_type b
     \<and> le_direction a = le_direction b
     \<and> le_asset a = le_asset b
     \<and> le_amount a = le_amount b
     \<and> le_tx_hash a = le_tx_hash b
     \<and> le_settlement_ref a = le_settlement_ref b
     \<and> le_effect_ref a = le_effect_ref b
     \<and> le_transfer_ref a = le_transfer_ref b
     \<and> le_reversal_of a = le_reversal_of b
     \<and> le_effective_at a = le_effective_at b"

definition validate_reversal_of :: "PaymentLedgerEntry \<Rightarrow> PaymentLedgerEntry \<Rightarrow> string + unit" where
  "validate_reversal_of e original =
     and_then (map_err (\<lambda>_. ''reversal_binding'') (PaymentLedgerEntry_validate e)) (\<lambda>_.
     and_then (map_err (\<lambda>_. ''reversal_binding'') (PaymentLedgerEntry_validate original)) (\<lambda>_.
     if le_entry_type e \<noteq> Reversal
        \<or> le_entry_type original = Reversal
        \<or> le_reversal_of e \<noteq> Some (le_id original)
        \<or> le_wallet_id e \<noteq> le_wallet_id original
        \<or> le_intent_id e \<noteq> le_intent_id original
        \<or> le_scenario_id e \<noteq> le_scenario_id original
        \<or> le_asset e \<noteq> le_asset original
        \<or> le_amount e \<noteq> le_amount original
        \<or> le_direction e = le_direction original
        \<or> le_effect_ref e \<noteq> le_effect_ref original
        \<or> le_transfer_ref e \<noteq> le_transfer_ref original
     then Inl ''reversal_binding'' else Inr ()))"

definition be_bytes64 :: "nat \<Rightarrow> string" where
  "be_bytes64 n = map (\<lambda>i. char_of ((n div 256 ^ i) mod 256)) (rev [0..<8])"

definition hex_char :: "nat \<Rightarrow> char" where
  "hex_char d = (if d < 10 then char_of (48 + d) else char_of (87 + d))"

definition hex_encode :: "string \<Rightarrow> string" where
  "hex_encode s = concat (map (\<lambda>c. [hex_char (ascii c div 16), hex_char (ascii c mod 16)]) s)"

definition posting_preimage :: "string \<Rightarrow> string list \<Rightarrow> string" where
  "posting_preimage domain values =
     domain @ concat (map (\<lambda>v. be_bytes64 (min (length v) (2 ^ 64 - 1)) @ v) values)"

definition posting_digest :: "externals \<Rightarrow> string \<Rightarrow> string list \<Rightarrow> string" where
  "posting_digest X domain values = hex_encode (x_sha256 X (posting_preimage domain values))"

definition trimmed_nonempty :: "string option \<Rightarrow> string option" where
  "trimmed_nonempty v =
     (case v of None \<Rightarrow> None | Some s \<Rightarrow> if trim s = '''' then None else Some (trim s))"

definition settlement_posting_key ::
  "externals \<Rightarrow> string \<Rightarrow> string \<Rightarrow> string option \<Rightarrow> string option \<Rightarrow> string option \<Rightarrow> string + string"
where
  "settlement_posting_key X authority network tx_hash settlement_ref effect_ref =
     (let network = trim network in
      and_then (case effect_ref of
          None \<Rightarrow> Inr None
        | Some r \<Rightarrow> and_then (validate_effect_ref r) (\<lambda>e. Inr (Some e))) (\<lambda>effect_ref.
      case trimmed_nonempty tx_hash of
        Some tx_hash \<Rightarrow>
          if network = '''' then Inl ''network''
          else and_then (canonical_transaction X network tx_hash) (\<lambda>normalized.
          Inr (case effect_ref of
              Some effect_ref \<Rightarrow> ''chain-effect:'' @
                posting_digest X ''agentvault.chain-effect.v1'' [network, normalized, effect_ref]
            | None \<Rightarrow> ''chain:'' @
                posting_digest X ''agentvault.chain-fact.v1'' [network, normalized]))
      | None \<Rightarrow>
          (case trimmed_nonempty settlement_ref of
             Some reference \<Rightarrow>
               let authority = trim authority in
               if authority = '''' then Inl ''authority''
               else Inr (case effect_ref of
                   Some effect_ref \<Rightarrow> ''provider-effect:'' @
                     posting_digest X ''agentvault.provider-effect.v1'' [authority, reference, effect_ref]
                 | None \<Rightarrow> ''provider:'' @
                     posting_digest X ''agentvault.provider-fact.v1'' [authority, reference])
           | None \<Rightarrow> Inl ''transaction_evidence'')))"

definition validate_trusted_effective_time :: "int \<Rightarrow> int \<Rightarrow> int \<Rightarrow> unit result" where
  "validate_trusted_effective_time created_at effective_at observed_at =
     (let earliest = saturating_sub created_at MAX_SETTLEMENT_EFFECTIVE_TIME_PAST_SKEW_SECONDS;
          latest = saturating_add observed_at MAX_SETTLEMENT_EFFECTIVE_TIME_FUTURE_SKEW_SECONDS in
      if effective_at < 0 \<or> effective_at < earliest \<or> effective_at > latest
      then Inl (Settlement ''trusted settlement effective time exceeds bounded clock skew'')
      else Inr ())"

text \<open>
  The identity a posting key stands for: the chain or provider reference, normalised, with its
  effect locator.
\<close>

datatype settlement_fact =
    ChainEffect string string string
  | ChainFact string string
  | ProviderEffect string string string
  | ProviderFact string string

definition settlement_fact_of ::
  "externals \<Rightarrow> string \<Rightarrow> string \<Rightarrow> string option \<Rightarrow> string option \<Rightarrow> string option \<Rightarrow>
   string + settlement_fact"
where
  "settlement_fact_of X authority network tx_hash settlement_ref effect_ref =
     and_then (case effect_ref of
         None \<Rightarrow> Inr None
       | Some r \<Rightarrow> and_then (validate_effect_ref r) (\<lambda>e. Inr (Some e))) (\<lambda>eff.
     case trimmed_nonempty tx_hash of
       Some tx \<Rightarrow>
         if trim network = '''' then Inl ''network''
         else and_then (canonical_transaction X (trim network) tx) (\<lambda>normalized.
         Inr (case eff of
             Some ef \<Rightarrow> ChainEffect (trim network) normalized ef
           | None \<Rightarrow> ChainFact (trim network) normalized))
     | None \<Rightarrow>
         (case trimmed_nonempty settlement_ref of
            Some reference \<Rightarrow>
              if trim authority = '''' then Inl ''authority''
              else Inr (case eff of
                  Some ef \<Rightarrow> ProviderEffect (trim authority) reference ef
                | None \<Rightarrow> ProviderFact (trim authority) reference)
          | None \<Rightarrow> Inl ''transaction_evidence''))"

primrec fact_domain :: "settlement_fact \<Rightarrow> string" where
  "fact_domain (ChainEffect n t e) = ''agentvault.chain-effect.v1''"
| "fact_domain (ChainFact n t) = ''agentvault.chain-fact.v1''"
| "fact_domain (ProviderEffect a r e) = ''agentvault.provider-effect.v1''"
| "fact_domain (ProviderFact a r) = ''agentvault.provider-fact.v1''"

primrec fact_tag :: "settlement_fact \<Rightarrow> string" where
  "fact_tag (ChainEffect n t e) = ''chain-effect:''"
| "fact_tag (ChainFact n t) = ''chain:''"
| "fact_tag (ProviderEffect a r e) = ''provider-effect:''"
| "fact_tag (ProviderFact a r) = ''provider:''"

primrec fact_values :: "settlement_fact \<Rightarrow> string list" where
  "fact_values (ChainEffect n t e) = [n, t, e]"
| "fact_values (ChainFact n t) = [n, t]"
| "fact_values (ProviderEffect a r e) = [a, r, e]"
| "fact_values (ProviderFact a r) = [a, r]"

definition fact_preimage :: "settlement_fact \<Rightarrow> string" where
  "fact_preimage f = posting_preimage (fact_domain f) (fact_values f)"

definition fact_fits :: "settlement_fact \<Rightarrow> bool" where
  "fact_fits f \<longleftrightarrow> list_all (\<lambda>v. length v < 2 ^ 64) (fact_values f)"

section \<open>Replays and reversals\<close>

lemma same_fact_content_refl [simp]: "same_fact_content_as a a"
  by (simp add: same_fact_content_as_def same_posting_as_def)

lemma same_fact_content_sym: "same_fact_content_as a b \<Longrightarrow> same_fact_content_as b a"
  by (simp add: same_fact_content_as_def same_posting_as_def)

lemma same_fact_content_posting: "same_fact_content_as a b \<Longrightarrow> same_posting_as a b"
  by (simp add: same_fact_content_as_def)

lemma validate_reversal_of_ok:
  "validate_reversal_of e o' = Inr () \<longleftrightarrow>
     PaymentLedgerEntry_validate e = Inr () \<and> PaymentLedgerEntry_validate o' = Inr ()
     \<and> le_entry_type e = Reversal \<and> le_entry_type o' \<noteq> Reversal
     \<and> le_reversal_of e = Some (le_id o') \<and> le_wallet_id e = le_wallet_id o'
     \<and> le_intent_id e = le_intent_id o' \<and> le_scenario_id e = le_scenario_id o'
     \<and> le_asset e = le_asset o' \<and> le_amount e = le_amount o'
     \<and> le_direction e \<noteq> le_direction o' \<and> le_effect_ref e = le_effect_ref o'
     \<and> le_transfer_ref e = le_transfer_ref o'"
  by (auto simp: validate_reversal_of_def result_simps)

lemma ledger_validate_reversal:
  "PaymentLedgerEntry_validate e = Inr () \<Longrightarrow> le_entry_type e = Reversal \<longleftrightarrow> le_reversal_of e \<noteq> None"
  by (cases "le_entry_type e") (auto simp: PaymentLedgerEntry_validate_def result_simps split: if_splits)

lemma ledger_validate_amount: "PaymentLedgerEntry_validate e = Inr () \<Longrightarrow> le_amount e \<noteq> 0"
  by (auto simp: PaymentLedgerEntry_validate_def result_simps is_zero_def)

section \<open>Effective time\<close>

lemma trusted_effective_time_ok:
  "validate_trusted_effective_time c e obs = Inr () \<longleftrightarrow>
     0 \<le> e \<and> saturating_sub c MAX_SETTLEMENT_EFFECTIVE_TIME_PAST_SKEW_SECONDS \<le> e \<and> e \<le> saturating_add obs MAX_SETTLEMENT_EFFECTIVE_TIME_FUTURE_SKEW_SECONDS"
  by (auto simp: validate_trusted_effective_time_def Let_def)

section \<open>Posting keys\<close>

lemma length_be_bytes64 [simp]: "length (be_bytes64 n) = 8"
  by (simp add: be_bytes64_def)

lemma be_bytes64_not_Nil [simp]: "be_bytes64 n \<noteq> []"
  by (metis length_be_bytes64 list.size(3) zero_neq_numeral)

lemma base256_digits_mod:
  fixes n m :: nat
  assumes "\<And>i. i < k \<Longrightarrow> n div 256 ^ i mod 256 = m div 256 ^ i mod 256"
  shows "n mod 256 ^ k = m mod 256 ^ k"
  using assms
proof (induction k)
  case (Suc k)
  have split: "x mod 256 ^ Suc k = 256 ^ k * (x div 256 ^ k mod 256) + x mod 256 ^ k" for x :: nat
    using mod_mult2_eq [of x "256 ^ k" 256] by (simp add: mult.commute)
  show ?case
    unfolding split using Suc by simp
qed simp

lemma be_bytes64_inj:
  assumes "be_bytes64 n = be_bytes64 m" "n < 2 ^ 64" "m < 2 ^ 64"
  shows "n = m"
proof -
  have "n div 256 ^ i mod 256 = m div 256 ^ i mod 256" if "i < 8" for i
  proof -
    from that have "i \<in> set (rev [0..<8])" by simp
    moreover from assms(1) have "\<forall>i \<in> set (rev [0..<8]).
        (char_of (n div 256 ^ i mod 256) :: char) = char_of (m div 256 ^ i mod 256)"
      unfolding be_bytes64_def map_eq_conv .
    ultimately have "(char_of (n div 256 ^ i mod 256) :: char) = char_of (m div 256 ^ i mod 256)"
      by blast
    then show ?thesis by (metis mod_mod_trivial of_char_of)
  qed
  then have "n mod 256 ^ 8 = m mod 256 ^ 8" by (rule base256_digits_mod)
  with assms(2,3) show ?thesis by simp
qed

lemma posting_values_inj:
  assumes "concat (map (\<lambda>v. be_bytes64 (min (length v) (2 ^ 64 - 1)) @ v) vs)
      = concat (map (\<lambda>v. be_bytes64 (min (length v) (2 ^ 64 - 1)) @ v) ws)"
    and "list_all (\<lambda>v. length v < 2 ^ 64) vs" "list_all (\<lambda>v. length v < 2 ^ 64) ws"
  shows "vs = ws"
  using assms
proof (induction vs arbitrary: ws)
  case Nil
  then show ?case
    by (cases ws) simp_all
next
  case (Cons v vs)
  then obtain w ws' where ws: "ws = w # ws'"
    by (cases ws) simp_all
  let ?enc = "\<lambda>v :: string. be_bytes64 (min (length v) (2 ^ 64 - 1))"
  from Cons.prems(1) have eq: "?enc v @ (v @ concat (map (\<lambda>v. ?enc v @ v) vs))
      = ?enc w @ (w @ concat (map (\<lambda>v. ?enc v @ v) ws'))"
    by (simp add: ws)
  then have "?enc v = ?enc w"
    by (rule append_eq_append_conv [THEN iffD1, THEN conjunct1, rotated]) simp
  then have "length v = length w"
    using be_bytes64_inj [of "length v" "length w"] Cons.prems(2,3)
    by (simp add: ws min_def split: if_splits)
  with eq Cons show ?case by (simp add: ws)
qed

lemma hex_char_inj: "a < 16 \<Longrightarrow> b < 16 \<Longrightarrow> hex_char a = hex_char b \<Longrightarrow> a = b"
  by (auto simp: hex_char_def char_of_eq_iff take_bit_eq_mod split: if_splits)

lemma hex_encode_inj: "hex_encode s = hex_encode t \<Longrightarrow> s = t"
proof (induction s arbitrary: t)
  case Nil
  then show ?case by (cases t) (auto simp: hex_encode_def)
next
  case (Cons c s)
  then obtain d t' where t: "t = d # t'" by (cases t) (auto simp: hex_encode_def)
  with Cons.prems have
    "hex_char (ascii c div 16) = hex_char (ascii d div 16)"
    "hex_char (ascii c mod 16) = hex_char (ascii d mod 16)" "hex_encode s = hex_encode t'"
    by (auto simp: hex_encode_def)
  moreover have "ascii x div 16 < 16" "ascii x mod 16 < 16" for x
    using less_mult_imp_div_less [of "ascii x" 16 16] nat_of_char_less_256 [of x]
    by (simp_all add: ascii_def)
  ultimately have "ascii c div 16 = ascii d div 16" "ascii c mod 16 = ascii d mod 16"
    using hex_char_inj by blast+
  then have "ascii c = ascii d" by (metis div_mult_mod_eq)
  with Cons \<open>hex_encode s = hex_encode t'\<close> show ?case
    by (simp add: t ascii_def of_char_eq_iff)
qed

lemma settlement_posting_key_fact:
  "settlement_posting_key X a n t s e =
     and_then (settlement_fact_of X a n t s e)
       (\<lambda>f. Inr (fact_tag f @ hex_encode (x_sha256 X (fact_preimage f))))"
  by (auto simp: settlement_posting_key_def settlement_fact_of_def posting_digest_def
      fact_preimage_def and_then_def Let_def split: option.splits sum.splits)

lemma fact_tag_inj:
  "fact_tag f @ hex_encode x = fact_tag g @ hex_encode y \<Longrightarrow>
     fact_domain f = fact_domain g \<and> x = y"
  by (cases f; cases g) (auto dest: hex_encode_inj)

lemma fact_preimage_inj:
  assumes "fact_preimage f = fact_preimage g" "fact_domain f = fact_domain g" "fact_fits f" "fact_fits g"
  shows "f = g"
proof -
  have "fact_values f = fact_values g"
    using assms posting_values_inj by (simp add: fact_preimage_def posting_preimage_def fact_fits_def)
  with assms(2) show ?thesis by (cases f; cases g) simp_all
qed

end
