(* ===== verification/Catalog.thy ===== *)
theory Catalog
  imports Ledger
begin

text \<open>
  Catalogue entities: clients, scenarios, prices and settlement receipts
  (\<^verbatim>\<open>model/domain/client.rs\<close>, \<^verbatim>\<open>scenario.rs\<close>, \<^verbatim>\<open>price.rs\<close>, \<^verbatim>\<open>receipt.rs\<close>).
\<close>

section \<open>Definitions\<close>

definition UNRESTRICTED_PRINCIPAL :: string where
  "UNRESTRICTED_PRINCIPAL = ''agentvault:internal:unrestricted''"

record PaymentClient =
  cl_id :: string
  cl_name :: string
  cl_auth_principal :: string
  cl_enabled :: bool
  cl_created_at :: int
  cl_updated_at :: int

definition authenticates :: "PaymentClient \<Rightarrow> string \<Rightarrow> bool" where
  "authenticates c who \<longleftrightarrow> cl_enabled c \<and> who \<noteq> [] \<and> cl_auth_principal c = who"

definition PaymentClient_validate :: "PaymentClient \<Rightarrow> string + unit" where
  "PaymentClient_validate c =
     (if is_blank (cl_id c) then Inl ''id''
      else if is_blank (cl_name c) then Inl ''name''
      else if is_blank (cl_auth_principal c)
           \<or> cl_auth_principal c = UNRESTRICTED_PRINCIPAL
           \<or> has_control (cl_auth_principal c)
      then Inl ''auth_principal''
      else Inr ())"

record PaymentScenario =
  sc_id :: string
  sc_client_id :: string
  sc_name :: string
  sc_enabled :: bool
  sc_created_at :: int
  sc_updated_at :: int

definition belongs_to :: "PaymentScenario \<Rightarrow> string \<Rightarrow> bool" where
  "belongs_to s client_id \<longleftrightarrow> sc_client_id s = client_id"

definition PaymentScenario_validate :: "PaymentScenario \<Rightarrow> string + unit" where
  "PaymentScenario_validate s =
     (if is_blank (sc_id s) then Inl ''id''
      else if is_blank (sc_client_id s) then Inl ''client_id''
      else if is_blank (sc_name s) then Inl ''name''
      else Inr ())"

record PaymentPrice =
  pr_id :: string
  pr_scenario_id :: string
  pr_policy_id :: string
  pr_resource :: string
  pr_protocols :: "string list"
  pr_asset :: AssetIdentity
  pr_amount :: amount
  pr_wallet_id :: string
  pr_enabled :: bool
  pr_created_at :: int
  pr_updated_at :: int

definition supports_protocol :: "PaymentPrice \<Rightarrow> string \<Rightarrow> bool" where
  "supports_protocol p protocol \<longleftrightarrow> pr_enabled p \<and> protocol \<in> set (pr_protocols p)"

definition PaymentPrice_validate :: "PaymentPrice \<Rightarrow> string + unit" where
  "PaymentPrice_validate p =
     (if is_blank (pr_id p) then Inl ''id''
      else if is_blank (pr_scenario_id p) then Inl ''scenario_id''
      else if is_blank (pr_policy_id p) then Inl ''policy_id''
      else if is_blank (pr_resource p) then Inl ''resource''
      else if pr_protocols p = [] \<or> list_ex is_blank (pr_protocols p)
           \<or> list_ex (\<lambda>i. pr_protocols p ! i \<in> set (take i (pr_protocols p))) [0..<length (pr_protocols p)]
      then Inl ''protocols''
      else and_then (AssetIdentity_validate (pr_asset p)) (\<lambda>_.
      if is_zero (pr_amount p) then Inl ''amount''
      else if is_blank (pr_wallet_id p) then Inl ''wallet_id''
      else Inr ()))"

record PaymentReceipt =
  rc_intent_id :: string
  rc_scenario_id :: string
  rc_direction :: PaymentDirection
  rc_protocol :: string
  rc_asset :: AssetIdentity
  rc_recipient :: string
  rc_payer :: "string option"
  rc_requested_amount :: amount
  rc_settled_amount :: amount
  rc_status :: PaymentStatus
  rc_tx_hash :: "string option"
  rc_settlement_ref :: "string option"
  rc_evidence_hash :: string
  rc_confirmed_at :: int

definition PaymentReceipt_validate :: "PaymentReceipt \<Rightarrow> string + unit" where
  "PaymentReceipt_validate r =
     (if is_blank (rc_intent_id r) then Inl ''intent_id''
      else if is_blank (rc_scenario_id r) then Inl ''scenario_id''
      else if is_blank (rc_protocol r) then Inl ''protocol''
      else and_then (AssetIdentity_validate (rc_asset r)) (\<lambda>_.
      if is_zero (rc_requested_amount r) then Inl ''requested_amount''
      else if is_some_and (rc_payer r) (\<lambda>p. p = []) then Inl ''payer''
      else if rc_settled_amount r > rc_requested_amount r then Inl ''settled_amount''
      else if rc_status r = Settled then
        if is_zero (rc_settled_amount r) then Inl ''settled_amount''
        else if rc_tx_hash r = None \<and> rc_settlement_ref r = None then Inl ''settlement_reference''
        else if is_blank (rc_evidence_hash r) then Inl ''evidence_hash''
        else Inr ()
      else Inr ()))"

section \<open>Lemmas\<close>

lemma prefix_free_distinct:
  "\<not> list_ex (\<lambda>i. xs ! i \<in> set (take i xs)) [0..<length xs] \<longleftrightarrow> distinct xs"
proof -
  have "(\<exists>i < length xs. xs ! i \<in> set (take i xs)) \<longleftrightarrow> (\<exists>i < length xs. \<exists>j < i. xs ! i = xs ! j)"
    by (auto simp: in_set_conv_nth) (metis less_trans nth_take)+
  also have "\<dots> \<longleftrightarrow> \<not> distinct xs"
    unfolding distinct_conv_nth by (metis linorder_neqE_nat less_trans nat_neq_iff)
  finally show ?thesis by (auto simp: list_ex_iff)
qed

lemma PaymentPrice_validate_protocols:
  "PaymentPrice_validate p = Inr () \<Longrightarrow> distinct (pr_protocols p) \<and> pr_protocols p \<noteq> []"
  by (simp add: PaymentPrice_validate_def result_simps flip: prefix_free_distinct)

lemma client_validate_restricted:
  "PaymentClient_validate c = Inr () \<Longrightarrow> cl_auth_principal c \<noteq> UNRESTRICTED_PRINCIPAL"
  by (auto simp: PaymentClient_validate_def result_simps)

end
