(* ===== verification/Wallet.thy ===== *)
theory Wallet
  imports Money Address
begin

text \<open>
  Wallets as the payment core sees them (\<^verbatim>\<open>model/domain/wallet.rs\<close>,
  \<^verbatim>\<open>storage/wallet/mod.rs\<close>): metadata, custody and key versions, wallet-wide limits, and the
  storage rules a new wallet or key must pass.
\<close>

section \<open>Definitions\<close>

record Wallet =
  w_id :: string
  w_algorithm :: string
  w_address :: string
  w_public_key :: string
  w_created_at :: int

definition Wallet_canonicalized :: "externals \<Rightarrow> Wallet \<Rightarrow> string + Wallet" where
  "Wallet_canonicalized X w =
     and_then (canonicalize_wallet_address X (w_algorithm w) (w_address w)) (\<lambda>address.
     Inr (w\<lparr>w_address := address\<rparr>))"

definition Wallet_canonicalized_for_payment_network :: "externals \<Rightarrow> Wallet \<Rightarrow> string \<Rightarrow> string + Wallet"
where
  "Wallet_canonicalized_for_payment_network X w network =
     and_then (Wallet_canonicalized X w) (\<lambda>w.
     and_then (canonicalize_payment_recipient X network (w_address w)) (\<lambda>address.
     Inr (w\<lparr>w_address := address\<rparr>)))"

definition address_matches :: "externals \<Rightarrow> Wallet \<Rightarrow> string \<Rightarrow> bool" where
  "address_matches X w candidate = wallet_addresses_match X (w_algorithm w) (w_address w) candidate"

datatype WalletKeyStatus = Active | Retired | Compromised

primrec WalletKeyStatus_as_str :: "WalletKeyStatus \<Rightarrow> string" where
  "WalletKeyStatus_as_str Active = ''active''"
| "WalletKeyStatus_as_str Retired = ''retired''"
| "WalletKeyStatus_as_str Compromised = ''compromised''"

datatype WalletCustody = Local | External

record WalletCreationConfig =
  wc_enabled :: bool
  wc_budget_unit :: "BudgetUnit option"
  wc_max_per_payment :: "amount option"
  wc_max_per_day :: "amount option"

text \<open>
  The scalar-limit checks that \<^verbatim>\<open>WalletCreationConfig::validate\<close> and
  \<^verbatim>\<open>PaymentWallet::validate_payment_metadata\<close> share, in their order.
\<close>

definition payment_over_day :: "amount option \<Rightarrow> amount option \<Rightarrow> bool" where
  "payment_over_day per_payment per_day =
     (case (per_payment, per_day) of (Some p, Some d) \<Rightarrow> p > d | _ \<Rightarrow> False)"

definition validate_wallet_limits ::
  "BudgetUnit option \<Rightarrow> amount option \<Rightarrow> amount option \<Rightarrow> string + unit" where
  "validate_wallet_limits unit per_payment per_day =
     and_then (case unit of
         Some u \<Rightarrow> map_err (\<lambda>_. ''budget_unit'') (BudgetUnit_validate u)
       | None \<Rightarrow>
           if per_payment \<noteq> None \<or> per_day \<noteq> None then Inl ''budget_unit'' else Inr ()) (\<lambda>_.
     if is_some_and per_payment is_zero then Inl ''max_per_payment''
     else if is_some_and per_day is_zero \<or> payment_over_day per_payment per_day
     then Inl ''max_per_day''
     else Inr ())"

definition WalletCreationConfig_validate :: "WalletCreationConfig \<Rightarrow> string + unit" where
  "WalletCreationConfig_validate c =
     validate_wallet_limits (wc_budget_unit c) (wc_max_per_payment c) (wc_max_per_day c)"

record PaymentWallet =
  pw_wallet :: Wallet
  pw_custody :: WalletCustody
  pw_enabled :: bool
  pw_active_key_version :: "u32 option"
  pw_budget_unit :: "BudgetUnit option"
  pw_max_per_payment :: "amount option"
  pw_max_per_day :: "amount option"
  pw_updated_at :: int

record WalletBalanceRecord =
  br_wallet_id :: string
  br_asset :: AssetIdentity
  br_asset_available :: amount
  br_native_available :: amount
  br_observed_at :: int
  br_updated_at :: int

definition WalletBalanceRecord_validate :: "WalletBalanceRecord \<Rightarrow> string + unit" where
  "WalletBalanceRecord_validate b =
     (if is_blank (br_wallet_id b) then Inl ''wallet_id''
      else and_then (AssetIdentity_validate (br_asset b)) (\<lambda>_.
      if br_observed_at b < 0 \<or> br_updated_at b < br_observed_at b then Inl ''observed_at''
      else Inr ()))"

definition validate_payment_metadata :: "PaymentWallet \<Rightarrow> string + unit" where
  "validate_payment_metadata w =
     (if (pw_custody w = External \<and> pw_active_key_version w \<noteq> None) \<or> pw_active_key_version w = Some 0
      then Inl ''active_key_version''
      else validate_wallet_limits (pw_budget_unit w) (pw_max_per_payment w) (pw_max_per_day w))"

definition PaymentWallet_canonicalized :: "externals \<Rightarrow> PaymentWallet \<Rightarrow> string + PaymentWallet" where
  "PaymentWallet_canonicalized X w =
     and_then (Wallet_canonicalized X (pw_wallet w)) (\<lambda>wallet.
     and_then (validate_payment_metadata (w\<lparr>pw_wallet := wallet\<rparr>)) (\<lambda>_.
     Inr (w\<lparr>pw_wallet := wallet\<rparr>)))"

definition PaymentWallet_canonicalized_for_payment_network ::
  "externals \<Rightarrow> PaymentWallet \<Rightarrow> string \<Rightarrow> string + PaymentWallet" where
  "PaymentWallet_canonicalized_for_payment_network X w network =
     and_then (Wallet_canonicalized_for_payment_network X (pw_wallet w) network) (\<lambda>wallet.
     and_then (validate_payment_metadata (w\<lparr>pw_wallet := wallet\<rparr>)) (\<lambda>_.
     Inr (w\<lparr>pw_wallet := wallet\<rparr>)))"

definition signing_ready :: "PaymentWallet \<Rightarrow> bool" where
  "signing_ready w \<longleftrightarrow> pw_enabled w \<and> pw_custody w = Local \<and> pw_active_key_version w \<noteq> None"

definition signing_ready_for_payment_network :: "externals \<Rightarrow> PaymentWallet \<Rightarrow> string \<Rightarrow> bool" where
  "signing_ready_for_payment_network X w network \<longleftrightarrow>
     (let compatible =
        (if is_evm_payment_network network then is_evm_wallet_algorithm (w_algorithm (pw_wallet w))
         else if is_solana_payment_network network
         then is_solana_wallet_algorithm (w_algorithm (pw_wallet w))
         else False)
      in signing_ready w \<and> compatible
         \<and> is_ok (PaymentWallet_canonicalized_for_payment_network X w network))"

record EncryptedWalletKeyVersion =
  kv_wallet_id :: string
  kv_version :: u32
  kv_algorithm :: string
  kv_address :: string
  kv_public_key :: string
  kv_encryption_scheme :: string
  kv_kek_id :: string
  kv_wrapped_data_key :: string
  kv_wrap_nonce :: string
  kv_key_ciphertext :: string
  kv_key_nonce :: string
  kv_aad :: string
  kv_status :: WalletKeyStatus
  kv_activated_at :: int
  kv_retired_at :: "int option"
  kv_created_at :: int

definition canonical_wallet :: "externals \<Rightarrow> Wallet \<Rightarrow> Wallet result" where
  "canonical_wallet X w =
     (if is_blank (w_id w) \<or> is_blank (w_algorithm w) \<or> is_blank (w_address w)
      then Inl (InvalidRequest ''wallet identity is incomplete'')
      else map_err (\<lambda>field. InvalidRequest (''invalid wallet '' @ field)) (Wallet_canonicalized X w))"

definition validate_creation_config :: "WalletCreationConfig \<Rightarrow> unit result" where
  "validate_creation_config c =
     map_err (\<lambda>field. InvalidRequest (''invalid initial wallet '' @ field))
       (WalletCreationConfig_validate c)"

definition validate_key_for_wallet ::
  "Wallet \<Rightarrow> EncryptedWalletKeyVersion \<Rightarrow> bool \<Rightarrow> unit result" where
  "validate_key_for_wallet w k require_active =
     (if kv_wallet_id k \<noteq> w_id w
         \<or> kv_algorithm k \<noteq> w_algorithm w
         \<or> kv_address k \<noteq> w_address w
         \<or> kv_public_key k \<noteq> w_public_key w
         \<or> kv_version k = 0
         \<or> is_blank (kv_encryption_scheme k)
         \<or> is_blank (kv_kek_id k)
         \<or> kv_wrapped_data_key k = []
         \<or> kv_wrap_nonce k = []
         \<or> kv_key_ciphertext k = []
         \<or> kv_key_nonce k = []
         \<or> kv_aad k = []
         \<or> (require_active \<and> kv_status k \<noteq> Active)
         \<or> kv_retired_at k \<noteq> None
      then Inl (InvalidKey ''encrypted wallet key metadata is inconsistent'')
      else Inr ())"

section \<open>Lemmas\<close>

lemma payment_over_day_iff:
  "payment_over_day p d \<longleftrightarrow> (\<exists>a b. p = Some a \<and> d = Some b \<and> b < a)"
  by (auto simp: payment_over_day_def split: option.splits)

lemma validate_wallet_limits_ok:
  "validate_wallet_limits u p d = Inr () \<longleftrightarrow>
     (u = None \<longrightarrow> p = None \<and> d = None) \<and> is_none_or u (\<lambda>u. \<not> is_blank (bu_asset u))
     \<and> is_none_or p (\<lambda>a. a \<noteq> 0) \<and> is_none_or d (\<lambda>a. a \<noteq> 0)
     \<and> (\<forall>a b. p = Some a \<longrightarrow> d = Some b \<longrightarrow> a \<le> b)"
  by (cases u; cases p; cases d)
    (auto simp: validate_wallet_limits_def result_simps payment_over_day_iff BudgetUnit_validate_def
      is_zero_def not_less)

lemma Wallet_canonicalized_fields:
  "Wallet_canonicalized X w = Inr c \<Longrightarrow>
     w_id c = w_id w \<and> w_algorithm c = w_algorithm w \<and> w_public_key c = w_public_key w
     \<and> w_created_at c = w_created_at w"
  by (auto simp: Wallet_canonicalized_def result_simps)

lemma Wallet_canonicalized_idem:
  assumes "pubkey_stable X" "Wallet_canonicalized X w = Inr c"
  shows "Wallet_canonicalized X c = Inr c"
proof -
  from assms(2) obtain a where a: "canonicalize_wallet_address X (w_algorithm w) (w_address w) = Inr a"
    and c: "c = w\<lparr>w_address := a\<rparr>"
    by (auto simp: Wallet_canonicalized_def result_simps)
  show ?thesis
    using canonicalize_wallet_address_idem [OF assms(1) a] by (simp add: Wallet_canonicalized_def c)
qed

lemma PaymentWallet_canonicalized_idem:
  assumes "pubkey_stable X" "PaymentWallet_canonicalized X w = Inr c"
  shows "PaymentWallet_canonicalized X c = Inr c"
  using assms Wallet_canonicalized_idem
  by (auto simp: PaymentWallet_canonicalized_def result_simps)

lemma external_never_signs:
  "pw_custody w = External \<Longrightarrow> \<not> signing_ready_for_payment_network X w network"
  by (auto simp: signing_ready_for_payment_network_def signing_ready_def)

end
