(* ===== verification/Approval.thy ===== *)
theory Approval
  imports Intent
begin

text \<open>
  Approval requests, decisions and grants (\<^verbatim>\<open>model/domain/approval.rs\<close>, \<^verbatim>\<open>model/approval.rs\<close>).
  A grant's token is sealed by the AEAD key ring; the row keeps the sealed envelope as it is.
\<close>

section \<open>Definitions\<close>

record PaymentScenarioApprover =
  sa_scenario_id :: string
  sa_auth_principal :: string
  sa_enabled :: bool
  sa_created_at :: int
  sa_updated_at :: int

definition PaymentScenarioApprover_validate :: "PaymentScenarioApprover \<Rightarrow> string + unit" where
  "PaymentScenarioApprover_validate a =
     (if is_blank (sa_scenario_id a) then Inl ''scenario_id''
      else if is_blank (sa_auth_principal a) then Inl ''auth_principal''
      else if sa_updated_at a < sa_created_at a then Inl ''updated_at''
      else Inr ())"

datatype ApprovalStatus = ApPending | ApApproved | ApRejected | ApExpired | ApConsumed

primrec ApprovalStatus_as_str :: "ApprovalStatus \<Rightarrow> string" where
  "ApprovalStatus_as_str ApPending = ''pending''"
| "ApprovalStatus_as_str ApApproved = ''approved''"
| "ApprovalStatus_as_str ApRejected = ''rejected''"
| "ApprovalStatus_as_str ApExpired = ''expired''"
| "ApprovalStatus_as_str ApConsumed = ''consumed''"

record SealedSensitiveMaterial =
  sm_version :: u8
  sm_key_id :: string
  sm_nonce :: string
  sm_ciphertext :: string

record ApprovalRequest =
  ar_id :: string
  ar_intent_id :: string
  ar_run_id :: string
  ar_requested_amount :: amount
  ar_approved_amount :: "amount option"
  ar_requested_by :: string
  ar_approved_by :: "string option"
  ar_status :: ApprovalStatus
  ar_intent_hash :: string
  ar_grant_jti :: "string option"
  ar_grant_claims_hash :: "string option"
  ar_sealed_grant_token :: "SealedSensitiveMaterial option"
  ar_expires_at :: int
  ar_consumed_at :: "int option"
  ar_created_at :: int
  ar_approved_at :: "int option"

datatype ApprovalDecisionKind = Approve | Reject

record ApprovalDecision =
  ad_approval_id :: string
  ad_intent_id :: string
  ad_decision :: ApprovalDecisionKind
  ad_approved_amount :: "amount option"
  ad_approved_by :: string
  ad_reason :: "string option"
  ad_decided_at :: int

record SubmitApprovalDecision =
  sd_approval_id :: string
  sd_intent_id :: string
  sd_decision :: ApprovalDecisionKind
  sd_approved_amount :: "amount option"
  sd_reason :: "string option"

record ApprovalGrantClaims =
  gc_iss :: string
  gc_aud :: string
  gc_jti :: string
  gc_approval_id :: string
  gc_intent_id :: string
  gc_intent_hash :: string
  gc_amount :: amount
  gc_approver :: string
  gc_iat :: int
  gc_exp :: int

record ApprovalGrant =
  ag_claims :: ApprovalGrantClaims
  ag_claims_hash :: string
  ag_sealed_token :: SealedSensitiveMaterial

record VerifiedApprovalGrant =
  vg_claims :: ApprovalGrantClaims
  vg_claims_hash :: string

definition is_pending_at :: "ApprovalRequest \<Rightarrow> int \<Rightarrow> bool" where
  "is_pending_at a now \<longleftrightarrow> ar_status a = ApPending \<and> ar_expires_at a > now"

definition has_persisted_grant :: "ApprovalRequest \<Rightarrow> bool" where
  "has_persisted_grant a \<longleftrightarrow>
     ar_grant_jti a \<noteq> None \<and> ar_grant_claims_hash a \<noteq> None \<and> ar_sealed_grant_token a \<noteq> None"

definition validate_decision :: "ApprovalRequest \<Rightarrow> ApprovalDecision \<Rightarrow> int \<Rightarrow> string + unit" where
  "validate_decision a d now =
     (if ar_id a \<noteq> ad_approval_id d then Inl ''approval_id''
      else if ar_intent_id a \<noteq> ad_intent_id d then Inl ''intent_id''
      else if \<not> is_pending_at a now then Inl ''approval_not_pending''
      else case ad_decision d of
        Approve \<Rightarrow>
          and_then (ok_or (ad_approved_amount d) ''approved_amount'') (\<lambda>amount.
          if is_zero amount \<or> amount > ar_requested_amount a then Inl ''approved_amount''
          else Inr ())
      | Reject \<Rightarrow> if ad_approved_amount d \<noteq> None then Inl ''approved_amount'' else Inr ())"

definition ApprovalGrantClaims_validate :: "ApprovalGrantClaims \<Rightarrow> string + unit" where
  "ApprovalGrantClaims_validate c =
     and_then (try_each (\<lambda>(field, v). if is_blank v then Inl field else Inr ())
       [(''iss'', gc_iss c), (''aud'', gc_aud c), (''jti'', gc_jti c),
        (''approval_id'', gc_approval_id c), (''intent_id'', gc_intent_id c),
        (''intent_hash'', gc_intent_hash c), (''approver'', gc_approver c)]) (\<lambda>_.
     if is_zero (gc_amount c) then Inl ''amount''
     else if gc_iat c < 0 then Inl ''iat''
     else if gc_exp c \<le> gc_iat c then Inl ''exp''
     else Inr ())"

section \<open>Lemmas\<close>

lemma validate_decision_ok:
  assumes "validate_decision a d now = Inr ()"
  shows "is_pending_at a now" "ar_id a = ad_approval_id d" "ar_intent_id a = ad_intent_id d"
    and "ad_decision d = Approve \<Longrightarrow>
      \<exists>m. ad_approved_amount d = Some m \<and> m \<noteq> 0 \<and> m \<le> ar_requested_amount a"
    and "ad_decision d = Reject \<Longrightarrow> ad_approved_amount d = None"
  using assms
  by (auto simp: validate_decision_def result_simps is_zero_def not_less
      split: ApprovalDecisionKind.splits)

lemma grant_claims_ok:
  "ApprovalGrantClaims_validate c = Inr () \<Longrightarrow> gc_amount c \<noteq> 0 \<and> gc_iat c < gc_exp c \<and> 0 \<le> gc_iat c"
  by (auto simp: ApprovalGrantClaims_validate_def result_simps is_zero_def)

end
