(* ===== verification/Outbox.thy ===== *)
theory Outbox
  imports Intent
begin

text \<open>
  Outbox messages and their delivery classes (\<^verbatim>\<open>storage/outbox/mod.rs\<close>), with the SQL
  \<^verbatim>\<open>GLOB\<close> predicate by which the claim query selects a class.
\<close>

section \<open>Definitions\<close>

datatype OutboxStatus = ObPending | Delivered | DeadLetter

primrec OutboxStatus_as_str :: "OutboxStatus \<Rightarrow> string" where
  "OutboxStatus_as_str ObPending = ''pending''"
| "OutboxStatus_as_str Delivered = ''delivered''"
| "OutboxStatus_as_str DeadLetter = ''dead_letter''"

datatype OutboxDeliveryClass = ApprovalRequired | PaymentEvents

primrec OutboxDeliveryClass_as_str :: "OutboxDeliveryClass \<Rightarrow> string" where
  "OutboxDeliveryClass_as_str ApprovalRequired = ''approval_required''"
| "OutboxDeliveryClass_as_str PaymentEvents = ''payment_events''"

record OutboxMessage =
  ob_id :: string
  ob_aggregate_type :: string
  ob_aggregate_id :: string
  ob_event_type :: string
  ob_destination :: string
  ob_run_id :: string
  ob_payload :: json
  ob_status :: OutboxStatus
  ob_attempt_count :: u32
  ob_available_at :: int
  ob_lease_owner :: "string option"
  ob_lease_expires_at :: "int option"
  ob_last_error :: "string option"
  ob_created_at :: int
  ob_delivered_at :: "int option"

record OutboxLeaseRequest =
  lr_owner :: string
  lr_class :: OutboxDeliveryClass
  lr_now :: int
  lr_lease_until :: int
  lr_limit :: u32

definition strip_suffix :: "string \<Rightarrow> string \<Rightarrow> string option" where
  "strip_suffix suf s =
     (if length suf \<le> length s \<and> drop (length s - length suf) s = suf
      then Some (take (length s - length suf) s) else None)"

definition destination_has_nonempty_id :: "string \<Rightarrow> string \<Rightarrow> string \<Rightarrow> bool" where
  "destination_has_nonempty_id destination pre suf =
     is_some_and (Option.bind (strip_prefix pre destination) (strip_suffix suf))
       (\<lambda>identifier. identifier \<noteq> [])"

fun OutboxDeliveryClass_matches :: "OutboxDeliveryClass \<Rightarrow> OutboxMessage \<Rightarrow> bool" where
  "OutboxDeliveryClass_matches ApprovalRequired m \<longleftrightarrow>
     ob_event_type m = ''approval_required''
     \<and> destination_has_nonempty_id (ob_destination m) ''client:'' ''.approvals''"
| "OutboxDeliveryClass_matches PaymentEvents m \<longleftrightarrow>
     destination_has_nonempty_id (ob_destination m) ''client:'' ''.payments''
     \<or> destination_has_nonempty_id (ob_destination m) ''scenario:'' ''.payments''"

text \<open>SQLite's \<^verbatim>\<open>GLOB\<close> for the two wildcards the claim query uses.\<close>

fun glob :: "string \<Rightarrow> string \<Rightarrow> bool" where
  "glob [] s \<longleftrightarrow> s = []"
| "glob (p # ps) [] \<longleftrightarrow> p = CHR ''*'' \<and> glob ps []"
| "glob (p # ps) (c # s) \<longleftrightarrow>
     (if p = CHR ''*'' then glob ps (c # s) \<or> glob (p # ps) s
      else if p = CHR ''?'' then glob ps s
      else p = c \<and> glob ps s)"

definition claim_class_predicate :: "string \<Rightarrow> OutboxMessage \<Rightarrow> bool" where
  "claim_class_predicate class m \<longleftrightarrow>
     (class = ''approval_required'' \<and> ob_event_type m = ''approval_required''
        \<and> glob ''client:?*.approvals'' (ob_destination m))
     \<or> (class = ''payment_events''
        \<and> (glob ''client:?*.payments'' (ob_destination m)
           \<or> glob ''scenario:?*.payments'' (ob_destination m)))"

definition same_logical_message :: "OutboxMessage \<Rightarrow> OutboxMessage \<Rightarrow> bool" where
  "same_logical_message l r \<longleftrightarrow>
     ob_id l = ob_id r
     \<and> ob_aggregate_type l = ob_aggregate_type r
     \<and> ob_aggregate_id l = ob_aggregate_id r
     \<and> ob_event_type l = ob_event_type r
     \<and> ob_destination l = ob_destination r
     \<and> ob_run_id l = ob_run_id r
     \<and> ob_payload l = ob_payload r
     \<and> ob_created_at l = ob_created_at r"

definition validate_message :: "OutboxMessage \<Rightarrow> unit result" where
  "validate_message m =
     (if is_blank (ob_id m) \<or> is_blank (ob_aggregate_type m) \<or> is_blank (ob_aggregate_id m)
         \<or> is_blank (ob_event_type m) \<or> is_blank (ob_destination m) \<or> is_blank (ob_run_id m)
      then Inl (InvalidRequest ''outbox message identity is incomplete'')
      else Inr ())"

section \<open>The SQL predicate is the delivery class\<close>

definition plain :: "string \<Rightarrow> bool" where
  "plain s \<longleftrightarrow> CHR ''*'' \<notin> set s \<and> CHR ''?'' \<notin> set s"

lemma glob_plain: "plain p \<Longrightarrow> glob p s \<longleftrightarrow> s = p"
  by (induction p s rule: glob.induct) (auto simp: plain_def)

lemma glob_literal_prefix:
  "plain p \<Longrightarrow> glob (p @ ps) s \<longleftrightarrow> (\<exists>t. s = p @ t \<and> glob ps t)"
proof (induction p arbitrary: s)
  case (Cons a p)
  then show ?case by (cases s) (auto simp: plain_def)
qed simp

lemma glob_star_plain: "plain p \<Longrightarrow> glob (CHR ''*'' # p) s \<longleftrightarrow> (\<exists>t. s = t @ p)"
proof (induction s)
  case Nil
  then show ?case by (auto simp: glob_plain)
next
  case (Cons c s)
  then show ?case
    by (auto simp: glob_plain) (metis append_Cons append_eq_Cons_conv)+
qed

lemma glob_nonempty_id:
  assumes "plain pre" "plain suf"
  shows "glob (pre @ CHR ''?'' # CHR ''*'' # suf) d \<longleftrightarrow> (\<exists>i. i \<noteq> [] \<and> d = pre @ i @ suf)"
proof -
  have one: "glob (CHR ''?'' # ps) t \<longleftrightarrow> (\<exists>c s. t = c # s \<and> glob ps s)" for ps t
    by (cases t) auto
  show ?thesis
    unfolding glob_literal_prefix [OF assms(1)] one glob_star_plain [OF assms(2)]
    by (metis append_Cons neq_Nil_conv)
qed

lemma destination_has_nonempty_id_iff:
  "destination_has_nonempty_id d pre suf \<longleftrightarrow> (\<exists>i. i \<noteq> [] \<and> d = pre @ i @ suf)"
proof -
  have pre: "strip_prefix pre d = Some t \<longleftrightarrow> d = pre @ t" for t
    by (auto simp: strip_prefix_def) (metis append_take_drop_id)
  have suf: "strip_suffix suf t = Some i \<longleftrightarrow> t = i @ suf" for t i
    by (auto simp: strip_suffix_def) (metis append_take_drop_id)
  show ?thesis
    by (auto simp: destination_has_nonempty_id_def is_some_and_iff bind_eq_Some_conv pre suf)
qed

lemma claim_class_predicate_matches:
  "claim_class_predicate (OutboxDeliveryClass_as_str c) m = OutboxDeliveryClass_matches c m"
  using glob_nonempty_id [of "''client:''" "''.approvals''" "ob_destination m"]
    glob_nonempty_id [of "''client:''" "''.payments''" "ob_destination m"]
    glob_nonempty_id [of "''scenario:''" "''.payments''" "ob_destination m"]
  by (cases c) (simp_all add: claim_class_predicate_def destination_has_nonempty_id_iff plain_def
      del: glob.simps)

end
