(* ===== verification/Codec.thy ===== *)
theory Codec
  imports Catalog Wallet Approval Outbox
begin

text \<open>
  The SQL value codecs (\<^verbatim>\<open>utils/storage.rs\<close>): stored text to enum values, and amounts to
  decimal text. The interface every codec offers is a locale; each codec of the source is an
  interpretation of it. The schema's \<^verbatim>\<open>CHECK\<close> on amount columns
  (\<^verbatim>\<open>migrations/sqlite/001_init.ddl.sql\<close>) is modelled on the stored text itself.
\<close>

section \<open>Definitions\<close>

definition invalid_enum :: "string \<Rightarrow> string \<Rightarrow> error" where
  "invalid_enum field v = Storage (''stored '' @ field @ '' contains unsupported value '' @ v)"

definition domain_error :: "error \<Rightarrow> error" where
  "domain_error e = (case e of StorageConflict message \<Rightarrow> PaymentConflict message | _ \<Rightarrow> e)"

definition codec_event_type :: "string \<Rightarrow> PaymentEventType result" where
  "codec_event_type v =
     (if v = ''challenge_created'' then Inr ChallengeCreated
      else if v = ''challenge_received'' then Inr ChallengeReceived
      else if v = ''sign_requested'' then Inr SignRequested
      else if v = ''signed'' then Inr EvSigned
      else if v = ''approval_requested'' then Inr ApprovalRequested
      else if v = ''approval_granted'' then Inr ApprovalGranted
      else if v = ''approval_rejected'' then Inr ApprovalRejected
      else if v = ''approval_consumed'' then Inr ApprovalConsumed
      else if v = ''credential_verified'' then Inr CredentialVerified
      else if v = ''submitted'' then Inr EvSubmitted
      else if v = ''settlement_requested'' then Inr SettlementRequested
      else if v = ''settled'' then Inr EvSettled
      else if v = ''retried'' then Inr Retried
      else if v = ''failed'' then Inr EvFailed
      else if v = ''reconciled'' then Inr Reconciled
      else Inl (invalid_enum ''payment event type'' v))"

definition codec_custody :: "string \<Rightarrow> WalletCustody result" where
  "codec_custody v =
     (if v = ''local'' then Inr Local
      else if v = ''external'' then Inr External
      else Inl (invalid_enum ''wallet custody'' v))"

definition codec_key_status :: "string \<Rightarrow> WalletKeyStatus result" where
  "codec_key_status v =
     (if v = ''active'' then Inr Active
      else if v = ''retired'' then Inr Retired
      else if v = ''compromised'' then Inr Compromised
      else Inl (invalid_enum ''wallet key status'' v))"

definition codec_direction :: "string \<Rightarrow> PaymentDirection result" where
  "codec_direction v =
     (if v = ''inbound'' then Inr Inbound
      else if v = ''outbound'' then Inr Outbound
      else Inl (invalid_enum ''direction'' v))"

definition codec_payment_status :: "string \<Rightarrow> PaymentStatus result" where
  "codec_payment_status v =
     (if v = ''created'' then Inr Created
      else if v = ''pending_approval'' then Inr PendingApproval
      else if v = ''authorized'' then Inr Authorized
      else if v = ''signed'' then Inr Signed
      else if v = ''submitted'' then Inr Submitted
      else if v = ''pending_settlement'' then Inr PendingSettlement
      else if v = ''settled'' then Inr Settled
      else if v = ''failed'' then Inr Failed
      else if v = ''expired'' then Inr Expired
      else if v = ''unknown'' then Inr Unknown
      else Inl (invalid_enum ''payment status'' v))"

definition codec_reservation_status :: "string \<Rightarrow> ReservationStatus result" where
  "codec_reservation_status v =
     (if v = ''unreserved'' then Inr Unreserved
      else if v = ''reserved'' then Inr Reserved
      else if v = ''consumed'' then Inr Consumed
      else if v = ''released'' then Inr Released
      else Inl (invalid_enum ''reservation status'' v))"

definition codec_outbox_status :: "string \<Rightarrow> OutboxStatus result" where
  "codec_outbox_status v =
     (if v = ''pending'' then Inr ObPending
      else if v = ''delivered'' then Inr Delivered
      else if v = ''dead_letter'' then Inr DeadLetter
      else Inl (invalid_enum ''outbox status'' v))"

definition codec_approval_status :: "string \<Rightarrow> ApprovalStatus result" where
  "codec_approval_status v =
     (if v = ''pending'' then Inr ApPending
      else if v = ''approved'' then Inr ApApproved
      else if v = ''rejected'' then Inr ApRejected
      else if v = ''expired'' then Inr ApExpired
      else if v = ''consumed'' then Inr ApConsumed
      else Inl (invalid_enum ''approval status'' v))"

definition codec_ledger_type :: "string \<Rightarrow> LedgerEntryType result" where
  "codec_ledger_type v =
     (if v = ''payment'' then Inr Payment
      else if v = ''fee'' then Inr Fee
      else if v = ''refund'' then Inr Refund
      else if v = ''deposit'' then Inr Deposit
      else if v = ''transfer'' then Inr Transfer
      else if v = ''reversal'' then Inr Reversal
      else Inl (invalid_enum ''ledger entry type'' v))"

primrec custody_as_str :: "WalletCustody \<Rightarrow> string" where
  "custody_as_str Local = ''local''"
| "custody_as_str External = ''external''"

definition encode_amount :: "amount \<Rightarrow> string" where
  "encode_amount v = amount_to_string v"

definition decode_sqlite_amount :: "string \<Rightarrow> string \<Rightarrow> amount result" where
  "decode_sqlite_amount field v =
     ok_or (amount_from_str v) (Storage (''SQLite '' @ field @ '' contains an invalid amount''))"


definition amount_le_check :: "string \<Rightarrow> string \<Rightarrow> bool" where
  "amount_le_check v w \<longleftrightarrow> length v < length w \<or> (length v = length w \<and> v \<le> w)"

section \<open>The codec interface\<close>

locale text_codec =
  fixes encode :: "'a \<Rightarrow> string" and decode :: "string \<Rightarrow> 'a result"
  assumes decode_encode: "decode (encode a) = Inr a"
begin

lemma encode_inj: "encode a = encode b \<Longrightarrow> a = b"
  by (metis Inr_inject decode_encode)

end

locale exact_text_codec = text_codec +
  assumes encode_decode: "decode v = Inr a \<Longrightarrow> encode a = v"
begin

lemma decode_iff: "decode v = Inr a \<longleftrightarrow> v = encode a"
  using decode_encode encode_decode by blast

lemma decode_rejects: "(\<exists>e. decode v = Inl e) \<longleftrightarrow> v \<notin> range encode"
proof
  assume "\<exists>e. decode v = Inl e"
  then show "v \<notin> range encode" using decode_encode by auto
next
  assume "v \<notin> range encode"
  then show "\<exists>e. decode v = Inl e" using encode_decode by (cases "decode v") auto
qed

end

section \<open>The codecs of the source\<close>

interpretation event_type_codec: exact_text_codec PaymentEventType_as_str codec_event_type
proof
  show "codec_event_type (PaymentEventType_as_str a) = Inr a" for a
    by (cases a) (simp_all add: codec_event_type_def)
  show "codec_event_type v = Inr a \<Longrightarrow> PaymentEventType_as_str a = v" for v a
    by (auto simp: codec_event_type_def split: if_splits)
qed

interpretation custody_codec: exact_text_codec custody_as_str codec_custody
proof
  show "codec_custody (custody_as_str a) = Inr a" for a
    by (cases a) (simp_all add: codec_custody_def)
  show "codec_custody v = Inr a \<Longrightarrow> custody_as_str a = v" for v a
    by (auto simp: codec_custody_def split: if_splits)
qed

interpretation key_status_codec: exact_text_codec WalletKeyStatus_as_str codec_key_status
proof
  show "codec_key_status (WalletKeyStatus_as_str a) = Inr a" for a
    by (cases a) (simp_all add: codec_key_status_def)
  show "codec_key_status v = Inr a \<Longrightarrow> WalletKeyStatus_as_str a = v" for v a
    by (auto simp: codec_key_status_def split: if_splits)
qed

interpretation direction_codec: exact_text_codec PaymentDirection_as_str codec_direction
proof
  show "codec_direction (PaymentDirection_as_str a) = Inr a" for a
    by (cases a) (simp_all add: codec_direction_def)
  show "codec_direction v = Inr a \<Longrightarrow> PaymentDirection_as_str a = v" for v a
    by (auto simp: codec_direction_def split: if_splits)
qed

interpretation payment_status_codec: exact_text_codec PaymentStatus_as_str codec_payment_status
proof
  show "codec_payment_status (PaymentStatus_as_str a) = Inr a" for a
    by (cases a) (simp_all add: codec_payment_status_def)
  show "codec_payment_status v = Inr a \<Longrightarrow> PaymentStatus_as_str a = v" for v a
    by (auto simp: codec_payment_status_def split: if_splits)
qed

interpretation reservation_status_codec: exact_text_codec ReservationStatus_as_str codec_reservation_status
proof
  show "codec_reservation_status (ReservationStatus_as_str a) = Inr a" for a
    by (cases a) (simp_all add: codec_reservation_status_def)
  show "codec_reservation_status v = Inr a \<Longrightarrow> ReservationStatus_as_str a = v" for v a
    by (auto simp: codec_reservation_status_def split: if_splits)
qed

interpretation outbox_status_codec: exact_text_codec OutboxStatus_as_str codec_outbox_status
proof
  show "codec_outbox_status (OutboxStatus_as_str a) = Inr a" for a
    by (cases a) (simp_all add: codec_outbox_status_def)
  show "codec_outbox_status v = Inr a \<Longrightarrow> OutboxStatus_as_str a = v" for v a
    by (auto simp: codec_outbox_status_def split: if_splits)
qed

interpretation approval_status_codec: exact_text_codec ApprovalStatus_as_str codec_approval_status
proof
  show "codec_approval_status (ApprovalStatus_as_str a) = Inr a" for a
    by (cases a) (simp_all add: codec_approval_status_def)
  show "codec_approval_status v = Inr a \<Longrightarrow> ApprovalStatus_as_str a = v" for v a
    by (auto simp: codec_approval_status_def split: if_splits)
qed

interpretation ledger_type_codec: exact_text_codec LedgerEntryType_as_str codec_ledger_type
proof
  show "codec_ledger_type (LedgerEntryType_as_str a) = Inr a" for a
    by (cases a) (simp_all add: codec_ledger_type_def)
  show "codec_ledger_type v = Inr a \<Longrightarrow> LedgerEntryType_as_str a = v" for v a
    by (auto simp: codec_ledger_type_def split: if_splits)
qed

interpretation amount_codec: text_codec encode_amount "decode_sqlite_amount field"
  by unfold_locales (simp add: encode_amount_def decode_sqlite_amount_def)

section \<open>The schema's amount check\<close>

primrec digits_value :: "string \<Rightarrow> nat" where
  "digits_value [] = 0"
| "digits_value (c # s) = (ascii c - 48) * 10 ^ length s + digits_value s"

lemma digits_value_snoc: "digits_value (s @ [c]) = digits_value s * 10 + (ascii c - 48)"
  by (induction s) (simp_all add: algebra_simps)

lemma digits_value_show_nat [simp]: "digits_value (show_nat n) = n"
proof (induction n rule: show_nat.induct)
  case (1 n)
  show ?case
  proof (cases "n < 10")
    case True
    then show ?thesis by (subst show_nat.simps) simp
  next
    case False
    then show ?thesis using 1 by (subst show_nat.simps) (simp add: digits_value_snoc)
  qed
qed

lemma digits_value_less: "list_all is_ascii_digit s \<Longrightarrow> digits_value s < 10 ^ length s"
proof (induction s)
  case (Cons c s)
  then have "ascii c - 48 \<le> 9" "digits_value s < 10 ^ length s" by (auto simp: is_ascii_digit_def)
  then have "(ascii c - 48) * 10 ^ length s + digits_value s < 9 * 10 ^ length s + 10 ^ length s"
    by (intro add_le_less_mono mult_le_mono1)
  then show ?case by simp
qed simp

lemma digits_value_ge:
  "49 \<le> ascii c \<Longrightarrow> 10 ^ length s \<le> digits_value (c # s)"
  by (simp add: trans_le_add1)

lemma digits_value_le_iff:
  assumes "list_all is_ascii_digit s" "list_all is_ascii_digit t" "length s = length t"
  shows "s \<le> t \<longleftrightarrow> digits_value s \<le> digits_value t"
  using assms(3,1,2)
proof (induction s t rule: list_induct2)
  case (Cons c s d t)
  let ?p = "(10 :: nat) ^ length t"
  have lt: "digits_value s < ?p" "digits_value t < ?p"
    using Cons digits_value_less [of s] digits_value_less [of t] by simp_all
  have gap: "a * ?p + x < b * ?p + y" if "a < b" "x < ?p" for a b x y :: nat
  proof -
    have "a * ?p + x < Suc a * ?p" using that(2) by simp
    also have "\<dots> \<le> b * ?p" using that(1) by (intro mult_le_mono1) simp
    finally show ?thesis by simp
  qed
  have digits: "48 \<le> ascii c" "48 \<le> ascii d" using Cons.prems by (auto simp: is_ascii_digit_def)
  consider "ascii c < ascii d" | "ascii c = ascii d" | "ascii d < ascii c" by linarith
  then show ?case
  proof cases
    case 1
    then have "ascii c - 48 < ascii d - 48" using digits by linarith
    then show ?thesis using gap lt 1 Cons.hyps by (auto simp: less_char_def ascii_def intro: less_imp_le)
  next
    case 2
    then show ?thesis using Cons by (simp add: ascii_def of_char_eq_iff)
  next
    case 3
    then have "ascii d - 48 < ascii c - 48" using digits by linarith
    from gap [OF this lt(2), of "digits_value s"] show ?thesis
      using 3 Cons.hyps by (auto simp: less_char_def ascii_def not_le)
  qed
qed simp


definition canonical_numeral :: "string \<Rightarrow> bool" where
  "canonical_numeral v \<longleftrightarrow> list_all is_ascii_digit v \<and> v \<noteq> [] \<and> (v = ''0'' \<or> 49 \<le> ascii (hd v))"

lemma hd_show_nat: "0 < n \<Longrightarrow> 49 \<le> ascii (hd (show_nat n))"
proof (induction n rule: show_nat.induct)
  case (1 n)
  show ?case
  proof (cases "n < 10")
    case True
    then show ?thesis using 1(2) by (subst show_nat.simps) simp
  next
    case False
    then have "0 < n div 10" by simp
    with 1(1) [OF False] False show ?thesis by (subst show_nat.simps) simp
  qed
qed

lemma canonical_show_nat: "canonical_numeral (show_nat n)"
proof (cases "n = 0")
  case True
  have "show_nat 0 = ''0''" by (subst show_nat.simps) (simp add: digit_char_def char_of_def bit_0)
  then show ?thesis using True by (simp add: canonical_numeral_def is_ascii_digit_def ascii_def)
next
  case False
  then show ?thesis using hd_show_nat show_nat_digits by (simp add: canonical_numeral_def)
qed

lemma canonical_length:
  assumes "canonical_numeral s" "digits_value s \<noteq> 0"
  shows "10 ^ (length s - 1) \<le> digits_value s" "digits_value s < 10 ^ length s"
proof -
  obtain c t where ct: "s = c # t" using assms(1) by (cases s) (auto simp: canonical_numeral_def)
  have "s \<noteq> ''0''" using assms(2) by (auto simp: ascii_def)
  then have "49 \<le> ascii c" using assms(1) by (auto simp: canonical_numeral_def ct)
  from digits_value_ge [OF this, of t] show "10 ^ (length s - 1) \<le> digits_value s"
    by (simp add: ct)
  show "digits_value s < 10 ^ length s"
    using assms(1) digits_value_less by (simp add: canonical_numeral_def)
qed

lemma canonical_zero: "canonical_numeral s \<Longrightarrow> digits_value s = 0 \<Longrightarrow> s = ''0''"
proof (rule ccontr)
  assume s: "canonical_numeral s" "digits_value s = 0" "s \<noteq> ''0''"
  then obtain c t where ct: "s = c # t" by (cases s) (auto simp: canonical_numeral_def)
  from s ct have "49 \<le> ascii c" by (auto simp: canonical_numeral_def)
  from digits_value_ge [OF this, of t] s(2) ct show False
    by (metis le_zero_eq power_not_zero zero_neq_numeral)
qed

lemma canonical_less_length:
  assumes "canonical_numeral s" "canonical_numeral t" "length s < length t"
  shows "digits_value s < digits_value t"
proof -
  have t0: "digits_value t \<noteq> 0"
  proof
    assume "digits_value t = 0"
    from canonical_zero [OF assms(2) this] assms(1,3) show False
      by (auto simp: canonical_numeral_def)
  qed
  have "digits_value s < 10 ^ length s"
    using assms(1) digits_value_less by (simp add: canonical_numeral_def)
  also have "\<dots> \<le> 10 ^ (length t - 1)" using assms(3) by (intro power_increasing) auto
  also have "\<dots> \<le> digits_value t" using canonical_length(1) [OF assms(2) t0] .
  finally show ?thesis .
qed


lemma amount_le_check_canonical:
  assumes "canonical_numeral s" "canonical_numeral t"
  shows "amount_le_check s t \<longleftrightarrow> digits_value s \<le> digits_value t"
proof -
  consider "length s < length t" | "length s = length t" | "length t < length s" by linarith
  then show ?thesis
  proof cases
    case 1
    then show ?thesis using canonical_less_length [OF assms 1] by (simp add: amount_le_check_def)
  next
    case 2
    then show ?thesis
      using assms digits_value_le_iff by (simp add: amount_le_check_def canonical_numeral_def)
  next
    case 3
    then show ?thesis
      using canonical_less_length [OF assms(2,1) 3] by (simp add: amount_le_check_def)
  qed
qed




text \<open>
  C40. The schema compares two amount columns by length and then as text; on stored amounts this is
  the numeric order that the policy and budget checks use.
\<close>

theorem amount_le_check_iff: "amount_le_check (encode_amount a) (encode_amount b) \<longleftrightarrow> a \<le> b"
  by (simp add: encode_amount_def amount_to_string_def amount_le_check_canonical canonical_show_nat
      word_le_nat_alt)

end
