(* ===== verification/Schema.thy ===== *)
theory Schema
  imports Policy Codec
begin

text \<open>
  The authoritative database: one list of rows per table of
  \<^verbatim>\<open>migrations/sqlite/001_init.ddl.sql\<close>, the declarative constraints of the tables the payment
  core writes, and \<^verbatim>\<open>transaction\<close>, which commits a whole operation or none of it
  (\<^verbatim>\<open>storage/sqlite.rs\<close>). An operation of the repositories is a function from the database to an
  error or a result with the database it leaves; \<^verbatim>\<open>BEGIN IMMEDIATE\<close> serialises them, so an
  interleaving of clients is a sequence of such steps. Row locks (\<^verbatim>\<open>FOR UPDATE\<close>) are therefore
  only their existence checks.

  The amount columns hold decimal texts, which the codec theory proves to be exactly the amounts, in
  numeric order; the rows below hold the amounts. The text that the driver appends to a constraint
  error is not modelled: the error carries the message of the source up to it.
\<close>

section \<open>Tables\<close>

text \<open>
  An intent row adds the columns the domain type does not show. A wallet row leaves
  \<^const>\<open>pw_active_key_version\<close> unset: the active version is a join with the key table. A policy row
  leaves \<^const>\<open>pp_wallet_ids\<close> empty: membership is the relation \<^verbatim>\<open>pay_policy_wallet\<close>.
\<close>

record intent_row =
  ir_intent :: PaymentIntent
  ir_credential_hash :: "string option"
  ir_reconcile_attempts :: u32
  ir_lease_owner :: "string option"
  ir_lease_expires_at :: "int option"

record policy_wallet_row =
  pm_policy_id :: string
  pm_wallet_id :: string
  pm_created_at :: int

record db =
  pay_wallet :: "PaymentWallet list"
  wallet_key_version :: "EncryptedWalletKeyVersion list"
  pay_wallet_balance :: "WalletBalanceRecord list"
  pay_client :: "PaymentClient list"
  pay_scenario :: "PaymentScenario list"
  pay_scenario_approver :: "PaymentScenarioApprover list"
  pay_policy :: "PaymentPolicy list"
  pay_policy_wallet :: "policy_wallet_row list"
  pay_price :: "PaymentPrice list"
  pay_intent :: "intent_row list"
  pay_event :: "PaymentEvent list"
  pay_approval :: "ApprovalRequest list"
  pay_ledger :: "PaymentLedgerEntry list"
  pay_outbox :: "OutboxMessage list"

datatype 'a IdempotentWrite = Inserted 'a | ReplayOf 'a

type_synonym 'a step = "db \<Rightarrow> ('a \<times> db) result"

definition transaction :: "'a step \<Rightarrow> db \<Rightarrow> 'a result \<times> db" where
  "transaction operation s =
     (case operation s of Inl e \<Rightarrow> (Inl e, s) | Inr (v, t) \<Rightarrow> (Inr v, t))"

primrec each_step :: "('a \<Rightarrow> db \<Rightarrow> db result) \<Rightarrow> 'a list \<Rightarrow> db \<Rightarrow> db result" where
  "each_step f [] s = Inr s"
| "each_step f (x # xs) s = and_then (f x s) (each_step f xs)"

primrec collect_steps :: "('a \<Rightarrow> 'b step) \<Rightarrow> 'a list \<Rightarrow> 'b list step" where
  "collect_steps f [] s = Inr ([], s)"
| "collect_steps f (x # xs) s =
     and_then (f x s) (\<lambda>(v, t). and_then (collect_steps f xs t) (\<lambda>(vs, u). Inr (v # vs, u)))"

text \<open>\<^verbatim>\<open>UPDATE ... WHERE\<close>: the rows that match are changed, and their number is reported.\<close>

definition update_where :: "('r \<Rightarrow> bool) \<Rightarrow> ('r \<Rightarrow> 'r) \<Rightarrow> 'r list \<Rightarrow> 'r list" where
  "update_where P f rows = map (\<lambda>r. if P r then f r else r) rows"

definition rows_affected :: "('r \<Rightarrow> bool) \<Rightarrow> 'r list \<Rightarrow> nat" where
  "rows_affected P rows = length (filter P rows)"

definition conflict :: "string \<Rightarrow> error" where
  "conflict message = PaymentConflict message"

text \<open>SQLite's \<^verbatim>\<open>trim\<close> strips spaces only.\<close>

definition sql_blank :: "string \<Rightarrow> bool" where
  "sql_blank v \<longleftrightarrow> list_all (\<lambda>c. c = CHR '' '') v"

definition sql_nonblank_opt :: "string option \<Rightarrow> bool" where
  "sql_nonblank_opt v = is_none_or v (\<lambda>s. \<not> sql_blank s)"

definition sql_trim :: "string \<Rightarrow> string" where
  "sql_trim v = rev (dropWhile (\<lambda>c. c = CHR '' '') (rev (dropWhile (\<lambda>c. c = CHR '' '') v)))"

section \<open>Constraints of pay_intent\<close>

definition pay_intent_check :: "intent_row \<Rightarrow> bool" where
  "pay_intent_check r \<longleftrightarrow>
     (let i = ir_intent r in
      \<not> sql_blank (pi_id i) \<and> \<not> sql_blank (pi_run_id i) \<and> \<not> sql_blank (pi_protocol i)
      \<and> \<not> sql_blank (ai_network (pi_asset i)) \<and> \<not> sql_blank (ai_asset (pi_asset i))
      \<and> \<not> sql_blank (pi_recipient i) \<and> pi_amount i \<noteq> 0
      \<and> \<not> sql_blank (pi_resource i) \<and> sql_nonblank_opt (pi_challenge_hash i)
      \<and> sql_nonblank_opt (ir_credential_hash r) \<and> \<not> sql_blank (pi_request_hash i)
      \<and> 0 \<le> pi_created_at i \<and> pi_created_at i \<le> pi_updated_at i
      \<and> is_none_or (pi_expires_at i) (\<lambda>e. pi_created_at i \<le> e)
      \<and> pi_settled_amount i \<le> pi_amount i
      \<and> pi_reserved_amount i \<le> pi_amount i
      \<and> (pi_reservation_status i = Unreserved \<longleftrightarrow> pi_reserved_amount i = 0)
      \<and> pi_wallet_id i \<noteq> None \<and> pi_policy_id i \<noteq> None
      \<and> (pi_direction i = Outbound \<longleftrightarrow> pi_price_id i = None)
      \<and> (pi_status i = Settled \<longleftrightarrow> pi_settled_at i \<noteq> None)
      \<and> is_none_or (pi_settled_at i) (\<lambda>t. pi_created_at i \<le> t)
      \<and> is_none_or (pi_next_reconcile_at i) (\<lambda>t. 0 \<le> t)
      \<and> is_none_or (ir_lease_expires_at r) (\<lambda>t. 0 \<le> t)
      \<and> (ir_lease_owner r = None \<longleftrightarrow> ir_lease_expires_at r = None)
      \<and> sql_nonblank_opt (ai_token_contract (pi_asset i))
      \<and> sql_nonblank_opt (pi_tx_hash i) \<and> sql_nonblank_opt (pi_settlement_ref i))"

definition pay_intent_fk :: "db \<Rightarrow> PaymentIntent \<Rightarrow> bool" where
  "pay_intent_fk s i \<longleftrightarrow>
     list_ex (\<lambda>sc. sc_id sc = pi_scenario_id i) (pay_scenario s)
     \<and> is_none_or (pi_wallet_id i) (\<lambda>w. list_ex (\<lambda>r. w_id (pw_wallet r) = w) (pay_wallet s))
     \<and> is_none_or (pi_policy_id i) (\<lambda>p.
          list_ex (\<lambda>r. pp_id r = p \<and> pp_scenario_id r = pi_scenario_id i) (pay_policy s)
          \<and> is_none_or (pi_wallet_id i) (\<lambda>w.
               list_ex (\<lambda>m. pm_policy_id m = p \<and> pm_wallet_id m = w) (pay_policy_wallet s)))
     \<and> is_none_or (pi_price_id i) (\<lambda>q.
          list_ex (\<lambda>r. pr_id r = q \<and> pr_scenario_id r = pi_scenario_id i
             \<and> Some (pr_policy_id r) = pi_policy_id i \<and> Some (pr_wallet_id r) = pi_wallet_id i)
            (pay_price s))"

definition same_run :: "PaymentIntent \<Rightarrow> PaymentIntent \<Rightarrow> bool" where
  "same_run i j \<longleftrightarrow> pi_scenario_id i = pi_scenario_id j \<and> pi_run_id i = pi_run_id j"

definition same_credential :: "intent_row \<Rightarrow> intent_row \<Rightarrow> bool" where
  "same_credential q r \<longleftrightarrow>
     ir_credential_hash q \<noteq> None \<and> ir_credential_hash q = ir_credential_hash r
     \<and> pi_protocol (ir_intent q) = pi_protocol (ir_intent r)
     \<and> pi_direction (ir_intent q) = pi_direction (ir_intent r)"

definition same_inbound_challenge :: "PaymentIntent \<Rightarrow> PaymentIntent \<Rightarrow> bool" where
  "same_inbound_challenge i j \<longleftrightarrow>
     pi_direction i = Inbound \<and> pi_direction j = Inbound \<and> pi_challenge_hash i \<noteq> None
     \<and> pi_challenge_hash i = pi_challenge_hash j \<and> pi_scenario_id i = pi_scenario_id j"

definition pay_intent_clash :: "intent_row \<Rightarrow> intent_row \<Rightarrow> bool" where
  "pay_intent_clash q r \<longleftrightarrow>
     pi_id (ir_intent q) = pi_id (ir_intent r)
     \<or> same_run (ir_intent q) (ir_intent r)
     \<or> same_credential q r
     \<or> same_inbound_challenge (ir_intent q) (ir_intent r)"

section \<open>Constraints of pay_event, pay_ledger and pay_outbox\<close>

definition pay_event_check :: "PaymentEvent \<Rightarrow> bool" where
  "pay_event_check e \<longleftrightarrow>
     \<not> sql_blank (ev_id e) \<and> 0 \<le> ev_created_at e
     \<and> sql_nonblank_opt (ev_signature_ref e) \<and> sql_nonblank_opt (ev_tx_hash e)"

definition pay_event_fk :: "db \<Rightarrow> PaymentEvent \<Rightarrow> bool" where
  "pay_event_fk s e \<longleftrightarrow> list_ex (\<lambda>r. pi_id (ir_intent r) = ev_intent_id e) (pay_intent s)"

definition pay_event_clash :: "PaymentEvent \<Rightarrow> PaymentEvent \<Rightarrow> bool" where
  "pay_event_clash e f \<longleftrightarrow>
     ev_id e = ev_id f
     \<or> (ev_intent_id e = ev_intent_id f \<and> ev_event_type e = ev_event_type f
        \<and> ev_attempt_no e = ev_attempt_no f)"

definition pay_ledger_check :: "PaymentLedgerEntry \<Rightarrow> bool" where
  "pay_ledger_check e \<longleftrightarrow>
     \<not> sql_blank (le_id e) \<and> \<not> sql_blank (ai_network (le_asset e)) \<and> \<not> sql_blank (ai_asset (le_asset e))
     \<and> le_amount e \<noteq> 0 \<and> \<not> sql_blank (le_posting_key e)
     \<and> 0 \<le> le_effective_at e \<and> 0 \<le> le_created_at e
     \<and> (le_intent_id e = None \<or> le_scenario_id e \<noteq> None)
     \<and> (le_entry_type e = Reversal \<longleftrightarrow> le_reversal_of e \<noteq> None)
     \<and> is_none_or (le_reversal_of e) (\<lambda>o'. o' \<noteq> le_id e)
     \<and> sql_nonblank_opt (ai_token_contract (le_asset e))
     \<and> sql_nonblank_opt (le_tx_hash e) \<and> sql_nonblank_opt (le_settlement_ref e)
     \<and> is_none_or (le_effect_ref e) (\<lambda>r. \<not> sql_blank r \<and> length (sql_trim r) \<le> 256)
     \<and> sql_nonblank_opt (le_transfer_ref e)
     \<and> (le_tx_hash e \<noteq> None \<or> le_settlement_ref e \<noteq> None)"

definition pay_ledger_fk :: "db \<Rightarrow> PaymentLedgerEntry \<Rightarrow> bool" where
  "pay_ledger_fk s e \<longleftrightarrow>
     is_none_or (le_intent_id e) (\<lambda>i.
       list_ex (\<lambda>r. pi_id (ir_intent r) = i
          \<and> is_none_or (le_scenario_id e) (\<lambda>c. pi_scenario_id (ir_intent r) = c
              \<and> pi_wallet_id (ir_intent r) = Some (le_wallet_id e))) (pay_intent s))
     \<and> is_none_or (le_scenario_id e) (\<lambda>c. list_ex (\<lambda>sc. sc_id sc = c) (pay_scenario s))
     \<and> list_ex (\<lambda>r. w_id (pw_wallet r) = le_wallet_id e) (pay_wallet s)
     \<and> is_none_or (le_reversal_of e) (\<lambda>o'. list_ex (\<lambda>l. le_id l = o') (pay_ledger s))"

definition pay_ledger_clash :: "PaymentLedgerEntry \<Rightarrow> PaymentLedgerEntry \<Rightarrow> bool" where
  "pay_ledger_clash e f \<longleftrightarrow>
     le_id e = le_id f
     \<or> same_posting_as e f
     \<or> (le_reversal_of e \<noteq> None \<and> le_reversal_of e = le_reversal_of f)"

definition pay_outbox_check :: "OutboxMessage \<Rightarrow> bool" where
  "pay_outbox_check m \<longleftrightarrow>
     \<not> sql_blank (ob_id m) \<and> \<not> sql_blank (ob_aggregate_type m) \<and> \<not> sql_blank (ob_aggregate_id m)
     \<and> \<not> sql_blank (ob_event_type m) \<and> \<not> sql_blank (ob_destination m) \<and> \<not> sql_blank (ob_run_id m)
     \<and> 0 \<le> ob_available_at m \<and> 0 \<le> ob_created_at m
     \<and> (ob_lease_owner m = None \<longleftrightarrow> ob_lease_expires_at m = None)
     \<and> is_none_or (ob_lease_expires_at m) (\<lambda>t. 0 \<le> t)
     \<and> (ob_status m = Delivered \<longleftrightarrow> ob_delivered_at m \<noteq> None)
     \<and> is_none_or (ob_delivered_at m) (\<lambda>t. ob_created_at m \<le> t)"

definition pay_outbox_clash :: "OutboxMessage \<Rightarrow> OutboxMessage \<Rightarrow> bool" where
  "pay_outbox_clash m n \<longleftrightarrow>
     ob_id m = ob_id n
     \<or> (ob_destination m = ob_destination n \<and> ob_event_type m = ob_event_type n
        \<and> ob_run_id m = ob_run_id n)"

section \<open>Constraints of pay_approval\<close>

definition sealed_token_check :: "SealedSensitiveMaterial \<Rightarrow> bool" where
  "sealed_token_check t \<longleftrightarrow>
     sm_version t > 0 \<and> \<not> sql_blank (sm_key_id t) \<and> sm_nonce t \<noteq> [] \<and> sm_ciphertext t \<noteq> []"

definition lower_hex64 :: "string \<Rightarrow> bool" where
  "lower_hex64 v \<longleftrightarrow>
     length v = 64 \<and> list_all (\<lambda>c. is_ascii_digit c \<or> (97 \<le> ascii c \<and> ascii c \<le> 102)) v"

definition pay_approval_check :: "ApprovalRequest \<Rightarrow> bool" where
  "pay_approval_check a \<longleftrightarrow>
     \<not> sql_blank (ar_id a) \<and> \<not> sql_blank (ar_run_id a) \<and> ar_requested_amount a \<noteq> 0
     \<and> \<not> sql_blank (ar_requested_by a) \<and> \<not> sql_blank (ar_intent_hash a)
     \<and> 0 \<le> ar_created_at a
     \<and> is_none_or (ar_approved_amount a) (\<lambda>m. m \<le> ar_requested_amount a)
     \<and> ar_created_at a < ar_expires_at a
     \<and> (ar_status a \<in> {ApApproved, ApConsumed} \<longrightarrow>
          is_some_and (ar_approved_amount a) (\<lambda>m. m \<noteq> 0) \<and> ar_approved_by a \<noteq> None
          \<and> ar_grant_jti a \<noteq> None \<and> ar_grant_claims_hash a \<noteq> None
          \<and> ar_sealed_grant_token a \<noteq> None \<and> ar_approved_at a \<noteq> None)
     \<and> (ar_status a = ApConsumed \<longleftrightarrow> ar_consumed_at a \<noteq> None)
     \<and> (ar_grant_jti a = None \<longleftrightarrow> ar_grant_claims_hash a = None)
     \<and> (ar_grant_jti a = None \<longleftrightarrow> ar_sealed_grant_token a = None)
     \<and> (ar_status a = ApPending \<longrightarrow>
          ar_approved_amount a = None \<and> ar_approved_by a = None \<and> ar_approved_at a = None
          \<and> ar_grant_jti a = None)
     \<and> (ar_status a = ApRejected \<longrightarrow>
          ar_approved_amount a = None \<and> ar_approved_by a \<noteq> None \<and> ar_grant_jti a = None)
     \<and> (ar_grant_jti a \<noteq> None \<longrightarrow>
          is_some_and (ar_approved_amount a) (\<lambda>m. m \<noteq> 0) \<and> ar_approved_at a \<noteq> None)
     \<and> sql_nonblank_opt (ar_approved_by a) \<and> sql_nonblank_opt (ar_grant_jti a)
     \<and> is_none_or (ar_grant_claims_hash a) lower_hex64
     \<and> (ar_grant_jti a \<noteq> None \<longrightarrow> is_none_or (ar_approved_at a) (\<lambda>t. t < ar_expires_at a))
     \<and> is_none_or (ar_sealed_grant_token a) sealed_token_check
     \<and> is_none_or (ar_approved_at a) (\<lambda>t. ar_created_at a \<le> t)
     \<and> is_none_or (ar_consumed_at a) (\<lambda>c. is_none_or (ar_approved_at a) (\<lambda>t. t \<le> c))"

definition pay_approval_fk :: "db \<Rightarrow> ApprovalRequest \<Rightarrow> bool" where
  "pay_approval_fk s a \<longleftrightarrow>
     list_ex (\<lambda>r. pi_id (ir_intent r) = ar_intent_id a \<and> pi_run_id (ir_intent r) = ar_run_id a
        \<and> pi_request_hash (ir_intent r) = ar_intent_hash a) (pay_intent s)"

definition approval_active :: "ApprovalRequest \<Rightarrow> bool" where
  "approval_active a \<longleftrightarrow> ar_status a \<in> {ApPending, ApApproved}"

definition pay_approval_clash :: "ApprovalRequest \<Rightarrow> ApprovalRequest \<Rightarrow> bool" where
  "pay_approval_clash a b \<longleftrightarrow>
     ar_id a = ar_id b
     \<or> (approval_active a \<and> approval_active b \<and> ar_intent_id a = ar_intent_id b)
     \<or> (ar_grant_jti a \<noteq> None \<and> ar_grant_jti a = ar_grant_jti b)
     \<or> (ar_grant_claims_hash a \<noteq> None \<and> ar_grant_claims_hash a = ar_grant_claims_hash b)"

section \<open>Lemmas\<close>

lemma each_step_append:
  "each_step f (xs @ ys) s = and_then (each_step f xs s) (each_step f ys)"
  by (induction xs arbitrary: s) (auto simp: and_then_def split: sum.splits)

lemma each_step_invariant:
  assumes "each_step f xs s = Inr t" "P s"
    and "\<And>x u v. x \<in> set xs \<Longrightarrow> P u \<Longrightarrow> f x u = Inr v \<Longrightarrow> P v"
  shows "P t"
  using assms
proof (induction xs arbitrary: s)
  case (Cons x xs)
  then obtain u where "f x s = Inr u" "each_step f xs u = Inr t"
    by (auto simp: result_simps)
  with Cons show ?case by (metis list.set_intros)
qed simp

lemma each_step_frame:
  assumes "each_step f xs s = Inr t" "\<And>x u v. f x u = Inr v \<Longrightarrow> g v = g u"
  shows "g t = g s"
  using assms each_step_invariant [of f xs s t "\<lambda>u. g u = g s"] by metis

lemma transaction_ok: "transaction f s = (Inr v, t) \<longleftrightarrow> f s = Inr (v, t)"
  by (auto simp: transaction_def split: sum.splits)

lemma transaction_err: "transaction f s = (Inl e, t) \<Longrightarrow> t = s"
  by (auto simp: transaction_def split: sum.splits)

lemma in_update_where:
  "x \<in> set (update_where P f rows) \<longleftrightarrow> (\<exists>r \<in> set rows. x = (if P r then f r else r))"
  by (auto simp: update_where_def)

lemma update_where_keep: "r \<in> set rows \<Longrightarrow> \<not> P r \<Longrightarrow> r \<in> set (update_where P f rows)"
  by (force simp: in_update_where)

lemma rows_affected_one:
  "rows_affected P rows = Suc 0 \<Longrightarrow> \<exists>r \<in> set rows. P r \<and> (\<forall>q \<in> set rows. P q \<longrightarrow> q = r)"
proof -
  assume "rows_affected P rows = Suc 0"
  then obtain r where r: "filter P rows = [r]" by (auto simp: rows_affected_def length_Suc_conv)
  then have "set (filter P rows) = {r}" by simp
  then show ?thesis by auto
qed

lemma find_update_where:
  assumes "\<And>r. key (f r) = key r"
  shows "find (\<lambda>r. key r = k) (update_where P f rows)
    = map_option (\<lambda>r. if P r then f r else r) (find (\<lambda>r. key r = k) rows)"
  unfolding update_where_def by (rule find_map_same) (simp add: assms)

lemma filter_update_where:
  "\<lbrakk>\<And>r. Q (if P r then f r else r) = Q r\<rbrakk> \<Longrightarrow>
     filter Q (update_where P f rows) = map (\<lambda>r. if P r then f r else r) (filter Q rows)"
  by (induction rows) (auto simp: update_where_def)

section \<open>Tables whose rows only evolve\<close>

text \<open>
  Rows that are never removed or reordered: each keeps its place and evolves there, and new rows come
  after them. A table with such a history keeps what it was looked up for.
\<close>

definition grows :: "('r \<Rightarrow> 'r \<Rightarrow> bool) \<Rightarrow> 'r list \<Rightarrow> 'r list \<Rightarrow> bool" where
  "grows evolve old new \<longleftrightarrow> (\<exists>rows extra. new = rows @ extra \<and> list_all2 evolve old rows)"

locale table_history =
  fixes evolve :: "'r \<Rightarrow> 'r \<Rightarrow> bool" and key :: "'r \<Rightarrow> 'k"
  assumes evolve_refl: "evolve r r"
    and evolve_trans: "evolve p q \<Longrightarrow> evolve q r \<Longrightarrow> evolve p r"
    and evolve_key: "evolve q r \<Longrightarrow> key r = key q"
begin

lemma grows_append: "grows evolve xs (xs @ ys)"
  unfolding grows_def by (rule exI [of _ xs]) (simp add: list.rel_refl evolve_refl)

lemma grows_refl: "grows evolve xs xs"
  using grows_append [of xs "[]"] by simp

lemma grows_update:
  assumes "\<And>r. r \<in> set rows \<Longrightarrow> P r \<Longrightarrow> evolve r (f r)"
  shows "grows evolve rows (update_where P f rows)"
  unfolding grows_def
  by (rule exI [of _ "update_where P f rows"])
    (simp add: assms evolve_refl update_where_def list_all2_conv_all_nth)

lemma grows_trans:
  assumes "grows evolve xs ys" "grows evolve ys zs"
  shows "grows evolve xs zs"
proof -
  from assms obtain a b c d where ys: "ys = a @ b" "list_all2 evolve xs a"
    and zs: "zs = c @ d" "list_all2 evolve ys c"
    by (auto simp: grows_def)
  from zs(2) obtain c1 c2 where c: "c = c1 @ c2" "list_all2 evolve a c1"
    unfolding ys(1) by (auto simp: list_all2_append1)
  have "list_all2 evolve xs c1"
    using evolve_trans ys(2) c(2) by (rule list_all2_trans)
  with zs(1) c(1) show ?thesis unfolding grows_def by auto
qed

lemma grows_in: "grows evolve xs ys \<Longrightarrow> q \<in> set xs \<Longrightarrow> \<exists>r \<in> set ys. evolve q r"
  by (fastforce simp: grows_def list_all2_conv_all_nth in_set_conv_nth nth_append)

lemma grows_find:
  assumes "grows evolve xs ys" "find (\<lambda>r. key r = k) xs = Some q"
  obtains r where "find (\<lambda>r. key r = k) ys = Some r" "evolve q r"
proof -
  from assms(1) obtain rows extra where ys: "ys = rows @ extra" and all2: "list_all2 evolve xs rows"
    by (auto simp: grows_def)
  from all2 assms(2) have "\<exists>r. find (\<lambda>r. key r = k) rows = Some r \<and> evolve q r"
    by (induction rule: list_all2_induct) (auto dest: evolve_key split: if_splits)
  then show thesis using that by (auto simp: ys find_append)
qed

end

end
