(* ===== verification/Journal_Store.thy ===== *)
theory Journal_Store
  imports Schema
begin

text \<open>
  The append-only stores: events (\<^verbatim>\<open>storage/event/sqlite.rs\<close>), ledger entries
  (\<^verbatim>\<open>storage/ledger/sqlite.rs\<close>) and the insertion side of the outbox
  (\<^verbatim>\<open>storage/outbox/sqlite.rs\<close>). What they promise is one interface, the locale \<open>journal\<close>:
  an insertion either finds the same fact or appends one that clashes with nothing. Its lemmas, on
  batches of insertions, are proved once and hold of the three stores by interpretation.
\<close>

section \<open>Definitions\<close>

definition state_of :: "('a \<times> db) result \<Rightarrow> db result" where
  "state_of r = and_then r (\<lambda>(v, t). Inr t)"

definition insert_event :: "PaymentEvent \<Rightarrow> PaymentEvent IdempotentWrite step" where
  "insert_event e s =
     and_then (map_err (\<lambda>field. InvalidRequest (''invalid payment event '' @ field))
       (PaymentEvent_validate e)) (\<lambda>_.
     case filter (\<lambda>x. pay_event_clash x e) (pay_event s) of
       [] \<Rightarrow>
         if pay_event_check e \<and> pay_event_fk s e
         then Inr (Inserted e, s\<lparr>pay_event := pay_event s @ [e]\<rparr>)
         else Inl (conflict ''payment event append rejected'')
     | [x] \<Rightarrow>
         if x = e then Inr (ReplayOf x, s)
         else Inl (conflict ''payment event idempotency identity has different content'')
     | _ \<Rightarrow> Inl (conflict ''payment event identifiers collide with multiple rows''))"

definition find_for_intent_type ::
  "db \<Rightarrow> string \<Rightarrow> PaymentEventType \<Rightarrow> u32 \<Rightarrow> PaymentEvent option" where
  "find_for_intent_type s intent_id event_type attempt_no =
     find (\<lambda>e. ev_intent_id e = intent_id \<and> ev_event_type e = event_type \<and> ev_attempt_no e = attempt_no)
       (pay_event s)"

definition insert_outbox :: "OutboxMessage \<Rightarrow> db \<Rightarrow> db result" where
  "insert_outbox m s =
     and_then (validate_message m) (\<lambda>_.
     let existing = filter (\<lambda>x. pay_outbox_clash x m) (pay_outbox s) in
     if existing \<noteq> [] then
       if length existing \<noteq> 1 \<or> \<not> same_logical_message (hd existing) m
       then Inl (conflict ''outbox run identity has different content'')
       else Inr s
     else if pay_outbox_check m
     then Inr (s\<lparr>pay_outbox := pay_outbox s @ [m]\<rparr>)
     else Inl (conflict ''outbox insert rejected''))"

definition find_posting :: "db \<Rightarrow> string \<Rightarrow> string \<Rightarrow> PaymentLedgerEntry option" where
  "find_posting s wallet_id posting_key =
     find (\<lambda>l. le_wallet_id l = wallet_id \<and> le_posting_key l = posting_key) (pay_ledger s)"

definition get_ledger :: "db \<Rightarrow> string \<Rightarrow> PaymentLedgerEntry option" where
  "get_ledger s ledger_id = find (\<lambda>l. le_id l = ledger_id) (pay_ledger s)"

definition insert_ledger :: "PaymentLedgerEntry \<Rightarrow> PaymentLedgerEntry IdempotentWrite step" where
  "insert_ledger e s =
     and_then (map_err (\<lambda>field. InvalidRequest (''invalid ledger entry '' @ field))
       (PaymentLedgerEntry_validate e)) (\<lambda>_.
     case find_posting s (le_wallet_id e) (le_posting_key e) of
       Some existing \<Rightarrow>
         if same_fact_content_as existing e then Inr (ReplayOf existing, s)
         else Inl (conflict ''ledger posting key is already bound to different financial content'')
     | None \<Rightarrow>
         and_then (case le_reversal_of e of
             None \<Rightarrow> Inr ()
           | Some original_id \<Rightarrow>
               and_then (ok_or (get_ledger s original_id)
                 (conflict ''ledger reversal original does not exist'')) (\<lambda>original.
               map_err (\<lambda>_. conflict ''ledger reversal does not exactly negate its original'')
                 (validate_reversal_of e original))) (\<lambda>_.
         if pay_ledger_check e \<and> pay_ledger_fk s e
            \<and> \<not> list_ex (\<lambda>x. pay_ledger_clash x e) (pay_ledger s)
         then Inr (Inserted e, s\<lparr>pay_ledger := pay_ledger s @ [e]\<rparr>)
         else Inl (conflict ''ledger append rejected'')))"

definition ledger_append :: "PaymentLedgerEntry \<Rightarrow> db \<Rightarrow> PaymentLedgerEntry IdempotentWrite result \<times> db" where
  "ledger_append e = transaction (insert_ledger e)"

definition insert_ledgers :: "PaymentLedgerEntry list \<Rightarrow> PaymentLedgerEntry IdempotentWrite list step" where
  "insert_ledgers = collect_steps insert_ledger"

definition append_batch ::
  "PaymentLedgerEntry list \<Rightarrow> OutboxMessage list \<Rightarrow> db \<Rightarrow>
     PaymentLedgerEntry IdempotentWrite list result \<times> db" where
  "append_batch entries outbox = transaction (\<lambda>s.
     and_then (insert_ledgers entries s) (\<lambda>(results, t).
     and_then (each_step insert_outbox outbox t) (\<lambda>u. Inr (results, u))))"

definition lock_financial_scopes :: "string list \<Rightarrow> string list \<Rightarrow> db \<Rightarrow> unit result" where
  "lock_financial_scopes scenario_ids wallet_ids s =
     and_then (try_each (\<lambda>i. if list_ex (\<lambda>sc. sc_id sc = i) (pay_scenario s) then Inr ()
         else Inl (conflict ''ledger references an unavailable scope'')) scenario_ids) (\<lambda>_.
     try_each (\<lambda>i. if list_ex (\<lambda>w. w_id (pw_wallet w) = i) (pay_wallet s) then Inr ()
         else Inl (conflict ''ledger references an unavailable scope'')) wallet_ids)"

definition append_side_effects :: "PaymentEvent list \<Rightarrow> OutboxMessage list \<Rightarrow> db \<Rightarrow> db result" where
  "append_side_effects events outbox s =
     and_then (each_step (\<lambda>e t. state_of (insert_event e t)) events s) (each_step insert_outbox outbox)"

definition unique_rows :: "('r \<Rightarrow> 'r \<Rightarrow> bool) \<Rightarrow> 'r list \<Rightarrow> bool" where
  "unique_rows clash rows = sorted_wrt (\<lambda>x y. \<not> clash x y) rows"

text \<open>
  The ledger's invariant: no two entries share an identifier, a posting or a reversed original, every
  entry is valid, and every reversal negates an entry that is in the ledger.
\<close>

definition ledger_inv :: "PaymentLedgerEntry list \<Rightarrow> bool" where
  "ledger_inv ls \<longleftrightarrow>
     unique_rows pay_ledger_clash ls
     \<and> (\<forall>e \<in> set ls. PaymentLedgerEntry_validate e = Inr ())
     \<and> (\<forall>e \<in> set ls. \<forall>i. le_reversal_of e = Some i \<longrightarrow>
          (\<exists>x \<in> set ls. le_id x = i \<and> validate_reversal_of e x = Inr ()))"

section \<open>The interface of an append-only store\<close>

locale journal =
  fixes rows :: "db \<Rightarrow> 'r list"
    and clash :: "'r \<Rightarrow> 'r \<Rightarrow> bool"
    and same :: "'r \<Rightarrow> 'r \<Rightarrow> bool"
    and ins :: "'r \<Rightarrow> db \<Rightarrow> db result"
  assumes same_refl: "same r r"
    and ins_effect: "ins r s = Inr t \<Longrightarrow>
      (t = s \<and> (\<exists>x \<in> set (rows s). same x r))
      \<or> (rows t = rows s @ [r] \<and> (\<forall>x \<in> set (rows s). \<not> clash x r))"
    and ins_replay: "ins r s = Inr t \<Longrightarrow> unique_rows clash (rows u) \<Longrightarrow> x \<in> set (rows u) \<Longrightarrow>
      same x r \<Longrightarrow> ins r u = Inr u"
begin

lemma ins_stores: "ins r s = Inr t \<Longrightarrow> \<exists>x \<in> set (rows t). same x r"
  using ins_effect same_refl by fastforce

lemma ins_unique:
  "ins r s = Inr t \<Longrightarrow> unique_rows clash (rows s) \<Longrightarrow> unique_rows clash (rows t)"
  by (drule ins_effect) (auto simp: unique_rows_def sorted_wrt_append)

lemma ins_appends: "ins r s = Inr t \<Longrightarrow> \<exists>ys. rows t = rows s @ ys \<and> set ys \<subseteq> {r}"
  by (drule ins_effect) auto

lemma batch_appends:
  "each_step ins rs s = Inr t \<Longrightarrow> \<exists>ys. rows t = rows s @ ys \<and> set ys \<subseteq> set rs"
proof (induction rs arbitrary: s)
  case (Cons r rs)
  then obtain u where u: "ins r s = Inr u" "each_step ins rs u = Inr t"
    by (auto simp: result_simps)
  with Cons.IH [OF u(2)] ins_appends [OF u(1)] show ?case by fastforce
qed simp

lemma batch_unique:
  "each_step ins rs s = Inr t \<Longrightarrow> unique_rows clash (rows s) \<Longrightarrow> unique_rows clash (rows t)"
  using each_step_invariant [of ins rs s t "\<lambda>u. unique_rows clash (rows u)"] ins_unique by blast

lemma batch_keeps: "each_step ins rs s = Inr t \<Longrightarrow> set (rows s) \<subseteq> set (rows t)"
  using batch_appends by fastforce

lemma batch_stores:
  "each_step ins rs s = Inr t \<Longrightarrow> r \<in> set rs \<Longrightarrow> \<exists>x \<in> set (rows t). same x r"
proof (induction rs arbitrary: s)
  case (Cons a rs)
  then obtain u where u: "ins a s = Inr u" "each_step ins rs u = Inr t"
    by (auto simp: result_simps)
  show ?case
  proof (cases "r = a")
    case True
    with ins_stores [OF u(1)] batch_keeps [OF u(2)] show ?thesis by blast
  next
    case False
    with Cons u show ?thesis by simp
  qed
qed simp

lemma batch_replay:
  assumes "unique_rows clash (rows t)"
    and "\<And>r. r \<in> set rs \<Longrightarrow> (\<exists>x \<in> set (rows t). same x r) \<and> (\<exists>u v. ins r u = Inr v)"
  shows "each_step ins rs t = Inr t"
  using assms(2)
proof (induction rs)
  case (Cons r rs)
  then obtain x u v where "x \<in> set (rows t)" "same x r" "ins r u = Inr v" by fastforce
  with ins_replay assms(1) Cons show ?case by (metis and_then_Inr each_step.simps(2) list.set_intros(2))
qed simp

lemma batch_accepted:
  "each_step ins rs s = Inr t \<Longrightarrow> r \<in> set rs \<Longrightarrow> \<exists>u v. ins r u = Inr v"
proof (induction rs arbitrary: s)
  case (Cons a rs)
  then show ?case by (auto simp: result_simps)
qed simp

lemma batch_idempotent:
  assumes "each_step ins rs s = Inr t" "unique_rows clash (rows s)"
  shows "each_step ins rs t = Inr t"
  using batch_replay batch_unique [OF assms] batch_stores [OF assms(1)] batch_accepted [OF assms(1)]
  by blast

end

section \<open>Facts about the three stores\<close>

lemma unique_rows_eq:
  assumes "unique_rows clash rows" "x \<in> set rows" "y \<in> set rows" "clash x y" "clash y x"
  shows "x = y"
  using assms by (induction rows) (auto simp: unique_rows_def)

lemma unique_rows_snoc:
  "unique_rows clash (xs @ [x]) \<longleftrightarrow> unique_rows clash xs \<and> (\<forall>y \<in> set xs. \<not> clash y x)"
  by (simp add: unique_rows_def sorted_wrt_append)

lemma filter_clash_unique:
  assumes "unique_rows clash xs" "x \<in> set xs" "\<And>a b. clash a b = clash b a" "clash x x"
  shows "filter (\<lambda>y. clash y x) xs = [x]"
proof -
  from assms(2) obtain as bs where xs: "xs = as @ x # bs" by (meson split_list)
  have "\<And>y. y \<in> set as \<Longrightarrow> \<not> clash y x" "\<And>y. y \<in> set bs \<Longrightarrow> \<not> clash y x"
    using assms(1,3) by (auto simp: xs unique_rows_def sorted_wrt_append)
  then show ?thesis by (simp add: xs assms(4) filter_empty_conv)
qed

lemma clash_sym:
  "pay_event_clash a b = pay_event_clash b a" "pay_outbox_clash c d = pay_outbox_clash d c"
  "pay_ledger_clash e f = pay_ledger_clash f e" "pay_intent_clash g h = pay_intent_clash h g"
  "pay_approval_clash i j = pay_approval_clash j i"
  unfolding pay_event_clash_def pay_outbox_clash_def pay_ledger_clash_def same_posting_as_def
    pay_intent_clash_def same_run_def same_credential_def same_inbound_challenge_def
    pay_approval_clash_def
  by metis+

lemma state_of_ok [result_simps]: "state_of r = Inr t \<longleftrightarrow> (\<exists>v. r = Inr (v, t))"
  by (auto simp: state_of_def result_simps)

lemma collect_steps_state:
  "state_of (collect_steps f xs s) = each_step (\<lambda>x t. state_of (f x t)) xs s"
proof (induction xs arbitrary: s)
  case (Cons x xs)
  have "state_of (collect_steps f (x # xs) s)
      = and_then (state_of (f x s)) (\<lambda>u. state_of (collect_steps f xs u))"
    by (cases "f x s") (auto simp: state_of_def and_then_def split: sum.splits prod.splits)
  then show ?case by (simp add: Cons)
qed (simp add: state_of_def)

lemma insert_event_ok:
  "insert_event e s = Inr (w, t) \<longleftrightarrow>
     PaymentEvent_validate e = Inr ()
     \<and> ((filter (\<lambda>x. pay_event_clash x e) (pay_event s) = [e] \<and> w = ReplayOf e \<and> t = s)
        \<or> (filter (\<lambda>x. pay_event_clash x e) (pay_event s) = [] \<and> pay_event_check e \<and> pay_event_fk s e
           \<and> w = Inserted e \<and> t = s\<lparr>pay_event := pay_event s @ [e]\<rparr>))"
  by (auto simp: insert_event_def result_simps split: list.splits)

lemma insert_outbox_ok:
  "insert_outbox m s = Inr t \<longleftrightarrow>
     validate_message m = Inr ()
     \<and> ((\<exists>x. filter (\<lambda>x. pay_outbox_clash x m) (pay_outbox s) = [x] \<and> same_logical_message x m \<and> t = s)
        \<or> (filter (\<lambda>x. pay_outbox_clash x m) (pay_outbox s) = [] \<and> pay_outbox_check m
           \<and> t = s\<lparr>pay_outbox := pay_outbox s @ [m]\<rparr>))"
  by (auto simp: insert_outbox_def Let_def result_simps length_Suc_conv split: if_splits)

lemma insert_ledger_ok:
  "insert_ledger e s = Inr (w, t) \<longleftrightarrow>
     PaymentLedgerEntry_validate e = Inr ()
     \<and> ((\<exists>x. find_posting s (le_wallet_id e) (le_posting_key e) = Some x \<and> same_fact_content_as x e
            \<and> w = ReplayOf x \<and> t = s)
        \<or> (find_posting s (le_wallet_id e) (le_posting_key e) = None
           \<and> (\<forall>i. le_reversal_of e = Some i \<longrightarrow>
                (\<exists>x. get_ledger s i = Some x \<and> validate_reversal_of e x = Inr ()))
           \<and> pay_ledger_check e \<and> pay_ledger_fk s e
           \<and> (\<forall>x \<in> set (pay_ledger s). \<not> pay_ledger_clash x e)
           \<and> w = Inserted e \<and> t = s\<lparr>pay_ledger := pay_ledger s @ [e]\<rparr>))"
  by (auto simp: insert_ledger_def result_simps list_ex_iff split: option.splits if_splits)

lemma filter_singleton_in: "filter P xs = [x] \<Longrightarrow> x \<in> set xs \<and> P x"
proof -
  assume "filter P xs = [x]"
  then have "x \<in> set (filter P xs)" by simp
  then show ?thesis by simp
qed

interpretation event_log: journal pay_event pay_event_clash "(=)" "\<lambda>e s. state_of (insert_event e s)"
proof
  show "(t = s \<and> (\<exists>x \<in> set (pay_event s). x = r))
      \<or> (pay_event t = pay_event s @ [r] \<and> (\<forall>x \<in> set (pay_event s). \<not> pay_event_clash x r))"
    if "state_of (insert_event r s) = Inr t" for r s t
    using that by (auto simp: state_of_ok insert_event_ok filter_empty_conv dest: filter_singleton_in)
  show "state_of (insert_event r u) = Inr u"
    if "state_of (insert_event r s) = Inr t" "unique_rows pay_event_clash (pay_event u)"
      "x \<in> set (pay_event u)" "x = r" for r s t u x
    using that filter_clash_unique [OF that(2,3) clash_sym(1)]
    by (auto simp: state_of_ok insert_event_ok pay_event_clash_def)
qed simp

interpretation outbox_log: journal pay_outbox pay_outbox_clash same_logical_message insert_outbox
proof
  show "same_logical_message r r" for r
    by (simp add: same_logical_message_def)
  show "(t = s \<and> (\<exists>x \<in> set (pay_outbox s). same_logical_message x r))
      \<or> (pay_outbox t = pay_outbox s @ [r] \<and> (\<forall>x \<in> set (pay_outbox s). \<not> pay_outbox_clash x r))"
    if "insert_outbox r s = Inr t" for r s t
    using that by (auto simp: insert_outbox_ok filter_empty_conv dest: filter_singleton_in)
  show "insert_outbox r u = Inr u"
    if "insert_outbox r s = Inr t" "unique_rows pay_outbox_clash (pay_outbox u)"
      "x \<in> set (pay_outbox u)" "same_logical_message x r" for r s t u x
  proof -
    have "(\<lambda>y. pay_outbox_clash y r) = (\<lambda>y. pay_outbox_clash y x)"
      using that(4) by (auto simp: pay_outbox_clash_def same_logical_message_def)
    then show ?thesis
      using that filter_clash_unique [OF that(2,3) clash_sym(2)]
      by (auto simp: insert_outbox_ok pay_outbox_clash_def)
  qed
qed

lemma find_posting_unique:
  assumes "unique_rows pay_ledger_clash (pay_ledger s)" "x \<in> set (pay_ledger s)" "same_posting_as x e"
  shows "find_posting s (le_wallet_id e) (le_posting_key e) = Some x"
proof -
  obtain y where y: "find_posting s (le_wallet_id e) (le_posting_key e) = Some y"
    using assms(2,3) by (cases "find_posting s (le_wallet_id e) (le_posting_key e)")
      (auto simp: find_posting_def same_posting_as_def dest: find_None_notin)
  then have "y \<in> set (pay_ledger s)" "same_posting_as y e"
    by (auto simp: find_posting_def same_posting_as_def dest: find_Some_in)
  with assms have "pay_ledger_clash y x" by (simp add: pay_ledger_clash_def same_posting_as_def)
  with \<open>y \<in> set (pay_ledger s)\<close> have "y \<in> set (filter (\<lambda>z. pay_ledger_clash z x) (pay_ledger s))"
    by simp
  also have "filter (\<lambda>z. pay_ledger_clash z x) (pay_ledger s) = [x]"
    using filter_clash_unique [OF assms(1,2) clash_sym(3)] by (simp add: pay_ledger_clash_def)
  finally show ?thesis using y by simp
qed

interpretation ledger_log: journal pay_ledger pay_ledger_clash same_fact_content_as
  "\<lambda>e s. state_of (insert_ledger e s)"
proof
  show "(t = s \<and> (\<exists>x \<in> set (pay_ledger s). same_fact_content_as x r))
      \<or> (pay_ledger t = pay_ledger s @ [r] \<and> (\<forall>x \<in> set (pay_ledger s). \<not> pay_ledger_clash x r))"
    if "state_of (insert_ledger r s) = Inr t" for r s t
    using that by (auto simp: state_of_ok insert_ledger_ok find_posting_def dest: find_Some_in)
  show "state_of (insert_ledger r u) = Inr u"
    if "state_of (insert_ledger r s) = Inr t" "unique_rows pay_ledger_clash (pay_ledger u)"
      "x \<in> set (pay_ledger u)" "same_fact_content_as x r" for r s t u x
    using that find_posting_unique [OF that(2,3)] same_fact_content_posting [OF that(4)]
    by (auto simp: state_of_ok insert_ledger_ok)
qed simp

section \<open>What each store leaves alone\<close>

lemma insert_event_frame: "insert_event e s = Inr (w, t) \<Longrightarrow> \<exists>x. t = s\<lparr>pay_event := x\<rparr>"
  by (auto simp: insert_event_ok intro: exI [of _ "pay_event s"])

lemma insert_outbox_frame: "insert_outbox m s = Inr t \<Longrightarrow> \<exists>x. t = s\<lparr>pay_outbox := x\<rparr>"
  by (auto simp: insert_outbox_ok intro: exI [of _ "pay_outbox s"])

lemma insert_ledger_frame: "insert_ledger e s = Inr (w, t) \<Longrightarrow> \<exists>x. t = s\<lparr>pay_ledger := x\<rparr>"
  by (auto simp: insert_ledger_ok intro: exI [of _ "pay_ledger s"])

lemma events_frame:
  assumes "each_step (\<lambda>e t. state_of (insert_event e t)) es s = Inr t"
  shows "\<exists>x. t = s\<lparr>pay_event := x\<rparr>"
  using assms
proof (rule each_step_invariant)
  show "\<exists>x. s = s\<lparr>pay_event := x\<rparr>" by (rule exI [of _ "pay_event s"]) simp
  show "\<exists>x. v = s\<lparr>pay_event := x\<rparr>" if "\<exists>x. u = s\<lparr>pay_event := x\<rparr>" "state_of (insert_event e u) = Inr v"
    for e u v
    using that(1) insert_event_frame that(2) [unfolded state_of_ok] by force
qed

lemma outbox_frame:
  assumes "each_step insert_outbox ms s = Inr t"
  shows "\<exists>x. t = s\<lparr>pay_outbox := x\<rparr>"
  using assms
proof (rule each_step_invariant)
  show "\<exists>x. s = s\<lparr>pay_outbox := x\<rparr>" by (rule exI [of _ "pay_outbox s"]) simp
  show "\<exists>x. v = s\<lparr>pay_outbox := x\<rparr>" if "\<exists>x. u = s\<lparr>pay_outbox := x\<rparr>" "insert_outbox m u = Inr v"
    for m u v
    using that insert_outbox_frame by force
qed

lemma ledger_frame:
  assumes "each_step (\<lambda>e t. state_of (insert_ledger e t)) es s = Inr t"
  shows "\<exists>x. t = s\<lparr>pay_ledger := x\<rparr>"
  using assms
proof (rule each_step_invariant)
  show "\<exists>x. s = s\<lparr>pay_ledger := x\<rparr>" by (rule exI [of _ "pay_ledger s"]) simp
  show "\<exists>x. v = s\<lparr>pay_ledger := x\<rparr>" if "\<exists>x. u = s\<lparr>pay_ledger := x\<rparr>" "state_of (insert_ledger e u) = Inr v"
    for e u v
    using that(1) insert_ledger_frame that(2) [unfolded state_of_ok] by force
qed

lemma append_side_effects_frame:
  assumes "append_side_effects events outbox s = Inr t"
  shows "\<exists>e q. t = s\<lparr>pay_event := e, pay_outbox := q\<rparr>"
proof -
  obtain u where u: "each_step (\<lambda>e t. state_of (insert_event e t)) events s = Inr u"
    "each_step insert_outbox outbox u = Inr t"
    using assms by (auto simp: append_side_effects_def result_simps)
  then show ?thesis
    using events_frame [OF u(1)] outbox_frame [OF u(2)] by auto
qed

lemma insert_ledgers_steps:
  "state_of (insert_ledgers es s) = each_step (\<lambda>e t. state_of (insert_ledger e t)) es s"
  by (simp add: insert_ledgers_def collect_steps_state)

section \<open>The ledger keeps its invariant\<close>

lemma insert_ledger_cases:
  assumes "insert_ledger e s = Inr (w, t)"
  obtains (replay) "t = s"
  | (append) "pay_ledger t = pay_ledger s @ [e]" "PaymentLedgerEntry_validate e = Inr ()"
    "\<forall>x \<in> set (pay_ledger s). \<not> pay_ledger_clash x e"
    "\<forall>i. le_reversal_of e = Some i \<longrightarrow>
       (\<exists>x. get_ledger s i = Some x \<and> validate_reversal_of e x = Inr ())"
  using assms [unfolded insert_ledger_ok]
proof (elim conjE disjE exE)
  assume t: "t = s\<lparr>pay_ledger := pay_ledger s @ [e]\<rparr>"
    and facts: "PaymentLedgerEntry_validate e = Inr ()"
      "\<forall>x \<in> set (pay_ledger s). \<not> pay_ledger_clash x e"
      "\<forall>i. le_reversal_of e = Some i \<longrightarrow>
         (\<exists>x. get_ledger s i = Some x \<and> validate_reversal_of e x = Inr ())"
  have "pay_ledger t = pay_ledger s @ [e]" unfolding t by simp
  from append [OF this facts] show thesis .
qed (rule replay)

lemma insert_ledger_inv:
  assumes "insert_ledger e s = Inr (w, t)" "ledger_inv (pay_ledger s)"
  shows "ledger_inv (pay_ledger t)"
  using assms(1)
proof (cases rule: insert_ledger_cases)
  case append
  have new: "\<exists>x \<in> set (pay_ledger s). le_id x = i \<and> validate_reversal_of e x = Inr ()"
    if "le_reversal_of e = Some i" for i
    using append(4) that by (auto simp: get_ledger_def dest: find_Some_in)
  have old: "\<exists>x \<in> set (pay_ledger s). le_id x = i \<and> validate_reversal_of f x = Inr ()"
    if "f \<in> set (pay_ledger s)" "le_reversal_of f = Some i" for f i
    using assms(2) that unfolding ledger_inv_def by blast
  show ?thesis
    unfolding ledger_inv_def append(1)
  proof (intro conjI ballI allI impI)
    show "unique_rows pay_ledger_clash (pay_ledger s @ [e])"
      using assms(2) append(3) by (simp add: unique_rows_snoc ledger_inv_def)
    show "PaymentLedgerEntry_validate f = Inr ()" if "f \<in> set (pay_ledger s @ [e])" for f
      using assms(2) append(2) that by (auto simp: ledger_inv_def)
    show "\<exists>x \<in> set (pay_ledger s @ [e]). le_id x = i \<and> validate_reversal_of f x = Inr ()"
      if "f \<in> set (pay_ledger s @ [e])" "le_reversal_of f = Some i" for f i
      using that new old [of f i] by auto
  qed
qed (use assms in simp)

lemma insert_ledger_batch_inv:
  "each_step (\<lambda>e t. state_of (insert_ledger e t)) es s = Inr t \<Longrightarrow> ledger_inv (pay_ledger s) \<Longrightarrow>
     ledger_inv (pay_ledger t)"
  using each_step_invariant [of "\<lambda>e t. state_of (insert_ledger e t)" es s t
      "\<lambda>u. ledger_inv (pay_ledger u)"] insert_ledger_inv
  by (auto simp: state_of_ok)

lemma ledger_inv_reversal_once:
  assumes "ledger_inv ls" "a \<in> set ls" "b \<in> set ls" "le_reversal_of a = Some i" "le_reversal_of b = Some i"
  shows "a = b"
proof -
  have "filter (\<lambda>y. pay_ledger_clash y a) ls = [a]"
  proof (rule filter_clash_unique)
    show "unique_rows pay_ledger_clash ls" using assms(1) by (simp add: ledger_inv_def)
    show "pay_ledger_clash x y = pay_ledger_clash y x" for x y by (rule clash_sym)
  qed (use assms(2) in \<open>simp_all add: pay_ledger_clash_def\<close>)
  moreover have "b \<in> set (filter (\<lambda>y. pay_ledger_clash y a) ls)"
    using assms by (simp add: pay_ledger_clash_def)
  ultimately show ?thesis by simp
qed

end
