(* ===== verification/Lease_Store.thy ===== *)
theory Lease_Store
  imports Journal_Store
begin

text \<open>
  Leased work queues: the delivery side of the outbox (\<^verbatim>\<open>storage/outbox/sqlite.rs\<close>) and payment
  reconciliation (\<^verbatim>\<open>storage/payment/reconciliation.rs\<close>). Both claim a bounded, ordered batch of
  due rows with a conditional update that takes the lease and counts the attempt; the locale
  \<open>lease_store\<close> states what a claim promises and proves that leases exclude each other.
\<close>

section \<open>Outbox delivery\<close>

definition outbox_due :: "OutboxLeaseRequest \<Rightarrow> OutboxMessage \<Rightarrow> bool" where
  "outbox_due q m \<longleftrightarrow>
     ob_status m = ObPending \<and> ob_available_at m \<le> lr_now q
     \<and> is_none_or (ob_lease_expires_at m) (\<lambda>x. x \<le> lr_now q)"

definition outbox_due_ids :: "OutboxLeaseRequest \<Rightarrow> db \<Rightarrow> string list" where
  "outbox_due_ids q s =
     take (unat (lr_limit q)) (map ob_id
       (sort_key (\<lambda>m. (ob_available_at m, ob_created_at m, ob_id m))
         (filter (\<lambda>m. outbox_due q m
            \<and> claim_class_predicate (OutboxDeliveryClass_as_str (lr_class q)) m) (pay_outbox s))))"

definition outbox_take :: "OutboxLeaseRequest \<Rightarrow> OutboxMessage \<Rightarrow> OutboxMessage" where
  "outbox_take q m = m\<lparr>ob_lease_owner := Some (lr_owner q),
     ob_lease_expires_at := Some (lr_lease_until q), ob_attempt_count := ob_attempt_count m + 1\<rparr>"

definition outbox_claim_one :: "OutboxLeaseRequest \<Rightarrow> string \<Rightarrow> OutboxMessage step" where
  "outbox_claim_one q i s =
     (let hit = (\<lambda>m. ob_id m = i \<and> outbox_due q m \<and> ob_attempt_count m < 4294967295);
          t = s\<lparr>pay_outbox := update_where hit (outbox_take q) (pay_outbox s)\<rparr> in
      if list_ex (\<lambda>m. hit m \<and> \<not> pay_outbox_check (outbox_take q m)) (pay_outbox s)
      then Inl (Storage ''claim outbox message'')
      else if rows_affected hit (pay_outbox s) \<noteq> 1
      then Inl (conflict ''outbox claim lost its conditional lease update'')
      else and_then (ok_or (find (\<lambda>m. ob_id m = i) (pay_outbox t))
        (Storage ''reload claimed outbox message'')) (\<lambda>m. Inr (m, t)))"

definition outbox_claim_step :: "OutboxLeaseRequest \<Rightarrow> OutboxMessage list step" where
  "outbox_claim_step q s =
     (if is_blank (lr_owner q) \<or> lr_lease_until q \<le> lr_now q \<or> lr_limit q = 0
      then Inl (InvalidRequest ''invalid outbox lease request'')
      else collect_steps (outbox_claim_one q) (outbox_due_ids q s) s)"

definition outbox_claim :: "OutboxLeaseRequest \<Rightarrow> db \<Rightarrow> OutboxMessage list result \<times> db" where
  "outbox_claim q = transaction (outbox_claim_step q)"

definition transition_lease ::
  "(OutboxMessage \<Rightarrow> OutboxMessage) \<Rightarrow> string \<Rightarrow> string \<Rightarrow> string \<Rightarrow> unit step" where
  "transition_lease change message_id holder operation s =
     (if is_blank message_id \<or> is_blank holder
      then Inl (InvalidRequest ''outbox lease identity is incomplete'')
      else let hit = (\<lambda>m. ob_id m = message_id \<and> ob_status m = ObPending \<and> ob_lease_owner m = Some holder) in
      if list_ex (\<lambda>m. hit m \<and> \<not> pay_outbox_check (change m)) (pay_outbox s)
      then Inl (Storage operation)
      else if rows_affected hit (pay_outbox s) \<noteq> 1
      then Inl (conflict ''outbox message is not held by the lease owner'')
      else Inr ((), s\<lparr>pay_outbox := update_where hit change (pay_outbox s)\<rparr>))"

definition mark_delivered :: "string \<Rightarrow> string \<Rightarrow> int \<Rightarrow> unit step" where
  "mark_delivered message_id holder delivered_at =
     transition_lease (\<lambda>m. m\<lparr>ob_status := Delivered, ob_delivered_at := Some delivered_at,
         ob_lease_owner := None, ob_lease_expires_at := None, ob_last_error := None\<rparr>)
       message_id holder ''mark outbox message delivered''"

definition reschedule :: "string \<Rightarrow> string \<Rightarrow> int \<Rightarrow> string \<Rightarrow> unit step" where
  "reschedule message_id holder available_at err =
     transition_lease (\<lambda>m. m\<lparr>ob_available_at := available_at, ob_lease_owner := None,
         ob_lease_expires_at := None, ob_last_error := Some err\<rparr>)
       message_id holder ''reschedule outbox message''"

definition mark_dead_letter :: "string \<Rightarrow> string \<Rightarrow> string \<Rightarrow> unit step" where
  "mark_dead_letter message_id holder err =
     transition_lease (\<lambda>m. m\<lparr>ob_status := DeadLetter, ob_lease_owner := None,
         ob_lease_expires_at := None, ob_last_error := Some err\<rparr>)
       message_id holder ''mark outbox message dead-letter''"

section \<open>Payment reconciliation\<close>

record ReconciliationLeaseRequest =
  rl_owner :: string
  rl_now :: int
  rl_lease_until :: int
  rl_limit :: u32

record ReconciliationClaim =
  rclaim_intent :: PaymentIntent
  rclaim_attempt_no :: u32

definition load_intent :: "db \<Rightarrow> string \<Rightarrow> PaymentIntent option" where
  "load_intent s i = map_option ir_intent (find (\<lambda>r. pi_id (ir_intent r) = i) (pay_intent s))"

definition reconciliation_due :: "int \<Rightarrow> intent_row \<Rightarrow> bool" where
  "reconciliation_due now r \<longleftrightarrow>
     ((pi_status (ir_intent r) \<in> {Signed, Submitted, PendingSettlement, Unknown}
         \<and> is_some_and (pi_next_reconcile_at (ir_intent r)) (\<lambda>t. t \<le> now))
      \<or> (pi_status (ir_intent r) = Created
         \<and> is_some_and (pi_expires_at (ir_intent r)) (\<lambda>t. t \<le> now)))
     \<and> is_none_or (ir_lease_expires_at r) (\<lambda>t. t \<le> now)"

text \<open>
  \<^verbatim>\<open>COALESCE(next_reconcile_at, expires_at)\<close>; a due row has one of the two, so the last branch is
  not reached.
\<close>

definition reconciliation_order :: "intent_row \<Rightarrow> int" where
  "reconciliation_order r =
     (case pi_next_reconcile_at (ir_intent r) of
        Some t \<Rightarrow> t
      | None \<Rightarrow> (case pi_expires_at (ir_intent r) of Some t \<Rightarrow> t | None \<Rightarrow> 0))"

definition reconciliation_due_ids :: "ReconciliationLeaseRequest \<Rightarrow> db \<Rightarrow> string list" where
  "reconciliation_due_ids q s =
     take (unat (rl_limit q)) (map (\<lambda>r. pi_id (ir_intent r))
       (sort_key (\<lambda>r. (reconciliation_order r, pi_created_at (ir_intent r), pi_id (ir_intent r)))
         (filter (reconciliation_due (rl_now q)) (pay_intent s))))"

definition reconciliation_take :: "ReconciliationLeaseRequest \<Rightarrow> intent_row \<Rightarrow> intent_row" where
  "reconciliation_take q r = r\<lparr>ir_lease_owner := Some (rl_owner q),
     ir_lease_expires_at := Some (rl_lease_until q),
     ir_reconcile_attempts := ir_reconcile_attempts r + 1\<rparr>"

definition reconciliation_claim_one :: "ReconciliationLeaseRequest \<Rightarrow> string \<Rightarrow> ReconciliationClaim step" where
  "reconciliation_claim_one q i s =
     (let hit = (\<lambda>r. pi_id (ir_intent r) = i \<and> reconciliation_due (rl_now q) r
                   \<and> ir_reconcile_attempts r < 4294967295);
          t = s\<lparr>pay_intent := update_where hit (reconciliation_take q) (pay_intent s)\<rparr> in
      if list_ex (\<lambda>r. hit r \<and> \<not> pay_intent_check (reconciliation_take q r)) (pay_intent s)
      then Inl (Storage ''claim payment reconciliation'')
      else if rows_affected hit (pay_intent s) \<noteq> 1
      then Inl (conflict ''payment reconciliation claim lost its conditional update'')
      else and_then (ok_or (find (\<lambda>r. pi_id (ir_intent r) = i) (pay_intent t))
        (Storage ''load payment reconciliation attempt'')) (\<lambda>row.
      and_then (ok_or (load_intent t i) (Storage ''claimed payment intent disappeared'')) (\<lambda>intent.
      Inr (\<lparr>rclaim_intent = intent, rclaim_attempt_no = ir_reconcile_attempts row\<rparr>, t))))"

definition claim_reconciliation_batch :: "ReconciliationLeaseRequest \<Rightarrow> ReconciliationClaim list step" where
  "claim_reconciliation_batch q s =
     (if is_blank (rl_owner q) \<or> rl_lease_until q \<le> rl_now q \<or> rl_limit q = 0
      then Inl (InvalidRequest ''invalid reconciliation lease request'')
      else collect_steps (reconciliation_claim_one q) (reconciliation_due_ids q s) s)"

definition leasable :: "intent_row \<Rightarrow> bool" where
  "leasable r \<longleftrightarrow>
     pi_status (ir_intent r) \<in> {Created, Signed, Submitted, PendingSettlement, Unknown}"

definition update_reconciliation_lease ::
  "string \<Rightarrow> string \<Rightarrow> int option \<Rightarrow> int option \<Rightarrow> unit step" where
  "update_reconciliation_lease intent_id holder lease_until next_attempt_at s =
     (if is_blank intent_id \<or> is_blank holder \<or> lease_until = Some 0 \<or> next_attempt_at = Some 0
      then Inl (InvalidRequest ''invalid reconciliation lease transition'')
      else let hit = (\<lambda>r. pi_id (ir_intent r) = intent_id \<and> ir_lease_owner r = Some holder \<and> leasable r);
               change = (\<lambda>r. case lease_until of
                   Some u \<Rightarrow> r\<lparr>ir_lease_expires_at := Some u\<rparr>
                 | None \<Rightarrow> r\<lparr>ir_lease_owner := None, ir_lease_expires_at := None,
                     ir_intent := (ir_intent r)\<lparr>pi_next_reconcile_at := next_attempt_at\<rparr>\<rparr>) in
      if list_ex (\<lambda>r. hit r \<and> \<not> pay_intent_check (change r)) (pay_intent s)
      then Inl (Storage ''update payment reconciliation lease'')
      else if rows_affected hit (pay_intent s) \<noteq> 1
      then Inl (conflict ''payment reconciliation lease is not held by this owner'')
      else Inr ((), s\<lparr>pay_intent := update_where hit change (pay_intent s)\<rparr>))"

definition renew_reconciliation_lease :: "string \<Rightarrow> string \<Rightarrow> int \<Rightarrow> unit step" where
  "renew_reconciliation_lease intent_id holder lease_until =
     update_reconciliation_lease intent_id holder (Some lease_until) None"

definition release_reconciliation_lease :: "string \<Rightarrow> string \<Rightarrow> int \<Rightarrow> unit step" where
  "release_reconciliation_lease intent_id holder next_attempt_at =
     update_reconciliation_lease intent_id holder None (Some next_attempt_at)"

text \<open>Who holds a row, and until when.\<close>

definition outbox_lease :: "db \<Rightarrow> string \<Rightarrow> (string option \<times> int option) option" where
  "outbox_lease s i =
     map_option (\<lambda>m. (ob_lease_owner m, ob_lease_expires_at m)) (find (\<lambda>m. ob_id m = i) (pay_outbox s))"

definition intent_lease :: "db \<Rightarrow> string \<Rightarrow> (string option \<times> int option) option" where
  "intent_lease s i =
     map_option (\<lambda>r. (ir_lease_owner r, ir_lease_expires_at r))
       (find (\<lambda>r. pi_id (ir_intent r) = i) (pay_intent s))"

section \<open>The interface of a lease store\<close>

locale lease_store =
  fixes lease :: "db \<Rightarrow> string \<Rightarrow> (string option \<times> int option) option"
    and wf :: "db \<Rightarrow> bool"
    and key :: "'m \<Rightarrow> string"
    and claim_one :: "'q \<Rightarrow> string \<Rightarrow> 'm step"
    and claim :: "'q \<Rightarrow> 'm list step"
    and owner :: "'q \<Rightarrow> string"
    and now :: "'q \<Rightarrow> int"
    and until :: "'q \<Rightarrow> int"
  assumes claim_steps: "claim q s = Inr (ms, t) \<Longrightarrow>
      now q < until q \<and> (\<exists>ids. collect_steps (claim_one q) ids s = Inr (ms, t))"
    and one_key: "claim_one q k s = Inr (m, t) \<Longrightarrow> key m = k"
    and one_wf: "claim_one q k s = Inr (m, t) \<Longrightarrow> wf s \<Longrightarrow> wf t"
    and one_free: "claim_one q k s = Inr (m, t) \<Longrightarrow> wf s \<Longrightarrow> lease s k = Some (w, Some x) \<Longrightarrow> x \<le> now q"
    and one_holds: "claim_one q k s = Inr (m, t) \<Longrightarrow> wf s \<Longrightarrow>
      lease t k = Some (Some (owner q), Some (until q))"
    and one_frame: "claim_one q k s = Inr (m, t) \<Longrightarrow> j \<noteq> k \<Longrightarrow> lease t j = lease s j"
begin

lemma batch:
  assumes "collect_steps (claim_one q) ids s = Inr (ms, t)" "wf s" "now q < until q"
  shows "map key ms = ids" "distinct ids" "wf t"
    and "\<And>k. k \<in> set ids \<Longrightarrow> lease t k = Some (Some (owner q), Some (until q))"
    and "\<And>k. k \<notin> set ids \<Longrightarrow> lease t k = lease s k"
    and "\<And>k w x. k \<in> set ids \<Longrightarrow> lease s k = Some (w, Some x) \<Longrightarrow> x \<le> now q"
proof -
  have "map key ms = ids \<and> distinct ids \<and> wf t
    \<and> (\<forall>k \<in> set ids. lease t k = Some (Some (owner q), Some (until q)))
    \<and> (\<forall>k. k \<notin> set ids \<longrightarrow> lease t k = lease s k)
    \<and> (\<forall>k \<in> set ids. \<forall>w x. lease s k = Some (w, Some x) \<longrightarrow> x \<le> now q)"
    using assms(1,2)
  proof (induction ids arbitrary: s ms)
    case (Cons k ids)
    then obtain m u ns where m: "claim_one q k s = Inr (m, u)"
      and ns: "collect_steps (claim_one q) ids u = Inr (ns, t)" and ms: "ms = m # ns"
      by (auto simp: result_simps)
    note IH = Cons.IH [OF ns one_wf [OF m Cons.prems(2)]]
    have held: "lease u k = Some (Some (owner q), Some (until q))"
      using one_holds [OF m Cons.prems(2)] .
    have fresh: "k \<notin> set ids"
    proof
      assume "k \<in> set ids"
      with IH held have "until q \<le> now q" by blast
      with assms(3) show False by simp
    qed
    show ?case
    proof (intro conjI ballI allI impI)
      show "map key ms = k # ids" using IH one_key [OF m] by (simp add: ms)
      show "distinct (k # ids)" "wf t" using IH fresh by simp_all
      show "lease t j = Some (Some (owner q), Some (until q))" if "j \<in> set (k # ids)" for j
        using that IH held fresh by auto
      show "lease t j = lease s j" if "j \<notin> set (k # ids)" for j
        using that IH one_frame [OF m] by simp
      show "x \<le> now q" if "j \<in> set (k # ids)" "lease s j = Some (w, Some x)" for j w x
        using that IH one_free [OF m Cons.prems(2)] one_frame [OF m, of j] by (cases "j = k") auto
    qed
  qed simp
  then show "map key ms = ids" "distinct ids" "wf t"
    "\<And>k. k \<in> set ids \<Longrightarrow> lease t k = Some (Some (owner q), Some (until q))"
    "\<And>k. k \<notin> set ids \<Longrightarrow> lease t k = lease s k"
    "\<And>k w x. k \<in> set ids \<Longrightarrow> lease s k = Some (w, Some x) \<Longrightarrow> x \<le> now q"
    by blast+
qed

lemma claim_facts:
  assumes "claim q s = Inr (ms, t)" "wf s"
  shows "distinct (map key ms)" "wf t"
    and "\<And>m. m \<in> set ms \<Longrightarrow> lease t (key m) = Some (Some (owner q), Some (until q))"
    and "\<And>m w x. m \<in> set ms \<Longrightarrow> lease s (key m) = Some (w, Some x) \<Longrightarrow> x \<le> now q"
proof -
  obtain ids where lt: "now q < until q" and ids: "collect_steps (claim_one q) ids s = Inr (ms, t)"
    using claim_steps [OF assms(1)] by blast
  note b = batch [OF ids assms(2) lt]
  have k: "key m \<in> set ids" if "m \<in> set ms" for m using that b(1) by force
  show "distinct (map key ms)" "wf t"
    "\<And>m. m \<in> set ms \<Longrightarrow> lease t (key m) = Some (Some (owner q), Some (until q))"
    "\<And>m w x. m \<in> set ms \<Longrightarrow> lease s (key m) = Some (w, Some x) \<Longrightarrow> x \<le> now q"
    using b k by blast+
qed

lemma lease_kept:
  assumes "claim p s = Inr (ns, t)" "wf s" "lease s k = Some (w, Some x)" "now p < x"
  shows "lease t k = lease s k" "k \<notin> key ` set ns"
proof -
  obtain ids where lt: "now p < until p" and ids: "collect_steps (claim_one p) ids s = Inr (ns, t)"
    using claim_steps [OF assms(1)] by blast
  note b = batch [OF ids assms(2) lt]
  have "k \<notin> set ids" using b(6) [OF _ assms(3)] assms(4) by force
  with b(1,5) show "lease t k = lease s k" "k \<notin> key ` set ns" by force+
qed

text \<open>However many claims follow, a lease that has not run out is not taken over.\<close>

lemma claims_keep_lease:
  assumes "(\<lambda>a b. \<exists>p ns. claim p a = Inr (ns, b) \<and> now p < x)\<^sup>*\<^sup>* s t" "wf s" "lease s k = Some (w, Some x)"
  shows "wf t \<and> lease t k = Some (w, Some x)"
  using assms(1)
proof induction
  case (step t u)
  then obtain p ns where p: "claim p t = Inr (ns, u)" "now p < x" by blast
  have t: "wf t" "lease t k = Some (w, Some x)" using step.IH by simp_all
  show ?case using claim_facts(2) [OF p(1) t(1)] lease_kept(1) [OF p(1) t p(2)] t(2) by simp
qed (use assms in simp)

lemma exclusive:
  assumes "claim q s = Inr (ms, t)" "wf s"
    and "(\<lambda>a b. \<exists>p ns. claim p a = Inr (ns, b) \<and> now p < until q)\<^sup>*\<^sup>* t u"
    and "claim p u = Inr (ns, v)" "now p < until q"
  shows "key ` set ms \<inter> key ` set ns = {}"
proof -
  have "key m \<notin> key ` set ns" if "m \<in> set ms" for m
  proof -
    have "wf u \<and> lease u (key m) = Some (Some (owner q), Some (until q))"
      by (rule claims_keep_lease [OF assms(3) claim_facts(2,3) [OF assms(1,2)]]) (use that in simp_all)
    then show ?thesis using lease_kept(2) [OF assms(4) _ _ assms(5)] by blast
  qed
  then show ?thesis by blast
qed

end

section \<open>Both queues are lease stores\<close>

definition outbox_wf :: "db \<Rightarrow> bool" where
  "outbox_wf s \<longleftrightarrow> distinct (map ob_id (pay_outbox s))"

definition intent_wf :: "db \<Rightarrow> bool" where
  "intent_wf s \<longleftrightarrow> distinct (map (\<lambda>r. pi_id (ir_intent r)) (pay_intent s))"

lemma outbox_take_simps [simp]:
  "ob_id (outbox_take q m) = ob_id m" "ob_lease_owner (outbox_take q m) = Some (lr_owner q)"
  "ob_lease_expires_at (outbox_take q m) = Some (lr_lease_until q)"
  by (simp_all add: outbox_take_def)

lemma reconciliation_take_simps [simp]:
  "ir_intent (reconciliation_take q r) = ir_intent r"
  "ir_credential_hash (reconciliation_take q r) = ir_credential_hash r"
  "ir_lease_owner (reconciliation_take q r) = Some (rl_owner q)"
  "ir_lease_expires_at (reconciliation_take q r) = Some (rl_lease_until q)"
  by (simp_all add: reconciliation_take_def)

definition outbox_hit :: "OutboxLeaseRequest \<Rightarrow> string \<Rightarrow> OutboxMessage \<Rightarrow> bool" where
  "outbox_hit q i m \<longleftrightarrow> ob_id m = i \<and> outbox_due q m \<and> ob_attempt_count m < 4294967295"

definition reconciliation_hit :: "ReconciliationLeaseRequest \<Rightarrow> string \<Rightarrow> intent_row \<Rightarrow> bool" where
  "reconciliation_hit q i r \<longleftrightarrow>
     pi_id (ir_intent r) = i \<and> reconciliation_due (rl_now q) r \<and> ir_reconcile_attempts r < 4294967295"

lemma outbox_claim_one_ok:
  assumes "outbox_claim_one q i s = Inr (m, t)"
  obtains r where "r \<in> set (pay_outbox s)" "outbox_hit q i r"
    "t = s\<lparr>pay_outbox := update_where (outbox_hit q i) (outbox_take q) (pay_outbox s)\<rparr>"
    "find (\<lambda>m. ob_id m = i) (pay_outbox t) = Some m"
    "\<And>m. m \<in> set (pay_outbox s) \<Longrightarrow> outbox_hit q i m \<Longrightarrow> pay_outbox_check (outbox_take q m)"
proof -
  have hit: "(\<lambda>m. ob_id m = i \<and> outbox_due q m \<and> ob_attempt_count m < 4294967295) = outbox_hit q i"
    by (auto simp: outbox_hit_def)
  from assms have t: "t = s\<lparr>pay_outbox := update_where (outbox_hit q i) (outbox_take q) (pay_outbox s)\<rparr>"
    and one: "rows_affected (outbox_hit q i) (pay_outbox s) = Suc 0"
    and m: "find (\<lambda>m. ob_id m = i) (pay_outbox t) = Some m"
    and chk: "\<forall>r \<in> set (pay_outbox s). outbox_hit q i r \<longrightarrow> pay_outbox_check (outbox_take q r)"
    by (auto simp: outbox_claim_one_def Let_def hit result_simps list_ex_iff)
  from rows_affected_one [OF one] chk that t m show thesis by blast
qed

lemma reconciliation_claim_one_ok:
  assumes "reconciliation_claim_one q i s = Inr (c, t)"
  obtains r where "r \<in> set (pay_intent s)" "reconciliation_hit q i r"
    "t = s\<lparr>pay_intent := update_where (reconciliation_hit q i) (reconciliation_take q) (pay_intent s)\<rparr>"
    "load_intent t i = Some (rclaim_intent c)"
proof -
  have hit: "(\<lambda>r. pi_id (ir_intent r) = i \<and> reconciliation_due (rl_now q) r
      \<and> ir_reconcile_attempts r < 4294967295) = reconciliation_hit q i"
    by (auto simp: reconciliation_hit_def)
  from assms have
    t: "t = s\<lparr>pay_intent := update_where (reconciliation_hit q i) (reconciliation_take q) (pay_intent s)\<rparr>"
    and one: "rows_affected (reconciliation_hit q i) (pay_intent s) = Suc 0"
    and c: "load_intent t i = Some (rclaim_intent c)"
    by (auto simp: reconciliation_claim_one_def Let_def hit result_simps list_ex_iff)
  from rows_affected_one [OF one] that t c show thesis by blast
qed

lemma load_intent_id: "load_intent s i = Some x \<Longrightarrow> pi_id x = i"
  by (auto simp: load_intent_def dest: find_Some_in)

lemma outbox_lease_update:
  "outbox_lease (s\<lparr>pay_outbox := update_where P (outbox_take q) (pay_outbox s)\<rparr>) j
    = map_option (\<lambda>m. if P m then (Some (lr_owner q), Some (lr_lease_until q))
        else (ob_lease_owner m, ob_lease_expires_at m)) (find (\<lambda>m. ob_id m = j) (pay_outbox s))"
  by (simp add: outbox_lease_def find_update_where option.map_comp o_def if_distrib cong: if_cong)

lemma intent_lease_update:
  "intent_lease (s\<lparr>pay_intent := update_where P (reconciliation_take q) (pay_intent s)\<rparr>) j
    = map_option (\<lambda>r. if P r then (Some (rl_owner q), Some (rl_lease_until q))
        else (ir_lease_owner r, ir_lease_expires_at r))
      (find (\<lambda>r. pi_id (ir_intent r) = j) (pay_intent s))"
  by (simp add: intent_lease_def find_update_where [where key = "\<lambda>r. pi_id (ir_intent r)"]
      option.map_comp o_def if_distrib cong: if_cong)

lemma map_key_update_where:
  "\<lbrakk>\<And>r. key (f r) = key r\<rbrakk> \<Longrightarrow> map key (update_where P f rows) = map key rows"
  by (auto simp: update_where_def)

interpretation outbox_queue: lease_store outbox_lease outbox_wf ob_id outbox_claim_one
  outbox_claim_step lr_owner lr_now lr_lease_until
proof
  fix q s ms t
  assume "outbox_claim_step q s = Inr (ms, t)"
  then show "lr_now q < lr_lease_until q \<and> (\<exists>ids. collect_steps (outbox_claim_one q) ids s = Inr (ms, t))"
    by (auto simp: outbox_claim_step_def split: if_splits)
next
  fix q k s m t
  assume step: "outbox_claim_one q k s = Inr (m, t)"
  then obtain r where r: "r \<in> set (pay_outbox s)" "outbox_hit q k r"
    and t: "t = s\<lparr>pay_outbox := update_where (outbox_hit q k) (outbox_take q) (pay_outbox s)\<rparr>"
    and m: "find (\<lambda>m. ob_id m = k) (pay_outbox t) = Some m"
    by (rule outbox_claim_one_ok)
  show "ob_id m = k" using find_Some_in [OF m] by simp
  show "outbox_wf s \<Longrightarrow> outbox_wf t"
    by (simp add: outbox_wf_def t map_key_update_where)
  have look: "outbox_wf s \<Longrightarrow> find (\<lambda>m. ob_id m = k) (pay_outbox s) = Some r"
    using find_distinct [of ob_id "pay_outbox s" r] r by (simp add: outbox_wf_def outbox_hit_def)
  show "x \<le> lr_now q" if "outbox_wf s" "outbox_lease s k = Some (w, Some x)" for w x
    using that look r(2) by (auto simp: outbox_lease_def outbox_hit_def outbox_due_def)
  show "outbox_wf s \<Longrightarrow> outbox_lease t k = Some (Some (lr_owner q), Some (lr_lease_until q))"
    unfolding t outbox_lease_update by (simp add: look r(2))
  show "outbox_lease t j = outbox_lease s j" if "j \<noteq> k" for j
  proof -
    have "\<not> outbox_hit q k x" if "find (\<lambda>m. ob_id m = j) (pay_outbox s) = Some x" for x
      using that \<open>j \<noteq> k\<close> by (auto simp: outbox_hit_def dest: find_Some_in)
    then show ?thesis
      unfolding t outbox_lease_update
      by (cases "find (\<lambda>m. ob_id m = j) (pay_outbox s)") (simp_all add: outbox_lease_def)
  qed
qed

interpretation reconciliation_queue: lease_store intent_lease intent_wf "\<lambda>c. pi_id (rclaim_intent c)"
  reconciliation_claim_one claim_reconciliation_batch rl_owner rl_now rl_lease_until
proof
  fix q s ms t
  assume "claim_reconciliation_batch q s = Inr (ms, t)"
  then show "rl_now q < rl_lease_until q
      \<and> (\<exists>ids. collect_steps (reconciliation_claim_one q) ids s = Inr (ms, t))"
    by (auto simp: claim_reconciliation_batch_def split: if_splits)
next
  fix q k s m t
  assume step: "reconciliation_claim_one q k s = Inr (m, t)"
  then obtain r where r: "r \<in> set (pay_intent s)" "reconciliation_hit q k r"
    and t: "t = s\<lparr>pay_intent := update_where (reconciliation_hit q k) (reconciliation_take q) (pay_intent s)\<rparr>"
    and m: "load_intent t k = Some (rclaim_intent m)"
    by (rule reconciliation_claim_one_ok)
  show "pi_id (rclaim_intent m) = k" using load_intent_id [OF m] .
  show "intent_wf s \<Longrightarrow> intent_wf t"
    by (simp add: intent_wf_def t map_key_update_where)
  have look: "intent_wf s \<Longrightarrow> find (\<lambda>r. pi_id (ir_intent r) = k) (pay_intent s) = Some r"
    using find_distinct [of "\<lambda>r. pi_id (ir_intent r)" "pay_intent s" r] r
    by (simp add: intent_wf_def reconciliation_hit_def)
  show "x \<le> rl_now q" if "intent_wf s" "intent_lease s k = Some (w, Some x)" for w x
    using that look r(2) by (auto simp: intent_lease_def reconciliation_hit_def reconciliation_due_def)
  show "intent_wf s \<Longrightarrow> intent_lease t k = Some (Some (rl_owner q), Some (rl_lease_until q))"
    unfolding t intent_lease_update by (simp add: look r(2))
  show "intent_lease t j = intent_lease s j" if "j \<noteq> k" for j
  proof -
    have "\<not> reconciliation_hit q k x" if "find (\<lambda>r. pi_id (ir_intent r) = j) (pay_intent s) = Some x" for x
      using that \<open>j \<noteq> k\<close> by (auto simp: reconciliation_hit_def dest: find_Some_in)
    then show ?thesis
      unfolding t intent_lease_update
      by (cases "find (\<lambda>r. pi_id (ir_intent r) = j) (pay_intent s)") (simp_all add: intent_lease_def)
  qed
qed

section \<open>A claim makes progress\<close>

text \<open>
  The extended interface: a row that is ready can be claimed, and stays ready while others are claimed.
  Then a batch of ready rows is claimed as a whole.
\<close>

locale lease_progress = lease_store +
  fixes ready :: "'b \<Rightarrow> db \<Rightarrow> string \<Rightarrow> bool"
  assumes one_ready: "wf s \<Longrightarrow> ready q s k \<Longrightarrow> \<exists>m t. claim_one q k s = Inr (m, t)"
    and one_stays: "claim_one q k s = Inr (m, t) \<Longrightarrow> j \<noteq> k \<Longrightarrow> ready q s j \<Longrightarrow> ready q t j"
begin

lemma batch_progress:
  "distinct ids \<Longrightarrow> wf s \<Longrightarrow> (\<And>k. k \<in> set ids \<Longrightarrow> ready q s k) \<Longrightarrow>
     \<exists>ms t. collect_steps (claim_one q) ids s = Inr (ms, t)"
proof (induction ids arbitrary: s)
  case (Cons k ids)
  then obtain m t where m: "claim_one q k s = Inr (m, t)" using one_ready by (meson list.set_intros(1))
  have "ready q t j" if "j \<in> set ids" for j
    using one_stays [OF m, of j] Cons.prems that by auto
  then obtain ms u where "collect_steps (claim_one q) ids t = Inr (ms, u)"
    using Cons.IH [of t] Cons.prems(1) one_wf [OF m Cons.prems(2)] by auto
  with m show ?case by auto
qed simp

end

lemma distinct_key: "distinct (map key rows) \<Longrightarrow> x \<in> set rows \<Longrightarrow> y \<in> set rows \<Longrightarrow> key x = key y \<Longrightarrow> x = y"
  by (simp add: distinct_map inj_on_def)

lemma rows_affected_key:
  assumes "distinct (map key rows)" "r \<in> set rows" "P r" "\<And>x. P x \<Longrightarrow> key x = key r"
  shows "rows_affected P rows = 1"
proof -
  have "x = r" if "x \<in> set rows" "P x" for x
    using assms(1,2) assms(4) [OF that(2)] that(1) by (auto simp: distinct_map inj_on_def)
  then have "filter P rows = filter (\<lambda>x. x = r) rows" using assms(3) by (intro filter_cong) auto
  moreover have "distinct rows" using assms(1) by (simp add: distinct_map)
  ultimately show ?thesis using assms(2) by (simp add: rows_affected_def distinct_length_filter)
qed

definition outbox_ready :: "OutboxLeaseRequest \<Rightarrow> db \<Rightarrow> string \<Rightarrow> bool" where
  "outbox_ready q s k \<longleftrightarrow>
     list_ex (\<lambda>r. outbox_hit q k r \<and> pay_outbox_check (outbox_take q r)) (pay_outbox s)"

definition reconciliation_ready :: "ReconciliationLeaseRequest \<Rightarrow> db \<Rightarrow> string \<Rightarrow> bool" where
  "reconciliation_ready q s k \<longleftrightarrow>
     list_ex (\<lambda>r. reconciliation_hit q k r \<and> pay_intent_check (reconciliation_take q r)) (pay_intent s)"

lemma list_ex_update_where:
  assumes "list_ex Q rows" "\<And>r. Q r \<Longrightarrow> \<not> P r"
  shows "list_ex Q (update_where P f rows)"
  using assms by (force simp: list_ex_iff update_where_def)

interpretation outbox_progress: lease_progress outbox_lease outbox_wf ob_id outbox_claim_one
  outbox_claim_step lr_owner lr_now lr_lease_until outbox_ready
proof
  fix q s k
  assume wf: "outbox_wf s" and "outbox_ready q s k"
  then obtain r where r: "r \<in> set (pay_outbox s)" "outbox_hit q k r" "pay_outbox_check (outbox_take q r)"
    by (auto simp: outbox_ready_def list_ex_iff)
  have hit: "(\<lambda>m. ob_id m = k \<and> outbox_due q m \<and> ob_attempt_count m < 4294967295) = outbox_hit q k"
    by (auto simp: outbox_hit_def)
  have only: "m = r" if "m \<in> set (pay_outbox s)" "outbox_hit q k m" for m
    using distinct_key [of ob_id "pay_outbox s" m r] wf r(1,2) that by (simp add: outbox_wf_def outbox_hit_def)
  have "rows_affected (outbox_hit q k) (pay_outbox s) = 1"
    using wf r(1,2) by (intro rows_affected_key [of ob_id _ r]) (simp_all add: outbox_wf_def outbox_hit_def)
  moreover have "find (\<lambda>m. ob_id m = k) (pay_outbox s) = Some r"
    using find_distinct [of ob_id "pay_outbox s" r] wf r(1,2) by (simp add: outbox_wf_def outbox_hit_def)
  moreover have "\<not> list_ex (\<lambda>m. outbox_hit q k m \<and> \<not> pay_outbox_check (outbox_take q m)) (pay_outbox s)"
    using only r(3) by (auto simp: list_ex_iff)
  ultimately show "\<exists>m t. outbox_claim_one q k s = Inr (m, t)"
    by (simp add: outbox_claim_one_def Let_def hit find_update_where)
next
  fix q k s m t j
  assume "outbox_claim_one q k s = Inr (m, t)" "j \<noteq> k" "outbox_ready q s j"
  then show "outbox_ready q t j"
    unfolding outbox_ready_def
    by (auto elim!: outbox_claim_one_ok intro!: list_ex_update_where simp: outbox_hit_def)
qed

interpretation reconciliation_progress: lease_progress intent_lease intent_wf "\<lambda>c. pi_id (rclaim_intent c)"
  reconciliation_claim_one claim_reconciliation_batch rl_owner rl_now rl_lease_until reconciliation_ready
proof
  fix q s k
  assume wf: "intent_wf s" and "reconciliation_ready q s k"
  then obtain r where r: "r \<in> set (pay_intent s)" "reconciliation_hit q k r"
    "pay_intent_check (reconciliation_take q r)"
    by (auto simp: reconciliation_ready_def list_ex_iff)
  have hit: "(\<lambda>r. pi_id (ir_intent r) = k \<and> reconciliation_due (rl_now q) r
      \<and> ir_reconcile_attempts r < 4294967295) = reconciliation_hit q k"
    by (auto simp: reconciliation_hit_def)
  have only: "m = r" if "m \<in> set (pay_intent s)" "reconciliation_hit q k m" for m
    using distinct_key [of "\<lambda>r. pi_id (ir_intent r)" "pay_intent s" m r] wf r(1,2) that
    by (simp add: intent_wf_def reconciliation_hit_def)
  have "rows_affected (reconciliation_hit q k) (pay_intent s) = 1"
    using wf r(1,2) by (intro rows_affected_key [of "\<lambda>r. pi_id (ir_intent r)" _ r])
      (simp_all add: intent_wf_def reconciliation_hit_def)
  moreover have "find (\<lambda>r. pi_id (ir_intent r) = k) (pay_intent s) = Some r"
    using find_distinct [of "\<lambda>r. pi_id (ir_intent r)" "pay_intent s" r] wf r(1,2)
    by (simp add: intent_wf_def reconciliation_hit_def)
  moreover have "\<not> list_ex (\<lambda>m. reconciliation_hit q k m \<and> \<not> pay_intent_check (reconciliation_take q m)) (pay_intent s)"
    using only r(3) by (auto simp: list_ex_iff)
  ultimately show "\<exists>m t. reconciliation_claim_one q k s = Inr (m, t)"
    by (simp add: reconciliation_claim_one_def Let_def hit load_intent_def
        find_update_where [where key = "\<lambda>r. pi_id (ir_intent r)"])
next
  fix q k s m t j
  assume "reconciliation_claim_one q k s = Inr (m, t)" "j \<noteq> k" "reconciliation_ready q s j"
  then show "reconciliation_ready q t j"
    unfolding reconciliation_ready_def
    by (auto elim!: reconciliation_claim_one_ok intro!: list_ex_update_where simp: reconciliation_hit_def)
qed

lemma outbox_claim_progress:
  assumes wf: "outbox_wf s" and "\<not> is_blank (lr_owner q)" "lr_now q < lr_lease_until q" "0 \<le> lr_lease_until q"
    and "lr_limit q \<noteq> 0" "\<And>m. m \<in> set (pay_outbox s) \<Longrightarrow> pay_outbox_check m"
    and "\<And>m. m \<in> set (pay_outbox s) \<Longrightarrow> outbox_due q m \<Longrightarrow> ob_attempt_count m < 4294967295"
  obtains ms t where "outbox_claim q s = (Inr ms, t)" "map ob_id ms = outbox_due_ids q s"
    "\<And>k. k \<in> set (outbox_due_ids q s) \<Longrightarrow> outbox_lease t k = Some (Some (lr_owner q), Some (lr_lease_until q))"
proof -
  have ids: "distinct (outbox_due_ids q s)"
    using wf by (simp add: outbox_due_ids_def outbox_wf_def distinct_map distinct_take inj_on_def)
  have "outbox_ready q s k" if k: "k \<in> set (outbox_due_ids q s)" for k
  proof -
    obtain r where r: "r \<in> set (pay_outbox s)" "ob_id r = k" "outbox_due q r"
      using k by (auto simp: outbox_due_ids_def dest!: in_set_takeD)
    moreover have "pay_outbox_check (outbox_take q r)"
      using assms(4) assms(6) [OF r(1)] by (simp add: pay_outbox_check_def outbox_take_def)
    ultimately show ?thesis using assms(7) [OF r(1,3)] by (auto simp: outbox_ready_def outbox_hit_def list_ex_iff)
  qed
  then obtain ms t where ms: "collect_steps (outbox_claim_one q) (outbox_due_ids q s) s = Inr (ms, t)"
    using outbox_progress.batch_progress [OF ids wf] by blast
  note b = outbox_queue.batch [OF ms wf assms(3)]
  show thesis
    using that [of ms t] ms b(1,4) assms(2,3,5)
    by (simp add: outbox_claim_def outbox_claim_step_def transaction_def)
qed

lemma reconciliation_claim_progress:
  assumes wf: "intent_wf s" and "\<not> is_blank (rl_owner q)" "rl_now q < rl_lease_until q" "0 \<le> rl_lease_until q"
    and "rl_limit q \<noteq> 0" "\<And>r. r \<in> set (pay_intent s) \<Longrightarrow> pay_intent_check r"
    and "\<And>r. r \<in> set (pay_intent s) \<Longrightarrow> reconciliation_due (rl_now q) r \<Longrightarrow> ir_reconcile_attempts r < 4294967295"
  obtains cs t where "claim_reconciliation_batch q s = Inr (cs, t)"
    "map (\<lambda>c. pi_id (rclaim_intent c)) cs = reconciliation_due_ids q s"
    "\<And>k. k \<in> set (reconciliation_due_ids q s) \<Longrightarrow>
       intent_lease t k = Some (Some (rl_owner q), Some (rl_lease_until q))"
proof -
  have ids: "distinct (reconciliation_due_ids q s)"
    using wf by (simp add: reconciliation_due_ids_def intent_wf_def distinct_map distinct_take inj_on_def)
  have "reconciliation_ready q s k" if k: "k \<in> set (reconciliation_due_ids q s)" for k
  proof -
    obtain r where r: "r \<in> set (pay_intent s)" "pi_id (ir_intent r) = k" "reconciliation_due (rl_now q) r"
      using k by (auto simp: reconciliation_due_ids_def dest!: in_set_takeD)
    moreover have "pay_intent_check (reconciliation_take q r)"
      using assms(4) assms(6) [OF r(1)] by (simp add: pay_intent_check_def Let_def)
    ultimately show ?thesis
      using assms(7) [OF r(1,3)] by (auto simp: reconciliation_ready_def reconciliation_hit_def list_ex_iff)
  qed
  then obtain cs t where cs: "collect_steps (reconciliation_claim_one q) (reconciliation_due_ids q s) s = Inr (cs, t)"
    using reconciliation_progress.batch_progress [OF ids wf] by blast
  note b = reconciliation_queue.batch [OF cs wf assms(3)]
  show thesis
    using that [of cs t] cs b(1,4) assms(2,3,5) by (simp add: claim_reconciliation_batch_def)
qed

end
