(* ===== verification/Payment_Rules.thy ===== *)
theory Payment_Rules
  imports Lease_Store
begin

text \<open>
  The rules every payment write passes (\<^verbatim>\<open>storage/payment/mod.rs\<close>): the status transition table,
  the bindings between a challenge, its event and its intent, and the validation of progress,
  settlement and merchant-evidence transitions.
\<close>

section \<open>Write records\<close>

datatype AuthorizationAction = RecordDenied | RequestApproval | Reserve

datatype ReservationMutation = Unchanged | ReleaseOnly | RmSettlement | ApprovalReserve

record AuthorizationGuard =
  g_principal :: string
  g_client :: PaymentClient
  g_scenario :: PaymentScenario
  g_policy :: PaymentPolicy
  g_expected_wallet_updated_at :: int
  g_expected_wallet_key_version :: "u32 option"
  g_origin :: string
  g_day_started_at :: int
  g_evaluated_at :: int

record ChallengeIssuanceGuard =
  cg_principal :: string
  cg_client :: PaymentClient
  cg_scenario :: PaymentScenario
  cg_price :: PaymentPrice
  cg_policy :: PaymentPolicy
  cg_wallet :: PaymentWallet
  cg_origin :: string
  cg_day_started_at :: int
  cg_evaluated_at :: int

record AuthorizationRecord =
  arec_intent :: PaymentIntent
  arec_approval :: "ApprovalRequest option"

record BudgetSnapshot =
  bs_budget_unit :: BudgetUnit
  bs_wallet_enabled :: bool
  bs_wallet_algorithm :: string
  bs_wallet_address :: string
  bs_wallet_updated_at :: int
  bs_wallet_active_key_version :: "u32 option"
  bs_wallet_shared_across_scenarios :: bool
  bs_scenario_spent_and_reserved :: amount
  bs_wallet_spent_and_reserved :: amount
  bs_wallet_max_per_payment :: "amount option"
  bs_wallet_max_per_day :: "amount option"

section \<open>Definitions\<close>

definition allowed_status_transition :: "PaymentStatus \<Rightarrow> PaymentStatus \<Rightarrow> bool" where
  "allowed_status_transition from to \<longleftrightarrow>
     from = to
     \<or> (case from of
          Created \<Rightarrow> to \<in> {PendingApproval, Authorized, Submitted, Failed, Expired}
        | PendingApproval \<Rightarrow> to \<in> {Authorized, Failed, Expired}
        | Authorized \<Rightarrow> to \<in> {Signed, Submitted, PendingSettlement, Failed, Expired, Unknown}
        | Signed \<Rightarrow> to \<in> {Submitted, PendingSettlement, Settled, Failed, Unknown}
        | Submitted \<Rightarrow> to \<in> {PendingSettlement, Settled, Failed, Unknown}
        | PendingSettlement \<Rightarrow> to \<in> {Settled, Failed, Expired, Unknown}
        | Unknown \<Rightarrow> to \<in> {Submitted, PendingSettlement, Settled, Failed, Expired}
        | _ \<Rightarrow> False)"

definition challenge_matches_intent ::
  "externals \<Rightarrow> PaymentChallenge \<Rightarrow> PaymentIntent \<Rightarrow> PaymentDirection \<Rightarrow> bool" where
  "challenge_matches_intent X c i d \<longleftrightarrow>
     pi_direction i = d
     \<and> pc_scenario_id c = pi_scenario_id i
     \<and> pc_price_id c = pi_price_id i
     \<and> pc_resource c = pi_resource i
     \<and> pc_protocol c = pi_protocol i
     \<and> pc_asset c = pi_asset i
     \<and> pc_amount c = pi_amount i
     \<and> payment_recipients_match X (ai_network (pi_asset i)) (pc_recipient c) (pi_recipient i)
     \<and> \<not> is_blank (pc_nonce c)
     \<and> \<not> is_blank (pc_challenge_hash c)
     \<and> pi_challenge_hash i = Some (pc_challenge_hash c)
     \<and> pi_expires_at i = Some (pc_expires_at c)"

definition checked_usage :: "amount \<Rightarrow> amount \<Rightarrow> string \<Rightarrow> amount result" where
  "checked_usage reserved confirmed scope =
     ok_or (checked_add reserved confirmed) (Storage (scope @ '' payment usage overflowed u128''))"

fun json_as_str :: "json option \<Rightarrow> string option" where
  "json_as_str (Some (JString v)) = Some v"
| "json_as_str _ = None"

fun json_as_bool :: "json option \<Rightarrow> bool option" where
  "json_as_bool (Some (JBool b)) = Some b"
| "json_as_bool _ = None"

text \<open>
  The single event of a type that carries the complete challenge. The messages differ in one word
  between the created and the received event.
\<close>

definition event_challenge :: "string \<Rightarrow> PaymentEvent \<Rightarrow> PaymentChallenge result" where
  "event_challenge which e =
     and_then (ok_or (json_get (ev_payload e) ''challenge'')
       (conflict (which @ '' challenge event has no complete challenge''))) (\<lambda>v.
     ok_or (challenge_from_value v)
       (conflict (which @ '' challenge event contains an invalid challenge'')))"

definition validate_challenge_created_event ::
  "externals \<Rightarrow> PaymentEvent list \<Rightarrow> PaymentIntent \<Rightarrow> PaymentChallenge \<Rightarrow> unit result" where
  "validate_challenge_created_event X events i expected =
     (case filter (\<lambda>e. ev_event_type e = ChallengeCreated) events of
        [e] \<Rightarrow>
          and_then (event_challenge ''created'' e) (\<lambda>c.
          if ev_intent_id e \<noteq> pi_id i
             \<or> ev_attempt_no e \<noteq> 0
             \<or> ev_signature_ref e \<noteq> None
             \<or> ev_tx_hash e \<noteq> None
             \<or> ev_created_at e \<noteq> pi_created_at i
             \<or> c \<noteq> expected
             \<or> \<not> challenge_matches_intent X c i Inbound
          then Inl (conflict ''created challenge event is not bound to the inbound payment intent'')
          else Inr ())
      | _ \<Rightarrow> Inl (conflict ''inbound issuance must contain exactly one created challenge event''))"

definition validate_challenge_received_event ::
  "externals \<Rightarrow> PaymentEvent list \<Rightarrow> PaymentIntent \<Rightarrow> unit result" where
  "validate_challenge_received_event X events i =
     (case filter (\<lambda>e. ev_event_type e = ChallengeReceived) events of
        [e] \<Rightarrow>
          and_then (event_challenge ''received'' e) (\<lambda>c.
          if ev_intent_id e \<noteq> pi_id i
             \<or> ev_attempt_no e \<noteq> 0
             \<or> ev_signature_ref e \<noteq> None
             \<or> ev_tx_hash e \<noteq> None
             \<or> ev_created_at e \<noteq> pi_created_at i
             \<or> json_as_str (json_get (ev_payload e) ''challenge_hash'') \<noteq> Some (pc_challenge_hash c)
             \<or> \<not> challenge_matches_intent X c i Outbound
          then Inl (conflict ''received challenge event is not bound to the outbound payment intent'')
          else Inr ())
      | _ \<Rightarrow> Inl (conflict ''outbound authorization must contain exactly one received challenge event''))"

definition validate_progress_transition ::
  "PaymentIntent \<Rightarrow> PaymentIntent \<Rightarrow> int \<Rightarrow> PaymentEvent list \<Rightarrow> ReservationMutation result" where
  "validate_progress_transition old new expected_updated_at events =
     (if pi_updated_at old \<noteq> expected_updated_at
         \<or> \<not> same_immutable_identity_as old new
         \<or> \<not> allowed_status_transition (pi_status old) (pi_status new)
         \<or> pi_status new \<notin> {PendingSettlement, Unknown, Failed, Expired}
         \<or> pi_settled_amount new \<noteq> pi_settled_amount old
         \<or> pi_tx_hash new \<noteq> pi_tx_hash old
         \<or> pi_settlement_ref new \<noteq> pi_settlement_ref old
         \<or> pi_settled_at new \<noteq> pi_settled_at old
         \<or> events = []
         \<or> list_ex (\<lambda>e. ev_intent_id e \<noteq> pi_id new
              \<or> ev_event_type e \<notin> {CredentialVerified, SettlementRequested, Retried, EvFailed}) events
      then Inl (conflict ''non-financial payment progress is invalid'')
      else if pi_reservation_status new = pi_reservation_status old
              \<and> pi_reserved_amount new = pi_reserved_amount old
      then Inr Unchanged
      else if pi_reservation_status old = Reserved
              \<and> pi_reservation_status new = Released
              \<and> pi_reserved_amount new = pi_reserved_amount old
              \<and> pi_status new \<in> {Failed, Expired}
      then Inr ReleaseOnly
      else Inl (conflict ''non-financial payment progress cannot consume or replace a reservation''))"

definition ledger_entry_bound :: "PaymentIntent \<Rightarrow> PaymentLedgerEntry \<Rightarrow> bool" where
  "ledger_entry_bound i e \<longleftrightarrow>
     le_intent_id e = Some (pi_id i) \<and> le_scenario_id e = Some (pi_scenario_id i)
     \<and> Some (le_wallet_id e) = pi_wallet_id i"

definition matching_fact :: "PaymentIntent \<Rightarrow> PaymentLedgerEntry \<Rightarrow> bool" where
  "matching_fact i e \<longleftrightarrow>
     le_direction e = pi_direction i
     \<and> budget_unit (le_asset e) = budget_unit (pi_asset i)
     \<and> le_intent_id e = Some (pi_id i)"

definition validate_settlement_transition ::
  "PaymentIntent \<Rightarrow> PaymentIntent \<Rightarrow> int \<Rightarrow> PaymentLedgerEntry list \<Rightarrow> unit result" where
  "validate_settlement_transition old new expected_updated_at entries =
     (if pi_updated_at old \<noteq> expected_updated_at
         \<or> \<not> same_immutable_identity_as old new
         \<or> \<not> allowed_status_transition (pi_status old) (pi_status new)
      then Inl (conflict ''settlement payment identity or revision changed'')
      else and_then (try_each (\<lambda>e. if \<not> ledger_entry_bound new e
          then Inl (conflict ''settlement ledger entry is not bound to its payment intent'')
          else Inr ()) entries) (\<lambda>_.
      and_then
        (if pi_reservation_status old = Reserved then
           if pi_reservation_status new \<noteq> Consumed
           then Inl (conflict ''settlement must consume the existing reservation'')
           else if \<not> list_ex (matching_fact new) entries
           then Inl (conflict ''reservation consumption requires a matching confirmed ledger fact'')
           else Inr ()
         else if pi_reservation_status new = Consumed \<and> pi_reservation_status old \<noteq> Consumed
         then Inl (conflict ''an unreserved payment cannot become consumed'')
         else Inr ()) (\<lambda>_.
      if pi_status new = Settled
         \<and> (pi_settled_at new = None \<or> is_zero (pi_settled_amount new) \<or> entries = [])
      then Inl (conflict ''settled payment is missing confirmed settlement facts'')
      else Inr ())))"

definition outbound_evidence_payload_bound :: "PaymentIntent \<Rightarrow> PaymentEvent \<Rightarrow> string \<Rightarrow> bool" where
  "outbound_evidence_payload_bound old e evidence_hash \<longleftrightarrow>
     (let payload = json_get (ev_payload e) ''merchant_response'';
          field = (\<lambda>k. Option.bind payload (\<lambda>v. json_get v k)) in
      json_as_str (json_get (ev_payload e) ''evidence_hash'') = Some evidence_hash
      \<and> json_as_bool (field ''success'') = Some True
      \<and> json_as_str (field ''protocol'') = Some (pi_protocol old)
      \<and> is_some_and (json_as_str (field ''transaction'')) (\<lambda>v. v \<noteq> [])
      \<and> json_as_str (field ''network'') = Some (ai_network (pi_asset old))
      \<and> is_some_and (json_as_str (field ''payer'')) (\<lambda>v. v \<noteq> []))"

definition validate_outbound_evidence_transition ::
  "PaymentIntent \<Rightarrow> PaymentIntent \<Rightarrow> int \<Rightarrow> PaymentEvent \<Rightarrow> string \<Rightarrow> unit result" where
  "validate_outbound_evidence_transition old new expected_updated_at e evidence_hash =
     (if \<not> (length evidence_hash = 64 \<and> list_all is_ascii_hexdigit evidence_hash)
         \<or> pi_updated_at old \<noteq> expected_updated_at
         \<or> pi_direction old \<noteq> Outbound
         \<or> is_blank (pi_protocol old)
         \<or> pi_status old \<notin> {Signed, Unknown}
         \<or> pi_status new \<noteq> PendingSettlement
         \<or> \<not> same_immutable_identity_as old new
         \<or> pi_updated_at new \<le> expected_updated_at
         \<or> pi_reservation_status new \<noteq> pi_reservation_status old
         \<or> pi_reserved_amount new \<noteq> pi_reserved_amount old
         \<or> pi_reservation_status old \<noteq> Reserved
         \<or> pi_reserved_amount old \<noteq> pi_amount old
         \<or> pi_settled_amount new \<noteq> pi_settled_amount old
         \<or> pi_tx_hash new \<noteq> pi_tx_hash old
         \<or> pi_settlement_ref new \<noteq> pi_settlement_ref old
         \<or> pi_settled_at new \<noteq> pi_settled_at old
         \<or> pi_next_reconcile_at new = None
         \<or> ev_intent_id e \<noteq> pi_id old
         \<or> ev_event_type e \<noteq> EvSubmitted
         \<or> ev_attempt_no e \<noteq> 0
         \<or> ev_signature_ref e \<noteq> None
         \<or> ev_tx_hash e \<noteq> None
         \<or> ev_created_at e \<noteq> pi_updated_at new
         \<or> \<not> outbound_evidence_payload_bound old e evidence_hash
      then Inl (PaymentConflict ''outbound merchant evidence transition is invalid'')
      else Inr ())"

definition outbound_evidence_replay_matches :: "PaymentEvent \<Rightarrow> string \<Rightarrow> string \<Rightarrow> bool" where
  "outbound_evidence_replay_matches e intent_id evidence_hash \<longleftrightarrow>
     ev_intent_id e = intent_id
     \<and> ev_event_type e = EvSubmitted
     \<and> ev_attempt_no e = 0
     \<and> ev_signature_ref e = None
     \<and> ev_tx_hash e = None
     \<and> json_as_str (json_get (ev_payload e) ''evidence_hash'') = Some evidence_hash"

section \<open>The status lifecycle\<close>

lemma transition_refl [simp]: "allowed_status_transition s s"
  by (simp add: allowed_status_transition_def)

lemma final_absorbing: "is_final s \<Longrightarrow> allowed_status_transition s t \<Longrightarrow> t = s"
  by (cases s) (auto simp: is_final_def allowed_status_transition_def)

text \<open>A status never returns to an earlier phase; recovery statuses share one phase.\<close>

primrec phase :: "PaymentStatus \<Rightarrow> nat" where
  "phase Created = 0"
| "phase PendingApproval = 1"
| "phase Authorized = 2"
| "phase Signed = 3"
| "phase Submitted = 4"
| "phase PendingSettlement = 4"
| "phase Unknown = 4"
| "phase Settled = 5"
| "phase Failed = 5"
| "phase Expired = 5"

lemma transition_phase: "allowed_status_transition s t \<Longrightarrow> phase s \<le> phase t"
  by (cases s; cases t) (auto simp: allowed_status_transition_def)

lemma reach_phase: "allowed_status_transition\<^sup>*\<^sup>* s t \<Longrightarrow> phase s \<le> phase t"
  by (induction rule: rtranclp_induct) (auto dest: transition_phase)

lemma reach_final: "allowed_status_transition\<^sup>*\<^sup>* s t \<Longrightarrow> is_final s \<Longrightarrow> t = s"
  by (induction rule: rtranclp_induct) (auto dest: final_absorbing)

lemma settled_predecessor:
  "allowed_status_transition s Settled \<Longrightarrow> s \<noteq> Settled \<Longrightarrow>
     s \<in> {Signed, Submitted, PendingSettlement, Unknown}"
  by (cases s) (auto simp: allowed_status_transition_def)

section \<open>Success cases\<close>

lemma validate_progress_ok:
  assumes "validate_progress_transition old new u events = Inr m"
  shows "pi_updated_at old = u" "same_immutable_identity_as old new"
    and "allowed_status_transition (pi_status old) (pi_status new)"
    and "pi_status new \<in> {PendingSettlement, Unknown, Failed, Expired}"
    and "pi_settled_amount new = pi_settled_amount old" "pi_tx_hash new = pi_tx_hash old"
    and "pi_settlement_ref new = pi_settlement_ref old" "pi_settled_at new = pi_settled_at old"
    and "pi_reserved_amount new = pi_reserved_amount old"
    and "m = Unchanged \<and> pi_reservation_status new = pi_reservation_status old
      \<or> m = ReleaseOnly \<and> pi_reservation_status old = Reserved \<and> pi_reservation_status new = Released
        \<and> pi_status new \<in> {Failed, Expired}"
  using assms by (auto simp: validate_progress_transition_def result_simps split: if_splits)

lemma validate_settlement_ok:
  assumes "validate_settlement_transition old new u entries = Inr ()"
  shows "pi_updated_at old = u" "same_immutable_identity_as old new"
    and "allowed_status_transition (pi_status old) (pi_status new)"
    and "\<And>e. e \<in> set entries \<Longrightarrow> ledger_entry_bound new e"
    and "pi_reservation_status old = Reserved \<Longrightarrow>
      pi_reservation_status new = Consumed \<and> (\<exists>e \<in> set entries. matching_fact new e)"
    and "pi_reservation_status new = Consumed \<Longrightarrow>
      pi_reservation_status old = Reserved \<or> pi_reservation_status old = Consumed"
    and "pi_status new = Settled \<Longrightarrow>
      pi_settled_at new \<noteq> None \<and> pi_settled_amount new \<noteq> 0 \<and> entries \<noteq> []"
  using assms
  by (auto simp: validate_settlement_transition_def result_simps is_zero_def list_ex_iff is_ok_iff
      split: if_splits)

end
