(* ===== verification/Wallet_Store.thy ===== *)
theory Wallet_Store
  imports Payment_Rules
begin

text \<open>
  Wallet persistence (\<^verbatim>\<open>storage/wallet/transactions.rs\<close>): creation, key rotation and
  compromise, wallet-wide limits, the enabled flag, and the balance observations, over the tables
  \<^verbatim>\<open>pay_wallet\<close>, \<^verbatim>\<open>wallet_key_version\<close> and \<^verbatim>\<open>pay_wallet_balance\<close> with their
  declarative constraints. The lemmas show that a wallet's key versions are exactly 1 to n with at
  most the last one active, and that an active key always matches the wallet it signs for.
\<close>

section \<open>Constraints\<close>

definition lower_hex :: "string \<Rightarrow> bool" where
  "lower_hex v \<longleftrightarrow> list_all (\<lambda>c. is_ascii_digit c \<or> (97 \<le> ascii c \<and> ascii c \<le> 102)) v"

definition evm_account_address :: "string \<Rightarrow> bool" where
  "evm_account_address a \<longleftrightarrow>
     length a = 42 \<and> take 2 (to_ascii_lowercase a) = ''0x'' \<and> lower_hex (drop 2 (to_ascii_lowercase a))"

definition evm_algorithm_label :: "string \<Rightarrow> bool" where
  "evm_algorithm_label a \<longleftrightarrow>
     to_ascii_lowercase a \<in> {''secp256k1'', ''evm'', ''ethereum'', ''eip155''}"

definition address_check :: "string \<Rightarrow> string \<Rightarrow> bool" where
  "address_check algorithm address \<longleftrightarrow>
     (evm_algorithm_label algorithm \<longrightarrow>
        length address = 42 \<and> take 2 address = ''0x'' \<and> address = to_ascii_lowercase address
        \<and> lower_hex (drop 2 address))
     \<and> (evm_account_address address \<longrightarrow> address = to_ascii_lowercase address)"

definition pay_wallet_check :: "PaymentWallet \<Rightarrow> bool" where
  "pay_wallet_check r \<longleftrightarrow>
     \<not> sql_blank (w_id (pw_wallet r)) \<and> \<not> sql_blank (w_algorithm (pw_wallet r))
     \<and> \<not> sql_blank (w_address (pw_wallet r))
     \<and> is_none_or (pw_max_per_payment r) (\<lambda>m. m \<noteq> 0) \<and> is_none_or (pw_max_per_day r) (\<lambda>m. m \<noteq> 0)
     \<and> 0 \<le> w_created_at (pw_wallet r) \<and> w_created_at (pw_wallet r) \<le> pw_updated_at r
     \<and> (pw_custody r = Local \<longrightarrow> w_public_key (pw_wallet r) \<noteq> [])
     \<and> (w_public_key (pw_wallet r) = [] \<or> \<not> sql_blank (w_public_key (pw_wallet r)))
     \<and> is_none_or (pw_budget_unit r) (\<lambda>u. \<not> sql_blank (bu_asset u))
     \<and> ((pw_max_per_payment r = None \<and> pw_max_per_day r = None) \<or> pw_budget_unit r \<noteq> None)
     \<and> \<not> payment_over_day (pw_max_per_payment r) (pw_max_per_day r)
     \<and> address_check (w_algorithm (pw_wallet r)) (w_address (pw_wallet r))"

definition pay_wallet_clash :: "PaymentWallet \<Rightarrow> PaymentWallet \<Rightarrow> bool" where
  "pay_wallet_clash q r \<longleftrightarrow>
     w_id (pw_wallet q) = w_id (pw_wallet r)
     \<or> (w_algorithm (pw_wallet q) = w_algorithm (pw_wallet r)
        \<and> w_address (pw_wallet q) = w_address (pw_wallet r))
     \<or> (evm_account_address (w_address (pw_wallet q)) \<and> evm_account_address (w_address (pw_wallet r))
        \<and> to_ascii_lowercase (w_address (pw_wallet q)) = to_ascii_lowercase (w_address (pw_wallet r)))"

definition ENCRYPTION_SCHEME :: string where
  "ENCRYPTION_SCHEME = ''aes-256-gcm-uuid-v4-nonce-envelope-v1''"

definition wallet_key_check :: "EncryptedWalletKeyVersion \<Rightarrow> bool" where
  "wallet_key_check k \<longleftrightarrow>
     1 \<le> kv_version k \<and> \<not> sql_blank (kv_algorithm k) \<and> \<not> sql_blank (kv_address k)
     \<and> \<not> sql_blank (kv_public_key k) \<and> kv_encryption_scheme k = ENCRYPTION_SCHEME
     \<and> \<not> sql_blank (kv_kek_id k) \<and> kv_wrapped_data_key k \<noteq> [] \<and> length (kv_wrap_nonce k) = 16
     \<and> kv_key_ciphertext k \<noteq> [] \<and> length (kv_key_nonce k) = 16 \<and> kv_aad k \<noteq> []
     \<and> 0 \<le> kv_activated_at k \<and> 0 \<le> kv_created_at k
     \<and> is_none_or (kv_retired_at k) (\<lambda>t. kv_activated_at k \<le> t)
     \<and> address_check (kv_algorithm k) (kv_address k)
     \<and> (kv_status k = Active \<longleftrightarrow> kv_retired_at k = None)"

definition wallet_key_clash :: "EncryptedWalletKeyVersion \<Rightarrow> EncryptedWalletKeyVersion \<Rightarrow> bool" where
  "wallet_key_clash j k \<longleftrightarrow>
     (kv_wallet_id j = kv_wallet_id k \<and> kv_version j = kv_version k)
     \<or> (kv_wallet_id j = kv_wallet_id k \<and> kv_status j = Active \<and> kv_status k = Active)
     \<or> (kv_kek_id j = kv_kek_id k \<and> kv_wrap_nonce j = kv_wrap_nonce k)"

definition pay_wallet_balance_check :: "WalletBalanceRecord \<Rightarrow> bool" where
  "pay_wallet_balance_check b \<longleftrightarrow>
     \<not> sql_blank (ai_network (br_asset b)) \<and> \<not> sql_blank (ai_asset (br_asset b))
     \<and> 0 \<le> br_observed_at b \<and> br_observed_at b \<le> br_updated_at b"

section \<open>Reading wallets\<close>

definition find_wallet :: "db \<Rightarrow> string \<Rightarrow> PaymentWallet option" where
  "find_wallet s i = find (\<lambda>r. w_id (pw_wallet r) = i) (pay_wallet s)"

definition load_active_key :: "db \<Rightarrow> string \<Rightarrow> EncryptedWalletKeyVersion option" where
  "load_active_key s i = find (\<lambda>k. kv_wallet_id k = i \<and> kv_status k = Active) (wallet_key_version s)"

definition list_key_versions :: "db \<Rightarrow> string \<Rightarrow> EncryptedWalletKeyVersion list" where
  "list_key_versions s i = sort_key kv_version (filter (\<lambda>k. kv_wallet_id k = i) (wallet_key_version s))"

definition canonical_payment_wallet :: "externals \<Rightarrow> PaymentWallet \<Rightarrow> PaymentWallet result" where
  "canonical_payment_wallet X r =
     map_err (\<lambda>field. Storage (''stored payment wallet has invalid '' @ field)) (PaymentWallet_canonicalized X r)"

definition load_payment_wallet :: "externals \<Rightarrow> db \<Rightarrow> string \<Rightarrow> PaymentWallet option result" where
  "load_payment_wallet X s i =
     (case find_wallet s i of
        None \<Rightarrow> Inr None
      | Some r \<Rightarrow>
          and_then (canonical_payment_wallet X
            (r\<lparr>pw_active_key_version := map_option kv_version (load_active_key s i)\<rparr>)) (\<lambda>w.
          Inr (Some w)))"

section \<open>Writing wallets and keys\<close>

definition insert_wallet :: "Wallet \<Rightarrow> WalletCustody \<Rightarrow> WalletCreationConfig \<Rightarrow> db \<Rightarrow> db result" where
  "insert_wallet w custody c s =
     (let r = \<lparr>pw_wallet = w, pw_custody = custody, pw_enabled = wc_enabled c, pw_active_key_version = None,
               pw_budget_unit = wc_budget_unit c, pw_max_per_payment = wc_max_per_payment c,
               pw_max_per_day = wc_max_per_day c, pw_updated_at = w_created_at w\<rparr> in
      if pay_wallet_check r \<and> \<not> list_ex (\<lambda>q. pay_wallet_clash q r) (pay_wallet s)
      then Inr (s\<lparr>pay_wallet := pay_wallet s @ [r]\<rparr>)
      else Inl (conflict ''payment wallet insert rejected''))"

definition insert_key :: "EncryptedWalletKeyVersion \<Rightarrow> db \<Rightarrow> db result" where
  "insert_key k s =
     and_then (ok_or (find_wallet s (kv_wallet_id k)) (NotFound (''payment wallet '' @ kv_wallet_id k))) (\<lambda>r.
     if pw_custody r \<noteq> Local
        \<or> (kv_status k = Active
           \<and> (w_algorithm (pw_wallet r) \<noteq> kv_algorithm k
              \<or> w_address (pw_wallet r) \<noteq> kv_address k
              \<or> w_public_key (pw_wallet r) = []
              \<or> w_public_key (pw_wallet r) \<noteq> kv_public_key k))
     then Inl (conflict ''key version does not match a local-custody wallet'')
     else if wallet_key_check k \<and> \<not> list_ex (\<lambda>j. wallet_key_clash j k) (wallet_key_version s)
     then Inr (s\<lparr>wallet_key_version := wallet_key_version s @ [k]\<rparr>)
     else Inl (conflict ''encrypted wallet key insert rejected''))"

definition create_local_configured ::
  "externals \<Rightarrow> Wallet \<Rightarrow> EncryptedWalletKeyVersion \<Rightarrow> WalletCreationConfig \<Rightarrow> db \<Rightarrow> Wallet result \<times> db" where
  "create_local_configured X wallet k c = transaction (\<lambda>s.
     and_then (canonical_wallet X wallet) (\<lambda>w.
     and_then (validate_key_for_wallet w k True) (\<lambda>_.
     and_then (validate_creation_config c) (\<lambda>_.
     if kv_version k \<noteq> 1 then Inl (InvalidKey ''initial wallet key version must be 1'')
     else and_then (insert_wallet w Local c s) (\<lambda>t.
     and_then (insert_key k t) (\<lambda>u.
     Inr (w, u)))))))"

definition create_local ::
  "externals \<Rightarrow> Wallet \<Rightarrow> EncryptedWalletKeyVersion \<Rightarrow> db \<Rightarrow> Wallet result \<times> db" where
  "create_local X wallet k = create_local_configured X wallet k
     \<lparr>wc_enabled = True, wc_budget_unit = None, wc_max_per_payment = None, wc_max_per_day = None\<rparr>"

definition create_external_configured ::
  "externals \<Rightarrow> Wallet \<Rightarrow> WalletCreationConfig \<Rightarrow> db \<Rightarrow> Wallet result \<times> db" where
  "create_external_configured X wallet c = transaction (\<lambda>s.
     and_then (canonical_wallet X wallet) (\<lambda>w.
     and_then (validate_creation_config c) (\<lambda>_.
     and_then (insert_wallet w External c s) (\<lambda>t.
     Inr (w, t)))))"

definition rotate_wallet ::
  "externals \<Rightarrow> Wallet \<Rightarrow> EncryptedWalletKeyVersion \<Rightarrow> int \<Rightarrow> db \<Rightarrow> Wallet result \<times> db" where
  "rotate_wallet X wallet k retired_at = transaction (\<lambda>s.
     and_then (canonical_wallet X wallet) (\<lambda>w.
     and_then (validate_key_for_wallet w k True) (\<lambda>_.
     and_then (ok_or (find_wallet s (w_id w)) (NotFound (''payment wallet '' @ w_id w))) (\<lambda>r.
     and_then (ok_or (map_option kv_version (load_active_key s (w_id w)))
       (conflict ''local wallet has no active key to rotate'')) (\<lambda>active_version.
     if pw_custody r \<noteq> Local \<or> w_created_at (pw_wallet r) \<noteq> w_created_at w
     then Inl (conflict ''wallet key rotation identity or version is invalid'')
     else and_then (ok_or (u32_checked_add active_version 1) (conflict ''wallet key version overflow''))
       (\<lambda>next_version.
     if kv_version k \<noteq> next_version \<or> retired_at < kv_activated_at k \<or> kv_activated_at k < pw_updated_at r
     then Inl (conflict ''wallet key rotation identity or version is invalid'')
     else let hit = (\<lambda>j. kv_wallet_id j = w_id w \<and> kv_version j = active_version \<and> kv_status j = Active);
              retire = (\<lambda>j. j\<lparr>kv_status := Retired, kv_retired_at := Some retired_at\<rparr>) in
     if list_ex (\<lambda>j. hit j \<and> \<not> wallet_key_check (retire j)) (wallet_key_version s)
     then Inl (conflict ''retire active wallet key rejected'')
     else if rows_affected hit (wallet_key_version s) \<noteq> 1
     then Inl (conflict ''active wallet key changed during rotation'')
     else let owned = (\<lambda>q. w_id (pw_wallet q) = w_id w);
              rekey = (\<lambda>q. q\<lparr>pw_wallet := (pw_wallet q)\<lparr>w_algorithm := w_algorithm w,
                  w_address := w_address w, w_public_key := w_public_key w\<rparr>,
                pw_updated_at := kv_activated_at k\<rparr>) in
     if list_ex (\<lambda>q. owned q \<and> (\<not> pay_wallet_check (rekey q)
          \<or> list_ex (\<lambda>p. \<not> owned p \<and> pay_wallet_clash p (rekey q)) (pay_wallet s))) (pay_wallet s)
     then Inl (conflict ''update wallet key metadata rejected'')
     else if rows_affected owned (pay_wallet s) \<noteq> 1
     then Inl (conflict ''payment wallet changed during key rotation'')
     else and_then (insert_key k
         (s\<lparr>wallet_key_version := update_where hit retire (wallet_key_version s),
            pay_wallet := update_where owned rekey (pay_wallet s)\<rparr>)) (\<lambda>t.
     Inr (w, t))))))))"

definition mark_key_compromised :: "string \<Rightarrow> u32 \<Rightarrow> int \<Rightarrow> db \<Rightarrow> unit result \<times> db" where
  "mark_key_compromised wallet_id version retired_at = transaction (\<lambda>s.
     let hit = (\<lambda>j. kv_wallet_id j = wallet_id \<and> kv_version j = version
                 \<and> (kv_status j = Active \<or> kv_retired_at j = Some retired_at));
         mark = (\<lambda>j. j\<lparr>kv_status := Compromised,
                   kv_retired_at := (if kv_status j = Active then Some retired_at else kv_retired_at j)\<rparr>) in
     if list_ex (\<lambda>j. hit j \<and> \<not> wallet_key_check (mark j)) (wallet_key_version s)
     then Inl (conflict ''mark wallet key compromised rejected'')
     else if rows_affected hit (wallet_key_version s) \<noteq> 1
     then Inl (conflict ''wallet key was not found or retirement time conflicts'')
     else Inr ((), s\<lparr>wallet_key_version := update_where hit mark (wallet_key_version s)\<rparr>))"

definition validate_limits :: "BudgetUnit \<Rightarrow> amount option \<Rightarrow> amount option \<Rightarrow> unit result" where
  "validate_limits u per_payment per_day =
     and_then (map_err (\<lambda>field. InvalidRequest (''invalid wallet budget unit '' @ field))
       (BudgetUnit_validate u)) (\<lambda>_.
     if is_some_and per_payment is_zero \<or> is_some_and per_day is_zero \<or> payment_over_day per_payment per_day
     then Inl (InvalidRequest ''invalid wallet spending limits'')
     else Inr ())"

definition bound_policy_ids :: "db \<Rightarrow> string \<Rightarrow> string list" where
  "bound_policy_ids s i = sort (map pm_policy_id (filter (\<lambda>m. pm_wallet_id m = i) (pay_policy_wallet s)))"

text \<open>The policies joined with their memberships on one wallet.\<close>

definition wallet_policies :: "db \<Rightarrow> string \<Rightarrow> PaymentPolicy list" where
  "wallet_policies s i =
     filter (\<lambda>p. list_ex (\<lambda>m. pm_policy_id m = pp_id p \<and> pm_wallet_id m = i) (pay_policy_wallet s))
       (pay_policy s)"

definition lock_bound_policies :: "db \<Rightarrow> string \<Rightarrow> string list" where
  "lock_bound_policies s i = sort (map pp_id (wallet_policies s i))"

definition enabled_scenarios :: "db \<Rightarrow> string \<Rightarrow> string list" where
  "enabled_scenarios s i = remdups (map pp_scenario_id (filter pp_enabled (wallet_policies s i)))"

definition set_spending_limits ::
  "string \<Rightarrow> BudgetUnit \<Rightarrow> amount option \<Rightarrow> amount option \<Rightarrow> int \<Rightarrow> db \<Rightarrow> unit result \<times> db" where
  "set_spending_limits wallet_id u per_payment per_day updated_at = transaction (\<lambda>s.
     and_then (validate_limits u per_payment per_day) (\<lambda>_.
     let policy_ids = lock_bound_policies s wallet_id in
     and_then (ok_or (find_wallet s wallet_id) (NotFound (''payment wallet '' @ wallet_id))) (\<lambda>r.
     if bound_policy_ids s wallet_id \<noteq> policy_ids
        \<or> pw_updated_at r > updated_at
        \<or> (policy_ids \<noteq> [] \<and> pw_budget_unit r \<noteq> Some u)
     then Inl (conflict ''wallet policy bindings, revision, or budget unit changed'')
     else if length (enabled_scenarios s wallet_id) > 1 \<and> (per_payment = None \<or> per_day = None)
     then Inl (conflict ''wallet shared across scenarios requires aggregate hard limits'')
     else let hit = (\<lambda>q. w_id (pw_wallet q) = wallet_id \<and> pw_updated_at q = pw_updated_at r);
              change = (\<lambda>q. q\<lparr>pw_budget_unit := Some u, pw_max_per_payment := per_payment,
                pw_max_per_day := per_day, pw_updated_at := updated_at\<rparr>) in
     if list_ex (\<lambda>q. hit q \<and> \<not> pay_wallet_check (change q)) (pay_wallet s)
     then Inl (conflict ''wallet limit update rejected'')
     else if rows_affected hit (pay_wallet s) \<noteq> 1
     then Inl (conflict ''payment wallet revision changed'')
     else Inr ((), s\<lparr>pay_wallet := update_where hit change (pay_wallet s)\<rparr>))))"

definition set_enabled :: "string \<Rightarrow> bool \<Rightarrow> int \<Rightarrow> db \<Rightarrow> unit result \<times> db" where
  "set_enabled wallet_id enabled updated_at = transaction (\<lambda>s.
     let hit = (\<lambda>q. w_id (pw_wallet q) = wallet_id \<and> pw_updated_at q \<le> updated_at);
         change = (\<lambda>q. q\<lparr>pw_enabled := enabled, pw_updated_at := updated_at\<rparr>) in
     if list_ex (\<lambda>q. hit q \<and> \<not> pay_wallet_check (change q)) (pay_wallet s)
     then Inl (Storage ''update payment wallet lifecycle'')
     else if rows_affected hit (pay_wallet s) \<noteq> 1
     then Inl (conflict ''wallet was not found or update timestamp moved backwards'')
     else Inr ((), s\<lparr>pay_wallet := update_where hit change (pay_wallet s)\<rparr>))"

section \<open>Balances\<close>

definition same_balance :: "WalletBalanceRecord \<Rightarrow> WalletBalanceRecord \<Rightarrow> bool" where
  "same_balance a b \<longleftrightarrow> br_wallet_id a = br_wallet_id b \<and> br_asset a = br_asset b"

definition upsert_balance :: "WalletBalanceRecord \<Rightarrow> db \<Rightarrow> WalletBalanceRecord result \<times> db" where
  "upsert_balance b = transaction (\<lambda>s.
     and_then (map_err (\<lambda>field. InvalidRequest (''invalid wallet balance '' @ field))
       (WalletBalanceRecord_validate b)) (\<lambda>_.
     if \<not> pay_wallet_balance_check b \<or> find_wallet s (br_wallet_id b) = None
     then Inl (Storage ''upsert wallet balance'')
     else case find (\<lambda>o'. same_balance o' b) (pay_wallet_balance s) of
       None \<Rightarrow> Inr (b, s\<lparr>pay_wallet_balance := pay_wallet_balance s @ [b]\<rparr>)
     | Some old \<Rightarrow>
         if br_observed_at b < br_observed_at old
         then Inl (conflict ''wallet balance observation moved backwards'')
         else Inr (b, s\<lparr>pay_wallet_balance :=
           update_where (\<lambda>o'. same_balance o' b) (\<lambda>_. b) (pay_wallet_balance s)\<rparr>)))"

definition get_balance :: "db \<Rightarrow> string \<Rightarrow> AssetIdentity \<Rightarrow> WalletBalanceRecord option result" where
  "get_balance s wallet_id asset =
     and_then (map_err (\<lambda>field. InvalidRequest (''invalid wallet balance asset '' @ field))
       (AssetIdentity_validate asset)) (\<lambda>_.
     Inr (find (\<lambda>b. br_wallet_id b = wallet_id \<and> br_asset b = asset) (pay_wallet_balance s)))"

section \<open>Key histories\<close>

text \<open>
  The invariant of the wallet tables: wallets are told apart by their identifiers; the versions of a
  wallet's keys are 1, 2, ..., n in the order they were added, and none but the last is active; and an
  active key belongs to a local-custody wallet that carries its algorithm, address and public key.
\<close>

definition wallet_keys :: "db \<Rightarrow> string \<Rightarrow> EncryptedWalletKeyVersion list" where
  "wallet_keys s i = filter (\<lambda>k. kv_wallet_id k = i) (wallet_key_version s)"

definition key_history :: "EncryptedWalletKeyVersion list \<Rightarrow> bool" where
  "key_history ks \<longleftrightarrow>
     map (\<lambda>k. unat (kv_version k)) ks = [1..<Suc (length ks)]
     \<and> (\<forall>k \<in> set (butlast ks). kv_status k \<noteq> Active)"

definition key_matches :: "PaymentWallet \<Rightarrow> EncryptedWalletKeyVersion \<Rightarrow> bool" where
  "key_matches r k \<longleftrightarrow>
     pw_custody r = Local \<and> w_algorithm (pw_wallet r) = kv_algorithm k
     \<and> w_address (pw_wallet r) = kv_address k \<and> w_public_key (pw_wallet r) = kv_public_key k"

definition key_inv :: "db \<Rightarrow> bool" where
  "key_inv s \<longleftrightarrow>
     distinct (map (\<lambda>r. w_id (pw_wallet r)) (pay_wallet s))
     \<and> (\<forall>i. key_history (wallet_keys s i))
     \<and> (\<forall>k \<in> set (wallet_key_version s). \<exists>r. find_wallet s (kv_wallet_id k) = Some r
          \<and> (kv_status k = Active \<longrightarrow> key_matches r k))"

lemma key_history_snoc:
  "key_history (ks @ [k]) \<longleftrightarrow>
     map (\<lambda>k. unat (kv_version k)) ks = [1..<Suc (length ks)] \<and> unat (kv_version k) = Suc (length ks)
     \<and> (\<forall>j \<in> set ks. kv_status j \<noteq> Active)"
  by (auto simp: key_history_def)

lemma key_history_map:
  assumes "key_history ks" "\<And>k. k \<in> set ks \<Longrightarrow> kv_version (f k) = kv_version k"
    and "\<And>k. k \<in> set ks \<Longrightarrow> kv_status k \<noteq> Active \<Longrightarrow> kv_status (f k) \<noteq> Active"
  shows "key_history (map f ks)"
proof -
  have "map (\<lambda>k. unat (kv_version k)) (map f ks) = map (\<lambda>k. unat (kv_version k)) ks"
    using assms(2) by simp
  moreover have "\<forall>k \<in> set (butlast (map f ks)). kv_status k \<noteq> Active"
    using assms(1,3) by (auto simp: key_history_def map_butlast [symmetric] dest: in_set_butlastD)
  ultimately show ?thesis using assms(1) unfolding key_history_def by (simp only: length_map)
qed

lemma key_history_active:
  assumes "key_history ks" "k \<in> set ks" "kv_status k = Active"
  shows "ks = butlast ks @ [k]" "unat (kv_version k) = length ks"
proof -
  have ne: "ks \<noteq> []" using assms(2) by auto
  have "k \<in> set (butlast ks @ [last ks])" using assms(2) ne by simp
  then have "k = last ks" using assms(1,3) by (auto simp: key_history_def)
  then show split: "ks = butlast ks @ [k]" using ne by simp
  have "last (map (\<lambda>k. unat (kv_version k)) ks) = unat (kv_version k)"
    using split ne by (metis last_map \<open>k = last ks\<close>)
  moreover have "last [1..<Suc (length ks)] = length ks" using ne by (cases ks) simp_all
  ultimately show "unat (kv_version k) = length ks" using assms(1) by (simp add: key_history_def)
qed

lemma find_wallet_update:
  assumes "\<And>r. w_id (pw_wallet (f r)) = w_id (pw_wallet r)"
  shows "find_wallet (s\<lparr>pay_wallet := update_where P f (pay_wallet s)\<rparr>) i
    = map_option (\<lambda>r. if P r then f r else r) (find_wallet s i)"
  unfolding find_wallet_def using find_update_where [of "\<lambda>r. w_id (pw_wallet r)" f] assms by simp

lemma find_wallet_id: "find_wallet s i = Some r \<Longrightarrow> w_id (pw_wallet r) = i"
  by (auto simp: find_wallet_def dest: find_Some_in)

lemma find_wallet_keys [simp]: "find_wallet (s\<lparr>wallet_key_version := x\<rparr>) = find_wallet s"
  by (rule ext) (simp add: find_wallet_def)

lemma map_update_where:
  "(\<And>r. key (f r) = key r) \<Longrightarrow> map key (update_where P f rows) = map key rows"
  by (simp add: update_where_def)

text \<open>A change of wallet rows that keeps identity, custody and key metadata keeps the invariant.\<close>

lemma key_inv_wallet_update:
  assumes "key_inv s" "\<And>r. pw_wallet (f r) = pw_wallet r" "\<And>r. pw_custody (f r) = pw_custody r"
  shows "key_inv (s\<lparr>pay_wallet := update_where P f (pay_wallet s)\<rparr>)"
proof -
  have f: "w_id (pw_wallet (f r)) = w_id (pw_wallet r)" for r by (simp add: assms(2))
  have m: "key_matches (if P r then f r else r) k = key_matches r k" for r k
    by (simp add: key_matches_def assms)
  show ?thesis
    using assms(1) unfolding key_inv_def
    by (simp add: f map_update_where wallet_keys_def find_wallet_update) (metis m)
qed

text \<open>What a budget rule never changes of a wallet.\<close>

definition wallet_core :: "PaymentWallet \<Rightarrow> Wallet \<times> WalletCustody" where
  "wallet_core r = (pw_wallet r, pw_custody r)"

lemma find_map_core:
  assumes "map wallet_core rows = map wallet_core rows'"
  shows "rel_option (\<lambda>q r. wallet_core q = wallet_core r) (find (\<lambda>r. w_id (pw_wallet r) = i) rows)
    (find (\<lambda>r. w_id (pw_wallet r) = i) rows')"
  using assms
  by (induction rows rows' rule: list_induct2') (auto simp: wallet_core_def)

lemma key_inv_core:
  assumes "key_inv s" "map wallet_core (pay_wallet t) = map wallet_core (pay_wallet s)"
    "wallet_key_version t = wallet_key_version s"
  shows "key_inv t"
proof -
  have "map (w_id \<circ> fst) (map wallet_core (pay_wallet t)) = map (w_id \<circ> fst) (map wallet_core (pay_wallet s))"
    using assms(2) by simp
  then have "map (\<lambda>r. w_id (pw_wallet r)) (pay_wallet t) = map (\<lambda>r. w_id (pw_wallet r)) (pay_wallet s)"
    by (simp add: wallet_core_def comp_def)
  moreover have "\<exists>q. find_wallet t i = Some q \<and> (\<forall>k. key_matches q k = key_matches r k)"
    if "find_wallet s i = Some r" for i r
    using find_map_core [OF assms(2), of i] that
    by (auto simp: find_wallet_def option_rel_Some2 key_matches_def wallet_core_def)
  moreover have "wallet_keys t = wallet_keys s" by (auto simp: wallet_keys_def assms(3))
  ultimately show ?thesis
    using assms(1) unfolding key_inv_def assms(3) by metis
qed

section \<open>The operations keep key histories\<close>

lemma set_enabled_keys:
  "set_enabled i e u s = (v, t) \<Longrightarrow> key_inv s \<Longrightarrow> key_inv t"
  by (auto simp: set_enabled_def transaction_def Let_def split: if_splits intro: key_inv_wallet_update)

lemma lock_bound_policies_empty: "lock_bound_policies s i = [] \<longleftrightarrow> wallet_policies s i = []"
  by (metis length_0_conv length_map length_sort lock_bound_policies_def)

lemma set_spending_limits_ok:
  assumes "set_spending_limits i u p d at s = (Inr (), t)"
  obtains r where "find_wallet s i = Some r" "validate_limits u p d = Inr ()"
    "wallet_policies s i \<noteq> [] \<Longrightarrow> pw_budget_unit r = Some u"
    "length (enabled_scenarios s i) > 1 \<Longrightarrow> p \<noteq> None \<and> d \<noteq> None"
    "t = s\<lparr>pay_wallet := update_where (\<lambda>q. w_id (pw_wallet q) = i \<and> pw_updated_at q = pw_updated_at r)
       (\<lambda>q. q\<lparr>pw_budget_unit := Some u, pw_max_per_payment := p, pw_max_per_day := d,
          pw_updated_at := at\<rparr>) (pay_wallet s)\<rparr>"
  using assms
  by (auto simp: set_spending_limits_def transaction_ok Let_def result_simps lock_bound_policies_empty
      split: if_splits intro: that)

lemma set_spending_limits_keys:
  assumes "set_spending_limits i u p d at s = (v, t)" "key_inv s"
  shows "key_inv t"
proof (cases v)
  case (Inr w)
  with assms(1) have "set_spending_limits i u p d at s = (Inr (), t)" by simp
  then show ?thesis
    by (rule set_spending_limits_ok) (use assms(2) in \<open>simp add: key_inv_wallet_update\<close>)
qed (use assms in \<open>auto simp: set_spending_limits_def dest: transaction_err\<close>)

lemma mark_key_compromised_ok:
  "mark_key_compromised i n at s = (Inr (), t) \<Longrightarrow>
     t = s\<lparr>wallet_key_version := update_where
       (\<lambda>j. kv_wallet_id j = i \<and> kv_version j = n \<and> (kv_status j = Active \<or> kv_retired_at j = Some at))
       (\<lambda>j. j\<lparr>kv_status := Compromised,
          kv_retired_at := (if kv_status j = Active then Some at else kv_retired_at j)\<rparr>)
       (wallet_key_version s)\<rparr>"
  by (auto simp: mark_key_compromised_def transaction_ok Let_def split: if_splits)

lemma wallet_keys_update:
  assumes "\<And>k. kv_wallet_id (f k) = kv_wallet_id k"
  shows "wallet_keys (s\<lparr>wallet_key_version := update_where P f (wallet_key_version s)\<rparr>) i
    = map (\<lambda>k. if P k then f k else k) (wallet_keys s i)"
  unfolding wallet_keys_def using assms by (simp add: filter_update_where)

text \<open>So does a change of key rows that keeps their identity and activates none.\<close>

lemma key_inv_key_update:
  assumes "key_inv s" "\<And>k. kv_wallet_id (f k) = kv_wallet_id k" "\<And>k. kv_version (f k) = kv_version k"
    and "\<And>k. kv_status (f k) \<noteq> Active"
  shows "key_inv (s\<lparr>wallet_key_version := update_where P f (wallet_key_version s)\<rparr>)"
  unfolding key_inv_def
proof (intro conjI allI ballI)
  show "distinct (map (\<lambda>r. w_id (pw_wallet r))
      (pay_wallet (s\<lparr>wallet_key_version := update_where P f (wallet_key_version s)\<rparr>)))"
    using assms(1) by (simp add: key_inv_def)
  show "key_history (wallet_keys (s\<lparr>wallet_key_version := update_where P f (wallet_key_version s)\<rparr>) i)" for i
    unfolding wallet_keys_update [of f, OF assms(2)]
    by (rule key_history_map) (use assms in \<open>auto simp: key_inv_def\<close>)
next
  fix k
  assume "k \<in> set (wallet_key_version (s\<lparr>wallet_key_version := update_where P f (wallet_key_version s)\<rparr>))"
  then obtain j where j: "j \<in> set (wallet_key_version s)" "k = (if P j then f j else j)"
    by (auto simp: in_update_where)
  then obtain r where "find_wallet s (kv_wallet_id j) = Some r" "kv_status j = Active \<longrightarrow> key_matches r j"
    using assms(1) by (auto simp: key_inv_def)
  then show "\<exists>r. find_wallet (s\<lparr>wallet_key_version := update_where P f (wallet_key_version s)\<rparr>)
      (kv_wallet_id k) = Some r \<and> (kv_status k = Active \<longrightarrow> key_matches r k)"
    using j assms(2,4) by auto
qed

lemma mark_key_compromised_keys:
  assumes "mark_key_compromised i n at s = (v, t)" "key_inv s"
  shows "key_inv t"
proof (cases v)
  case (Inr w)
  with assms(1) have "mark_key_compromised i n at s = (Inr (), t)" by simp
  from mark_key_compromised_ok [OF this] show ?thesis
    using assms(2) by (simp add: key_inv_key_update)
qed (use assms in \<open>auto simp: mark_key_compromised_def dest: transaction_err\<close>)

lemma insert_wallet_ok:
  "insert_wallet w custody c s = Inr t \<Longrightarrow>
     \<exists>r. t = s\<lparr>pay_wallet := pay_wallet s @ [r]\<rparr> \<and> pw_wallet r = w \<and> pw_custody r = custody
       \<and> pw_max_per_payment r = wc_max_per_payment c \<and> pw_max_per_day r = wc_max_per_day c
       \<and> (\<forall>q \<in> set (pay_wallet s). w_id (pw_wallet q) \<noteq> w_id w)"
  by (auto simp: insert_wallet_def Let_def list_ex_iff pay_wallet_clash_def split: if_splits)

lemma find_wallet_append:
  assumes "\<forall>q \<in> set (pay_wallet s). w_id (pw_wallet q) \<noteq> w_id (pw_wallet r)"
  shows "find_wallet (s\<lparr>pay_wallet := pay_wallet s @ [r]\<rparr>) i
    = (if i = w_id (pw_wallet r) then Some r else find_wallet s i)"
proof -
  have "find_wallet s (w_id (pw_wallet r)) = None"
    using assms by (auto simp: find_wallet_def find_None_iff)
  then show ?thesis by (auto simp: find_wallet_def find_append split: option.splits)
qed

lemma insert_wallet_keys:
  assumes "insert_wallet w custody c s = Inr t" "key_inv s"
  shows "key_inv t" "wallet_keys t (w_id w) = []"
proof -
  from insert_wallet_ok [OF assms(1)] obtain r where t: "t = s\<lparr>pay_wallet := pay_wallet s @ [r]\<rparr>"
    and r: "pw_wallet r = w" and fresh: "\<forall>q \<in> set (pay_wallet s). w_id (pw_wallet q) \<noteq> w_id w"
    by blast
  have old: "kv_wallet_id k \<noteq> w_id w" if k: "k \<in> set (wallet_key_version s)" for k
  proof -
    obtain q where "find_wallet s (kv_wallet_id k) = Some q" using assms(2) k by (auto simp: key_inv_def)
    then have "q \<in> set (pay_wallet s)" "w_id (pw_wallet q) = kv_wallet_id k"
      by (auto simp: find_wallet_def dest: find_Some_in)
    with fresh show ?thesis by force
  qed
  then show "wallet_keys t (w_id w) = []" by (auto simp: wallet_keys_def t filter_empty_conv)
  show "key_inv t"
    using assms(2) old fresh
    by (auto simp: key_inv_def t r find_wallet_append wallet_keys_def)
qed

lemma insert_key_ok:
  assumes "insert_key k s = Inr t"
  obtains r where "find_wallet s (kv_wallet_id k) = Some r" "kv_status k = Active \<longrightarrow> key_matches r k"
    "t = s\<lparr>wallet_key_version := wallet_key_version s @ [k]\<rparr>"
  using assms by (auto simp: insert_key_def result_simps key_matches_def split: if_splits)

lemma insert_key_keys:
  assumes "insert_key k s = Inr t" "key_inv s"
    and "unat (kv_version k) = Suc (length (wallet_keys s (kv_wallet_id k)))"
    and "\<forall>j \<in> set (wallet_keys s (kv_wallet_id k)). kv_status j \<noteq> Active"
  shows "key_inv t"
proof -
  from assms(1) obtain r where r: "find_wallet s (kv_wallet_id k) = Some r"
    "kv_status k = Active \<longrightarrow> key_matches r k" and t: "t = s\<lparr>wallet_key_version := wallet_key_version s @ [k]\<rparr>"
    by (rule insert_key_ok)
  have "key_history (wallet_keys t i)" for i
  proof (cases "i = kv_wallet_id k")
    case True
    have "key_history (wallet_keys s i)" using assms(2) by (simp add: key_inv_def)
    then have "key_history (wallet_keys s i @ [k])"
      unfolding key_history_snoc using assms(3,4) True by (simp only: key_history_def)
    then show ?thesis by (simp add: t wallet_keys_def True)
  next
    case False
    then show ?thesis using assms(2) by (simp add: t wallet_keys_def key_inv_def)
  qed
  then show ?thesis using assms(2) r by (auto simp: key_inv_def t)
qed

lemma validate_key_for_wallet_ok:
  "validate_key_for_wallet w k a = Inr () \<Longrightarrow>
     kv_wallet_id k = w_id w \<and> kv_algorithm k = w_algorithm w \<and> kv_address k = w_address w
     \<and> kv_public_key k = w_public_key w \<and> (a \<longrightarrow> kv_status k = Active) \<and> kv_retired_at k = None"
  by (auto simp: validate_key_for_wallet_def result_simps)

lemma create_local_ok:
  assumes "create_local_configured X wallet k c s = (Inr w, t)"
  obtains u where "insert_wallet w Local c s = Inr u" "insert_key k u = Inr t"
    "validate_key_for_wallet w k True = Inr ()" "kv_version k = 1"
  using assms by (auto simp: create_local_configured_def transaction_ok result_simps split: if_splits)

lemma create_local_keys:
  assumes "create_local_configured X wallet k c s = (v, t)" "key_inv s"
  shows "key_inv t"
proof (cases v)
  case (Inr w)
  with assms(1) have "create_local_configured X wallet k c s = (Inr w, t)" by simp
  then obtain u where u: "insert_wallet w Local c s = Inr u" "insert_key k u = Inr t"
    "kv_version k = 1" and k: "validate_key_for_wallet w k True = Inr ()" by (rule create_local_ok)
  have "kv_wallet_id k = w_id w" using validate_key_for_wallet_ok [OF k] by simp
  with insert_wallet_keys [OF u(1) assms(2)] insert_key_keys [OF u(2)] u(3) show ?thesis by simp
qed (use assms in \<open>auto simp: create_local_configured_def dest: transaction_err\<close>)

lemma create_external_keys:
  assumes "create_external_configured X wallet c s = (v, t)" "key_inv s"
  shows "key_inv t"
  using assms insert_wallet_keys
  by (auto simp: create_external_configured_def transaction_def and_then_def split: sum.splits)

text \<open>What a successful rotation does, on the tables.\<close>

definition retire_key :: "string \<Rightarrow> u32 \<Rightarrow> int \<Rightarrow> EncryptedWalletKeyVersion list \<Rightarrow>
    EncryptedWalletKeyVersion list" where
  "retire_key i n at = update_where (\<lambda>j. kv_wallet_id j = i \<and> kv_version j = n \<and> kv_status j = Active)
     (\<lambda>j. j\<lparr>kv_status := Retired, kv_retired_at := Some at\<rparr>)"

definition rekey_wallet :: "Wallet \<Rightarrow> int \<Rightarrow> PaymentWallet list \<Rightarrow> PaymentWallet list" where
  "rekey_wallet w at = update_where (\<lambda>q. w_id (pw_wallet q) = w_id w)
     (\<lambda>q. q\<lparr>pw_wallet := (pw_wallet q)\<lparr>w_algorithm := w_algorithm w, w_address := w_address w,
         w_public_key := w_public_key w\<rparr>, pw_updated_at := at\<rparr>)"

lemma rotate_ok:
  assumes "rotate_wallet X wallet k retired_at s = (Inr w, t)"
  obtains r a where "find_wallet s (w_id w) = Some r" "pw_custody r = Local"
    "load_active_key s (w_id w) = Some a" "u32_checked_add (kv_version a) 1 = Some (kv_version k)"
    "validate_key_for_wallet w k True = Inr ()"
    "insert_key k (s\<lparr>wallet_key_version := retire_key (w_id w) (kv_version a) retired_at (wallet_key_version s),
       pay_wallet := rekey_wallet w (kv_activated_at k) (pay_wallet s)\<rparr>) = Inr t"
  using assms
  by (auto simp: rotate_wallet_def transaction_ok Let_def result_simps retire_key_def rekey_wallet_def
      split: if_splits)

lemma load_active_key_in:
  "load_active_key s i = Some a \<Longrightarrow> a \<in> set (wallet_keys s i) \<and> kv_status a = Active"
  by (auto simp: load_active_key_def wallet_keys_def dest: find_Some_in)

lemma wallet_keys_wallets [simp]: "wallet_keys (s\<lparr>pay_wallet := x\<rparr>) = wallet_keys s"
  by (rule ext) (simp add: wallet_keys_def)

lemma key_inv_rekey:
  assumes "key_inv s" "\<forall>k \<in> set (wallet_keys s (w_id w)). kv_status k \<noteq> Active"
  shows "key_inv (s\<lparr>pay_wallet := rekey_wallet w at (pay_wallet s)\<rparr>)"
  unfolding key_inv_def
proof (intro conjI allI ballI)
  show "distinct (map (\<lambda>r. w_id (pw_wallet r)) (pay_wallet (s\<lparr>pay_wallet := rekey_wallet w at (pay_wallet s)\<rparr>)))"
    using assms(1) by (simp add: key_inv_def rekey_wallet_def map_update_where)
  show "key_history (wallet_keys (s\<lparr>pay_wallet := rekey_wallet w at (pay_wallet s)\<rparr>) i)" for i
    using assms(1) by (simp add: key_inv_def)
next
  fix k assume "k \<in> set (wallet_key_version (s\<lparr>pay_wallet := rekey_wallet w at (pay_wallet s)\<rparr>))"
  then have k: "k \<in> set (wallet_key_version s)" by simp
  then obtain r where r: "find_wallet s (kv_wallet_id k) = Some r" "kv_status k = Active \<longrightarrow> key_matches r k"
    using assms(1) by (auto simp: key_inv_def)
  have "kv_status k = Active \<Longrightarrow> w_id (pw_wallet r) \<noteq> w_id w"
    using assms(2) k find_wallet_id [OF r(1)] by (auto simp: wallet_keys_def)
  with r show "\<exists>r. find_wallet (s\<lparr>pay_wallet := rekey_wallet w at (pay_wallet s)\<rparr>) (kv_wallet_id k) = Some r
      \<and> (kv_status k = Active \<longrightarrow> key_matches r k)"
    by (auto simp: rekey_wallet_def find_wallet_update)
qed

lemma rotate_keys:
  assumes "rotate_wallet X wallet k retired_at s = (v, t)" "key_inv s"
  shows "key_inv t"
proof (cases v)
  case (Inr w)
  with assms(1) have "rotate_wallet X wallet k retired_at s = (Inr w, t)" by simp
  then obtain r a where active: "load_active_key s (w_id w) = Some a"
    and next_version: "u32_checked_add (kv_version a) 1 = Some (kv_version k)"
    and k: "validate_key_for_wallet w k True = Inr ()"
    and ins: "insert_key k (s\<lparr>wallet_key_version := retire_key (w_id w) (kv_version a) retired_at (wallet_key_version s),
       pay_wallet := rekey_wallet w (kv_activated_at k) (pay_wallet s)\<rparr>) = Inr t"
    by (rule rotate_ok)
  let ?s1 = "s\<lparr>wallet_key_version := retire_key (w_id w) (kv_version a) retired_at (wallet_key_version s)\<rparr>"
  let ?ks = "wallet_keys s (w_id w)"
  have hist: "key_history ?ks" using assms(2) by (simp add: key_inv_def)
  note a = key_history_active [OF hist] load_active_key_in [OF active]
  have keys1: "wallet_keys ?s1 (w_id w) = map (\<lambda>j. if kv_wallet_id j = w_id w \<and> kv_version j = kv_version a
      \<and> kv_status j = Active then j\<lparr>kv_status := Retired, kv_retired_at := Some retired_at\<rparr> else j) ?ks"
    by (simp add: retire_key_def wallet_keys_update)
  have inv1: "key_inv ?s1" using assms(2) by (simp add: retire_key_def key_inv_key_update)
  have "j = a" if "j \<in> set ?ks" "kv_status j = Active" for j
    using key_history_active(1) [OF hist that] a by (metis append1_eq_conv)
  then have none: "\<forall>j \<in> set (wallet_keys ?s1 (w_id w)). kv_status j \<noteq> Active"
    unfolding keys1 by (auto simp: wallet_keys_def)
  have "kv_wallet_id k = w_id w" using validate_key_for_wallet_ok [OF k] by simp
  moreover have "unat (kv_version k) = Suc (length (wallet_keys ?s1 (w_id w)))"
    using u32_checked_add_unat [OF next_version] a unfolding keys1 by simp
  ultimately show ?thesis
    using insert_key_keys [OF ins] key_inv_rekey [OF inv1 none] none by simp
qed (use assms in \<open>auto simp: rotate_wallet_def dest: transaction_err\<close>)

section \<open>What a loaded wallet is\<close>

lemma load_payment_wallet_Some:
  assumes "load_payment_wallet X s i = Inr (Some w)"
  obtains r where "find_wallet s i = Some r" "w_id (pw_wallet w) = i"
    "pw_active_key_version w = map_option kv_version (load_active_key s i)"
    "pw_budget_unit w = pw_budget_unit r" "pw_max_per_payment w = pw_max_per_payment r"
    "pw_max_per_day w = pw_max_per_day r" "pw_custody w = pw_custody r" "pw_enabled w = pw_enabled r"
    "pw_updated_at w = pw_updated_at r"
proof -
  from assms obtain r c where r: "find_wallet s i = Some r"
    and c: "Wallet_canonicalized X (pw_wallet r) = Inr c"
    and w: "w = r\<lparr>pw_active_key_version := map_option kv_version (load_active_key s i), pw_wallet := c\<rparr>"
    by (auto simp: load_payment_wallet_def canonical_payment_wallet_def PaymentWallet_canonicalized_def
        result_simps split: option.splits)
  show thesis
    by (rule that [OF r]) (use find_wallet_id [OF r] Wallet_canonicalized_fields [OF c] in \<open>simp_all add: w\<close>)
qed

lemma load_payment_wallet_cong:
  "pay_wallet t = pay_wallet s \<Longrightarrow> wallet_key_version t = wallet_key_version s \<Longrightarrow>
     load_payment_wallet X t = load_payment_wallet X s"
proof -
  assume eq: "pay_wallet t = pay_wallet s" "wallet_key_version t = wallet_key_version s"
  have "find_wallet t = find_wallet s" "load_active_key t = load_active_key s"
    by (auto simp: eq find_wallet_def load_active_key_def)
  then show ?thesis by (intro ext) (simp add: load_payment_wallet_def split: option.split)
qed

section \<open>Balance observations\<close>

lemma upsert_balance_read_back:
  assumes "upsert_balance b s = (Inr c, t)"
  shows "get_balance t (br_wallet_id b) (br_asset b) = Inr (Some b)"
proof -
  have valid: "AssetIdentity_validate (br_asset b) = Inr ()"
    using assms by (auto simp: upsert_balance_def transaction_ok result_simps WalletBalanceRecord_validate_def)
  have key: "(\<lambda>x. br_wallet_id x = br_wallet_id b \<and> br_asset x = br_asset b) = (\<lambda>x. same_balance x b)"
    by (auto simp: same_balance_def)
  have "find (\<lambda>x. same_balance x b) (pay_wallet_balance t) = Some b"
  proof (cases "find (\<lambda>x. same_balance x b) (pay_wallet_balance s)")
    case None
    then show ?thesis
      using assms by (auto simp: upsert_balance_def transaction_ok result_simps find_append same_balance_def)
  next
    case (Some old)
    then have "pay_wallet_balance t = update_where (\<lambda>x. same_balance x b) (\<lambda>_. b) (pay_wallet_balance s)"
      using assms by (auto simp: upsert_balance_def transaction_ok result_simps split: if_splits)
    then show ?thesis
      using Some find_Some_in [OF Some]
      by (simp add: update_where_def find_map_same same_balance_def)
  qed
  then show ?thesis by (simp add: get_balance_def valid key)
qed

end
