(* ===== verification/Policy_Store.thy ===== *)
theory Policy_Store
  imports Wallet_Store
begin

text \<open>
  Policy persistence (\<^verbatim>\<open>storage/policy/transactions.rs\<close>): the policy aggregate with its
  memberships, and the cross-policy wallet rules that an insert or an update re-validates. The lemmas
  show the round trip through the two tables and the binding invariant: a wallet bound by enabled
  policies of two scenarios has both hard limits, a scenario binds a wallet by at most one enabled
  policy, and a bound wallet has the budget unit of every policy that binds it.
\<close>

section \<open>Constraints\<close>

definition pay_policy_limits_check :: "PaymentPolicyLimits option \<Rightarrow> bool" where
  "pay_policy_limits_check limits =
     is_none_or limits (\<lambda>l.
       pl_max_per_payment l \<noteq> 0 \<and> pl_max_per_day l \<noteq> 0
       \<and> is_none_or (pl_approval_threshold l) (\<lambda>m. m \<noteq> 0) \<and> is_none_or (pl_approval_overage l) (\<lambda>m. m \<noteq> 0)
       \<and> pl_max_per_payment l \<le> pl_max_per_day l
       \<and> (pl_approval_enabled l \<or> pl_approval_overage l = None))"

definition pay_policy_check :: "PaymentPolicy \<Rightarrow> bool" where
  "pay_policy_check p \<longleftrightarrow>
     \<not> sql_blank (pp_id p) \<and> \<not> sql_blank (bu_asset (pp_budget_unit p))
     \<and> pay_policy_limits_check (pp_inbound_limits p) \<and> pay_policy_limits_check (pp_outbound_limits p)
     \<and> (pp_inbound_limits p \<noteq> None \<or> pp_outbound_limits p \<noteq> None)
     \<and> 0 \<le> pp_created_at p \<and> pp_created_at p \<le> pp_updated_at p"

definition scenario_exists :: "db \<Rightarrow> string \<Rightarrow> bool" where
  "scenario_exists s i \<longleftrightarrow> list_ex (\<lambda>sc. sc_id sc = i) (pay_scenario s)"

section \<open>Operations\<close>

definition validate_policy :: "PaymentPolicy \<Rightarrow> unit result" where
  "validate_policy p =
     map_err (\<lambda>field. InvalidRequest (''invalid payment policy '' @ field)) (PaymentPolicy_validate p)"

definition load_wallet_ids :: "db \<Rightarrow> string \<Rightarrow> string list" where
  "load_wallet_ids s i = sort (map pm_wallet_id (filter (\<lambda>m. pm_policy_id m = i) (pay_policy_wallet s)))"

definition load_policy :: "db \<Rightarrow> string \<Rightarrow> PaymentPolicy option" where
  "load_policy s i =
     map_option (\<lambda>p. p\<lparr>pp_wallet_ids := load_wallet_ids s i\<rparr>) (find (\<lambda>p. pp_id p = i) (pay_policy s))"

definition insert_policy :: "PaymentPolicy \<Rightarrow> db \<Rightarrow> db result" where
  "insert_policy p s =
     (if pay_policy_check p \<and> scenario_exists s (pp_scenario_id p)
         \<and> \<not> list_ex (\<lambda>q. pp_id q = pp_id p) (pay_policy s)
      then Inr (s\<lparr>pay_policy := pay_policy s @ [p\<lparr>pp_wallet_ids := []\<rparr>]\<rparr>)
      else Inl (conflict ''payment policy insert rejected''))"

definition lock_wallets :: "db \<Rightarrow> string list \<Rightarrow> unit result" where
  "lock_wallets s ids =
     try_each (\<lambda>i. if find_wallet s i = None
       then Inl (conflict ''payment policy references an unavailable wallet'') else Inr ()) ids"

definition pin_budget_unit :: "PaymentPolicy \<Rightarrow> PaymentWallet \<Rightarrow> PaymentWallet" where
  "pin_budget_unit p q = q\<lparr>pw_budget_unit := Some (pp_budget_unit p),
     pw_updated_at := (if pw_updated_at q + 1 > pp_created_at p then pw_updated_at q + 1
       else pp_created_at p)\<rparr>"

definition initialize_wallet_budget_unit :: "string \<Rightarrow> PaymentPolicy \<Rightarrow> db \<Rightarrow> db result" where
  "initialize_wallet_budget_unit wallet_id p s =
     (let hit = (\<lambda>q. w_id (pw_wallet q) = wallet_id \<and> pw_budget_unit q = None) in
      if list_ex (\<lambda>q. hit q \<and> \<not> pay_wallet_check (pin_budget_unit p q)) (pay_wallet s)
      then Inl (conflict ''initialize wallet budget unit rejected'')
      else if rows_affected hit (pay_wallet s) \<noteq> 1
      then Inl (conflict ''wallet budget unit changed while binding policy'')
      else Inr (s\<lparr>pay_wallet := update_where hit (pin_budget_unit p) (pay_wallet s)\<rparr>))"

definition validate_wallet_binding :: "PaymentPolicy \<Rightarrow> string \<Rightarrow> db \<Rightarrow> db result" where
  "validate_wallet_binding p wallet_id s =
     and_then (ok_or (find_wallet s wallet_id) (Storage ''load locked payment policy wallet'')) (\<lambda>r.
     let has_hard_limits = (pw_max_per_payment r \<noteq> None \<and> pw_max_per_day r \<noteq> None) in
     and_then (case pw_budget_unit r of
         None \<Rightarrow> initialize_wallet_budget_unit wallet_id p s
       | Some u \<Rightarrow>
           if u = pp_budget_unit p then Inr s
           else Inl (conflict ''payment policy budget unit does not match its wallet'')) (\<lambda>t.
     if \<not> pp_enabled p then Inr t
     else if list_ex (\<lambda>q. pp_enabled q \<and> pp_scenario_id q = pp_scenario_id p \<and> pp_id q \<noteq> pp_id p)
          (wallet_policies t wallet_id)
     then Inl (conflict ''scenario wallet already has an enabled payment policy'')
     else if list_ex (\<lambda>q. pp_enabled q \<and> pp_scenario_id q \<noteq> pp_scenario_id p \<and> pp_id q \<noteq> pp_id p)
          (wallet_policies t wallet_id) \<and> \<not> has_hard_limits
     then Inl (conflict ''wallet shared across scenarios requires aggregate hard limits'')
     else Inr t))"

definition validate_wallet_bindings :: "PaymentPolicy \<Rightarrow> db \<Rightarrow> db result" where
  "validate_wallet_bindings p = each_step (validate_wallet_binding p) (pp_wallet_ids p)"

definition insert_membership :: "PaymentPolicy \<Rightarrow> string \<Rightarrow> db \<Rightarrow> db result" where
  "insert_membership p wallet_id s =
     (if 0 \<le> pp_created_at p \<and> list_ex (\<lambda>q. pp_id q = pp_id p) (pay_policy s)
         \<and> find_wallet s wallet_id \<noteq> None
         \<and> \<not> list_ex (\<lambda>m. pm_policy_id m = pp_id p \<and> pm_wallet_id m = wallet_id) (pay_policy_wallet s)
      then Inr (s\<lparr>pay_policy_wallet := pay_policy_wallet s
        @ [\<lparr>pm_policy_id = pp_id p, pm_wallet_id = wallet_id, pm_created_at = pp_created_at p\<rparr>]\<rparr>)
      else Inl (conflict ''payment policy wallet binding rejected''))"

definition insert_policy_aggregate :: "PaymentPolicy \<Rightarrow> db \<Rightarrow> db result" where
  "insert_policy_aggregate p s =
     and_then (insert_policy p s) (\<lambda>t.
     and_then (lock_wallets t (pp_wallet_ids p)) (\<lambda>_.
     and_then (validate_wallet_bindings p t)
       (each_step (insert_membership p) (pp_wallet_ids p))))"

definition policy_insert :: "PaymentPolicy \<Rightarrow> db \<Rightarrow> PaymentPolicy result \<times> db" where
  "policy_insert p = transaction (\<lambda>s.
     and_then (validate_policy p) (\<lambda>_.
     and_then (insert_policy_aggregate p s) (\<lambda>t.
     Inr (p, t))))"

text \<open>The columns an update writes.\<close>

definition replace_policy :: "PaymentPolicy \<Rightarrow> PaymentPolicy \<Rightarrow> PaymentPolicy" where
  "replace_policy p q = q\<lparr>pp_protocols := pp_protocols p, pp_networks := pp_networks p,
     pp_assets := pp_assets p, pp_allowed_recipients := pp_allowed_recipients p,
     pp_allowed_origins := pp_allowed_origins p, pp_inbound_limits := pp_inbound_limits p,
     pp_outbound_limits := pp_outbound_limits p, pp_enabled := pp_enabled p,
     pp_updated_at := pp_updated_at p\<rparr>"

definition policy_update :: "PaymentPolicy \<Rightarrow> int \<Rightarrow> db \<Rightarrow> PaymentPolicy result \<times> db" where
  "policy_update p expected_updated_at = transaction (\<lambda>s.
     and_then (validate_policy p) (\<lambda>_.
     and_then (ok_or (load_policy s (pp_id p)) (NotFound (''payment policy '' @ pp_id p))) (\<lambda>existing.
     if pp_scenario_id existing \<noteq> pp_scenario_id p
        \<or> pp_wallet_ids existing \<noteq> pp_wallet_ids p
        \<or> pp_budget_unit existing \<noteq> pp_budget_unit p
        \<or> pp_created_at existing \<noteq> pp_created_at p
        \<or> pp_updated_at existing \<noteq> expected_updated_at
        \<or> pp_updated_at p \<le> expected_updated_at
     then Inl (conflict ''payment policy identity or revision changed'')
     else and_then (lock_wallets s (pp_wallet_ids p)) (\<lambda>_.
     and_then (validate_wallet_bindings p s) (\<lambda>t.
     let hit = (\<lambda>q. pp_id q = pp_id p \<and> pp_updated_at q = expected_updated_at) in
     if list_ex (\<lambda>q. hit q \<and> \<not> pay_policy_check (replace_policy p q)) (pay_policy t)
     then Inl (conflict ''payment policy update rejected'')
     else if rows_affected hit (pay_policy t) \<noteq> 1
     then Inl (conflict ''payment policy revision changed'')
     else Inr (p, t\<lparr>pay_policy := update_where hit (replace_policy p) (pay_policy t)\<rparr>))))))"

definition has_enabled_wallet_binding :: "db \<Rightarrow> string \<Rightarrow> string \<Rightarrow> bool" where
  "has_enabled_wallet_binding s scenario_id wallet_id =
     list_ex (\<lambda>p. pp_scenario_id p = scenario_id \<and> pp_enabled p) (wallet_policies s wallet_id)"

section \<open>The binding invariant\<close>

definition has_hard_limits :: "PaymentWallet \<Rightarrow> bool" where
  "has_hard_limits r \<longleftrightarrow> pw_max_per_payment r \<noteq> None \<and> pw_max_per_day r \<noteq> None"

definition binding_ok :: "PaymentPolicy set \<Rightarrow> PaymentWallet \<Rightarrow> bool" where
  "binding_ok ps r \<longleftrightarrow>
     (\<forall>p \<in> ps. pw_budget_unit r = Some (pp_budget_unit p))
     \<and> (\<forall>p \<in> ps. \<forall>q \<in> ps. pp_enabled p \<and> pp_enabled q \<and> pp_id p \<noteq> pp_id q \<longrightarrow>
          pp_scenario_id p \<noteq> pp_scenario_id q \<and> has_hard_limits r)"

definition membership_key :: "policy_wallet_row \<Rightarrow> string \<times> string" where
  "membership_key m = (pm_policy_id m, pm_wallet_id m)"

definition binding_inv :: "db \<Rightarrow> bool" where
  "binding_inv s \<longleftrightarrow>
     distinct (map pp_id (pay_policy s))
     \<and> distinct (map membership_key (pay_policy_wallet s))
     \<and> (\<forall>m \<in> set (pay_policy_wallet s).
          pm_policy_id m \<in> pp_id ` set (pay_policy s) \<and> find_wallet s (pm_wallet_id m) \<noteq> None)
     \<and> (\<forall>i r. find_wallet s i = Some r \<longrightarrow> binding_ok (set (wallet_policies s i)) r)"

text \<open>What \<open>validate_wallet_binding\<close> establishes for one wallet of a policy.\<close>

definition bindable :: "PaymentPolicy \<Rightarrow> db \<Rightarrow> string \<Rightarrow> bool" where
  "bindable p s i \<longleftrightarrow>
     (\<exists>r. find_wallet s i = Some r \<and> pw_budget_unit r = Some (pp_budget_unit p)
        \<and> (pp_enabled p \<longrightarrow> (\<forall>q \<in> set (wallet_policies s i). pp_enabled q \<and> pp_id q \<noteq> pp_id p \<longrightarrow>
             pp_scenario_id q \<noteq> pp_scenario_id p \<and> has_hard_limits r)))"

lemma in_wallet_policies:
  "p \<in> set (wallet_policies s i) \<longleftrightarrow>
     p \<in> set (pay_policy s) \<and> (\<exists>m \<in> set (pay_policy_wallet s). membership_key m = (pp_id p, i))"
  by (auto simp: wallet_policies_def list_ex_iff membership_key_def)

lemma wallet_policies_wallets [simp]: "wallet_policies (s\<lparr>pay_wallet := x\<rparr>) = wallet_policies s"
  by (rule ext) (simp add: wallet_policies_def)

lemma binding_inv_cong:
  assumes "pay_policy t = pay_policy s" "pay_policy_wallet t = pay_policy_wallet s" "pay_wallet t = pay_wallet s"
  shows "binding_inv t = binding_inv s"
proof -
  have "find_wallet t = find_wallet s" "wallet_policies t = wallet_policies s"
    by (auto simp: find_wallet_def wallet_policies_def assms)
  then show ?thesis by (simp add: binding_inv_def assms)
qed

lemma binding_ok_same:
  "binding_ok ps r \<Longrightarrow> pw_budget_unit q = pw_budget_unit r \<Longrightarrow> has_hard_limits q = has_hard_limits r \<Longrightarrow>
     binding_ok ps q"
  by (simp add: binding_ok_def)

text \<open>Changing wallets: each row must stay compatible with the policies that bind it.\<close>

lemma binding_inv_wallets:
  assumes "binding_inv s" "\<And>r. w_id (pw_wallet (f r)) = w_id (pw_wallet r)"
    and "\<And>i r. find_wallet s i = Some r \<Longrightarrow> P r \<Longrightarrow> binding_ok (set (wallet_policies s i)) r \<Longrightarrow>
      binding_ok (set (wallet_policies s i)) (f r)"
  shows "binding_inv (s\<lparr>pay_wallet := update_where P f (pay_wallet s)\<rparr>)"
  unfolding binding_inv_def find_wallet_update [of f, OF assms(2)] wallet_policies_wallets
proof (intro conjI ballI allI impI)
  fix i r
  assume "map_option (\<lambda>r. if P r then f r else r) (find_wallet s i) = Some r"
  then obtain q where q: "find_wallet s i = Some q" "r = (if P q then f q else q)" by auto
  moreover have "binding_ok (set (wallet_policies s i)) q"
    using assms(1) q(1) by (simp add: binding_inv_def)
  ultimately show "binding_ok (set (wallet_policies s i)) r" using assms(3) by simp
qed (use assms(1) in \<open>auto simp: binding_inv_def\<close>)

lemma set_enabled_binding:
  assumes "set_enabled i e u s = (v, t)" "binding_inv s"
  shows "binding_inv t"
proof -
  have "binding_inv (s\<lparr>pay_wallet := update_where P (\<lambda>q. q\<lparr>pw_enabled := e, pw_updated_at := u\<rparr>) (pay_wallet s)\<rparr>)"
    for P
    using assms(2) by (rule binding_inv_wallets) (auto simp: binding_ok_def has_hard_limits_def)
  with assms show ?thesis by (auto simp: set_enabled_def transaction_def Let_def split: if_splits)
qed

lemma enabled_scenarios_two:
  assumes "p \<in> set (wallet_policies s i)" "q \<in> set (wallet_policies s i)" "pp_enabled p" "pp_enabled q"
    and "pp_scenario_id p \<noteq> pp_scenario_id q"
  shows "1 < length (enabled_scenarios s i)"
proof -
  have "card {pp_scenario_id p, pp_scenario_id q} \<le> card (set (enabled_scenarios s i))"
    by (rule card_mono) (use assms in \<open>auto simp: enabled_scenarios_def\<close>)
  also have "\<dots> = length (enabled_scenarios s i)"
    by (simp add: enabled_scenarios_def length_remdups_card_conv)
  finally show ?thesis using assms(5) by simp
qed

lemma set_spending_limits_binding:
  assumes "set_spending_limits i u p d at s = (v, t)" "binding_inv s"
  shows "binding_inv t"
proof (cases v)
  case (Inr w)
  with assms(1) have "set_spending_limits i u p d at s = (Inr (), t)" by simp
  then show ?thesis
  proof (rule set_spending_limits_ok)
    fix r
    assume r: "find_wallet s i = Some r" "wallet_policies s i \<noteq> [] \<Longrightarrow> pw_budget_unit r = Some u"
      and two: "length (enabled_scenarios s i) > 1 \<Longrightarrow> p \<noteq> None \<and> d \<noteq> None"
      and t: "t = s\<lparr>pay_wallet := update_where (\<lambda>q. w_id (pw_wallet q) = i \<and> pw_updated_at q = pw_updated_at r)
         (\<lambda>q. q\<lparr>pw_budget_unit := Some u, pw_max_per_payment := p, pw_max_per_day := d,
            pw_updated_at := at\<rparr>) (pay_wallet s)\<rparr>"
    show "binding_inv t"
      unfolding t
    proof (rule binding_inv_wallets [OF assms(2)])
      fix j q
      assume q: "find_wallet s j = Some q" "w_id (pw_wallet q) = i \<and> pw_updated_at q = pw_updated_at r"
        and ok: "binding_ok (set (wallet_policies s j)) q"
      then have "j = i" "q = r" using find_wallet_id [of s j q] r(1) by auto
      have limits: "p \<noteq> None \<and> d \<noteq> None" if "a \<in> set (wallet_policies s i)" "b \<in> set (wallet_policies s i)"
        "pp_enabled a" "pp_enabled b" "pp_id a \<noteq> pp_id b" for a b
        using ok that two enabled_scenarios_two [of a s i b] unfolding \<open>j = i\<close> binding_ok_def by blast
      have units: "pp_budget_unit a = u" if "a \<in> set (wallet_policies s i)" for a
        using ok that r(2) unfolding \<open>j = i\<close> \<open>q = r\<close> binding_ok_def by force
      show "binding_ok (set (wallet_policies s j))
          (q\<lparr>pw_budget_unit := Some u, pw_max_per_payment := p, pw_max_per_day := d, pw_updated_at := at\<rparr>)"
        unfolding binding_ok_def has_hard_limits_def \<open>j = i\<close>
      proof (intro conjI ballI impI)
        show "pp_scenario_id a \<noteq> pp_scenario_id b" if "a \<in> set (wallet_policies s i)"
          "b \<in> set (wallet_policies s i)" "pp_enabled a \<and> pp_enabled b \<and> pp_id a \<noteq> pp_id b" for a b
          using ok that unfolding \<open>j = i\<close> binding_ok_def by blast
      qed (use units limits in \<open>simp; blast\<close>)+
    qed simp
  qed
qed (use assms in \<open>auto simp: set_spending_limits_def dest: transaction_err\<close>)

lemma binding_inv_new_wallet:
  assumes "binding_inv s" "\<forall>q \<in> set (pay_wallet s). w_id (pw_wallet q) \<noteq> w_id (pw_wallet r)"
  shows "binding_inv (s\<lparr>pay_wallet := pay_wallet s @ [r]\<rparr>)"
proof -
  have none: "find_wallet s (w_id (pw_wallet r)) = None"
    using assms(2) by (auto simp: find_wallet_def find_None_iff)
  then have "wallet_policies s (w_id (pw_wallet r)) = []"
    using assms(1)
    by (auto simp: binding_inv_def wallet_policies_def filter_empty_conv list_ex_iff)
  then have "binding_ok (set (wallet_policies s (w_id (pw_wallet r)))) r"
    by (simp add: binding_ok_def)
  with assms show ?thesis
    unfolding binding_inv_def by (simp add: find_wallet_append)
qed

lemma insert_wallet_binding:
  "insert_wallet w custody c s = Inr t \<Longrightarrow> binding_inv s \<Longrightarrow> binding_inv t"
  using insert_wallet_ok binding_inv_new_wallet by metis

lemma insert_key_binding: "insert_key k s = Inr t \<Longrightarrow> binding_inv s \<Longrightarrow> binding_inv t"
  using binding_inv_cong [of t s] by (auto elim!: insert_key_ok)

lemma create_local_binding:
  assumes "create_local_configured X wallet k c s = (v, t)" "binding_inv s"
  shows "binding_inv t"
proof (cases v)
  case (Inr w)
  with assms(1) have "create_local_configured X wallet k c s = (Inr w, t)" by simp
  then show ?thesis
    by (rule create_local_ok) (use assms(2) insert_wallet_binding insert_key_binding in blast)
qed (use assms in \<open>auto simp: create_local_configured_def dest: transaction_err\<close>)

lemma create_external_binding:
  "create_external_configured X wallet c s = (v, t) \<Longrightarrow> binding_inv s \<Longrightarrow> binding_inv t"
  using insert_wallet_binding
  by (auto simp: create_external_configured_def transaction_def and_then_def split: sum.splits)

lemma mark_key_compromised_binding:
  assumes "mark_key_compromised i n at s = (v, t)" "binding_inv s"
  shows "binding_inv t"
proof (cases v)
  case (Inr w)
  with assms(1) have "mark_key_compromised i n at s = (Inr (), t)" by simp
  from mark_key_compromised_ok [OF this] show ?thesis
    using assms(2) binding_inv_cong [of t s] by simp
qed (use assms in \<open>auto simp: mark_key_compromised_def dest: transaction_err\<close>)

lemma rotate_binding:
  assumes "rotate_wallet X wallet k retired_at s = (v, t)" "binding_inv s"
  shows "binding_inv t"
proof (cases v)
  case (Inr w)
  with assms(1) have "rotate_wallet X wallet k retired_at s = (Inr w, t)" by simp
  then obtain a :: EncryptedWalletKeyVersion where ins: "insert_key k (s\<lparr>wallet_key_version := retire_key (w_id w) (kv_version a) retired_at
      (wallet_key_version s), pay_wallet := rekey_wallet w (kv_activated_at k) (pay_wallet s)\<rparr>) = Inr t"
    by (rule rotate_ok)
  have "binding_inv (s\<lparr>pay_wallet := rekey_wallet w (kv_activated_at k) (pay_wallet s)\<rparr>)"
    unfolding rekey_wallet_def
    using assms(2) by (rule binding_inv_wallets) (auto simp: binding_ok_def has_hard_limits_def)
  then have "binding_inv (s\<lparr>wallet_key_version := retire_key (w_id w) (kv_version a) retired_at
      (wallet_key_version s), pay_wallet := rekey_wallet w (kv_activated_at k) (pay_wallet s)\<rparr>)"
    by (subst (asm) binding_inv_cong [symmetric]) simp_all
  with insert_key_binding [OF ins] show ?thesis by simp
qed (use assms in \<open>auto simp: rotate_wallet_def dest: transaction_err\<close>)

section \<open>Policy operations keep it\<close>

lemma validate_wallet_binding_ok:
  assumes "validate_wallet_binding p i s = Inr t" "binding_inv s"
  shows "binding_inv t" "bindable p t i" "\<exists>x. t = s\<lparr>pay_wallet := x\<rparr>"
    and "map wallet_core (pay_wallet t) = map wallet_core (pay_wallet s)"
    and "\<And>j. bindable p s j \<Longrightarrow> bindable p t j"
proof -
  from assms(1) obtain r where r: "find_wallet s i = Some r"
    and t: "(pw_budget_unit r = None \<and> initialize_wallet_budget_unit i p s = Inr t)
      \<or> (pw_budget_unit r = Some (pp_budget_unit p) \<and> t = s)"
    and other: "pp_enabled p \<longrightarrow> (\<forall>q \<in> set (wallet_policies t i). pp_enabled q \<and> pp_id q \<noteq> pp_id p \<longrightarrow>
      pp_scenario_id q \<noteq> pp_scenario_id p \<and> has_hard_limits r)"
  proof -
    from assms(1) obtain r u where r: "find_wallet s i = Some r"
      and u: "(case pw_budget_unit r of None \<Rightarrow> initialize_wallet_budget_unit i p s
         | Some u \<Rightarrow> if u = pp_budget_unit p then Inr s
             else Inl (conflict ''payment policy budget unit does not match its wallet'')) = Inr u"
      and rest: "(if \<not> pp_enabled p then Inr u
         else if list_ex (\<lambda>q. pp_enabled q \<and> pp_scenario_id q = pp_scenario_id p \<and> pp_id q \<noteq> pp_id p)
              (wallet_policies u i)
         then Inl (conflict ''scenario wallet already has an enabled payment policy'')
         else if list_ex (\<lambda>q. pp_enabled q \<and> pp_scenario_id q \<noteq> pp_scenario_id p \<and> pp_id q \<noteq> pp_id p)
              (wallet_policies u i) \<and> \<not> (pw_max_per_payment r \<noteq> None \<and> pw_max_per_day r \<noteq> None)
         then Inl (conflict ''wallet shared across scenarios requires aggregate hard limits'')
         else Inr u) = Inr t"
      unfolding validate_wallet_binding_def Let_def and_then_ok ok_or_ok by blast
    have "u = t" using rest by (auto split: if_splits)
    moreover have "pp_enabled p \<longrightarrow> (\<forall>q \<in> set (wallet_policies t i). pp_enabled q \<and> pp_id q \<noteq> pp_id p \<longrightarrow>
        pp_scenario_id q \<noteq> pp_scenario_id p \<and> has_hard_limits r)"
      using rest by (auto simp: list_ex_iff has_hard_limits_def split: if_splits)
    ultimately show thesis
      using u by (intro that [OF r]) (auto split: option.splits if_splits)
  qed
  let ?f = "pin_budget_unit p"
  let ?P = "\<lambda>q. w_id (pw_wallet q) = i \<and> pw_budget_unit q = None"
  let ?u = "s\<lparr>pay_wallet := update_where ?P ?f (pay_wallet s)\<rparr>"
  have cases: "(pw_budget_unit r = None \<and> t = ?u) \<or> (pw_budget_unit r = Some (pp_budget_unit p) \<and> t = s)"
    using t by (auto simp: initialize_wallet_budget_unit_def Let_def split: if_splits)
  have found: "find_wallet ?u j = map_option (\<lambda>q. if ?P q then ?f q else q) (find_wallet s j)" for j
    by (rule find_wallet_update) (simp add: pin_budget_unit_def)
  have f: "has_hard_limits (?f q) = has_hard_limits q" "pw_budget_unit (?f q) = Some (pp_budget_unit p)"
    "w_id (pw_wallet (?f q)) = w_id (pw_wallet q)" for q
    by (simp_all add: has_hard_limits_def pin_budget_unit_def)
  have "binding_inv ?u"
    using assms(2)
  proof (rule binding_inv_wallets)
    fix j q
    assume "?P q" "binding_ok (set (wallet_policies s j)) q"
    then have "wallet_policies s j = []" by (auto simp: binding_ok_def)
    then show "binding_ok (set (wallet_policies s j)) (?f q)" by (simp add: binding_ok_def)
  qed (simp add: f)
  with cases assms(2) show "binding_inv t" by auto
  show "\<exists>x. t = s\<lparr>pay_wallet := x\<rparr>"
    using cases by (auto intro: exI [of _ "pay_wallet s"])
  show "map wallet_core (pay_wallet t) = map wallet_core (pay_wallet s)"
    using cases by (auto simp: update_where_def wallet_core_def pin_budget_unit_def)
  show "bindable p t i"
    using cases
  proof
    assume "pw_budget_unit r = None \<and> t = ?u"
    with r other find_wallet_id [OF r] show ?thesis
      unfolding bindable_def by (intro exI [of _ "?f r"]) (simp add: found f)
  qed (use r other in \<open>auto simp: bindable_def\<close>)
  fix j assume "bindable p s j"
  then obtain q where q: "find_wallet s j = Some q" "pw_budget_unit q = Some (pp_budget_unit p)"
    "pp_enabled p \<longrightarrow> (\<forall>o' \<in> set (wallet_policies s j). pp_enabled o' \<and> pp_id o' \<noteq> pp_id p \<longrightarrow>
       pp_scenario_id o' \<noteq> pp_scenario_id p \<and> has_hard_limits q)"
    by (auto simp: bindable_def)
  with cases show "bindable p t j"
    unfolding bindable_def by (intro exI [of _ q]) (auto simp: found)
qed

lemma validate_wallet_bindings_ok:
  assumes "validate_wallet_bindings p s = Inr t" "binding_inv s"
  shows "binding_inv t" "\<And>i. i \<in> set (pp_wallet_ids p) \<Longrightarrow> bindable p t i" "\<exists>x. t = s\<lparr>pay_wallet := x\<rparr>"
    and "map wallet_core (pay_wallet t) = map wallet_core (pay_wallet s)"
proof -
  have "binding_inv t \<and> (\<forall>i. i \<in> set ids \<or> bindable p s i \<longrightarrow> bindable p t i) \<and> (\<exists>x. t = s\<lparr>pay_wallet := x\<rparr>)
      \<and> map wallet_core (pay_wallet t) = map wallet_core (pay_wallet s)"
    if "each_step (validate_wallet_binding p) ids s = Inr t" "binding_inv s" for ids
    using that
  proof (induction ids arbitrary: s)
    case Nil
    then show ?case by (auto intro: exI [of _ "pay_wallet s"])
  next
    case (Cons i ids)
    then obtain u where u: "validate_wallet_binding p i s = Inr u" "each_step (validate_wallet_binding p) ids u = Inr t"
      by (auto simp: result_simps)
    note step = validate_wallet_binding_ok [OF u(1) Cons.prems(2)]
    with Cons.IH [OF u(2)] show ?case by auto
  qed
  from this [of "pp_wallet_ids p"] assms
  show "binding_inv t" "\<And>i. i \<in> set (pp_wallet_ids p) \<Longrightarrow> bindable p t i" "\<exists>x. t = s\<lparr>pay_wallet := x\<rparr>"
    "map wallet_core (pay_wallet t) = map wallet_core (pay_wallet s)"
    by (auto simp: validate_wallet_bindings_def)
qed

lemma insert_policy_ok:
  "insert_policy p s = Inr t \<longleftrightarrow>
     pay_policy_check p \<and> scenario_exists s (pp_scenario_id p) \<and> pp_id p \<notin> pp_id ` set (pay_policy s)
     \<and> t = s\<lparr>pay_policy := pay_policy s @ [p\<lparr>pp_wallet_ids := []\<rparr>]\<rparr>"
  by (auto simp: insert_policy_def list_ex_iff image_iff) metis

lemma find_wallet_policies [simp]:
  "find_wallet (s\<lparr>pay_policy := x\<rparr>) = find_wallet s" "find_wallet (s\<lparr>pay_policy_wallet := y\<rparr>) = find_wallet s"
  by (auto simp: find_wallet_def)

lemma insert_policy_binding:
  assumes "insert_policy p s = Inr t" "binding_inv s"
  shows "binding_inv t"
proof -
  have t: "t = s\<lparr>pay_policy := pay_policy s @ [p\<lparr>pp_wallet_ids := []\<rparr>]\<rparr>" and new: "pp_id p \<notin> pp_id ` set (pay_policy s)"
    using assms(1) by (auto simp: insert_policy_ok)
  have "pm_policy_id m \<noteq> pp_id p" if "m \<in> set (pay_policy_wallet s)" for m
    using assms(2) new that unfolding binding_inv_def by metis
  then have "wallet_policies t i = wallet_policies s i" for i
    by (auto simp: t wallet_policies_def list_ex_iff)
  with assms(2) new show ?thesis by (auto simp: binding_inv_def t)
qed

lemma insert_membership_ok:
  "insert_membership p i s = Inr t \<Longrightarrow>
     t = s\<lparr>pay_policy_wallet := pay_policy_wallet s
       @ [\<lparr>pm_policy_id = pp_id p, pm_wallet_id = i, pm_created_at = pp_created_at p\<rparr>]\<rparr>
     \<and> (pp_id p, i) \<notin> membership_key ` set (pay_policy_wallet s)
     \<and> pp_id p \<in> pp_id ` set (pay_policy s) \<and> find_wallet s i \<noteq> None"
  by (auto simp: insert_membership_def list_ex_iff membership_key_def image_iff split: if_splits) metis

lemma binding_ok_insert:
  assumes "binding_ok ps r" "pw_budget_unit r = Some (pp_budget_unit p)"
    and "pp_enabled p \<longrightarrow> (\<forall>q \<in> ps. pp_enabled q \<and> pp_id q \<noteq> pp_id p \<longrightarrow>
      pp_scenario_id q \<noteq> pp_scenario_id p \<and> has_hard_limits r)"
  shows "binding_ok (insert p ps) r"
  unfolding binding_ok_def
proof (intro conjI ballI impI)
  fix a b
  assume ab: "a \<in> insert p ps" "b \<in> insert p ps" "pp_enabled a \<and> pp_enabled b \<and> pp_id a \<noteq> pp_id b"
  then consider "a = p" "b \<in> ps" | "b = p" "a \<in> ps" | "a \<in> ps" "b \<in> ps" by auto
  then have "pp_scenario_id a \<noteq> pp_scenario_id b \<and> has_hard_limits r"
  proof cases
    case 3
    then show ?thesis using ab(3) assms(1) unfolding binding_ok_def by blast
  qed (use ab(3) assms(3) in \<open>metis+\<close>)
  then show "pp_scenario_id a \<noteq> pp_scenario_id b" "has_hard_limits r" by auto
next
  show "pw_budget_unit r = Some (pp_budget_unit a)" if "a \<in> insert p ps" for a
    using that assms(1,2) unfolding binding_ok_def by blast
qed

text \<open>The row of a policy and the policy agree on what the rules read.\<close>

definition row_of :: "PaymentPolicy \<Rightarrow> PaymentPolicy \<Rightarrow> bool" where
  "row_of p q \<longleftrightarrow> pp_id q = pp_id p \<and> pp_scenario_id q = pp_scenario_id p
     \<and> pp_budget_unit q = pp_budget_unit p \<and> pp_enabled q = pp_enabled p"

lemma wallet_policies_insert_membership:
  assumes "distinct (map pp_id (pay_policy s))" "p' \<in> set (pay_policy s)" "pp_id p' = pp_id p"
  shows "set (wallet_policies (s\<lparr>pay_policy_wallet := pay_policy_wallet s
      @ [\<lparr>pm_policy_id = pp_id p, pm_wallet_id = i, pm_created_at = c\<rparr>]\<rparr>) j)
    = (if j = i then insert p' (set (wallet_policies s j)) else set (wallet_policies s j))"
proof -
  have "q = p'" if "q \<in> set (pay_policy s)" "pp_id q = pp_id p" for q
    using assms that by (simp add: distinct_map inj_on_def)
  then have only: "q \<in> set (pay_policy s) \<and> pp_id q = pp_id p \<longleftrightarrow> q = p'" for q
    using assms(2,3) by blast
  show ?thesis (is "set (wallet_policies ?t j) = ?R")
  proof (rule set_eqI)
    fix q
    have "q \<in> set (wallet_policies ?t j) \<longleftrightarrow>
      q \<in> set (wallet_policies s j) \<or> (q \<in> set (pay_policy s) \<and> pp_id q = pp_id p) \<and> j = i"
      unfolding in_wallet_policies by (auto simp: membership_key_def)
    then show "q \<in> set (wallet_policies ?t j) \<longleftrightarrow> q \<in> ?R" unfolding only by auto
  qed
qed

definition membership :: "PaymentPolicy \<Rightarrow> string \<Rightarrow> policy_wallet_row" where
  "membership p i = \<lparr>pm_policy_id = pp_id p, pm_wallet_id = i, pm_created_at = pp_created_at p\<rparr>"

lemma insert_membership_binding:
  assumes "insert_membership p i s = Inr t" "binding_inv s" "bindable p s i"
    and "p' \<in> set (pay_policy s)" "row_of p p'"
  shows "binding_inv t" "\<And>j. bindable p s j \<Longrightarrow> bindable p t j"
    and "t = s\<lparr>pay_policy_wallet := pay_policy_wallet s @ [membership p i]\<rparr>"
proof -
  note ok = insert_membership_ok [OF assms(1)]
  show t: "t = s\<lparr>pay_policy_wallet := pay_policy_wallet s @ [membership p i]\<rparr>"
    using ok by (simp add: membership_def)
  have "distinct (map pp_id (pay_policy s))" "pp_id p' = pp_id p"
    using assms(2,5) by (auto simp: binding_inv_def row_of_def)
  note ids = this
  have sets: "set (wallet_policies t j)
      = (if j = i then insert p' (set (wallet_policies s j)) else set (wallet_policies s j))" for j
    unfolding t membership_def by (rule wallet_policies_insert_membership [OF ids(1) assms(4) ids(2)])
  obtain r where r: "find_wallet s i = Some r" "pw_budget_unit r = Some (pp_budget_unit p)"
    "pp_enabled p \<longrightarrow> (\<forall>q \<in> set (wallet_policies s i). pp_enabled q \<and> pp_id q \<noteq> pp_id p \<longrightarrow>
       pp_scenario_id q \<noteq> pp_scenario_id p \<and> has_hard_limits r)"
    using assms(3) by (auto simp: bindable_def)
  have "binding_ok (insert p' (set (wallet_policies s i))) r"
    by (rule binding_ok_insert) (use assms(2,5) r in \<open>auto simp: binding_inv_def row_of_def\<close>)
  then have each: "binding_ok (set (wallet_policies t j)) q" if "find_wallet s j = Some q" for j q
    using that assms(2) r(1) by (auto simp: sets binding_inv_def)
  show "binding_inv t"
    unfolding binding_inv_def
  proof (intro conjI)
    show "distinct (map membership_key (pay_policy_wallet t))"
      using assms(2) ok by (auto simp: t binding_inv_def membership_def membership_key_def)
    show "\<forall>m \<in> set (pay_policy_wallet t). pm_policy_id m \<in> pp_id ` set (pay_policy t)
        \<and> find_wallet t (pm_wallet_id m) \<noteq> None"
      using assms(2) ok by (auto simp: t binding_inv_def membership_def)
  qed (use assms(2) each in \<open>auto simp: t binding_inv_def\<close>)
  fix j assume "bindable p s j"
  then show "bindable p t j"
    using \<open>pp_id p' = pp_id p\<close> unfolding bindable_def sets by (auto simp: t)
qed

lemma insert_memberships_binding:
  assumes "each_step (insert_membership p) ids s = Inr t" "binding_inv s"
    and "\<And>i. i \<in> set ids \<Longrightarrow> bindable p s i" "p' \<in> set (pay_policy s)" "row_of p p'"
  shows "binding_inv t" "t = s\<lparr>pay_policy_wallet := pay_policy_wallet s @ map (membership p) ids\<rparr>"
proof -
  have "binding_inv t \<and> t = s\<lparr>pay_policy_wallet := pay_policy_wallet s @ map (membership p) ids\<rparr>"
    using assms(1-4)
  proof (induction ids arbitrary: s)
    case (Cons i ids)
    then obtain u where u: "insert_membership p i s = Inr u" "each_step (insert_membership p) ids u = Inr t"
      by (auto simp: result_simps)
    note step = insert_membership_binding [OF u(1) Cons.prems(2) Cons.prems(3) Cons.prems(4) assms(5)]
    have "binding_inv t \<and> t = u\<lparr>pay_policy_wallet := pay_policy_wallet u @ map (membership p) ids\<rparr>"
      by (rule Cons.IH [OF u(2)]) (use step Cons.prems in auto)
    then show ?case using step(3) by auto
  qed simp
  then show "binding_inv t" "t = s\<lparr>pay_policy_wallet := pay_policy_wallet s @ map (membership p) ids\<rparr>" by auto
qed

lemma insert_policy_aggregate_ok:
  assumes "insert_policy_aggregate p s = Inr t" "binding_inv s"
  shows "binding_inv t" "pay_policy t = pay_policy s @ [p\<lparr>pp_wallet_ids := []\<rparr>]"
    and "pay_policy_wallet t = pay_policy_wallet s @ map (membership p) (pp_wallet_ids p)"
    and "pp_id p \<notin> pp_id ` set (pay_policy s)" "scenario_exists s (pp_scenario_id p)"
    and "\<exists>x y z. t = s\<lparr>pay_policy := x, pay_wallet := y, pay_policy_wallet := z\<rparr>"
    and "map wallet_core (pay_wallet t) = map wallet_core (pay_wallet s)"
proof -
  from assms(1) obtain a b where a: "insert_policy p s = Inr a" and b: "validate_wallet_bindings p a = Inr b"
    and t: "each_step (insert_membership p) (pp_wallet_ids p) b = Inr t"
    by (auto simp: result_simps insert_policy_aggregate_def)
  note bind = validate_wallet_bindings_ok [OF b insert_policy_binding [OF a assms(2)]]
  have a': "a = s\<lparr>pay_policy := pay_policy s @ [p\<lparr>pp_wallet_ids := []\<rparr>]\<rparr>"
    and "pp_id p \<notin> pp_id ` set (pay_policy s)" "scenario_exists s (pp_scenario_id p)"
    using a by (auto simp: insert_policy_ok)
  moreover obtain x where b': "b = a\<lparr>pay_wallet := x\<rparr>" using bind(3) by blast
  moreover have "p\<lparr>pp_wallet_ids := []\<rparr> \<in> set (pay_policy b)" by (simp add: b' a')
  from insert_memberships_binding [OF t bind(1,2) this] have "binding_inv t"
    "t = b\<lparr>pay_policy_wallet := pay_policy_wallet b @ map (membership p) (pp_wallet_ids p)\<rparr>"
    by (auto simp: row_of_def)
  ultimately show "binding_inv t" "pay_policy t = pay_policy s @ [p\<lparr>pp_wallet_ids := []\<rparr>]"
    "pay_policy_wallet t = pay_policy_wallet s @ map (membership p) (pp_wallet_ids p)"
    "pp_id p \<notin> pp_id ` set (pay_policy s)" "scenario_exists s (pp_scenario_id p)"
    "\<exists>x y z. t = s\<lparr>pay_policy := x, pay_wallet := y, pay_policy_wallet := z\<rparr>"
    "map wallet_core (pay_wallet t) = map wallet_core (pay_wallet s)"
    using bind(4) by auto
qed

lemma policy_insert_result:
  "policy_insert p s = (Inr q, t) \<longleftrightarrow>
     q = p \<and> PaymentPolicy_validate p = Inr () \<and> insert_policy_aggregate p s = Inr t"
  by (auto simp: policy_insert_def transaction_ok result_simps validate_policy_def)

lemma binding_ok_subset: "binding_ok ps r \<Longrightarrow> qs \<subseteq> ps \<Longrightarrow> binding_ok qs r"
  unfolding binding_ok_def by blast

lemma replace_policy_sel [simp]:
  "pp_id (replace_policy p q) = pp_id q" "pp_scenario_id (replace_policy p q) = pp_scenario_id q"
  "pp_budget_unit (replace_policy p q) = pp_budget_unit q" "pp_enabled (replace_policy p q) = pp_enabled p"
  "pp_wallet_ids (replace_policy p q) = pp_wallet_ids q"
  by (simp_all add: replace_policy_def)

lemma policy_update_ok:
  assumes "policy_update p u s = (Inr q, t)" "binding_inv s"
  obtains p0 x where "q = p" "PaymentPolicy_validate p = Inr ()"
    "find (\<lambda>q. pp_id q = pp_id p) (pay_policy s) = Some p0" "pp_scenario_id p0 = pp_scenario_id p"
    "pp_budget_unit p0 = pp_budget_unit p" "pp_created_at p0 = pp_created_at p" "pp_updated_at p0 = u"
    "u < pp_updated_at p" "load_wallet_ids s (pp_id p) = pp_wallet_ids p"
    "binding_inv (s\<lparr>pay_wallet := x\<rparr>)" "map wallet_core x = map wallet_core (pay_wallet s)"
    "\<And>i. i \<in> set (pp_wallet_ids p) \<Longrightarrow> bindable p (s\<lparr>pay_wallet := x\<rparr>) i"
    "t = s\<lparr>pay_wallet := x, pay_policy := update_where (\<lambda>q. pp_id q = pp_id p \<and> pp_updated_at q = u)
       (replace_policy p) (pay_policy s)\<rparr>"
proof -
  from assms(1) obtain p0 b where ok: "q = p" "PaymentPolicy_validate p = Inr ()"
    "find (\<lambda>q. pp_id q = pp_id p) (pay_policy s) = Some p0" "pp_scenario_id p0 = pp_scenario_id p"
    "pp_budget_unit p0 = pp_budget_unit p" "pp_created_at p0 = pp_created_at p" "pp_updated_at p0 = u"
    "u < pp_updated_at p" "load_wallet_ids s (pp_id p) = pp_wallet_ids p"
    and b: "validate_wallet_bindings p s = Inr b"
    and t: "t = b\<lparr>pay_policy := update_where (\<lambda>q. pp_id q = pp_id p \<and> pp_updated_at q = u)
       (replace_policy p) (pay_policy b)\<rparr>"
    by (auto simp: policy_update_def transaction_ok result_simps Let_def validate_policy_def load_policy_def
        split: if_splits)
  obtain x where x: "b = s\<lparr>pay_wallet := x\<rparr>" using validate_wallet_bindings_ok(3) [OF b assms(2)] by blast
  show thesis
    by (rule that [of p0 x, OF ok]) (use validate_wallet_bindings_ok(1,2,4) [OF b assms(2)] t x in auto)
qed

lemma in_load_wallet_ids:
  "i \<in> set (load_wallet_ids s j) \<longleftrightarrow> (\<exists>m \<in> set (pay_policy_wallet s). membership_key m = (j, i))"
  by (auto simp: load_wallet_ids_def membership_key_def)

lemma replace_policy_binding:
  assumes "binding_inv s" "find (\<lambda>q. pp_id q = pp_id p) (pay_policy s) = Some p0"
    and "pp_scenario_id p0 = pp_scenario_id p" "pp_budget_unit p0 = pp_budget_unit p"
    and "load_wallet_ids s (pp_id p) = pp_wallet_ids p" "\<And>i. i \<in> set (pp_wallet_ids p) \<Longrightarrow> bindable p s i"
  shows "binding_inv (s\<lparr>pay_policy := update_where (\<lambda>q. pp_id q = pp_id p \<and> pp_updated_at q = pp_updated_at p0)
    (replace_policy p) (pay_policy s)\<rparr>)" (is "binding_inv ?t")
proof -
  let ?g = "\<lambda>q. if pp_id q = pp_id p \<and> pp_updated_at q = pp_updated_at p0 then replace_policy p q else q"
  have p0: "p0 \<in> set (pay_policy s)" "pp_id p0 = pp_id p" using find_Some_in [OF assms(2)] by auto
  have only: "q = p0" if "q \<in> set (pay_policy s)" "pp_id q = pp_id p" for q
    using assms(1) p0 that by (simp add: binding_inv_def distinct_map inj_on_def)
  have pols: "wallet_policies ?t i = map ?g (wallet_policies s i)" for i
    unfolding wallet_policies_def by (simp add: filter_update_where)
  have "binding_ok (set (wallet_policies ?t i)) r" if r: "find_wallet s i = Some r" for i r
  proof -
    let ?ps = "set (wallet_policies s i)" and ?qs = "{q \<in> set (wallet_policies s i). pp_id q \<noteq> pp_id p}"
    have ok: "binding_ok ?ps r" using assms(1) r by (simp add: binding_inv_def)
    have image: "?g ` ?ps \<subseteq> (if p0 \<in> ?ps then insert (replace_policy p p0) ?qs else ?qs)"
      using only by (auto simp: in_wallet_policies)
    have "binding_ok (insert (replace_policy p p0) ?qs) r" if "p0 \<in> ?ps"
    proof (rule binding_ok_insert [OF binding_ok_subset [OF ok]])
      show "pw_budget_unit r = Some (pp_budget_unit (replace_policy p p0))"
        using ok that unfolding binding_ok_def by simp
      have "i \<in> set (pp_wallet_ids p)"
        using that p0 unfolding assms(5) [symmetric] in_load_wallet_ids in_wallet_policies by simp
      from assms(6) [OF this] r p0(2) assms(3)
      show "pp_enabled (replace_policy p p0) \<longrightarrow> (\<forall>q \<in> ?qs. pp_enabled q \<and> pp_id q \<noteq> pp_id (replace_policy p p0) \<longrightarrow>
        pp_scenario_id q \<noteq> pp_scenario_id (replace_policy p p0) \<and> has_hard_limits r)"
        unfolding bindable_def by auto
    qed auto
    moreover have "binding_ok ?qs r" by (rule binding_ok_subset [OF ok]) auto
    ultimately have "binding_ok (if p0 \<in> ?ps then insert (replace_policy p p0) ?qs else ?qs) r" by simp
    from binding_ok_subset [OF this image] show ?thesis unfolding pols set_map .
  qed
  moreover have "map pp_id (pay_policy ?t) = map pp_id (pay_policy s)" by (simp add: map_update_where)
  then have "pp_id ` set (pay_policy ?t) = pp_id ` set (pay_policy s)" by (metis set_map)
  ultimately show ?thesis
    using assms(1) unfolding binding_inv_def by (auto simp: map_update_where)
qed

lemma policy_update_binding:
  assumes "policy_update p u s = (v, t)" "binding_inv s"
  shows "binding_inv t"
proof (cases v)
  case (Inr q)
  with assms(1) have "policy_update p u s = (Inr q, t)" by simp
  then show ?thesis
  proof (rule policy_update_ok [OF _ assms(2)])
    fix p0 x
    assume ok: "find (\<lambda>q. pp_id q = pp_id p) (pay_policy s) = Some p0" "pp_scenario_id p0 = pp_scenario_id p"
      "pp_budget_unit p0 = pp_budget_unit p" "pp_updated_at p0 = u" "load_wallet_ids s (pp_id p) = pp_wallet_ids p"
      and bind: "binding_inv (s\<lparr>pay_wallet := x\<rparr>)" "\<And>i. i \<in> set (pp_wallet_ids p) \<Longrightarrow> bindable p (s\<lparr>pay_wallet := x\<rparr>) i"
      and t: "t = s\<lparr>pay_wallet := x, pay_policy := update_where (\<lambda>q. pp_id q = pp_id p \<and> pp_updated_at q = u)
       (replace_policy p) (pay_policy s)\<rparr>"
    have "load_wallet_ids (s\<lparr>pay_wallet := x\<rparr>) (pp_id p) = pp_wallet_ids p"
      using ok(5) by (simp add: load_wallet_ids_def)
    from replace_policy_binding [OF bind(1) _ ok(2,3) this bind(2)] ok(1) show "binding_inv t"
      by (simp add: t ok(4))
  qed
qed (use assms in \<open>auto simp: policy_update_def dest: transaction_err\<close>)

lemma policy_insert_binding:
  assumes "policy_insert p s = (v, t)" "binding_inv s"
  shows "binding_inv t"
  using assms insert_policy_aggregate_ok(1) [of p s t]
  by (cases v) (auto simp: policy_insert_result, auto simp: policy_insert_def dest: transaction_err)

section \<open>Round trips\<close>

lemma insert_read_back:
  assumes "policy_insert p s = (Inr q, t)" "binding_inv s"
  shows "load_policy t (pp_id p) = Some p"
proof -
  have valid: "PaymentPolicy_validate p = Inr ()" and agg: "insert_policy_aggregate p s = Inr t"
    using assms(1) by (auto simp: policy_insert_result)
  note ok = insert_policy_aggregate_ok [OF agg assms(2)]
  have "find (\<lambda>q. pp_id q = pp_id p) (pay_policy s) = None"
    using ok(4) by (auto simp: find_None_iff image_iff)
  then have row: "find (\<lambda>q. pp_id q = pp_id p) (pay_policy t) = Some (p\<lparr>pp_wallet_ids := []\<rparr>)"
    by (simp add: ok(2) find_append)
  have "filter (\<lambda>m. pm_policy_id m = pp_id p) (pay_policy_wallet s) = []"
    using assms(2) ok(4) unfolding binding_inv_def filter_empty_conv by metis
  then have "load_wallet_ids t (pp_id p) = sort (pp_wallet_ids p)"
    by (simp add: load_wallet_ids_def ok(3) membership_def comp_def)
  also have "\<dots> = pp_wallet_ids p"
    using PaymentPolicy_validate_wallets [OF valid] by (simp add: sorted_sort_id strict_sorted_imp_sorted)
  finally show ?thesis by (simp add: load_policy_def row)
qed

lemma update_read_back:
  assumes "policy_update p u s = (Inr q, t)" "binding_inv s"
  shows "load_policy t (pp_id p) = Some p"
  using assms(1)
proof (rule policy_update_ok [OF _ assms(2)])
  fix p0 x
  assume ok: "find (\<lambda>q. pp_id q = pp_id p) (pay_policy s) = Some p0" "pp_scenario_id p0 = pp_scenario_id p"
    "pp_budget_unit p0 = pp_budget_unit p" "pp_created_at p0 = pp_created_at p" "pp_updated_at p0 = u"
    "load_wallet_ids s (pp_id p) = pp_wallet_ids p"
    and t: "t = s\<lparr>pay_wallet := x, pay_policy := update_where (\<lambda>q. pp_id q = pp_id p \<and> pp_updated_at q = u)
       (replace_policy p) (pay_policy s)\<rparr>"
  have id0: "pp_id p0 = pp_id p" using find_Some_in [OF ok(1)] by simp
  have "find (\<lambda>q. pp_id q = pp_id p) (pay_policy t) = Some (replace_policy p p0)"
    using find_update_where [of pp_id "replace_policy p" "pp_id p"] ok(1,5) id0 by (simp add: t)
  moreover have "load_wallet_ids t (pp_id p) = pp_wallet_ids p"
    using ok(6) by (simp add: t load_wallet_ids_def)
  ultimately show ?thesis
    using ok id0 by (simp add: load_policy_def replace_policy_def)
qed

end
