(* ===== verification/Budget.thy ===== *)
theory Budget
  imports Policy_Store
begin

text \<open>
  The authoritative budget (\<^verbatim>\<open>storage/payment/budget.rs\<close>): usage is what is reserved in the
  unit and direction, on whatever day, plus what the ledger confirms for the current day; it is
  summed with checked additions, fails closed on a ledger entry from beyond the clock-skew bound and on
  a consumed reservation without its ledger fact, and is compared with the policy's and the wallet's
  limits. The lemmas give the sums as natural numbers and state what a passed check guarantees.
\<close>

section \<open>Definitions\<close>

definition lock_scenario_budget :: "db \<Rightarrow> string \<Rightarrow> unit result" where
  "lock_scenario_budget s scenario_id =
     (if scenario_exists s scenario_id then Inr ()
      else Inl (conflict ''payment scenario no longer exists''))"

definition lock_policy_wallet :: "db \<Rightarrow> string \<Rightarrow> string \<Rightarrow> unit result" where
  "lock_policy_wallet s policy_id wallet_id =
     (if \<not> list_ex (\<lambda>p. pp_id p = policy_id) (pay_policy s)
      then Inl (conflict ''payment policy no longer exists'')
      else if find_wallet s wallet_id = None
      then Inl (conflict ''payment wallet no longer exists'')
      else Inr ())"

definition sum_amounts :: "amount list \<Rightarrow> amount result" where
  "sum_amounts values =
     try_fold (\<lambda>total amount. ok_or (checked_add total amount)
       (Storage ''authoritative payment aggregate overflowed u128'')) 0 values"

text \<open>The rows that the four usage queries select, and the two that the assertions count.\<close>

definition intent_in_unit :: "PaymentDirection \<Rightarrow> BudgetUnit \<Rightarrow> PaymentIntent \<Rightarrow> bool" where
  "intent_in_unit d u i \<longleftrightarrow>
     pi_direction i = d \<and> ai_asset (pi_asset i) = bu_asset u \<and> ai_decimals (pi_asset i) = bu_decimals u"

definition ledger_in_unit :: "PaymentDirection \<Rightarrow> BudgetUnit \<Rightarrow> PaymentLedgerEntry \<Rightarrow> bool" where
  "ledger_in_unit d u e \<longleftrightarrow>
     le_direction e = d \<and> ai_asset (le_asset e) = bu_asset u \<and> ai_decimals (le_asset e) = bu_decimals u"

definition reserved_rows ::
  "(PaymentIntent \<Rightarrow> bool) \<Rightarrow> PaymentDirection \<Rightarrow> BudgetUnit \<Rightarrow> db \<Rightarrow> PaymentIntent list" where
  "reserved_rows scope d u s =
     filter (\<lambda>i. scope i \<and> intent_in_unit d u i \<and> pi_reservation_status i = Reserved)
       (map ir_intent (pay_intent s))"

definition confirmed_rows ::
  "(PaymentLedgerEntry \<Rightarrow> bool) \<Rightarrow> PaymentDirection \<Rightarrow> BudgetUnit \<Rightarrow> int \<Rightarrow> int \<Rightarrow> db \<Rightarrow>
     PaymentLedgerEntry list" where
  "confirmed_rows scope d u day_started_at latest s =
     filter (\<lambda>e. scope e \<and> ledger_in_unit d u e \<and> day_started_at \<le> le_effective_at e
       \<and> le_effective_at e \<le> latest) (pay_ledger s)"

definition load_amounts ::
  "(PaymentIntent \<Rightarrow> bool) \<Rightarrow> PaymentDirection \<Rightarrow> BudgetUnit \<Rightarrow> db \<Rightarrow> amount result" where
  "load_amounts scope d u s = sum_amounts (map pi_reserved_amount (reserved_rows scope d u s))"

definition load_ledger_amounts ::
  "(PaymentLedgerEntry \<Rightarrow> bool) \<Rightarrow> PaymentDirection \<Rightarrow> BudgetUnit \<Rightarrow> int \<Rightarrow> int \<Rightarrow> db \<Rightarrow> amount result" where
  "load_ledger_amounts scope d u day_started_at latest s =
     sum_amounts (map le_amount (confirmed_rows scope d u day_started_at latest s))"

definition assert_no_ledger_beyond_future_skew ::
  "string \<Rightarrow> string \<Rightarrow> PaymentDirection \<Rightarrow> BudgetUnit \<Rightarrow> int \<Rightarrow> db \<Rightarrow> unit result" where
  "assert_no_ledger_beyond_future_skew scenario_id wallet_id d u latest s =
     (if list_ex (\<lambda>e. (le_scenario_id e = Some scenario_id \<or> le_wallet_id e = wallet_id)
          \<and> ledger_in_unit d u e \<and> le_effective_at e > latest) (pay_ledger s)
      then Inl (Storage ''ledger effective time exceeds the bounded future-skew window'')
      else Inr ())"

definition ledger_fact_for :: "PaymentIntent \<Rightarrow> PaymentLedgerEntry \<Rightarrow> bool" where
  "ledger_fact_for i l \<longleftrightarrow>
     le_intent_id l = Some (pi_id i) \<and> le_scenario_id l = Some (pi_scenario_id i)
     \<and> Some (le_wallet_id l) = pi_wallet_id i \<and> le_direction l = pi_direction i
     \<and> ai_asset (le_asset l) = ai_asset (pi_asset i)
     \<and> ai_decimals (le_asset l) = ai_decimals (pi_asset i)"

definition assert_consumed_intents_have_ledger ::
  "string \<Rightarrow> string \<Rightarrow> PaymentDirection \<Rightarrow> BudgetUnit \<Rightarrow> db \<Rightarrow> unit result" where
  "assert_consumed_intents_have_ledger scenario_id wallet_id d u s =
     (if list_ex (\<lambda>r. let i = ir_intent r in
          (pi_scenario_id i = scenario_id \<or> pi_wallet_id i = Some wallet_id)
          \<and> intent_in_unit d u i \<and> pi_reservation_status i = Consumed
          \<and> \<not> list_ex (ledger_fact_for i) (pay_ledger s)) (pay_intent s)
      then Inl (Storage ''a consumed payment reservation has no matching durable ledger fact'')
      else Inr ())"

definition budget_snapshot_connection ::
  "externals \<Rightarrow> string \<Rightarrow> string \<Rightarrow> PaymentDirection \<Rightarrow> BudgetUnit \<Rightarrow> int \<Rightarrow> int \<Rightarrow> db \<Rightarrow>
     BudgetSnapshot result" where
  "budget_snapshot_connection X scenario_id wallet_id d u day_started_at now s =
     and_then (map_err (\<lambda>field. InvalidRequest (''invalid budget unit '' @ field)) (BudgetUnit_validate u)) (\<lambda>_.
     if day_started_at < 0 \<or> now < day_started_at then Inl (InvalidRequest ''invalid budget time window'')
     else and_then (load_payment_wallet X s wallet_id) (\<lambda>loaded.
     and_then (ok_or loaded (NotFound (''payment wallet '' @ wallet_id))) (\<lambda>w.
     if pw_budget_unit w \<noteq> Some u
     then Inl (conflict ''wallet budget unit does not match requested aggregation'')
     else let shared_count = length (enabled_scenarios s wallet_id);
              latest = saturating_add now MAX_SETTLEMENT_EFFECTIVE_TIME_FUTURE_SKEW_SECONDS in
     and_then (assert_no_ledger_beyond_future_skew scenario_id wallet_id d u latest s) (\<lambda>_.
     and_then (assert_consumed_intents_have_ledger scenario_id wallet_id d u s) (\<lambda>_.
     and_then (load_amounts (\<lambda>i. pi_scenario_id i = scenario_id) d u s) (\<lambda>scenario_reserved.
     and_then (load_amounts (\<lambda>i. pi_wallet_id i = Some wallet_id) d u s) (\<lambda>wallet_reserved.
     and_then (load_ledger_amounts (\<lambda>e. le_scenario_id e = Some scenario_id) d u day_started_at latest s)
       (\<lambda>scenario_confirmed.
     and_then (load_ledger_amounts (\<lambda>e. le_wallet_id e = wallet_id) d u day_started_at latest s)
       (\<lambda>wallet_confirmed.
     and_then (checked_usage scenario_reserved scenario_confirmed ''scenario'') (\<lambda>scenario_usage.
     and_then (checked_usage wallet_reserved wallet_confirmed ''wallet'') (\<lambda>wallet_usage.
     Inr \<lparr>bs_budget_unit = u,
          bs_wallet_enabled = pw_enabled w,
          bs_wallet_algorithm = w_algorithm (pw_wallet w),
          bs_wallet_address = w_address (pw_wallet w),
          bs_wallet_updated_at = pw_updated_at w,
          bs_wallet_active_key_version = pw_active_key_version w,
          bs_wallet_shared_across_scenarios = (shared_count > 1),
          bs_scenario_spent_and_reserved = scenario_usage,
          bs_wallet_spent_and_reserved = wallet_usage,
          bs_wallet_max_per_payment = pw_max_per_payment w,
          bs_wallet_max_per_day = pw_max_per_day w\<rparr>)))))))))))"

definition budget_snapshot ::
  "externals \<Rightarrow> string \<Rightarrow> string \<Rightarrow> PaymentDirection \<Rightarrow> BudgetUnit \<Rightarrow> int \<Rightarrow> int \<Rightarrow> db \<Rightarrow>
     BudgetSnapshot result" where
  "budget_snapshot X scenario_id wallet_id d u day_started_at now s =
     (if day_started_at < 0 \<or> now < day_started_at then Inl (InvalidRequest ''invalid budget time window'')
      else budget_snapshot_connection X scenario_id wallet_id d u day_started_at now s)"

definition enforce_budget ::
  "externals \<Rightarrow> PaymentIntent \<Rightarrow> int \<Rightarrow> int \<Rightarrow> bool \<Rightarrow> db \<Rightarrow> unit result" where
  "enforce_budget X i day_started_at now approved_overage s =
     and_then (map_err (\<lambda>field. InvalidRequest (''invalid payment intent '' @ field)) (authority_ids i))
       (\<lambda>(policy_id, wallet_id).
     and_then (lock_scenario_budget s (pi_scenario_id i)) (\<lambda>_.
     and_then (lock_policy_wallet s policy_id wallet_id) (\<lambda>_.
     and_then (ok_or (load_policy s policy_id) (conflict ''payment policy no longer exists'')) (\<lambda>p.
     and_then (ok_or (limits_for p (pi_direction i)) (PolicyDenied ''payment direction is disabled'')) (\<lambda>limits.
     if pi_amount i > pl_max_per_payment limits
     then Inl (PolicyDenied ''payment exceeds the per-payment policy limit'')
     else and_then (budget_snapshot_connection X (pi_scenario_id i) wallet_id (pi_direction i)
         (budget_unit (pi_asset i)) day_started_at now s) (\<lambda>snapshot.
     and_then (if approved_overage
         then ok_or (hard_daily_limit limits) (PolicyDenied ''approved policy limit overflows'')
         else Inr (pl_max_per_day limits)) (\<lambda>policy_limit.
     and_then (ok_or (checked_add (bs_scenario_spent_and_reserved snapshot) (pi_amount i))
         (PolicyDenied ''scenario budget arithmetic overflow'')) (\<lambda>scenario_after.
     if scenario_after > policy_limit
     then Inl (PolicyDenied ''scenario daily payment limit is exhausted'')
     else and_then (case bs_wallet_max_per_payment snapshot of
         Some limit \<Rightarrow>
           if pi_amount i > limit then Inl (PolicyDenied ''wallet per-payment limit is exceeded'') else Inr ()
       | None \<Rightarrow>
           if bs_wallet_shared_across_scenarios snapshot
           then Inl (PolicyDenied ''shared wallet is missing its aggregate per-payment limit'')
           else Inr ()) (\<lambda>_.
     case bs_wallet_max_per_day snapshot of
       Some limit \<Rightarrow>
         and_then (ok_or (checked_add (bs_wallet_spent_and_reserved snapshot) (pi_amount i))
             (PolicyDenied ''wallet budget arithmetic overflow'')) (\<lambda>wallet_after.
         if wallet_after > limit then Inl (PolicyDenied ''wallet daily payment limit is exhausted'')
         else Inr ())
     | None \<Rightarrow>
         if bs_wallet_shared_across_scenarios snapshot
         then Inl (PolicyDenied ''shared wallet is missing its aggregate daily limit'')
         else Inr ())))))))))"

section \<open>Usage as a natural number\<close>

definition usage ::
  "(PaymentIntent \<Rightarrow> bool) \<Rightarrow> (PaymentLedgerEntry \<Rightarrow> bool) \<Rightarrow> PaymentDirection \<Rightarrow> BudgetUnit \<Rightarrow> int \<Rightarrow>
     int \<Rightarrow> db \<Rightarrow> nat" where
  "usage intents entries d u day_started_at latest s =
     sum_list (map (\<lambda>i. unat (pi_reserved_amount i)) (reserved_rows intents d u s))
     + sum_list (map (\<lambda>e. unat (le_amount e)) (confirmed_rows entries d u day_started_at latest s))"

definition scenario_usage :: "string \<Rightarrow> PaymentDirection \<Rightarrow> BudgetUnit \<Rightarrow> int \<Rightarrow> int \<Rightarrow> db \<Rightarrow> nat" where
  "scenario_usage c d u day_started_at now =
     usage (\<lambda>i. pi_scenario_id i = c) (\<lambda>e. le_scenario_id e = Some c) d u day_started_at
       (saturating_add now MAX_SETTLEMENT_EFFECTIVE_TIME_FUTURE_SKEW_SECONDS)"

definition wallet_usage :: "string \<Rightarrow> PaymentDirection \<Rightarrow> BudgetUnit \<Rightarrow> int \<Rightarrow> int \<Rightarrow> db \<Rightarrow> nat" where
  "wallet_usage w d u day_started_at now =
     usage (\<lambda>i. pi_wallet_id i = Some w) (\<lambda>e. le_wallet_id e = w) d u day_started_at
       (saturating_add now MAX_SETTLEMENT_EFFECTIVE_TIME_FUTURE_SKEW_SECONDS)"

text \<open>The daily limit that applies with and without an approval.\<close>

definition daily_ceiling :: "bool \<Rightarrow> PaymentPolicyLimits \<Rightarrow> amount option" where
  "daily_ceiling approved_overage l =
     (if approved_overage then hard_daily_limit l else Some (pl_max_per_day l))"

text \<open>The wallet budget that a snapshot gives the policy engine.\<close>

definition snapshot_wallet_budget :: "BudgetSnapshot \<Rightarrow> WalletBudget" where
  "snapshot_wallet_budget b =
     \<lparr>wb_usage = bs_wallet_spent_and_reserved b,
      wb_shared_across_scenarios = bs_wallet_shared_across_scenarios b,
      wb_max_per_payment = bs_wallet_max_per_payment b, wb_max_per_day = bs_wallet_max_per_day b\<rparr>"

lemma try_fold_sum:
  "try_fold (\<lambda>total amount. ok_or (checked_add total amount) e) acc vs = Inr t \<longleftrightarrow> checked_sum acc vs = Some t"
  by (induction vs arbitrary: acc) (auto simp: result_simps split: option.splits)

lemma sum_amounts_ok: "sum_amounts vs = Inr t \<longleftrightarrow> unat t = sum_list (map unat vs)"
  by (simp add: sum_amounts_def try_fold_sum checked_sum_unat)

lemma checked_usage_ok: "checked_usage a b scope = Inr t \<longleftrightarrow> unat t = unat a + unat b"
  by (simp add: checked_usage_def checked_add_eq_Some)

lemma budget_snapshot_ok:
  assumes "budget_snapshot_connection X c w d u day now s = Inr b"
  obtains r where "load_payment_wallet X s w = Inr (Some r)" "pw_budget_unit r = Some u"
    "0 \<le> day" "day \<le> now"
    "unat (bs_scenario_spent_and_reserved b) = scenario_usage c d u day now s"
    "unat (bs_wallet_spent_and_reserved b) = wallet_usage w d u day now s"
    "bs_wallet_shared_across_scenarios b \<longleftrightarrow> 1 < length (enabled_scenarios s w)"
    "bs_wallet_max_per_payment b = pw_max_per_payment r" "bs_wallet_max_per_day b = pw_max_per_day r"
  using assms
  unfolding budget_snapshot_connection_def Let_def and_then_ok ok_or_ok if_err_ok load_amounts_def
    load_ledger_amounts_def sum_amounts_ok checked_usage_ok
  by (auto simp: scenario_usage_def wallet_usage_def usage_def comp_def)

section \<open>What the check decides\<close>

text \<open>
  On a given snapshot, the check inside the transaction accepts exactly the limits that the policy
  engine compares before it, with the automatic daily limit or the approved ceiling.
\<close>

lemma enforce_budget_iff:
  assumes "authority_ids i = Inr (pid, wid)" "scenario_exists s (pi_scenario_id i)"
    and "load_policy s pid = Some p" "limits_for p (pi_direction i) = Some l"
    and "daily_ceiling approved_overage l = Some m"
    and "budget_snapshot_connection X (pi_scenario_id i) wid (pi_direction i) (budget_unit (pi_asset i))
      day now s = Inr b"
  shows "enforce_budget X i day now approved_overage s = Inr () \<longleftrightarrow>
    pi_amount i \<le> pl_max_per_payment l
    \<and> usage_within (bs_scenario_spent_and_reserved b) (pi_amount i) m
    \<and> wallet_within_limits (snapshot_wallet_budget b) (pi_amount i)"
proof -
  have "find_wallet s wid \<noteq> None"
    using assms(6) by (rule budget_snapshot_ok) (auto elim: load_payment_wallet_Some)
  moreover have "list_ex (\<lambda>p. pp_id p = pid) (pay_policy s)"
    using assms(3) by (auto simp: load_policy_def list_ex_iff dest: find_Some_in)
  ultimately have locks: "lock_policy_wallet s pid wid = Inr ()" by (simp add: lock_policy_wallet_def)
  have limit: "(if approved_overage then ok_or (hard_daily_limit l) (PolicyDenied ''approved policy limit overflows'')
      else Inr (pl_max_per_day l)) = Inr m"
    using assms(5) by (simp add: daily_ceiling_def split: if_splits)
  show ?thesis
    unfolding enforce_budget_def assms(1) map_err_simps and_then_Inr prod.case lock_scenario_budget_def
      if_P [OF assms(2)] locks assms(3,4,6) ok_or_simps limit
    unfolding result_simps usage_within_iff not_exceeds_total wallet_within_limits_iff
      snapshot_wallet_budget_def
    by (cases "bs_wallet_max_per_payment b"; cases "bs_wallet_max_per_day b")
      (auto simp: not_less result_simps exceeds_def is_none_or_iff)
qed

lemma enforce_budget_ok:
  assumes "enforce_budget X i day now approved_overage s = Inr ()"
  obtains pid wid p l b where "authority_ids i = Inr (pid, wid)" "scenario_exists s (pi_scenario_id i)"
    "load_policy s pid = Some p" "limits_for p (pi_direction i) = Some l"
    "daily_ceiling approved_overage l \<noteq> None"
    "budget_snapshot_connection X (pi_scenario_id i) wid (pi_direction i) (budget_unit (pi_asset i))
       day now s = Inr b"
    "pi_amount i \<le> pl_max_per_payment l"
proof -
  obtain pid wid where ids: "authority_ids i = Inr (pid, wid)"
    using assms unfolding enforce_budget_def by (auto simp: result_simps)
  show thesis
    using assms
    unfolding enforce_budget_def ids map_err_simps and_then_Inr prod.case
    by (elim and_then_ok [THEN iffD1, THEN exE] conjE)
      (auto simp: lock_scenario_budget_def daily_ceiling_def ids result_simps not_less split: if_splits
        intro!: that)
qed

lemma enforce_budget_usage:
  assumes "enforce_budget X i day now approved_overage s = Inr ()"
  obtains pid wid p l m r where "authority_ids i = Inr (pid, wid)" "load_policy s pid = Some p"
    "limits_for p (pi_direction i) = Some l" "daily_ceiling approved_overage l = Some m"
    "load_payment_wallet X s wid = Inr (Some r)" "pw_budget_unit r = Some (budget_unit (pi_asset i))"
    "pi_amount i \<le> pl_max_per_payment l"
    "scenario_usage (pi_scenario_id i) (pi_direction i) (budget_unit (pi_asset i)) day now s
       + unat (pi_amount i) \<le> unat m"
    "is_none_or (pw_max_per_payment r) (\<lambda>k. pi_amount i \<le> k)"
    "is_none_or (pw_max_per_day r) (\<lambda>k. wallet_usage wid (pi_direction i) (budget_unit (pi_asset i)) day now s
       + unat (pi_amount i) \<le> unat k)"
proof -
  from assms obtain pid wid p l b where ids: "authority_ids i = Inr (pid, wid)"
    and sc: "scenario_exists s (pi_scenario_id i)" and p: "load_policy s pid = Some p"
    and l: "limits_for p (pi_direction i) = Some l" and m: "daily_ceiling approved_overage l \<noteq> None"
    and b: "budget_snapshot_connection X (pi_scenario_id i) wid (pi_direction i) (budget_unit (pi_asset i))
       day now s = Inr b"
    by (rule enforce_budget_ok)
  from m obtain m where m: "daily_ceiling approved_overage l = Some m" by blast
  from b show thesis
  proof (rule budget_snapshot_ok)
    fix r
    assume r: "load_payment_wallet X s wid = Inr (Some r)" "pw_budget_unit r = Some (budget_unit (pi_asset i))"
      and use: "unat (bs_scenario_spent_and_reserved b)
          = scenario_usage (pi_scenario_id i) (pi_direction i) (budget_unit (pi_asset i)) day now s"
        "unat (bs_wallet_spent_and_reserved b)
          = wallet_usage wid (pi_direction i) (budget_unit (pi_asset i)) day now s"
        "bs_wallet_max_per_payment b = pw_max_per_payment r" "bs_wallet_max_per_day b = pw_max_per_day r"
    have "pi_amount i \<le> pl_max_per_payment l"
      and "usage_within (bs_scenario_spent_and_reserved b) (pi_amount i) m"
      and "wallet_within_limits (snapshot_wallet_budget b) (pi_amount i)"
      using assms enforce_budget_iff [OF ids sc p l m b] by auto
    then show thesis
      using that [OF ids p l m r] use
      by (simp add: usage_within_def wallet_within_limits_def snapshot_wallet_budget_def)
  qed
qed

text \<open>How usage moves when one intent row is added or a table stays the same.\<close>

lemma usage_cong:
  "pay_intent t = pay_intent s \<Longrightarrow> pay_ledger t = pay_ledger s \<Longrightarrow>
     usage intents entries d u day latest t = usage intents entries d u day latest s"
  by (simp add: usage_def reserved_rows_def confirmed_rows_def)

lemma usage_new_intent:
  assumes "pay_intent t = pay_intent s @ [r]" "pay_ledger t = pay_ledger s"
  shows "usage intents entries d u day latest t = usage intents entries d u day latest s
    + (if intents (ir_intent r) \<and> intent_in_unit d u (ir_intent r)
          \<and> pi_reservation_status (ir_intent r) = Reserved
       then unat (pi_reserved_amount (ir_intent r)) else 0)"
  by (simp add: usage_def reserved_rows_def confirmed_rows_def assms)

lemma intent_in_unit_self [simp]: "intent_in_unit (pi_direction i) (budget_unit (pi_asset i)) i"
  by (simp add: intent_in_unit_def budget_unit_def)

end
