(* ===== verification/Authority.thy ===== *)
theory Authority
  imports Budget
begin

text \<open>
  The authority checks inside the payment transactions (\<^verbatim>\<open>storage/payment/authority.rs\<close>): they
  reload the client, scenario, policy, wallet and price, and compare them with the snapshots that the
  caller decided on. The lemmas state what a passed check guarantees of the current database.
\<close>

section \<open>Definitions\<close>

definition validate_intent_authority :: "PaymentIntent \<Rightarrow> db \<Rightarrow> unit result" where
  "validate_intent_authority i s =
     (if pi_status i = Failed then Inr ()
      else and_then (map_err (\<lambda>field. InvalidRequest (''invalid payment intent '' @ field)) (authority_ids i))
        (\<lambda>(policy_id, wallet_id).
      and_then (ok_or (load_policy s policy_id) (NotFound (''payment policy '' @ policy_id))) (\<lambda>p.
      and_then (ok_or (limits_for p (pi_direction i))
        (conflict ''policy does not authorize payment intent direction'')) (\<lambda>limit.
      if pp_scenario_id p \<noteq> pi_scenario_id i
         \<or> wallet_id \<notin> set (pp_wallet_ids p)
         \<or> \<not> BudgetUnit_matches (pp_budget_unit p) (pi_asset i)
         \<or> pi_protocol i \<notin> set (pp_protocols p)
         \<or> ai_network (pi_asset i) \<notin> set (pp_networks p)
         \<or> pi_asset i \<notin> set (pp_assets p)
         \<or> pi_amount i > pl_max_per_payment limit
      then Inl (conflict ''payment intent exceeds or falls outside its directional policy scope'')
      else Inr ()))))"

definition lock_authorization_scope ::
  "db \<Rightarrow> string \<Rightarrow> string \<Rightarrow> string \<Rightarrow> string option \<Rightarrow> string \<Rightarrow> unit result" where
  "lock_authorization_scope s client_id scenario_id policy_id price_id wallet_id =
     (if \<not> list_ex (\<lambda>c. cl_id c = client_id) (pay_client s) then Inl Forbidden
      else if \<not> list_ex (\<lambda>sc. sc_id sc = scenario_id \<and> sc_client_id sc = client_id) (pay_scenario s)
      then Inl Forbidden
      else and_then (lock_policy_wallet s policy_id wallet_id) (\<lambda>_.
      case price_id of
        None \<Rightarrow> Inr ()
      | Some q \<Rightarrow>
          if list_ex (\<lambda>p. pr_id p = q \<and> pr_policy_id p = policy_id \<and> pr_wallet_id p = wallet_id) (pay_price s)
          then Inr ()
          else Inl (conflict ''payment price authority no longer exists'')))"

definition select_client :: "db \<Rightarrow> string \<Rightarrow> string \<Rightarrow> PaymentClient option" where
  "select_client s client_id who = find (\<lambda>c. cl_id c = client_id \<and> cl_auth_principal c = who) (pay_client s)"

definition select_scenario :: "db \<Rightarrow> string \<Rightarrow> string \<Rightarrow> PaymentScenario option" where
  "select_scenario s scenario_id client_id =
     find (\<lambda>sc. sc_id sc = scenario_id \<and> sc_client_id sc = client_id) (pay_scenario s)"

definition select_price :: "db \<Rightarrow> string \<Rightarrow> PaymentPrice option" where
  "select_price s price_id = find (\<lambda>p. pr_id p = price_id) (pay_price s)"

definition validate_authorization_guard ::
  "externals \<Rightarrow> PaymentIntent \<Rightarrow> AuthorizationGuard \<Rightarrow> AuthorizationAction \<Rightarrow> db \<Rightarrow> unit result" where
  "validate_authorization_guard X i g action s =
     and_then (map_err (\<lambda>field. InvalidRequest (''invalid payment intent '' @ field)) (PaymentIntent_validate i)) (\<lambda>_.
     and_then (map_err (\<lambda>field. InvalidRequest (''invalid payment intent '' @ field)) (authority_ids i))
       (\<lambda>(_, wallet_id).
     if pi_direction i \<noteq> Outbound
        \<or> pi_scenario_id i \<noteq> sc_id (g_scenario g)
        \<or> pi_policy_id i \<noteq> Some (pp_id (g_policy g))
        \<or> sc_client_id (g_scenario g) \<noteq> cl_id (g_client g)
        \<or> wallet_id \<notin> set (pp_wallet_ids (g_policy g))
     then Inl (conflict ''authorization guard is not bound to the payment intent'')
     else and_then (lock_authorization_scope s (cl_id (g_client g)) (sc_id (g_scenario g))
         (pp_id (g_policy g)) None wallet_id) (\<lambda>_.
     and_then (ok_or (select_client s (cl_id (g_client g)) (g_principal g)) Forbidden) (\<lambda>client.
     and_then (ok_or (select_scenario s (sc_id (g_scenario g)) (cl_id (g_client g))) Forbidden) (\<lambda>scenario.
     and_then (ok_or (load_policy s (pp_id (g_policy g)))
       (conflict ''authorization policy no longer exists'')) (\<lambda>p.
     and_then (load_payment_wallet X s wallet_id) (\<lambda>loaded.
     and_then (ok_or loaded (conflict ''authorization wallet no longer exists'')) (\<lambda>w.
     if client \<noteq> g_client g \<or> scenario \<noteq> g_scenario g \<or> p \<noteq> g_policy g
     then Inl (conflict ''authorization snapshot changed before commit'')
     else if action \<noteq> RecordDenied then
       if \<not> authenticates client (g_principal g)
          \<or> \<not> sc_enabled scenario
          \<or> \<not> pp_enabled p
          \<or> \<not> signing_ready_for_payment_network X w (ai_network (pi_asset i))
          \<or> pw_updated_at w \<noteq> g_expected_wallet_updated_at g
          \<or> pw_active_key_version w \<noteq> g_expected_wallet_key_version g
          \<or> pw_budget_unit w \<noteq> Some (pp_budget_unit p)
          \<or> \<not> allows_wallet p wallet_id
          \<or> \<not> allows_direction p (pi_direction i)
          \<or> \<not> allows_protocol p (pi_protocol i)
          \<or> \<not> allows_asset p (pi_asset i)
          \<or> \<not> allows_payment_recipient X p (ai_network (pi_asset i)) (pi_recipient i)
          \<or> \<not> allows_origin p (g_origin g)
          \<or> is_some_and (pi_expires_at i) (\<lambda>e. e \<le> g_evaluated_at g)
       then Inl (PolicyDenied ''payment authorization changed or falls outside current policy'')
       else and_then (ok_or (limits_for p (pi_direction i)) (PolicyDenied ''payment direction is disabled''))
         (\<lambda>limits.
       if pi_amount i > pl_max_per_payment limits
       then Inl (PolicyDenied ''payment exceeds the per-payment policy limit'')
       else Inr ())
     else Inr ()))))))))"

text \<open>A scenario joined with the enabled flag of its client.\<close>

definition scenario_with_client :: "db \<Rightarrow> string \<Rightarrow> (PaymentScenario \<times> bool) option" where
  "scenario_with_client s scenario_id =
     Option.bind (find (\<lambda>sc. sc_id sc = scenario_id
         \<and> list_ex (\<lambda>c. cl_id c = sc_client_id sc) (pay_client s)) (pay_scenario s)) (\<lambda>sc.
     map_option (\<lambda>c. (sc, cl_enabled c)) (find (\<lambda>c. cl_id c = sc_client_id sc) (pay_client s)))"

definition validate_current_payment_scope ::
  "externals \<Rightarrow> PaymentIntent \<Rightarrow> string option \<Rightarrow> db \<Rightarrow> unit result" where
  "validate_current_payment_scope X i origin s =
     and_then (map_err (\<lambda>field. InvalidRequest (''invalid payment intent '' @ field)) (PaymentIntent_validate i)) (\<lambda>_.
     and_then (map_err (\<lambda>field. InvalidRequest (''invalid payment intent '' @ field)) (authority_ids i))
       (\<lambda>(policy_id, wallet_id).
     and_then (lock_scenario_budget s (pi_scenario_id i)) (\<lambda>_.
     and_then (ok_or (scenario_with_client s (pi_scenario_id i))
       (conflict ''payment scenario no longer exists'')) (\<lambda>(scenario, client_enabled).
     and_then (lock_policy_wallet s policy_id wallet_id) (\<lambda>_.
     and_then (ok_or (load_policy s policy_id) (conflict ''payment policy no longer exists'')) (\<lambda>p.
     and_then (load_payment_wallet X s wallet_id) (\<lambda>loaded.
     and_then (ok_or loaded (conflict ''payment wallet no longer exists'')) (\<lambda>w.
     if \<not> sc_enabled scenario
        \<or> \<not> client_enabled
        \<or> \<not> pp_enabled p
        \<or> pp_scenario_id p \<noteq> pi_scenario_id i
        \<or> \<not> allows_wallet p wallet_id
        \<or> \<not> allows_direction p (pi_direction i)
        \<or> \<not> allows_protocol p (pi_protocol i)
        \<or> \<not> allows_asset p (pi_asset i)
        \<or> pw_budget_unit w \<noteq> Some (pp_budget_unit p)
        \<or> \<not> pw_enabled w
        \<or> (pi_direction i = Outbound \<and> \<not> signing_ready_for_payment_network X w (ai_network (pi_asset i)))
        \<or> (pi_direction i = Outbound
           \<and> \<not> allows_payment_recipient X p (ai_network (pi_asset i)) (pi_recipient i))
        \<or> is_some_and origin (\<lambda>o'. \<not> allows_origin p o')
     then Inl (PolicyDenied ''payment scope is no longer authorized'')
     else Inr ()))))))))"

definition validate_challenge_guard ::
  "externals \<Rightarrow> PaymentIntent \<Rightarrow> PaymentChallenge \<Rightarrow> ChallengeIssuanceGuard \<Rightarrow> db \<Rightarrow> unit result" where
  "validate_challenge_guard X i c g s =
     (if pi_direction i \<noteq> Inbound
         \<or> pi_status i \<noteq> Created
         \<or> pi_reservation_status i \<noteq> Reserved
         \<or> pi_reserved_amount i \<noteq> pi_amount i
         \<or> pi_price_id i \<noteq> Some (pr_id (cg_price g))
         \<or> pi_policy_id i \<noteq> Some (pp_id (cg_policy g))
         \<or> pi_wallet_id i \<noteq> Some (w_id (pw_wallet (cg_wallet g)))
         \<or> pi_challenge_hash i \<noteq> Some (pc_challenge_hash c)
         \<or> pc_scenario_id c \<noteq> pi_scenario_id i
         \<or> pc_price_id c \<noteq> pi_price_id i
         \<or> pc_resource c \<noteq> pi_resource i
         \<or> pc_protocol c \<noteq> pi_protocol i
         \<or> pc_asset c \<noteq> pi_asset i
         \<or> pc_amount c \<noteq> pi_amount i
         \<or> pc_recipient c \<noteq> pi_recipient i
         \<or> pc_expires_at c \<noteq> (case pi_expires_at i of Some e \<Rightarrow> e | None \<Rightarrow> 0)
         \<or> pc_expires_at c \<le> cg_evaluated_at g
      then Inl (conflict ''inbound challenge aggregate is not internally bound'')
      else and_then (lock_authorization_scope s (cl_id (cg_client g)) (sc_id (cg_scenario g))
          (pp_id (cg_policy g)) (Some (pr_id (cg_price g))) (w_id (pw_wallet (cg_wallet g)))) (\<lambda>_.
      and_then (ok_or (select_client s (cl_id (cg_client g)) (cg_principal g)) Forbidden) (\<lambda>client.
      and_then (ok_or (select_scenario s (sc_id (cg_scenario g)) (cl_id (cg_client g))) Forbidden) (\<lambda>scenario.
      and_then (ok_or (select_price s (pr_id (cg_price g))) (conflict ''payment price no longer exists'')) (\<lambda>price.
      and_then (ok_or (load_policy s (pp_id (cg_policy g))) (conflict ''payment policy no longer exists'')) (\<lambda>p.
      and_then (load_payment_wallet X s (w_id (pw_wallet (cg_wallet g)))) (\<lambda>loaded.
      and_then (ok_or loaded (conflict ''payment wallet no longer exists'')) (\<lambda>w.
      and_then (map_err (\<lambda>_. PolicyDenied ''price recipient wallet is invalid for its network'')
        (PaymentWallet_canonicalized_for_payment_network X w (ai_network (pi_asset i)))) (\<lambda>canonical.
      if client \<noteq> cg_client g
         \<or> scenario \<noteq> cg_scenario g
         \<or> price \<noteq> cg_price g
         \<or> p \<noteq> cg_policy g
         \<or> w \<noteq> cg_wallet g
         \<or> \<not> authenticates client (cg_principal g)
         \<or> \<not> sc_enabled scenario
         \<or> \<not> pr_enabled price
         \<or> \<not> pp_enabled p
         \<or> \<not> pw_enabled w
         \<or> pp_scenario_id p \<noteq> sc_id scenario
         \<or> pr_scenario_id price \<noteq> sc_id scenario
         \<or> pr_policy_id price \<noteq> pp_id p
         \<or> pr_wallet_id price \<noteq> w_id (pw_wallet w)
         \<or> \<not> allows_wallet p (w_id (pw_wallet w))
         \<or> \<not> allows_direction p Inbound
         \<or> \<not> allows_protocol p (pi_protocol i)
         \<or> \<not> allows_asset p (pi_asset i)
         \<or> \<not> allows_origin p (cg_origin g)
         \<or> pw_budget_unit w \<noteq> Some (pp_budget_unit p)
         \<or> w_address (pw_wallet canonical) \<noteq> pi_recipient i
      then Inl (PolicyDenied ''inbound challenge changed or falls outside current policy'')
      else Inr ())))))))))"

section \<open>What a passed check guarantees\<close>

lemma authorization_guard_ok:
  assumes "validate_authorization_guard X i g action s = Inr ()"
  obtains wid w where "PaymentIntent_validate i = Inr ()" "pi_direction i = Outbound"
    "pi_wallet_id i = Some wid" "pi_policy_id i = Some (pp_id (g_policy g))"
    "pi_scenario_id i = sc_id (g_scenario g)"
    "select_client s (cl_id (g_client g)) (g_principal g) = Some (g_client g)"
    "select_scenario s (sc_id (g_scenario g)) (cl_id (g_client g)) = Some (g_scenario g)"
    "load_policy s (pp_id (g_policy g)) = Some (g_policy g)"
    "load_payment_wallet X s wid = Inr (Some w)"
    "action \<noteq> RecordDenied \<Longrightarrow> authenticates (g_client g) (g_principal g) \<and> sc_enabled (g_scenario g)
       \<and> pp_enabled (g_policy g) \<and> signing_ready_for_payment_network X w (ai_network (pi_asset i))
       \<and> pw_active_key_version w = g_expected_wallet_key_version g
       \<and> pw_budget_unit w = Some (pp_budget_unit (g_policy g))
       \<and> allows_wallet (g_policy g) wid \<and> allows_protocol (g_policy g) (pi_protocol i)
       \<and> allows_asset (g_policy g) (pi_asset i) \<and> allows_origin (g_policy g) (g_origin g)
       \<and> allows_payment_recipient X (g_policy g) (ai_network (pi_asset i)) (pi_recipient i)
       \<and> is_none_or (pi_expires_at i) (\<lambda>e. g_evaluated_at g < e)"
proof -
  obtain pid wid where ids: "authority_ids i = Inr (pid, wid)"
    using assms unfolding validate_authorization_guard_def by (auto simp: result_simps)
  obtain w where "load_payment_wallet X s wid = Inr (Some w)"
    using assms unfolding validate_authorization_guard_def ids by (auto simp: result_simps)
  then show thesis
    by (intro that [of wid w])
      (use assms ids in \<open>auto simp: validate_authorization_guard_def result_simps authority_ids_ok
        is_some_and_iff is_none_or_iff not_le split: if_splits\<close>)
qed

end
