(* ===== verification/Payment_Store.thy ===== *)
theory Payment_Store
  imports Authority
begin

text \<open>
  The payment transactions (\<^verbatim>\<open>storage/payment/mutations.rs\<close>,
  \<^verbatim>\<open>storage/payment/transactions.rs\<close>): authorisation, challenge issuance, credential
  verification, progress, merchant evidence and settlement, each one transaction over the intent, the
  ledger, the events and the outbox.
\<close>

section \<open>Write primitives\<close>

definition insert_intent :: "PaymentIntent \<Rightarrow> string option \<Rightarrow> db \<Rightarrow> db result" where
  "insert_intent i credential_hash s =
     and_then (map_err (\<lambda>field. InvalidRequest (''invalid payment intent '' @ field)) (PaymentIntent_validate i)) (\<lambda>_.
     and_then (validate_intent_authority i s) (\<lambda>_.
     let r = \<lparr>ir_intent = i, ir_credential_hash = credential_hash, ir_reconcile_attempts = 0,
              ir_lease_owner = None, ir_lease_expires_at = None\<rparr> in
     if pay_intent_check r \<and> pay_intent_fk s i \<and> \<not> list_ex (\<lambda>q. pay_intent_clash q r) (pay_intent s)
     then Inr (s\<lparr>pay_intent := pay_intent s @ [r]\<rparr>)
     else Inl (conflict ''payment intent insert rejected'')))"

definition insert_approval_request :: "ApprovalRequest \<Rightarrow> db \<Rightarrow> db result" where
  "insert_approval_request a s =
     (if is_blank (ar_id a) \<or> is_blank (ar_intent_id a) \<or> is_blank (ar_run_id a)
         \<or> is_zero (ar_requested_amount a) \<or> is_blank (ar_requested_by a) \<or> is_blank (ar_intent_hash a)
      then Inl (InvalidRequest ''approval request identity is incomplete'')
      else if pay_approval_check a \<and> pay_approval_fk s a
              \<and> \<not> list_ex (\<lambda>b. pay_approval_clash b a) (pay_approval s)
      then Inr (s\<lparr>pay_approval := pay_approval s @ [a]\<rparr>)
      else Inl (conflict ''payment approval insert rejected''))"

definition reservation_change :: "ReservationMutation \<Rightarrow> PaymentIntent \<Rightarrow> PaymentIntent \<Rightarrow> unit result" where
  "reservation_change m old new =
     (case m of
        Unchanged \<Rightarrow>
          if pi_reservation_status new \<noteq> pi_reservation_status old
             \<or> pi_reserved_amount new \<noteq> pi_reserved_amount old
          then Inl (conflict ''generic payment update cannot change a reservation'')
          else Inr ()
      | ReleaseOnly \<Rightarrow>
          if pi_reservation_status old \<noteq> Reserved
             \<or> pi_reservation_status new \<noteq> Released
             \<or> pi_reserved_amount new \<noteq> pi_reserved_amount old
          then Inl (conflict ''reservation update must release one existing reservation'')
          else Inr ()
      | RmSettlement \<Rightarrow>
          if \<not> ((pi_reservation_status old \<in> {Reserved, Consumed} \<and> pi_reservation_status new = Consumed)
               \<or> (pi_reservation_status old = Unreserved \<and> pi_reservation_status new = Unreserved)
               \<or> (pi_reservation_status old = Released \<and> pi_reservation_status new = Released))
          then Inl (conflict ''settlement has an invalid reservation transition'')
          else Inr ()
      | ApprovalReserve \<Rightarrow>
          if pi_reservation_status old \<noteq> Unreserved
             \<or> pi_reservation_status new \<noteq> Reserved
             \<or> pi_reserved_amount new \<noteq> pi_amount new
          then Inl (conflict ''approved payment must create exactly one full reservation'')
          else Inr ())"

text \<open>The columns the update writes.\<close>

definition mutable_columns :: "PaymentIntent \<Rightarrow> PaymentIntent \<Rightarrow> PaymentIntent" where
  "mutable_columns new q =
     q\<lparr>pi_settled_amount := pi_settled_amount new, pi_status := pi_status new,
       pi_reservation_status := pi_reservation_status new, pi_reserved_amount := pi_reserved_amount new,
       pi_tx_hash := pi_tx_hash new, pi_settlement_ref := pi_settlement_ref new,
       pi_next_reconcile_at := pi_next_reconcile_at new, pi_updated_at := pi_updated_at new,
       pi_settled_at := pi_settled_at new\<rparr>"

definition write_intent :: "PaymentIntent \<Rightarrow> intent_row \<Rightarrow> intent_row" where
  "write_intent new r = r\<lparr>ir_intent := mutable_columns new (ir_intent r)\<rparr>"

definition update_intent :: "PaymentIntent \<Rightarrow> int \<Rightarrow> ReservationMutation \<Rightarrow> db \<Rightarrow> db result" where
  "update_intent new expected_updated_at m s =
     and_then (map_err (\<lambda>field. InvalidRequest (''invalid payment intent '' @ field)) (PaymentIntent_validate new)) (\<lambda>_.
     and_then (ok_or (load_intent s (pi_id new)) (NotFound (''payment intent '' @ pi_id new))) (\<lambda>old.
     if pi_updated_at old \<noteq> expected_updated_at
        \<or> pi_updated_at new \<le> expected_updated_at
        \<or> \<not> same_immutable_identity_as old new
        \<or> pi_settled_amount new < pi_settled_amount old
        \<or> \<not> allowed_status_transition (pi_status old) (pi_status new)
     then Inl (conflict ''payment intent identity, lifecycle, or revision changed'')
     else and_then (reservation_change m old new) (\<lambda>_.
     let hit = (\<lambda>r. pi_id (ir_intent r) = pi_id new \<and> pi_updated_at (ir_intent r) = expected_updated_at) in
     if list_ex (\<lambda>r. hit r \<and> \<not> pay_intent_check (write_intent new r)) (pay_intent s)
     then Inl (conflict ''payment intent update rejected'')
     else if rows_affected hit (pay_intent s) \<noteq> 1
     then Inl (conflict ''payment intent revision changed'')
     else Inr (s\<lparr>pay_intent := update_where hit (write_intent new) (pay_intent s)\<rparr>))))"

definition bind_credential :: "string \<Rightarrow> intent_row \<Rightarrow> intent_row" where
  "bind_credential h r = r\<lparr>ir_credential_hash := Some h\<rparr>"

definition unbound_row :: "PaymentIntent \<Rightarrow> intent_row \<Rightarrow> bool" where
  "unbound_row i r \<longleftrightarrow> pi_id (ir_intent r) = pi_id i \<and> ir_credential_hash r = None"

definition bind_credential_transition :: "PaymentIntent \<Rightarrow> PaymentCredential \<Rightarrow> int \<Rightarrow> db \<Rightarrow> db result" where
  "bind_credential_transition i c expected_updated_at s =
     (if is_blank (cr_credential_hash c)
         \<or> cr_protocol c \<noteq> pi_protocol i
         \<or> pi_challenge_hash i \<noteq> Some (cr_challenge_hash c)
         \<or> pi_direction i \<noteq> Inbound
      then Inl (conflict ''payment credential is not bound to the inbound challenge'')
      else if Option.bind (find (\<lambda>r. pi_id (ir_intent r) = pi_id i) (pay_intent s)) ir_credential_hash \<noteq> None
      then Inl (conflict ''payment credential is already bound'')
      else and_then (update_intent i expected_updated_at Unchanged s) (\<lambda>t.
      let hit = unbound_row i;
          change = bind_credential (cr_credential_hash c) in
      if list_ex (\<lambda>r. hit r \<and> (\<not> pay_intent_check (change r)
           \<or> list_ex (\<lambda>q. \<not> hit q \<and> pay_intent_clash q (change r)) (pay_intent t))) (pay_intent t)
      then Inl (conflict ''payment credential binding rejected'')
      else if rows_affected hit (pay_intent t) \<noteq> 1
      then Inl (conflict ''payment credential binding lost its conditional update'')
      else Inr (t\<lparr>pay_intent := update_where hit change (pay_intent t)\<rparr>)))"

section \<open>Reads\<close>

definition get_for_scenario :: "db \<Rightarrow> string \<Rightarrow> string \<Rightarrow> PaymentIntent option" where
  "get_for_scenario s scenario_id intent_id =
     find (\<lambda>i. pi_id i = intent_id \<and> pi_scenario_id i = scenario_id) (map ir_intent (pay_intent s))"

definition get_for_challenge :: "db \<Rightarrow> string \<Rightarrow> string \<Rightarrow> PaymentIntent option" where
  "get_for_challenge s scenario_id challenge_hash =
     find (\<lambda>i. pi_scenario_id i = scenario_id \<and> pi_challenge_hash i = Some challenge_hash
       \<and> pi_direction i = Inbound) (map ir_intent (pay_intent s))"

definition load_intent_by_run :: "db \<Rightarrow> string \<Rightarrow> string \<Rightarrow> PaymentIntent option" where
  "load_intent_by_run s scenario_id run_id =
     find (\<lambda>i. pi_scenario_id i = scenario_id \<and> pi_run_id i = run_id) (map ir_intent (pay_intent s))"

text \<open>\<^verbatim>\<open>ORDER BY created_at DESC, id LIMIT 1\<close>\<close>

definition latest_approval :: "db \<Rightarrow> string \<Rightarrow> ApprovalRequest option" where
  "latest_approval s intent_id =
     (case sort_key (\<lambda>a. (- ar_created_at a, ar_id a)) (filter (\<lambda>a. ar_intent_id a = intent_id) (pay_approval s)) of
        [] \<Rightarrow> None
      | a # _ \<Rightarrow> Some a)"

definition load_run :: "db \<Rightarrow> string \<Rightarrow> string \<Rightarrow> AuthorizationRecord option" where
  "load_run s scenario_id run_id =
     map_option (\<lambda>i. \<lparr>arec_intent = i, arec_approval = latest_approval s (pi_id i)\<rparr>)
       (load_intent_by_run s scenario_id run_id)"

definition find_run :: "db \<Rightarrow> string \<Rightarrow> string \<Rightarrow> AuthorizationRecord option" where
  "find_run = load_run"

definition load_outbound_evidence_event :: "db \<Rightarrow> string \<Rightarrow> PaymentEvent option" where
  "load_outbound_evidence_event s intent_id = find_for_intent_type s intent_id EvSubmitted 0"

section \<open>Transactions\<close>

definition validate_authorization_action ::
  "externals \<Rightarrow> PaymentIntent \<Rightarrow> ApprovalRequest option \<Rightarrow> AuthorizationAction \<Rightarrow> AuthorizationGuard \<Rightarrow>
     db \<Rightarrow> unit result" where
  "validate_authorization_action X i approval action g s =
     (case action of
        RecordDenied \<Rightarrow>
          if approval \<noteq> None \<or> pi_status i \<noteq> Failed \<or> pi_reservation_status i \<noteq> Unreserved
          then Inl (conflict ''denied authorization aggregate has invalid lifecycle'')
          else Inr ()
      | RequestApproval \<Rightarrow>
          if is_none_or approval (\<lambda>a. ar_intent_id a \<noteq> pi_id i)
             \<or> pi_status i \<noteq> PendingApproval \<or> pi_reservation_status i \<noteq> Unreserved
          then Inl (conflict ''approval authorization aggregate has invalid lifecycle'')
          else Inr ()
      | Reserve \<Rightarrow>
          if approval \<noteq> None \<or> pi_status i \<noteq> Authorized \<or> pi_reservation_status i \<noteq> Reserved
             \<or> pi_reserved_amount i \<noteq> pi_amount i
          then Inl (conflict ''reserved authorization aggregate has invalid lifecycle'')
          else enforce_budget X i (g_day_started_at g) (g_evaluated_at g) False s)"

definition authorize ::
  "externals \<Rightarrow> PaymentIntent \<Rightarrow> ApprovalRequest option \<Rightarrow> AuthorizationAction \<Rightarrow> AuthorizationGuard \<Rightarrow>
     PaymentEvent list \<Rightarrow> OutboxMessage list \<Rightarrow> db \<Rightarrow> AuthorizationRecord IdempotentWrite result \<times> db" where
  "authorize X i approval action g events outbox = transaction (\<lambda>s.
     case load_run s (pi_scenario_id i) (pi_run_id i) of
       Some existing \<Rightarrow>
         if pi_request_hash (arec_intent existing) \<noteq> pi_request_hash i
         then Inl (conflict ''payment run_id is bound to a different request'')
         else Inr (ReplayOf existing, s)
     | None \<Rightarrow>
         and_then (validate_authorization_guard X i g action s) (\<lambda>_.
         and_then (validate_challenge_received_event X events i) (\<lambda>_.
         and_then (validate_authorization_action X i approval action g s) (\<lambda>_.
         and_then (insert_intent i None s) (\<lambda>t.
         and_then (case approval of None \<Rightarrow> Inr t | Some a \<Rightarrow> insert_approval_request a t) (\<lambda>u.
         and_then (append_side_effects events outbox u) (\<lambda>v.
         Inr (Inserted \<lparr>arec_intent = i, arec_approval = approval\<rparr>, v))))))))"

definition record_challenge ::
  "externals \<Rightarrow> PaymentIntent \<Rightarrow> PaymentChallenge \<Rightarrow> ChallengeIssuanceGuard \<Rightarrow> PaymentEvent list \<Rightarrow>
     OutboxMessage list \<Rightarrow> db \<Rightarrow> PaymentIntent IdempotentWrite result \<times> db" where
  "record_challenge X i c g events outbox = transaction (\<lambda>s.
     case load_intent_by_run s (pi_scenario_id i) (pi_run_id i) of
       Some existing \<Rightarrow>
         if pi_request_hash existing = pi_request_hash i then Inr (ReplayOf existing, s)
         else Inl (conflict ''payment run_id is bound to a different request'')
     | None \<Rightarrow>
         and_then (validate_challenge_guard X i c g s) (\<lambda>_.
         and_then (validate_challenge_created_event X events i c) (\<lambda>_.
         and_then (enforce_budget X i (cg_day_started_at g) (cg_evaluated_at g) False s) (\<lambda>_.
         and_then (insert_intent i None s) (\<lambda>t.
         and_then (append_side_effects events outbox t) (\<lambda>u.
         Inr (Inserted i, u)))))))"

definition lock_intent_financial_scope :: "PaymentIntent \<Rightarrow> db \<Rightarrow> unit result" where
  "lock_intent_financial_scope i s =
     and_then (ok_or (pi_wallet_id i) (conflict ''payment intent has no wallet authority'')) (\<lambda>wallet_id.
     lock_financial_scopes [pi_scenario_id i] [wallet_id] s)"

definition verify_incoming ::
  "PaymentIntent \<Rightarrow> PaymentCredential \<Rightarrow> int \<Rightarrow> PaymentEvent list \<Rightarrow> OutboxMessage list \<Rightarrow> db \<Rightarrow>
     PaymentIntent result \<times> db" where
  "verify_incoming i c expected_updated_at events outbox = transaction (\<lambda>s.
     and_then (lock_intent_financial_scope i s) (\<lambda>_.
     and_then (bind_credential_transition i c expected_updated_at s) (\<lambda>t.
     and_then (append_side_effects events outbox t) (\<lambda>u.
     Inr (i, u)))))"

definition commit_progress ::
  "PaymentIntent \<Rightarrow> int \<Rightarrow> PaymentEvent list \<Rightarrow> OutboxMessage list \<Rightarrow> db \<Rightarrow> PaymentIntent result \<times> db" where
  "commit_progress i expected_updated_at events outbox = transaction (\<lambda>s.
     and_then (lock_intent_financial_scope i s) (\<lambda>_.
     and_then (ok_or (load_intent s (pi_id i)) (NotFound (''payment intent '' @ pi_id i))) (\<lambda>existing.
     and_then (validate_progress_transition existing i expected_updated_at events) (\<lambda>m.
     and_then (update_intent i expected_updated_at m s) (\<lambda>t.
     and_then (append_side_effects events outbox t) (\<lambda>u.
     Inr (i, u)))))))"

definition record_outbound_evidence ::
  "PaymentIntent \<Rightarrow> int \<Rightarrow> string \<Rightarrow> PaymentEvent \<Rightarrow> OutboxMessage list \<Rightarrow> db \<Rightarrow>
     PaymentIntent IdempotentWrite result \<times> db" where
  "record_outbound_evidence i expected_updated_at evidence_hash e outbox = transaction (\<lambda>s.
     and_then (lock_intent_financial_scope i s) (\<lambda>_.
     and_then (ok_or (load_intent s (pi_id i)) (NotFound (''payment intent '' @ pi_id i))) (\<lambda>existing.
     case load_outbound_evidence_event s (pi_id i) of
       Some stored \<Rightarrow>
         if outbound_evidence_replay_matches stored (pi_id i) evidence_hash
         then Inr (ReplayOf existing, s)
         else Inl (conflict ''outbound merchant evidence has different content'')
     | None \<Rightarrow>
         and_then (validate_outbound_evidence_transition existing i expected_updated_at e evidence_hash) (\<lambda>_.
         and_then (update_intent i expected_updated_at Unchanged s) (\<lambda>t.
         and_then (append_side_effects [e] outbox t) (\<lambda>u.
         Inr (Inserted i, u)))))))"

definition commit_settlement ::
  "PaymentIntent \<Rightarrow> int \<Rightarrow> PaymentEvent list \<Rightarrow> PaymentLedgerEntry list \<Rightarrow> OutboxMessage list \<Rightarrow> db \<Rightarrow>
     PaymentIntent result \<times> db" where
  "commit_settlement i expected_updated_at events entries outbox = transaction (\<lambda>s.
     and_then (lock_intent_financial_scope i s) (\<lambda>_.
     and_then (ok_or (load_intent s (pi_id i)) (NotFound (''payment intent '' @ pi_id i))) (\<lambda>existing.
     and_then (validate_settlement_transition existing i expected_updated_at entries) (\<lambda>_.
     and_then (each_step (\<lambda>e t. state_of (insert_ledger e t)) entries s) (\<lambda>t.
     and_then (update_intent i expected_updated_at RmSettlement t) (\<lambda>u.
     and_then (append_side_effects events outbox u) (\<lambda>v.
     Inr (i, v))))))))"

section \<open>The effect of an update\<close>

lemma mutable_columns_identity: "same_immutable_identity_as old new \<Longrightarrow> mutable_columns new old = new"
  by (simp add: same_immutable_identity_as_def mutable_columns_def)

lemma write_intent_sel [simp]:
  "pi_id (ir_intent (write_intent new r)) = pi_id (ir_intent r)"
  "ir_credential_hash (write_intent new r) = ir_credential_hash r"
  "ir_reconcile_attempts (write_intent new r) = ir_reconcile_attempts r"
  by (simp_all add: write_intent_def mutable_columns_def)

lemma bind_credential_sel [simp]:
  "ir_intent (bind_credential h r) = ir_intent r" "ir_credential_hash (bind_credential h r) = Some h"
  "ir_reconcile_attempts (bind_credential h r) = ir_reconcile_attempts r"
  by (simp_all add: bind_credential_def)

definition intent_hit :: "PaymentIntent \<Rightarrow> int \<Rightarrow> intent_row \<Rightarrow> bool" where
  "intent_hit new u r \<longleftrightarrow> pi_id (ir_intent r) = pi_id new \<and> pi_updated_at (ir_intent r) = u"

lemma update_intent_ok:
  assumes "update_intent new u m s = Inr t"
  obtains old where "PaymentIntent_validate new = Inr ()" "load_intent s (pi_id new) = Some old"
    "pi_updated_at old = u" "u < pi_updated_at new" "same_immutable_identity_as old new"
    "pi_settled_amount old \<le> pi_settled_amount new"
    "allowed_status_transition (pi_status old) (pi_status new)" "reservation_change m old new = Inr ()"
    "rows_affected (intent_hit new u) (pay_intent s) = 1"
    "t = s\<lparr>pay_intent := update_where (intent_hit new u) (write_intent new) (pay_intent s)\<rparr>"
    "\<And>r. r \<in> set (pay_intent s) \<Longrightarrow> intent_hit new u r \<Longrightarrow> pay_intent_check (write_intent new r)"
proof -
  have hit: "(\<lambda>r. pi_id (ir_intent r) = pi_id new \<and> pi_updated_at (ir_intent r) = u) = intent_hit new u"
    by (simp add: fun_eq_iff intent_hit_def)
  show thesis
    using assms unfolding update_intent_def Let_def hit result_simps
    by (elim exE conjE) (rule that, auto simp: result_simps list_ex_iff not_le not_less hit)
qed

text \<open>The single row that an update changes is the one that was loaded, and it becomes the new intent.\<close>

lemma update_intent_row:
  assumes "update_intent new u m s = Inr t"
  obtains r where "r \<in> set (pay_intent s)" "load_intent s (pi_id new) = Some (ir_intent r)"
    "ir_intent (write_intent new r) = new"
    "\<And>q. q \<in> set (pay_intent s) \<Longrightarrow> intent_hit new u q \<longleftrightarrow> q = r"
  using assms
proof (rule update_intent_ok)
  fix old
  assume old: "load_intent s (pi_id new) = Some old" "pi_updated_at old = u" "same_immutable_identity_as old new"
    and one: "rows_affected (intent_hit new u) (pay_intent s) = 1"
  obtain r where r: "r \<in> set (pay_intent s)" "ir_intent r = old" "pi_id old = pi_id new"
    using old(1) by (auto simp: load_intent_def dest: find_Some_in)
  have hit: "intent_hit new u r" using r old(2) by (simp add: intent_hit_def)
  obtain z where z: "\<forall>q \<in> set (pay_intent s). intent_hit new u q \<longrightarrow> q = z"
    using rows_affected_one [of "intent_hit new u" "pay_intent s"] one by auto
  then have "z = r" using r(1) hit by blast
  then have only: "\<And>q. q \<in> set (pay_intent s) \<Longrightarrow> intent_hit new u q \<longleftrightarrow> q = r" using z hit by blast
  have "ir_intent (write_intent new r) = new"
    using mutable_columns_identity [OF old(3)] r(2) by (simp add: write_intent_def)
  then show thesis using that [OF r(1)] old(1) r(2) only by simp
qed

lemma load_intent_update:
  assumes "update_intent new u m s = Inr t"
  shows "load_intent t (pi_id new) = Some new" "j \<noteq> pi_id new \<Longrightarrow> load_intent t j = load_intent s j"
proof -
  have t: "t = s\<lparr>pay_intent := update_where (intent_hit new u) (write_intent new) (pay_intent s)\<rparr>"
    using assms by (rule update_intent_ok)
  have found: "find (\<lambda>r. pi_id (ir_intent r) = k) (pay_intent t)
      = map_option (\<lambda>r. if intent_hit new u r then write_intent new r else r)
          (find (\<lambda>r. pi_id (ir_intent r) = k) (pay_intent s))" for k
    using find_update_where [of "\<lambda>r. pi_id (ir_intent r)" "write_intent new"] by (simp add: t)
  from assms show "load_intent t (pi_id new) = Some new"
  proof (rule update_intent_row)
    fix r
    assume r: "load_intent s (pi_id new) = Some (ir_intent r)" "ir_intent (write_intent new r) = new"
      and only: "\<And>q. q \<in> set (pay_intent s) \<Longrightarrow> intent_hit new u q \<longleftrightarrow> q = r"
    obtain q where q: "find (\<lambda>r. pi_id (ir_intent r) = pi_id new) (pay_intent s) = Some q" "ir_intent q = ir_intent r"
      using r(1) by (auto simp: load_intent_def)
    have "intent_hit new u q"
      using assms
      by (rule update_intent_ok) (use q r(1) find_Some_in [OF q(1)] in \<open>auto simp: intent_hit_def\<close>)
    then have "q = r" using only find_Some_in [OF q(1)] by blast
    with q r(2) \<open>intent_hit new u q\<close> show ?thesis by (simp add: load_intent_def found)
  qed
  show "load_intent t j = load_intent s j" if "j \<noteq> pi_id new"
    unfolding load_intent_def found
    by (cases "find (\<lambda>r. pi_id (ir_intent r) = j) (pay_intent s)")
      (use that in \<open>auto simp: intent_hit_def dest: find_Some_in\<close>)
qed

section \<open>How an intent evolves\<close>

text \<open>A reservation is made at most once, then released or consumed, and never comes back.\<close>

inductive reservation_step :: "ReservationStatus \<Rightarrow> ReservationStatus \<Rightarrow> bool" where
  reserve: "reservation_step Unreserved Reserved"
| release: "reservation_step Reserved Released"
| consume: "reservation_step Reserved Consumed"

inductive_cases reservation_step_from: "reservation_step a b"

definition evolves :: "PaymentIntent \<Rightarrow> PaymentIntent \<Rightarrow> bool" where
  "evolves old new \<longleftrightarrow>
     same_immutable_identity_as old new
     \<and> allowed_status_transition\<^sup>*\<^sup>* (pi_status old) (pi_status new)
     \<and> reservation_step\<^sup>*\<^sup>* (pi_reservation_status old) (pi_reservation_status new)
     \<and> pi_settled_amount old \<le> pi_settled_amount new
     \<and> pi_updated_at old \<le> pi_updated_at new"

definition row_evolves :: "intent_row \<Rightarrow> intent_row \<Rightarrow> bool" where
  "row_evolves q r \<longleftrightarrow>
     evolves (ir_intent q) (ir_intent r)
     \<and> (ir_credential_hash q \<noteq> None \<longrightarrow> ir_credential_hash r = ir_credential_hash q)
     \<and> ir_reconcile_attempts q \<le> ir_reconcile_attempts r"

definition intents_evolve :: "db \<Rightarrow> db \<Rightarrow> bool" where
  "intents_evolve s t \<longleftrightarrow> grows row_evolves (pay_intent s) (pay_intent t)"

lemma evolves_refl [simp]: "evolves i i"
  by (simp add: evolves_def)

lemma evolves_trans: "evolves i j \<Longrightarrow> evolves j k \<Longrightarrow> evolves i k"
  unfolding evolves_def using same_immutable_identity_trans by (meson order_trans rtranclp_trans)

lemma row_evolves_refl [simp]: "row_evolves r r"
  by (simp add: row_evolves_def)

lemma row_evolves_trans: "row_evolves p q \<Longrightarrow> row_evolves q r \<Longrightarrow> row_evolves p r"
  unfolding row_evolves_def using evolves_trans by (metis order_trans)

interpretation intent_history: table_history row_evolves "\<lambda>r. pi_id (ir_intent r)"
  by unfold_locales
    (auto intro: row_evolves_trans simp: row_evolves_def evolves_def same_immutable_identity_as_def)

lemma intents_evolve_same: "pay_intent t = pay_intent s \<Longrightarrow> intents_evolve s t"
  by (simp add: intents_evolve_def intent_history.grows_refl)

lemma intents_evolve_append: "pay_intent t = pay_intent s @ rs \<Longrightarrow> intents_evolve s t"
  by (simp add: intents_evolve_def intent_history.grows_append)

lemma intents_evolve_update:
  assumes "pay_intent t = update_where P f (pay_intent s)"
    and "\<And>r. r \<in> set (pay_intent s) \<Longrightarrow> P r \<Longrightarrow> row_evolves r (f r)"
  shows "intents_evolve s t"
  using assms by (simp add: intents_evolve_def intent_history.grows_update)

lemma intents_evolve_trans: "intents_evolve s t \<Longrightarrow> intents_evolve t u \<Longrightarrow> intents_evolve s u"
  unfolding intents_evolve_def by (rule intent_history.grows_trans)

lemma intents_evolve_load:
  assumes "intents_evolve s t" "load_intent s i = Some x"
  obtains y where "load_intent t i = Some y" "evolves x y"
  using assms
  by (auto simp: intents_evolve_def load_intent_def row_evolves_def elim!: intent_history.grows_find)

lemma reservation_steps [simp]:
  "reservation_step\<^sup>*\<^sup>* Unreserved Reserved" "reservation_step\<^sup>*\<^sup>* Reserved Released"
  "reservation_step\<^sup>*\<^sup>* Reserved Consumed"
  by (rule r_into_rtranclp, rule reservation_step.intros)+

lemma reservation_change_step:
  "reservation_change m old new = Inr () \<Longrightarrow>
     reservation_step\<^sup>*\<^sup>* (pi_reservation_status old) (pi_reservation_status new)"
  by (cases m) (auto simp: reservation_change_def split: if_splits)

lemma update_intent_evolves:
  assumes "update_intent new u m s = Inr t"
  shows "intents_evolve s t"
  using assms
proof (rule update_intent_ok)
  fix old
  assume old: "load_intent s (pi_id new) = Some old" "pi_updated_at old = u" "u < pi_updated_at new"
    "same_immutable_identity_as old new" "pi_settled_amount old \<le> pi_settled_amount new"
    "allowed_status_transition (pi_status old) (pi_status new)" "reservation_change m old new = Inr ()"
    and t: "t = s\<lparr>pay_intent := update_where (intent_hit new u) (write_intent new) (pay_intent s)\<rparr>"
  have ev: "evolves old new"
    unfolding evolves_def using old reservation_change_step by auto
  from assms show ?thesis
  proof (rule update_intent_row)
    fix r
    assume r: "load_intent s (pi_id new) = Some (ir_intent r)" "ir_intent (write_intent new r) = new"
      and only: "\<And>q. q \<in> set (pay_intent s) \<Longrightarrow> intent_hit new u q \<longleftrightarrow> q = r"
    show ?thesis
    proof (rule intents_evolve_update)
      show "pay_intent t = update_where (intent_hit new u) (write_intent new) (pay_intent s)" by (simp add: t)
      show "row_evolves q (write_intent new q)" if "q \<in> set (pay_intent s)" "intent_hit new u q" for q
        using ev old(1) r only [OF that(1)] that(2) by (simp add: row_evolves_def)
    qed
  qed
qed

section \<open>The payment invariant\<close>

definition row_ok :: "intent_row \<Rightarrow> bool" where
  "row_ok r \<longleftrightarrow>
     pay_intent_check r \<and> PaymentIntent_validate (ir_intent r) = Inr ()
     \<and> (pi_reservation_status (ir_intent r) = Reserved \<longrightarrow>
          pi_reserved_amount (ir_intent r) = pi_amount (ir_intent r))"

definition consumed_backed :: "PaymentLedgerEntry list \<Rightarrow> intent_row \<Rightarrow> bool" where
  "consumed_backed ls r \<longleftrightarrow>
     (pi_reservation_status (ir_intent r) = Consumed \<longrightarrow> list_ex (ledger_fact_for (ir_intent r)) ls)"

text \<open>
  Intents clash with no other intent, they are valid and satisfy the constraints of their table, an outstanding reservation holds the whole
  amount, and every consumed reservation has its fact in the ledger.
\<close>

definition payment_inv :: "db \<Rightarrow> bool" where
  "payment_inv s \<longleftrightarrow>
     unique_rows pay_intent_clash (pay_intent s)
     \<and> (\<forall>r \<in> set (pay_intent s). row_ok r \<and> consumed_backed (pay_ledger s) r)"

lemma unique_rows_map:
  assumes "\<And>x y. x \<in> set rows \<Longrightarrow> y \<in> set rows \<Longrightarrow> clash (g x) (g y) \<longleftrightarrow> clash x y"
  shows "unique_rows clash (map g rows) \<longleftrightarrow> unique_rows clash rows"
  unfolding unique_rows_def sorted_wrt_map using assms by (intro sorted_wrt_iff_nth_less [THEN iffD2]
      iffI) (auto simp: sorted_wrt_iff_nth_less)

lemma unique_rows_update_one:
  assumes "unique_rows clash rows" "\<And>a b. clash a b = clash b a" "rows_affected P rows = 1"
    and "\<And>q r. q \<in> set rows \<Longrightarrow> r \<in> set rows \<Longrightarrow> \<not> P q \<Longrightarrow> P r \<Longrightarrow> \<not> clash q (f r)"
  shows "unique_rows clash (update_where P f rows)"
proof -
  from assms(3) obtain r where r: "filter P rows = [r]" by (auto simp: rows_affected_def length_Suc_conv)
  then obtain as bs where rows: "rows = as @ r # bs" "P r" and none: "\<forall>x \<in> set as. \<not> P x" "[] = filter P bs"
    by (auto simp: filter_eq_Cons_iff)
  note none = none(1) none(2) [symmetric, unfolded filter_empty_conv]
  have "update_where P f rows = as @ f r # bs"
    using none by (simp add: update_where_def rows map_idI)
  moreover have "\<forall>x \<in> set as \<union> set bs. \<not> clash x (f r)"
    using assms(4) none rows by auto
  ultimately show ?thesis
    using assms(1,2) by (auto simp: unique_rows_def rows sorted_wrt_append)
qed

lemma clash_write_intent [simp]:
  "pay_intent_clash (write_intent a q) r = pay_intent_clash q r"
  "pay_intent_clash q (write_intent a r) = pay_intent_clash q r"
  by (simp_all add: pay_intent_clash_def same_run_def same_credential_def same_inbound_challenge_def
      write_intent_def mutable_columns_def)

lemma payment_inv_frame:
  assumes "payment_inv s" "pay_intent t = pay_intent s" "set (pay_ledger s) \<subseteq> set (pay_ledger t)"
  shows "payment_inv t"
  using assms by (fastforce simp: payment_inv_def consumed_backed_def list_ex_iff)

lemma payment_inv_append:
  assumes "payment_inv s" "t = s\<lparr>pay_intent := pay_intent s @ [r]\<rparr>"
    and "\<forall>q \<in> set (pay_intent s). \<not> pay_intent_clash q r" "row_ok r"
    and "pi_reservation_status (ir_intent r) \<noteq> Consumed"
  shows "payment_inv t"
  using assms by (auto simp: payment_inv_def unique_rows_snoc consumed_backed_def)

text \<open>A change of intent rows that leaves what clashes are about.\<close>

lemma payment_inv_rows:
  assumes "payment_inv s" "t = s\<lparr>pay_intent := update_where P f (pay_intent s)\<rparr>"
    and "\<And>q r. pay_intent_clash (f q) (f r) = pay_intent_clash q r"
    and "\<And>q r. pay_intent_clash q (f r) = pay_intent_clash q r"
    and "\<And>r. r \<in> set (pay_intent s) \<Longrightarrow> P r \<Longrightarrow> row_ok (f r) \<and> consumed_backed (pay_ledger s) (f r)"
  shows "payment_inv t"
proof -
  have "pay_intent_clash (f q) r = pay_intent_clash q r" for q r
    using assms(4) clash_sym(4) by blast
  then have "unique_rows pay_intent_clash (update_where P f (pay_intent s))"
    unfolding update_where_def using assms(1,3,4)
    by (subst unique_rows_map) (auto simp: payment_inv_def)
  then show ?thesis
    using assms(1,5) by (auto simp: payment_inv_def assms(2) in_update_where)
qed

lemma ledger_fact_identity:
  "same_immutable_identity_as old new \<Longrightarrow> ledger_fact_for new = ledger_fact_for old"
  by (auto simp: fun_eq_iff ledger_fact_for_def same_immutable_identity_as_def)

lemma update_intent_inv:
  assumes "update_intent new u m s = Inr t" "payment_inv s"
    and "m = RmSettlement \<Longrightarrow> pi_reservation_status new = Consumed \<Longrightarrow>
      list_ex (ledger_fact_for new) (pay_ledger s)"
  shows "payment_inv t"
  using assms(1)
proof (rule update_intent_ok)
  fix old
  assume valid: "PaymentIntent_validate new = Inr ()" and old: "load_intent s (pi_id new) = Some old"
    and id: "same_immutable_identity_as old new" and change: "reservation_change m old new = Inr ()"
    and t: "t = s\<lparr>pay_intent := update_where (intent_hit new u) (write_intent new) (pay_intent s)\<rparr>"
    and chk: "\<And>r. r \<in> set (pay_intent s) \<Longrightarrow> intent_hit new u r \<Longrightarrow> pay_intent_check (write_intent new r)"
  from assms(1) show ?thesis
  proof (rule update_intent_row)
    fix r
    assume r: "r \<in> set (pay_intent s)" "load_intent s (pi_id new) = Some (ir_intent r)"
      "ir_intent (write_intent new r) = new"
      and only: "\<And>q. q \<in> set (pay_intent s) \<Longrightarrow> intent_hit new u q \<longleftrightarrow> q = r"
    have "row_ok r" "consumed_backed (pay_ledger s) r" "ir_intent r = old" "pi_amount old = pi_amount new"
      using assms(2) r old id by (auto simp: payment_inv_def same_immutable_identity_as_def)
    then have "row_ok (write_intent new r) \<and> consumed_backed (pay_ledger s) (write_intent new r)"
      using change assms(3) valid ledger_fact_identity [OF id] chk [OF r(1)] only [OF r(1)]
      by (cases m) (auto simp: row_ok_def consumed_backed_def r(3) reservation_change_def split: if_splits)
    then show ?thesis
      by (intro payment_inv_rows [OF assms(2) t]) (use only in auto)
  qed
qed

section \<open>The transactions, decomposed\<close>

definition new_row :: "PaymentIntent \<Rightarrow> string option \<Rightarrow> intent_row" where
  "new_row i c = \<lparr>ir_intent = i, ir_credential_hash = c, ir_reconcile_attempts = 0, ir_lease_owner = None,
     ir_lease_expires_at = None\<rparr>"

lemma new_row_sel [simp]: "ir_intent (new_row i c) = i" "ir_credential_hash (new_row i c) = c"
  by (simp_all add: new_row_def)

lemma insert_intent_ok:
  "insert_intent i c s = Inr t \<Longrightarrow>
     PaymentIntent_validate i = Inr () \<and> validate_intent_authority i s = Inr ()
     \<and> pay_intent_check (new_row i c) \<and> pay_intent_fk s i
     \<and> (\<forall>q \<in> set (pay_intent s). \<not> pay_intent_clash q (new_row i c))
     \<and> t = s\<lparr>pay_intent := pay_intent s @ [new_row i c]\<rparr>"
  by (auto simp: insert_intent_def Let_def result_simps list_ex_iff new_row_def split: if_splits)

lemma insert_approval_request_ok:
  "insert_approval_request a s = Inr t \<Longrightarrow>
     pay_approval_check a \<and> pay_approval_fk s a \<and> (\<forall>b \<in> set (pay_approval s). \<not> pay_approval_clash b a)
     \<and> t = s\<lparr>pay_approval := pay_approval s @ [a]\<rparr>"
  by (auto simp: insert_approval_request_def list_ex_iff split: if_splits)

lemma authorize_cases:
  assumes "authorize X i approval action g events outbox s = (w, t)"
  obtains (same) "t = s" "\<forall>a. w \<noteq> Inr (Inserted a)"
  | (inserted) e q where "w = Inr (Inserted \<lparr>arec_intent = i, arec_approval = approval\<rparr>)"
    "load_run s (pi_scenario_id i) (pi_run_id i) = None"
    "validate_authorization_guard X i g action s = Inr ()"
    "validate_challenge_received_event X events i = Inr ()"
    "validate_authorization_action X i approval action g s = Inr ()"
    "insert_intent i None s = Inr (s\<lparr>pay_intent := pay_intent s @ [new_row i None]\<rparr>)"
    "is_none_or approval (\<lambda>a. pay_approval_check a
       \<and> pay_approval_fk (s\<lparr>pay_intent := pay_intent s @ [new_row i None]\<rparr>) a
       \<and> (\<forall>b \<in> set (pay_approval s). \<not> pay_approval_clash b a))"
    "append_side_effects events outbox (s\<lparr>pay_intent := pay_intent s @ [new_row i None],
       pay_approval := pay_approval s @ (case approval of None \<Rightarrow> [] | Some a \<Rightarrow> [a])\<rparr>) = Inr t"
    "t = s\<lparr>pay_intent := pay_intent s @ [new_row i None],
       pay_approval := pay_approval s @ (case approval of None \<Rightarrow> [] | Some a \<Rightarrow> [a]),
       pay_event := e, pay_outbox := q\<rparr>"
proof (cases "\<exists>a. w = Inr (Inserted a)")
  case False
  then have "t = s"
    using assms by (auto simp: authorize_def transaction_def split: sum.splits option.splits if_splits
        simp: result_simps)
  with False same show thesis by blast
next
  case True
  then obtain a where a: "w = Inr (Inserted a)" by blast
  have none: "load_run s (pi_scenario_id i) (pi_run_id i) = None"
    using assms a by (auto simp: authorize_def transaction_ok split: option.splits if_splits)
  from assms a none obtain u v where
    ok: "validate_authorization_guard X i g action s = Inr ()"
      "validate_challenge_received_event X events i = Inr ()"
      "validate_authorization_action X i approval action g s = Inr ()"
    and u: "insert_intent i None s = Inr u"
    and v: "(case approval of None \<Rightarrow> Inr u | Some a \<Rightarrow> insert_approval_request a u) = Inr v"
    and t: "append_side_effects events outbox v = Inr t"
    and rec: "a = \<lparr>arec_intent = i, arec_approval = approval\<rparr>"
    by (auto simp: authorize_def transaction_ok result_simps)
  have u': "u = s\<lparr>pay_intent := pay_intent s @ [new_row i None]\<rparr>" using insert_intent_ok [OF u] by blast
  have v': "v = s\<lparr>pay_intent := pay_intent s @ [new_row i None],
       pay_approval := pay_approval s @ (case approval of None \<Rightarrow> [] | Some a \<Rightarrow> [a])\<rparr>"
  proof (cases approval)
    case (Some a)
    with v have "insert_approval_request a u = Inr v" by simp
    from insert_approval_request_ok [OF this] show ?thesis by (simp add: u' Some)
  qed (use v u' in auto)
  have ap: "is_none_or approval (\<lambda>a. pay_approval_check a
       \<and> pay_approval_fk (s\<lparr>pay_intent := pay_intent s @ [new_row i None]\<rparr>) a
       \<and> (\<forall>b \<in> set (pay_approval s). \<not> pay_approval_clash b a))"
    using v insert_approval_request_ok [of _ u v] by (cases approval) (auto simp: u')
  obtain e q where "t = v\<lparr>pay_event := e, pay_outbox := q\<rparr>"
    using append_side_effects_frame [OF t] by blast
  then show thesis
    using inserted [OF a [unfolded rec] none ok u [unfolded u'] ap t [unfolded v'], where e = e and q = q]
    by (simp add: v')
qed

lemma record_challenge_cases:
  assumes "record_challenge X i c g events outbox s = (w, t)"
  obtains (same) "t = s" "\<forall>a. w \<noteq> Inr (Inserted a)"
  | (inserted) e q where "w = Inr (Inserted i)" "load_intent_by_run s (pi_scenario_id i) (pi_run_id i) = None"
    "validate_challenge_guard X i c g s = Inr ()" "validate_challenge_created_event X events i c = Inr ()"
    "enforce_budget X i (cg_day_started_at g) (cg_evaluated_at g) False s = Inr ()"
    "insert_intent i None s = Inr (s\<lparr>pay_intent := pay_intent s @ [new_row i None]\<rparr>)"
    "append_side_effects events outbox (s\<lparr>pay_intent := pay_intent s @ [new_row i None]\<rparr>) = Inr t"
    "t = s\<lparr>pay_intent := pay_intent s @ [new_row i None], pay_event := e, pay_outbox := q\<rparr>"
proof (cases "\<exists>a. w = Inr (Inserted a)")
  case False
  then have "t = s"
    using assms by (auto simp: record_challenge_def transaction_def split: sum.splits option.splits if_splits
        simp: result_simps)
  with False same show thesis by blast
next
  case True
  then obtain a where a: "w = Inr (Inserted a)" by blast
  have none: "load_intent_by_run s (pi_scenario_id i) (pi_run_id i) = None"
    using assms a by (auto simp: record_challenge_def transaction_ok split: option.splits if_splits)
  from assms a none obtain u where
    ok: "validate_challenge_guard X i c g s = Inr ()" "validate_challenge_created_event X events i c = Inr ()"
      "enforce_budget X i (cg_day_started_at g) (cg_evaluated_at g) False s = Inr ()"
    and u: "insert_intent i None s = Inr u" and t: "append_side_effects events outbox u = Inr t" and rec: "a = i"
    by (auto simp: record_challenge_def transaction_ok result_simps)
  have u': "u = s\<lparr>pay_intent := pay_intent s @ [new_row i None]\<rparr>" using insert_intent_ok [OF u] by blast
  obtain e q where "t = u\<lparr>pay_event := e, pay_outbox := q\<rparr>"
    using append_side_effects_frame [OF t] by blast
  then show thesis
    using inserted [OF a [unfolded rec] none ok u [unfolded u'] t [unfolded u'], where e = e and q = q]
    by (simp add: u')
qed

lemma bind_credential_ok:
  assumes "bind_credential_transition i c u s = Inr t"
  obtains v where "update_intent i u Unchanged s = Inr v" "pi_direction i = Inbound"
    "cr_protocol c = pi_protocol i" "pi_challenge_hash i = Some (cr_challenge_hash c)"
    "rows_affected (unbound_row i) (pay_intent v) = 1"
    "t = v\<lparr>pay_intent := update_where (unbound_row i) (bind_credential (cr_credential_hash c)) (pay_intent v)\<rparr>"
    "\<And>q r. q \<in> set (pay_intent v) \<Longrightarrow> r \<in> set (pay_intent v) \<Longrightarrow> unbound_row i r \<Longrightarrow> \<not> unbound_row i q \<Longrightarrow>
       \<not> pay_intent_clash q (bind_credential (cr_credential_hash c) r)"
    "\<And>r. r \<in> set (pay_intent v) \<Longrightarrow> unbound_row i r \<Longrightarrow> pay_intent_check (bind_credential (cr_credential_hash c) r)"
  using assms unfolding bind_credential_transition_def Let_def result_simps list_ex_iff
  by (elim conjE exE) (rule that, auto)

text \<open>Binding a credential to the one unbound row of an intent.\<close>

lemma bind_rows:
  assumes t: "t = v\<lparr>pay_intent := update_where (unbound_row i) (bind_credential h) (pay_intent v)\<rparr>"
    and one: "rows_affected (unbound_row i) (pay_intent v) = 1"
    and new: "\<And>q r. q \<in> set (pay_intent v) \<Longrightarrow> r \<in> set (pay_intent v) \<Longrightarrow> unbound_row i r \<Longrightarrow>
      \<not> unbound_row i q \<Longrightarrow> \<not> pay_intent_clash q (bind_credential h r)"
    and chk: "\<And>r. r \<in> set (pay_intent v) \<Longrightarrow> unbound_row i r \<Longrightarrow> pay_intent_check (bind_credential h r)"
  shows "intents_evolve v t" "payment_inv v \<Longrightarrow> payment_inv t"
proof -
  show "intents_evolve v t"
    by (rule intents_evolve_update [of _ "unbound_row i" "bind_credential h"])
      (simp_all add: t row_evolves_def unbound_row_def)
  assume inv: "payment_inv v"
  have "unique_rows pay_intent_clash (pay_intent t)"
    unfolding t using inv one new
    by (simp, intro unique_rows_update_one clash_sym(4)) (auto simp: payment_inv_def)
  moreover have "row_ok (bind_credential h r) \<and> consumed_backed (pay_ledger v) (bind_credential h r)"
    if "r \<in> set (pay_intent v)" "unbound_row i r" for r
    using inv that chk by (auto simp: payment_inv_def row_ok_def consumed_backed_def)
  ultimately show "payment_inv t"
    using inv by (auto simp: payment_inv_def t in_update_where)
qed

lemma verify_incoming_cases:
  assumes "verify_incoming i c u events outbox s = (w, t)"
  obtains (same) e where "t = s" "w = Inl e"
  | (committed) v where "w = Inr i" "bind_credential_transition i c u s = Inr v"
    "append_side_effects events outbox v = Inr t"
  using assms
  by (cases w) (auto simp: verify_incoming_def transaction_ok result_simps dest: transaction_err)

lemma commit_progress_cases:
  assumes "commit_progress i u events outbox s = (w, t)"
  obtains (same) e where "t = s" "w = Inl e"
  | (committed) old m v where "w = Inr i" "load_intent s (pi_id i) = Some old"
    "validate_progress_transition old i u events = Inr m" "update_intent i u m s = Inr v"
    "append_side_effects events outbox v = Inr t"
  using assms
  by (cases w) (auto simp: commit_progress_def transaction_ok result_simps dest: transaction_err)

lemma record_outbound_evidence_cases:
  assumes "record_outbound_evidence i u h e outbox s = (w, t)"
  obtains (same) "t = s" "\<forall>a. w \<noteq> Inr (Inserted a)"
  | (committed) old v where "w = Inr (Inserted i)" "load_intent s (pi_id i) = Some old"
    "load_outbound_evidence_event s (pi_id i) = None"
    "validate_outbound_evidence_transition old i u e h = Inr ()" "update_intent i u Unchanged s = Inr v"
    "append_side_effects [e] outbox v = Inr t"
proof (cases "\<exists>a. w = Inr (Inserted a)")
  case False
  then have "t = s"
    using assms by (auto simp: record_outbound_evidence_def transaction_def result_simps
        split: sum.splits option.splits if_splits)
  with False same show thesis by blast
next
  case True
  then show thesis
    using assms
    by (cases "load_outbound_evidence_event s (pi_id i)")
      (auto simp: record_outbound_evidence_def transaction_ok result_simps split: if_splits intro: committed)
qed

lemma commit_settlement_cases:
  assumes "commit_settlement i u events entries outbox s = (w, t)"
  obtains (same) e where "t = s" "w = Inl e"
  | (committed) old l v where "w = Inr i" "load_intent s (pi_id i) = Some old"
    "validate_settlement_transition old i u entries = Inr ()"
    "each_step (\<lambda>e t. state_of (insert_ledger e t)) entries s = Inr l"
    "update_intent i u RmSettlement l = Inr v" "append_side_effects events outbox v = Inr t"
  using assms
  by (cases w) (auto simp: commit_settlement_def transaction_ok result_simps dest: transaction_err)

section \<open>The transactions keep the invariant and evolve intents\<close>

lemma side_effects_payment:
  assumes "append_side_effects events outbox s = Inr t"
  shows "intents_evolve s t" "payment_inv s \<Longrightarrow> payment_inv t"
proof -
  obtain e q where t: "t = s\<lparr>pay_event := e, pay_outbox := q\<rparr>"
    using append_side_effects_frame [OF assms] by blast
  then show "intents_evolve s t" by (simp add: intents_evolve_same)
  show "payment_inv s \<Longrightarrow> payment_inv t" using payment_inv_frame [of s t] by (simp add: t)
qed

lemma ledgers_payment:
  assumes "each_step (\<lambda>e t. state_of (insert_ledger e t)) es s = Inr t"
  shows "intents_evolve s t" "payment_inv s \<Longrightarrow> payment_inv t" "pay_intent t = pay_intent s"
proof -
  obtain x where t: "t = s\<lparr>pay_ledger := x\<rparr>" using ledger_frame [OF assms] by blast
  then show "pay_intent t = pay_intent s" by simp
  then show "intents_evolve s t" by (rule intents_evolve_same)
  show "payment_inv s \<Longrightarrow> payment_inv t"
    using payment_inv_frame [of s t] ledger_log.batch_keeps [OF assms] by (simp add: t)
qed

lemma authorization_action_ok:
  assumes "validate_authorization_action X i approval action g s = Inr ()"
  shows "pi_reservation_status i \<noteq> Consumed"
    "pi_reservation_status i = Reserved \<Longrightarrow> action = Reserve \<and> pi_reserved_amount i = pi_amount i
       \<and> pi_status i = Authorized \<and> enforce_budget X i (g_day_started_at g) (g_evaluated_at g) False s = Inr ()"
    "action = Reserve \<Longrightarrow> pi_reservation_status i = Reserved"
  using assms by (cases action; simp add: validate_authorization_action_def split: if_splits)+

lemma challenge_guard_ok:
  "validate_challenge_guard X i c g s = Inr () \<Longrightarrow>
     pi_direction i = Inbound \<and> pi_status i = Created \<and> pi_reservation_status i = Reserved
     \<and> pi_reserved_amount i = pi_amount i"
  by (simp add: validate_challenge_guard_def result_simps)

lemma progress_mutation:
  "validate_progress_transition old new u events = Inr m \<Longrightarrow> m \<noteq> RmSettlement"
  using validate_progress_ok(10) [of old new u events m] by auto

lemma settlement_fact_stored:
  assumes "validate_settlement_transition old new u entries = Inr ()" "pi_reservation_status old = Reserved"
    and "each_step (\<lambda>e t. state_of (insert_ledger e t)) entries s = Inr t"
  shows "list_ex (ledger_fact_for new) (pay_ledger t)"
proof -
  obtain e where e: "e \<in> set entries" "matching_fact new e"
    using validate_settlement_ok(5) [OF assms(1,2)] by blast
  have "ledger_entry_bound new e" using validate_settlement_ok(4) [OF assms(1) e(1)] .
  moreover obtain x where "x \<in> set (pay_ledger t)" "same_fact_content_as x e"
    using ledger_log.batch_stores [OF assms(3) e(1)] by blast
  ultimately show ?thesis
    using e(2)
    by (auto simp: list_ex_iff ledger_fact_for_def matching_fact_def ledger_entry_bound_def budget_unit_def
        same_fact_content_as_def same_posting_as_def intro!: bexI [of _ x])
qed

lemma settlement_fact_kept:
  assumes "validate_settlement_transition old i u entries = Inr ()" "load_intent s (pi_id i) = Some old"
    and ledgers: "each_step (\<lambda>e t. state_of (insert_ledger e t)) entries s = Inr l"
    and inv: "payment_inv l" and "pi_reservation_status i = Consumed"
  shows "list_ex (ledger_fact_for i) (pay_ledger l)"
  using validate_settlement_ok(6) [OF assms(1,5)]
proof
  assume "pi_reservation_status old = Reserved"
  then show ?thesis using settlement_fact_stored assms(1) ledgers by blast
next
  assume old: "pi_reservation_status old = Consumed"
  have id: "same_immutable_identity_as old i" using validate_settlement_ok(2) [OF assms(1)] .
  obtain r where "r \<in> set (pay_intent l)" "ir_intent r = old"
    using assms(2) ledgers_payment(3) [OF ledgers] by (auto simp: load_intent_def dest: find_Some_in)
  then show ?thesis
    using inv old ledger_fact_identity [OF id] by (auto simp: payment_inv_def consumed_backed_def)
qed

section \<open>Leases leave the payment facts alone\<close>

lemma take_evolves: "ir_reconcile_attempts r < 4294967295 \<Longrightarrow> row_evolves r (reconciliation_take q r)"
  by (simp add: row_evolves_def reconciliation_take_def word_le_nat_alt word_less_nat_alt unat_word_ariths)

lemma claim_one_effect:
  assumes "reconciliation_claim_one q i s = Inr (c, t)"
  shows "t = s\<lparr>pay_intent := update_where (\<lambda>r. pi_id (ir_intent r) = i \<and> reconciliation_due (rl_now q) r
    \<and> ir_reconcile_attempts r < 4294967295) (reconciliation_take q) (pay_intent s)\<rparr>"
    "\<And>r. r \<in> set (pay_intent s) \<Longrightarrow> pi_id (ir_intent r) = i \<Longrightarrow> reconciliation_due (rl_now q) r \<Longrightarrow>
       ir_reconcile_attempts r < 4294967295 \<Longrightarrow> pay_intent_check (reconciliation_take q r)"
  using assms by (auto simp: reconciliation_claim_one_def Let_def result_simps list_ex_iff split: if_splits)

lemma claim_one_payment:
  assumes "reconciliation_claim_one q i s = Inr (c, t)"
  shows "intents_evolve s t" "payment_inv s \<Longrightarrow> payment_inv t"
proof -
  note t = claim_one_effect(1) [OF assms] and chk = claim_one_effect(2) [OF assms]
  show "intents_evolve s t"
    by (rule intents_evolve_update [OF arg_cong [OF t, of pay_intent, simplified]]) (simp add: take_evolves)
  have same: "ir_intent (reconciliation_take q r) = ir_intent r"
    "ir_credential_hash (reconciliation_take q r) = ir_credential_hash r" for r
    by (simp_all add: reconciliation_take_def)
  show "payment_inv t" if inv: "payment_inv s"
    by (rule payment_inv_rows [OF inv t])
      (use inv chk in \<open>auto simp: pay_intent_clash_def same_credential_def same row_ok_def consumed_backed_def
        payment_inv_def\<close>)
qed

lemma validate_reconcile_at [simp]:
  "PaymentIntent_validate (i\<lparr>pi_next_reconcile_at := x\<rparr>) = PaymentIntent_validate i"
  by (cases i) (simp only: PaymentIntent_validate_def authority_ids_def PaymentIntent.select_convs
      PaymentIntent.update_convs)

definition lease_change :: "int option \<Rightarrow> int option \<Rightarrow> intent_row \<Rightarrow> intent_row" where
  "lease_change lease_until next_attempt_at r =
     (case lease_until of
        Some u \<Rightarrow> r\<lparr>ir_lease_expires_at := Some u\<rparr>
      | None \<Rightarrow> r\<lparr>ir_lease_owner := None, ir_lease_expires_at := None,
          ir_intent := (ir_intent r)\<lparr>pi_next_reconcile_at := next_attempt_at\<rparr>\<rparr>)"

lemma lease_change_keeps:
  "row_evolves r (lease_change a b r)"
  "row_ok r \<Longrightarrow> pay_intent_check (lease_change a b r) \<Longrightarrow> row_ok (lease_change a b r)"
  "consumed_backed ls (lease_change a b r) = consumed_backed ls r"
  "pay_intent_clash q (lease_change a b r) = pay_intent_clash q r"
  "pay_intent_clash (lease_change a b q) r = pay_intent_clash q r"
  by (cases a; simp add: lease_change_def row_evolves_def evolves_def same_immutable_identity_as_def row_ok_def
      consumed_backed_def ledger_fact_for_def [abs_def] pay_intent_clash_def same_run_def same_credential_def
      same_inbound_challenge_def)+

lemma update_lease_effect:
  assumes "update_reconciliation_lease i holder a b s = Inr (u, t)"
  shows "t = s\<lparr>pay_intent := update_where
      (\<lambda>r. pi_id (ir_intent r) = i \<and> ir_lease_owner r = Some holder \<and> leasable r) (lease_change a b) (pay_intent s)\<rparr>"
    "\<And>r. r \<in> set (pay_intent s) \<Longrightarrow> pi_id (ir_intent r) = i \<Longrightarrow> ir_lease_owner r = Some holder \<Longrightarrow> leasable r \<Longrightarrow>
       pay_intent_check (lease_change a b r)"
  using assms by (auto simp: update_reconciliation_lease_def Let_def result_simps lease_change_def [abs_def]
      list_ex_iff split: if_splits)

lemma update_lease_payment:
  assumes "update_reconciliation_lease i holder a b s = Inr (u, t)"
  shows "intents_evolve s t" "payment_inv s \<Longrightarrow> payment_inv t"
proof -
  note t = update_lease_effect(1) [OF assms] and chk = update_lease_effect(2) [OF assms]
  show "intents_evolve s t"
    by (rule intents_evolve_update [OF arg_cong [OF t, of pay_intent, simplified]]) (rule lease_change_keeps)
  show "payment_inv t" if inv: "payment_inv s"
    by (rule payment_inv_rows [OF inv t]) (use inv chk in \<open>auto simp: lease_change_keeps payment_inv_def\<close>)
qed

end
