(* ===== verification/Approval_Store.thy ===== *)
theory Approval_Store
  imports Payment_Store
begin

text \<open>
  The approval repository (\<^verbatim>\<open>storage/approval/mod.rs\<close>,
  \<^verbatim>\<open>storage/approval/transactions.rs\<close>): requesting an approval, deciding it with a grant or a
  rejection, consuming a grant together with its budget reservation, and expiring what is due. The
  lemmas show the lifecycle of an approval row, that the declared constraints hold in every state, and
  that the payment invariant survives.
\<close>

section \<open>Rules\<close>

definition expiry_event :: "ApprovalRequest \<Rightarrow> PaymentIntent \<Rightarrow> int \<Rightarrow> PaymentEvent" where
  "expiry_event a i now =
     \<lparr>ev_id = ''approval-expired:'' @ ar_id a, ev_intent_id = pi_id i, ev_event_type = EvFailed,
      ev_attempt_no = 0, ev_signature_ref = None, ev_tx_hash = None,
      ev_payload = json_object [(''reason'', JString ''approval_expired''), (''approval_id'', JString (ar_id a))],
      ev_created_at = now\<rparr>"

definition expiry_outbox :: "ApprovalRequest \<Rightarrow> PaymentIntent \<Rightarrow> int \<Rightarrow> OutboxMessage" where
  "expiry_outbox a i now =
     \<lparr>ob_id = ''approval-expired:'' @ ar_id a, ob_aggregate_type = ''payment_intent'',
      ob_aggregate_id = pi_id i, ob_event_type = ''approval_expired'',
      ob_destination = ''scenario:'' @ pi_scenario_id i @ ''.payments'', ob_run_id = pi_run_id i,
      ob_payload = json_object [(''intent_id'', JString (pi_id i)), (''approval_id'', JString (ar_id a)),
        (''scenario_id'', JString (pi_scenario_id i))],
      ob_status = ObPending, ob_attempt_count = 0, ob_available_at = now, ob_lease_owner = None,
      ob_lease_expires_at = None, ob_last_error = None, ob_created_at = now, ob_delivered_at = None\<rparr>"

definition validate_grant ::
  "ApprovalRequest \<Rightarrow> PaymentIntent \<Rightarrow> ApprovalDecision \<Rightarrow> ApprovalGrant \<Rightarrow> unit result" where
  "validate_grant a i d g =
     (let c = ag_claims g in
      and_then (map_err (\<lambda>field. conflict (''approval JWT claim '' @ field @ '' is invalid''))
        (ApprovalGrantClaims_validate c)) (\<lambda>_.
      if gc_approval_id c \<noteq> ar_id a
         \<or> gc_intent_id c \<noteq> ar_intent_id a
         \<or> gc_intent_hash c \<noteq> ar_intent_hash a
         \<or> gc_intent_hash c \<noteq> pi_request_hash i
         \<or> Some (gc_amount c) \<noteq> ad_approved_amount d
         \<or> gc_approver c \<noteq> ad_approved_by d
         \<or> gc_iat c \<noteq> ad_decided_at d
         \<or> gc_exp c > ar_expires_at a
         \<or> length (ag_claims_hash g) \<noteq> 64
      then Inl (conflict ''approval JWT is not bound to the decision and intent'')
      else Inr ()))"

definition validate_verified_grant ::
  "ApprovalRequest \<Rightarrow> PaymentIntent \<Rightarrow> VerifiedApprovalGrant \<Rightarrow> int \<Rightarrow> unit result" where
  "validate_verified_grant a i g now =
     (let c = vg_claims g in
      if ar_status a \<noteq> ApApproved
         \<or> ar_expires_at a \<le> now
         \<or> gc_exp c \<le> now
         \<or> gc_approval_id c \<noteq> ar_id a
         \<or> gc_intent_id c \<noteq> pi_id i
         \<or> gc_intent_hash c \<noteq> ar_intent_hash a
         \<or> gc_intent_hash c \<noteq> pi_request_hash i
         \<or> ar_grant_jti a \<noteq> Some (gc_jti c)
         \<or> ar_grant_claims_hash a \<noteq> Some (vg_claims_hash g)
         \<or> ar_approved_amount a \<noteq> Some (gc_amount c)
         \<or> ar_approved_by a \<noteq> Some (gc_approver c)
         \<or> ar_requested_amount a \<noteq> pi_amount i
         \<or> gc_amount c \<noteq> pi_amount i
         \<or> pi_direction i \<noteq> Outbound
         \<or> pi_status i \<noteq> Authorized
         \<or> pi_reservation_status i \<noteq> Reserved
         \<or> pi_reserved_amount i \<noteq> pi_amount i
      then Inl (conflict ''verified approval JWT does not match stored authorization state'')
      else Inr ())"

section \<open>Rows\<close>

definition find_approval :: "db \<Rightarrow> string \<Rightarrow> ApprovalRequest option" where
  "find_approval s approval_id = find (\<lambda>a. ar_id a = approval_id) (pay_approval s)"

definition get_active_for_intent :: "db \<Rightarrow> string \<Rightarrow> ApprovalRequest option" where
  "get_active_for_intent s intent_id =
     find (\<lambda>a. ar_intent_id a = intent_id \<and> approval_active a) (pay_approval s)"

text \<open>One \<^verbatim>\<open>UPDATE pay_approval\<close>: the number of rows it changed, unless a constraint rejects it.\<close>

definition write_approvals ::
  "(ApprovalRequest \<Rightarrow> bool) \<Rightarrow> (ApprovalRequest \<Rightarrow> ApprovalRequest) \<Rightarrow> error \<Rightarrow> nat step" where
  "write_approvals hit change rejected s =
     (if list_ex (\<lambda>a. hit a \<and> (\<not> pay_approval_check (change a)
           \<or> list_ex (\<lambda>b. \<not> hit b \<and> pay_approval_clash b (change a)) (pay_approval s))) (pay_approval s)
      then Inl rejected
      else Inr (rows_affected hit (pay_approval s),
        s\<lparr>pay_approval := update_where hit change (pay_approval s)\<rparr>))"

definition approve_row :: "ApprovalGrant \<Rightarrow> int \<Rightarrow> ApprovalRequest \<Rightarrow> ApprovalRequest" where
  "approve_row g decided_at a =
     a\<lparr>ar_approved_amount := Some (gc_amount (ag_claims g)), ar_approved_by := Some (gc_approver (ag_claims g)),
       ar_status := ApApproved, ar_grant_jti := Some (gc_jti (ag_claims g)),
       ar_grant_claims_hash := Some (ag_claims_hash g), ar_sealed_grant_token := Some (ag_sealed_token g),
       ar_expires_at := gc_exp (ag_claims g), ar_approved_at := Some decided_at\<rparr>"

definition reject_row :: "string \<Rightarrow> int \<Rightarrow> ApprovalRequest \<Rightarrow> ApprovalRequest" where
  "reject_row by decided_at a =
     a\<lparr>ar_approved_by := Some by, ar_status := ApRejected, ar_approved_at := Some decided_at\<rparr>"

definition consume_row :: "int \<Rightarrow> ApprovalRequest \<Rightarrow> ApprovalRequest" where
  "consume_row consumed_at a = a\<lparr>ar_status := ApConsumed, ar_consumed_at := Some consumed_at\<rparr>"

definition expire_row :: "ApprovalRequest \<Rightarrow> ApprovalRequest" where
  "expire_row a = a\<lparr>ar_status := ApExpired\<rparr>"

definition decidable_row :: "string \<Rightarrow> int \<Rightarrow> ApprovalRequest \<Rightarrow> bool" where
  "decidable_row approval_id decided_at b \<longleftrightarrow>
     ar_id b = approval_id \<and> ar_status b = ApPending \<and> ar_expires_at b > decided_at"

definition consumable_row :: "string \<Rightarrow> VerifiedApprovalGrant \<Rightarrow> int \<Rightarrow> ApprovalRequest \<Rightarrow> bool" where
  "consumable_row approval_id g evaluated_at b \<longleftrightarrow>
     ar_id b = approval_id \<and> ar_status b = ApApproved \<and> ar_grant_jti b = Some (gc_jti (vg_claims g))
     \<and> ar_grant_claims_hash b = Some (vg_claims_hash g) \<and> ar_expires_at b > evaluated_at"

definition expirable_row :: "string \<Rightarrow> int \<Rightarrow> ApprovalRequest \<Rightarrow> bool" where
  "expirable_row approval_id now b \<longleftrightarrow>
     ar_id b = approval_id \<and> approval_active b \<and> ar_expires_at b \<le> now"

section \<open>Transactions\<close>

definition request_approval :: "ApprovalRequest \<Rightarrow> db \<Rightarrow> ApprovalRequest IdempotentWrite result \<times> db" where
  "request_approval a = transaction (\<lambda>s.
     case filter (\<lambda>b. ar_id b = ar_id a \<or> (ar_intent_id b = ar_intent_id a \<and> approval_active b)) (pay_approval s) of
       [] \<Rightarrow>
         if ar_status a \<noteq> ApPending \<or> ar_approved_amount a \<noteq> None \<or> ar_approved_by a \<noteq> None
            \<or> has_persisted_grant a \<or> ar_consumed_at a \<noteq> None \<or> ar_approved_at a \<noteq> None
         then Inl (InvalidRequest ''new approval request must have a pending lifecycle'')
         else and_then (insert_approval_request a s) (\<lambda>t. Inr (Inserted a, t))
     | [existing] \<Rightarrow>
         if existing = a then Inr (ReplayOf existing, s)
         else Inl (conflict ''approval request identity is bound to different content'')
     | _ \<Rightarrow> Inl (conflict ''approval identifiers collide with multiple rows''))"

definition decide_approve ::
  "ApprovalRequest \<Rightarrow> PaymentIntent \<Rightarrow> ApprovalDecision \<Rightarrow> ApprovalGrant option \<Rightarrow>
     (PaymentIntent \<times> int) option \<Rightarrow> ApprovalRequest step" where
  "decide_approve a i d grant transition s =
     and_then (ok_or grant (conflict ''approval decision is missing its JWT grant'')) (\<lambda>g.
     and_then (validate_grant a i d g) (\<lambda>_.
     if transition \<noteq> None
     then Inl (conflict ''approval decision cannot carry a rejection transition'')
     else and_then (write_approvals (decidable_row (ar_id a) (ad_decided_at d)) (approve_row g (ad_decided_at d))
         (conflict ''approval grant update rejected'') s) (\<lambda>(changed, t).
     if changed \<noteq> 1
     then Inl (conflict ''approval decision lost its pending-state compare-and-swap'')
     else Inr (approve_row g (ad_decided_at d) a, t))))"

definition decide_reject ::
  "ApprovalRequest \<Rightarrow> ApprovalDecision \<Rightarrow> ApprovalGrant option \<Rightarrow> (PaymentIntent \<times> int) option \<Rightarrow>
     ApprovalRequest step" where
  "decide_reject a d grant transition s =
     (if grant \<noteq> None then Inl (conflict ''rejected decision cannot carry an approval grant'')
      else and_then (ok_or transition (conflict ''rejected decision is missing its intent transition''))
        (\<lambda>(failed, expected).
      and_then (update_intent failed expected Unchanged s) (\<lambda>t.
      and_then (write_approvals (decidable_row (ar_id a) (ad_decided_at d))
          (reject_row (ad_approved_by d) (ad_decided_at d))
          (conflict ''approval rejection update rejected'') t) (\<lambda>(changed, u).
      if changed \<noteq> 1
      then Inl (conflict ''approval rejection lost its pending-state compare-and-swap'')
      else Inr (reject_row (ad_approved_by d) (ad_decided_at d) a, u)))))"

definition decide ::
  "ApprovalDecision \<Rightarrow> ApprovalGrant option \<Rightarrow> (PaymentIntent \<times> int) option \<Rightarrow> PaymentEvent \<Rightarrow>
     OutboxMessage list \<Rightarrow> db \<Rightarrow> ApprovalRequest result \<times> db" where
  "decide d grant transition e outbox = transaction (\<lambda>s.
     and_then (ok_or (find_approval s (ad_approval_id d))
       (NotFound (''payment approval '' @ ad_approval_id d))) (\<lambda>a.
     and_then (map_err (\<lambda>reason. conflict (''approval decision is invalid: '' @ reason))
       (validate_decision a d (ad_decided_at d))) (\<lambda>_.
     and_then (ok_or (load_intent s (ar_intent_id a)) (Storage ''load approval payment intent'')) (\<lambda>i.
     if ar_intent_hash a \<noteq> pi_request_hash i \<or> ev_intent_id e \<noteq> pi_id i
     then Inl (conflict ''approval no longer matches its immutable payment intent'')
     else and_then (case ad_decision d of
         Approve \<Rightarrow> decide_approve a i d grant transition s
       | Reject \<Rightarrow> decide_reject a d grant transition s) (\<lambda>(persisted, t).
     and_then (append_side_effects [e] outbox t) (\<lambda>u.
     Inr (persisted, u)))))))"

definition consume_and_reserve ::
  "externals \<Rightarrow> VerifiedApprovalGrant \<Rightarrow> PaymentIntent \<Rightarrow> string \<Rightarrow> int \<Rightarrow> int \<Rightarrow> int \<Rightarrow> int \<Rightarrow> PaymentEvent \<Rightarrow>
     OutboxMessage list \<Rightarrow> db \<Rightarrow> PaymentIntent result \<times> db" where
  "consume_and_reserve X g i origin day_started_at evaluated_at expected_updated_at consumed_at e outbox =
     transaction (\<lambda>s.
     and_then (ok_or (find_approval s (gc_approval_id (vg_claims g)))
       (NotFound (''payment approval '' @ gc_approval_id (vg_claims g)))) (\<lambda>a.
     and_then (validate_verified_grant a i g evaluated_at) (\<lambda>_.
     and_then (validate_current_payment_scope X i (Some origin) s) (\<lambda>_.
     and_then (enforce_budget X i day_started_at evaluated_at True s) (\<lambda>_.
     and_then (write_approvals (consumable_row (ar_id a) g evaluated_at) (consume_row consumed_at)
         (conflict ''approval grant consumption rejected'') s) (\<lambda>(changed, t).
     if changed \<noteq> 1
     then Inl (conflict ''approval grant was already consumed or expired'')
     else and_then (update_intent i expected_updated_at ApprovalReserve t) (\<lambda>u.
     and_then (append_side_effects [e] outbox u) (\<lambda>v.
     Inr (i, v)))))))))"

definition due_approvals :: "int \<Rightarrow> u32 \<Rightarrow> db \<Rightarrow> ApprovalRequest list" where
  "due_approvals now limit s =
     take (unat limit) (sort_key (\<lambda>a. (ar_expires_at a, ar_created_at a, ar_id a))
       (filter (\<lambda>a. approval_active a \<and> ar_expires_at a \<le> now) (pay_approval s)))"

definition expire_one :: "int \<Rightarrow> ApprovalRequest \<Rightarrow> ApprovalRequest option step" where
  "expire_one now a s =
     and_then (write_approvals (expirable_row (ar_id a) now) expire_row (Storage ''expire approval'') s)
       (\<lambda>(changed, t).
     if changed \<noteq> 1 then Inr (None, t)
     else and_then (ok_or (load_intent t (ar_intent_id a)) (Storage ''load expiring approval intent'')) (\<lambda>i.
     if pi_reservation_status i \<noteq> Unreserved
     then Inl (Storage ''expiring approval unexpectedly owns a payment reservation'')
     else let j = i\<lparr>pi_status := Expired, pi_updated_at := max now (saturating_add (pi_updated_at i) 1)\<rparr> in
     and_then (update_intent j (pi_updated_at i) Unchanged t) (\<lambda>u.
     and_then (append_side_effects [expiry_event a j now] [expiry_outbox a j now] u) (\<lambda>v.
     Inr (Some (expire_row a), v)))))"

definition expire_due :: "int \<Rightarrow> u32 \<Rightarrow> db \<Rightarrow> ApprovalRequest list result \<times> db" where
  "expire_due now limit = transaction (\<lambda>s.
     if now < 0 \<or> limit = 0 then Inl (InvalidRequest ''invalid approval expiry batch'')
     else and_then (collect_steps (expire_one now) (due_approvals now limit s) s) (\<lambda>(expired, t).
     Inr (List.map_filter (\<lambda>x. x) expired, t)))"

section \<open>How an approval evolves\<close>

inductive approval_step :: "ApprovalStatus \<Rightarrow> ApprovalStatus \<Rightarrow> bool" where
  approve: "approval_step ApPending ApApproved"
| reject: "approval_step ApPending ApRejected"
| expire: "s \<in> {ApPending, ApApproved} \<Longrightarrow> approval_step s ApExpired"
| consume: "approval_step ApApproved ApConsumed"

inductive_cases approval_step_from: "approval_step a b"

definition approval_final :: "ApprovalStatus \<Rightarrow> bool" where
  "approval_final s \<longleftrightarrow> s \<in> {ApRejected, ApExpired, ApConsumed}"

text \<open>
  The request stays what it was, the deadline only comes closer, and a grant, once issued, is never
  exchanged.
\<close>

definition approval_evolves :: "ApprovalRequest \<Rightarrow> ApprovalRequest \<Rightarrow> bool" where
  "approval_evolves a b \<longleftrightarrow>
     ar_id b = ar_id a \<and> ar_intent_id b = ar_intent_id a \<and> ar_run_id b = ar_run_id a
     \<and> ar_requested_amount b = ar_requested_amount a \<and> ar_requested_by b = ar_requested_by a
     \<and> ar_intent_hash b = ar_intent_hash a \<and> ar_created_at b = ar_created_at a
     \<and> approval_step\<^sup>*\<^sup>* (ar_status a) (ar_status b)
     \<and> ar_expires_at b \<le> ar_expires_at a
     \<and> (ar_grant_jti a \<noteq> None \<longrightarrow>
          ar_grant_jti b = ar_grant_jti a \<and> ar_grant_claims_hash b = ar_grant_claims_hash a
          \<and> ar_sealed_grant_token b = ar_sealed_grant_token a
          \<and> ar_approved_amount b = ar_approved_amount a \<and> ar_approved_by b = ar_approved_by a)"

definition approvals_evolve :: "db \<Rightarrow> db \<Rightarrow> bool" where
  "approvals_evolve s t \<longleftrightarrow> grows approval_evolves (pay_approval s) (pay_approval t)"

lemma approval_final_step: "approval_final a \<Longrightarrow> \<not> approval_step a b"
  by (auto simp: approval_final_def elim: approval_step_from)

lemma approval_final_absorbing: "approval_step\<^sup>*\<^sup>* a b \<Longrightarrow> approval_final a \<Longrightarrow> b = a"
  by (induction rule: rtranclp_induct) (auto dest: approval_final_step)

lemma approval_steps_consumed:
  "approval_step\<^sup>*\<^sup>* a ApConsumed \<Longrightarrow> a \<in> {ApPending, ApApproved, ApConsumed}"
  by (cases a) (auto dest!: approval_final_absorbing simp: approval_final_def)

lemma approval_evolves_trans: "approval_evolves a b \<Longrightarrow> approval_evolves b c \<Longrightarrow> approval_evolves a c"
  by (auto simp: approval_evolves_def)

interpretation approval_history: table_history approval_evolves ar_id
  by unfold_locales (auto intro: approval_evolves_trans simp: approval_evolves_def)

lemmas approval_rows = approve_row_def reject_row_def consume_row_def expire_row_def

lemma approve_evolves:
  "ar_status a = ApPending \<Longrightarrow> ar_grant_jti a = None \<Longrightarrow> gc_exp (ag_claims g) \<le> ar_expires_at a \<Longrightarrow>
     approval_evolves a (approve_row g u a)"
  by (auto simp: approval_evolves_def approval_rows intro: approval_step.intros)

lemma reject_evolves:
  "ar_status a = ApPending \<Longrightarrow> ar_grant_jti a = None \<Longrightarrow> approval_evolves a (reject_row by u a)"
  by (auto simp: approval_evolves_def approval_rows intro: approval_step.intros)

lemma consume_evolves: "ar_status a = ApApproved \<Longrightarrow> approval_evolves a (consume_row u a)"
  by (auto simp: approval_evolves_def approval_rows intro: approval_step.intros)

lemma expire_evolves: "approval_active a \<Longrightarrow> approval_evolves a (expire_row a)"
  by (auto simp: approval_evolves_def approval_rows approval_active_def intro!: approval_step.intros r_into_rtranclp)

section \<open>The constraints of the table hold\<close>

definition approval_inv :: "db \<Rightarrow> bool" where
  "approval_inv s \<longleftrightarrow>
     unique_rows pay_approval_clash (pay_approval s)
     \<and> (\<forall>a \<in> set (pay_approval s). pay_approval_check a \<and> pay_approval_fk s a)"

lemma approval_fk_evolves: "pay_approval_fk s a \<Longrightarrow> intents_evolve s t \<Longrightarrow> pay_approval_fk t a"
  unfolding pay_approval_fk_def list_ex_iff intents_evolve_def
  by (fastforce dest: intent_history.grows_in simp: row_evolves_def evolves_def same_immutable_identity_as_def)

lemma approval_fk_same: "approval_evolves a b \<Longrightarrow> pay_approval_fk s b = pay_approval_fk s a"
  by (simp add: pay_approval_fk_def approval_evolves_def)

lemma approval_inv_frame:
  "approval_inv s \<Longrightarrow> pay_approval t = pay_approval s \<Longrightarrow> intents_evolve s t \<Longrightarrow> approval_inv t"
  by (auto simp: approval_inv_def approval_fk_evolves)

lemma approvals_evolve_same: "pay_approval t = pay_approval s \<Longrightarrow> approvals_evolve s t"
  by (simp add: approvals_evolve_def approval_history.grows_refl)

lemma approvals_evolve_trans: "approvals_evolve s t \<Longrightarrow> approvals_evolve t u \<Longrightarrow> approvals_evolve s u"
  unfolding approvals_evolve_def by (rule approval_history.grows_trans)

lemma approvals_evolve_find:
  assumes "approvals_evolve s t" "find_approval s i = Some a"
  obtains b where "find_approval t i = Some b" "approval_evolves a b"
  using assms by (auto simp: approvals_evolve_def find_approval_def elim!: approval_history.grows_find)

lemma approval_unique_id:
  assumes "approval_inv s" "a \<in> set (pay_approval s)" "b \<in> set (pay_approval s)" "ar_id a = ar_id b"
  shows "a = b"
proof (rule ccontr)
  assume "a \<noteq> b"
  with assms(2,3) obtain i j where "i < length (pay_approval s)" "j < length (pay_approval s)" "i \<noteq> j"
    "a = pay_approval s ! i" "b = pay_approval s ! j"
    by (metis in_set_conv_nth)
  with assms(1,4) show False
    unfolding approval_inv_def unique_rows_def sorted_wrt_iff_nth_less
    by (metis (mono_tags, lifting) linorder_neqE_nat pay_approval_clash_def)
qed

lemma write_approvals_ok:
  assumes "write_approvals hit change e s = Inr (n, t)"
  shows "n = rows_affected hit (pay_approval s)"
    "t = s\<lparr>pay_approval := update_where hit change (pay_approval s)\<rparr>"
    "\<And>a. a \<in> set (pay_approval s) \<Longrightarrow> hit a \<Longrightarrow> pay_approval_check (change a)"
    "\<And>a b. a \<in> set (pay_approval s) \<Longrightarrow> b \<in> set (pay_approval s) \<Longrightarrow> hit a \<Longrightarrow> \<not> hit b \<Longrightarrow>
       \<not> pay_approval_clash b (change a)"
  using assms by (auto simp: write_approvals_def list_ex_iff split: if_splits)

text \<open>An update that hits one approval by its identifier, and evolves it.\<close>

lemma write_approvals_keeps:
  assumes upd: "write_approvals hit change e s = Inr (n, t)" and inv: "approval_inv s"
    and one: "\<And>a b. hit a \<Longrightarrow> hit b \<Longrightarrow> ar_id a = ar_id b"
    and evolve: "\<And>a. a \<in> set (pay_approval s) \<Longrightarrow> hit a \<Longrightarrow> approval_evolves a (change a)"
  shows "approval_inv t" "approvals_evolve s t"
proof -
  note ok = write_approvals_ok [OF upd]
  have rows: "pay_approval t = update_where hit change (pay_approval s)" "pay_intent t = pay_intent s"
    by (simp_all add: ok(2))
  show "approvals_evolve s t"
    using evolve by (simp add: approvals_evolve_def rows approval_history.grows_update)
  have eq: "a = b" if "a \<in> set (pay_approval s)" "b \<in> set (pay_approval s)" "hit a" "hit b" for a b
    using approval_unique_id [OF inv that(1,2)] one that(3,4) by blast
  have distinct: "distinct (pay_approval s)"
    using inv unfolding approval_inv_def unique_rows_def sorted_wrt_iff_nth_less distinct_conv_nth
    by (metis linorder_neqE_nat pay_approval_clash_def)
  have "unique_rows pay_approval_clash (update_where hit change (pay_approval s))"
  proof (cases "filter hit (pay_approval s)")
    case Nil
    then have "update_where hit change (pay_approval s) = pay_approval s"
      by (auto simp: update_where_def filter_empty_conv intro: map_idI)
    with inv show ?thesis by (simp add: approval_inv_def)
  next
    case (Cons a as)
    from Cons have "a \<in> set (filter hit (pay_approval s))" by simp
    with eq have "set (filter hit (pay_approval s)) = {a}" by auto
    moreover have "distinct (filter hit (pay_approval s))" using distinct by (rule distinct_filter)
    ultimately have "rows_affected hit (pay_approval s) = 1"
      by (simp add: rows_affected_def distinct_card [symmetric])
    with inv ok(4) show ?thesis
      by (intro unique_rows_update_one clash_sym(5)) (auto simp: approval_inv_def)
  qed
  moreover have "pay_approval_check (change a) \<and> pay_approval_fk t (change a)"
    if "a \<in> set (pay_approval s)" "hit a" for a
    using that ok(3) inv approval_fk_same [OF evolve [OF that], of t]
    by (auto simp: approval_inv_def pay_approval_fk_def rows)
  ultimately show "approval_inv t"
    using inv by (auto simp: approval_inv_def in_update_where pay_approval_fk_def rows split: if_splits)
qed

lemma row_hits:
  "decidable_row i u a \<Longrightarrow> decidable_row i u b \<Longrightarrow> ar_id a = ar_id b"
  "consumable_row i g u a \<Longrightarrow> consumable_row i g u b \<Longrightarrow> ar_id a = ar_id b"
  "expirable_row i u a \<Longrightarrow> expirable_row i u b \<Longrightarrow> ar_id a = ar_id b"
  by (simp_all add: decidable_row_def consumable_row_def expirable_row_def)

lemma approval_check_pending: "pay_approval_check a \<Longrightarrow> ar_status a = ApPending \<Longrightarrow> ar_grant_jti a = None"
  by (simp add: pay_approval_check_def)

lemma insert_approval_keeps:
  assumes "insert_approval_request a s = Inr t" "approval_inv s"
  shows "approval_inv t" "approvals_evolve s t"
proof -
  note ok = insert_approval_request_ok [OF assms(1)]
  then have t: "t = s\<lparr>pay_approval := pay_approval s @ [a]\<rparr>" by blast
  show "approvals_evolve s t" by (simp add: approvals_evolve_def t approval_history.grows_append)
  show "approval_inv t"
    using ok assms(2) by (auto simp: approval_inv_def t unique_rows_snoc pay_approval_fk_def)
qed

lemma update_intent_approvals: "update_intent i u m s = Inr t \<Longrightarrow> pay_approval t = pay_approval s"
  by (erule update_intent_ok) simp

lemma side_effects_approvals: "append_side_effects es ms s = Inr t \<Longrightarrow> pay_approval t = pay_approval s"
  by (drule append_side_effects_frame) auto

section \<open>The transactions, decomposed\<close>

lemma decide_cases:
  assumes "decide d grant tr e ms s = (w, t)"
  obtains (same) err where "w = Inl err" "t = s"
  | (decided) a i p u where "w = Inr p" "find_approval s (ad_approval_id d) = Some a"
    "validate_decision a d (ad_decided_at d) = Inr ()" "load_intent s (ar_intent_id a) = Some i"
    "ar_intent_hash a = pi_request_hash i" "ev_intent_id e = pi_id i"
    "(case ad_decision d of Approve \<Rightarrow> decide_approve a i d grant tr s
       | Reject \<Rightarrow> decide_reject a d grant tr s) = Inr (p, u)"
    "append_side_effects [e] ms u = Inr t"
  using assms
  by (cases w) (auto simp: decide_def transaction_ok result_simps dest: transaction_err)

lemma consume_cases:
  assumes "consume_and_reserve X g i origin day now u c e ms s = (w, t)"
  obtains (same) err where "w = Inl err" "t = s"
  | (consumed) a v x where "w = Inr i" "find_approval s (gc_approval_id (vg_claims g)) = Some a"
    "validate_verified_grant a i g now = Inr ()" "validate_current_payment_scope X i (Some origin) s = Inr ()"
    "enforce_budget X i day now True s = Inr ()"
    "write_approvals (consumable_row (ar_id a) g now) (consume_row c)
       (conflict ''approval grant consumption rejected'') s = Inr (1, v)"
    "update_intent i u ApprovalReserve v = Inr x" "append_side_effects [e] ms x = Inr t"
  using assms
  by (cases w) (auto simp: consume_and_reserve_def transaction_ok result_simps dest: transaction_err)

section \<open>What a consumed grant reserves\<close>

text \<open>What one intent holds of a budget.\<close>

definition held :: "(PaymentIntent \<Rightarrow> bool) \<Rightarrow> PaymentDirection \<Rightarrow> BudgetUnit \<Rightarrow> PaymentIntent \<Rightarrow> nat" where
  "held scope d v i =
     (if scope i \<and> intent_in_unit d v i \<and> pi_reservation_status i = Reserved
      then unat (pi_reserved_amount i) else 0)"

lemma sum_list_update_one:
  fixes f :: "'r \<Rightarrow> nat"
  assumes "rows_affected P rows = 1" "r \<in> set rows" "P r"
  shows "sum_list (map f (update_where P g rows)) + f r = sum_list (map f rows) + f (g r)"
proof -
  from assms(1) obtain q where "filter P rows = [q]" by (auto simp: rows_affected_def length_Suc_conv)
  then obtain as bs where rows: "rows = as @ q # bs" "P q" and none: "\<forall>x \<in> set as. \<not> P x" "[] = filter P bs"
    by (auto simp: filter_eq_Cons_iff)
  note none = none(1) none(2) [symmetric, unfolded filter_empty_conv]
  then have "r = q" using assms(2,3) by (auto simp: rows)
  moreover have "update_where P g rows = as @ g q # bs"
    using none rows(2) by (simp add: update_where_def rows map_idI)
  ultimately show ?thesis by (simp add: rows)
qed

lemma usage_held:
  "usage scope entries d v day latest s =
     sum_list (map (\<lambda>r. held scope d v (ir_intent r)) (pay_intent s))
     + sum_list (map (\<lambda>e. unat (le_amount e)) (confirmed_rows entries d v day latest s))"
proof -
  have "sum_list (map (\<lambda>i. unat (pi_reserved_amount i)) (filter (\<lambda>i. scope i \<and> intent_in_unit d v i
      \<and> pi_reservation_status i = Reserved) (map ir_intent rows)))
    = sum_list (map (\<lambda>r. held scope d v (ir_intent r)) rows)" for rows
    by (induction rows) (auto simp: held_def)
  then show ?thesis by (simp add: usage_def reserved_rows_def)
qed

lemma usage_update_intent:
  assumes upd: "update_intent new u m s = Inr t" and old: "load_intent s (pi_id new) = Some old"
  shows "usage scope entries d v day latest t + held scope d v old
    = usage scope entries d v day latest s + held scope d v new"
  using upd
proof (rule update_intent_row)
  fix r
  assume r: "r \<in> set (pay_intent s)" "load_intent s (pi_id new) = Some (ir_intent r)"
    "ir_intent (write_intent new r) = new" "\<And>q. q \<in> set (pay_intent s) \<Longrightarrow> intent_hit new u q \<longleftrightarrow> q = r"
  from upd have one: "rows_affected (intent_hit new u) (pay_intent s) = 1"
    and t: "t = s\<lparr>pay_intent := update_where (intent_hit new u) (write_intent new) (pay_intent s)\<rparr>"
    by (auto elim: update_intent_ok)
  from sum_list_update_one [OF one r(1), of "\<lambda>q. held scope d v (ir_intent q)" "write_intent new"] r old
  show ?thesis by (simp add: usage_held t confirmed_rows_def)
qed

lemma validate_verified_grant_ok:
  assumes "validate_verified_grant a i g now = Inr ()"
  shows "ar_status a = ApApproved" "now < ar_expires_at a" "now < gc_exp (vg_claims g)"
    "gc_approval_id (vg_claims g) = ar_id a" "gc_intent_id (vg_claims g) = pi_id i"
    "pi_request_hash i = ar_intent_hash a" "ar_grant_jti a = Some (gc_jti (vg_claims g))"
    "ar_grant_claims_hash a = Some (vg_claims_hash g)" "ar_approved_amount a = Some (pi_amount i)"
    "ar_requested_amount a = pi_amount i" "pi_direction i = Outbound" "pi_status i = Authorized"
    "pi_reservation_status i = Reserved" "pi_reserved_amount i = pi_amount i"
  using assms by (auto simp: validate_verified_grant_def Let_def not_le split: if_splits)

lemma consume_writes:
  assumes "consume_and_reserve X g i origin day now u c e ms s = (Inr j, t)"
  obtains a old where "j = i" "find_approval s (gc_approval_id (vg_claims g)) = Some a"
    "validate_verified_grant a i g now = Inr ()" "enforce_budget X i day now True s = Inr ()"
    "find_approval t (gc_approval_id (vg_claims g)) = Some (consume_row c a)"
    "load_intent s (pi_id i) = Some old" "pi_reservation_status old = Unreserved"
    "load_intent t (pi_id i) = Some i"
    "\<And>scope entries d v latest. usage scope entries d v day latest t
       = usage scope entries d v day latest s + held scope d v i"
  using assms
proof (rule consume_cases)
  fix a v x
  assume jj: "Inr j = Inr i" and a: "find_approval s (gc_approval_id (vg_claims g)) = Some a"
    and g: "validate_verified_grant a i g now = Inr ()" and budget: "enforce_budget X i day now True s = Inr ()"
    and v: "write_approvals (consumable_row (ar_id a) g now) (consume_row c)
       (conflict ''approval grant consumption rejected'') s = Inr (1, v)"
    and x: "update_intent i u ApprovalReserve v = Inr x" and t: "append_side_effects [e] ms x = Inr t"
  note v' = write_approvals_ok(2) [OF v]
  from x obtain old where old: "load_intent v (pi_id i) = Some old" "reservation_change ApprovalReserve old i = Inr ()"
    by (rule update_intent_ok)
  then have un: "pi_reservation_status old = Unreserved" by (simp add: reservation_change_def split: if_splits)
  have same: "pay_intent v = pay_intent s" "pay_ledger v = pay_ledger s" by (simp_all add: v')
  obtain es os where t': "t = x\<lparr>pay_event := es, pay_outbox := os\<rparr>" using append_side_effects_frame [OF t] by blast
  have "find_approval v k = map_option (\<lambda>r. if consumable_row (ar_id a) g now r then consume_row c r else r)
      (find_approval s k)" for k
    using find_update_where [of ar_id "consume_row c"] by (simp add: v' find_approval_def consume_row_def)
  moreover have "consumable_row (ar_id a) g now a"
    using validate_verified_grant_ok(1,2,7,8) [OF g] by (simp add: consumable_row_def)
  ultimately have "find_approval t (gc_approval_id (vg_claims g)) = Some (consume_row c a)"
    using a update_intent_approvals [OF x] by (simp add: t' find_approval_def)
  moreover have "load_intent s (pi_id i) = Some old" using old(1) by (simp add: load_intent_def same)
  moreover have "load_intent t (pi_id i) = Some i"
    using load_intent_update(1) [OF x] by (simp add: t' load_intent_def)
  moreover have "usage scope entries d w day latest t = usage scope entries d w day latest s + held scope d w i"
    for scope entries d w latest
  proof -
    have "held scope d w old = 0" by (simp add: held_def un)
    moreover have "usage scope entries d w day latest t = usage scope entries d w day latest x"
      by (rule usage_cong) (simp_all add: t')
    moreover have "usage scope entries d w day latest v = usage scope entries d w day latest s"
      by (rule usage_cong) (simp_all add: same)
    ultimately show ?thesis using usage_update_intent [OF x old(1), of scope entries d w day latest] by simp
  qed
  ultimately show thesis using that jj a g budget un by blast
qed simp

end
