(* ===== verification/Signing_Store.thy ===== *)
theory Signing_Store
  imports Approval_Store
begin

text \<open>
  The signing repository (\<^verbatim>\<open>storage/signing/mod.rs\<close>,
  \<^verbatim>\<open>storage/signing/transactions.rs\<close>): reading an outbound payment as authorized or as already
  signed, and the transition from authorized to signed that commits the sealed credential. The lemmas
  show what a commit requires and that a committed credential is what every later commit replays.
\<close>

section \<open>Sealed material as JSON\<close>

definition sealed_to_value :: "SealedSensitiveMaterial \<Rightarrow> json" where
  "sealed_to_value m = json_object
     [(''version'', JNumber (uint (sm_version m))), (''key_id'', JString (sm_key_id m)),
      (''nonce'', JString (sm_nonce m)), (''ciphertext'', JString (sm_ciphertext m))]"

fun sealed_from_value :: "json \<Rightarrow> SealedSensitiveMaterial option" where
  "sealed_from_value (JObject fs) =
     (if known_fields [''version'', ''key_id'', ''nonce'', ''ciphertext''] fs then
        case (json_u8 (map_of fs ''version''), json_string (map_of fs ''key_id''),
              json_string (map_of fs ''nonce''), json_string (map_of fs ''ciphertext'')) of
          (Some v, Some k, Some n, Some c) \<Rightarrow>
            Some \<lparr>sm_version = v, sm_key_id = k, sm_nonce = n, sm_ciphertext = c\<rparr>
        | _ \<Rightarrow> None
      else None)"
| "sealed_from_value _ = None"

section \<open>Data\<close>

record OutboundSigningIdentity =
  si_client :: PaymentClient
  si_scenario :: PaymentScenario
  si_intent :: PaymentIntent
  si_challenge :: PaymentChallenge

record OutboundSigningAuthorization =
  oa_identity :: OutboundSigningIdentity
  oa_policy :: PaymentPolicy
  oa_wallet :: PaymentWallet
  oa_active_key :: EncryptedWalletKeyVersion

record PersistedSignedPayment =
  sp_identity :: OutboundSigningIdentity
  sp_credential_hash :: string
  sp_sealed_credential :: SealedSensitiveMaterial

datatype OutboundSigningRead =
    ReadAuthorized OutboundSigningAuthorization
  | ReadSigned PersistedSignedPayment

record SigningGuard =
  sg_principal :: string
  sg_client_id :: string
  sg_expected_client_updated_at :: int
  sg_scenario_id :: string
  sg_expected_scenario_updated_at :: int
  sg_policy_id :: string
  sg_expected_policy_updated_at :: int
  sg_wallet_id :: string
  sg_expected_wallet_updated_at :: int
  sg_expected_key_version :: u32
  sg_expected_intent_updated_at :: int
  sg_challenge_hash :: string
  sg_evaluated_at :: int

section \<open>Rules\<close>

definition canonical_origin :: "externals \<Rightarrow> string \<Rightarrow> string result" where
  "canonical_origin X resource =
     and_then (ok_or (x_url X resource) (PolicyDenied ''payment resource has no canonical HTTP origin'')) (\<lambda>parsed.
     if url_scheme parsed \<notin> {''http'', ''https''} \<or> url_host parsed = None
     then Inl (PolicyDenied ''payment resource has no canonical HTTP origin'')
     else Inr (url_origin parsed))"

definition signing_state_valid ::
  "externals \<Rightarrow> OutboundSigningIdentity \<Rightarrow> PaymentPolicy \<Rightarrow> PaymentPolicyLimits \<Rightarrow> PaymentWallet \<Rightarrow>
     EncryptedWalletKeyVersion \<Rightarrow> string \<Rightarrow> int option \<Rightarrow> bool" where
  "signing_state_valid X identity p limits w k origin evaluated_at \<longleftrightarrow>
     (let i = si_intent identity; c = si_challenge identity in
      pi_status i = Authorized
      \<and> pi_direction i = Outbound
      \<and> pi_reservation_status i = Reserved
      \<and> pi_reserved_amount i = pi_amount i
      \<and> \<not> is_some_and evaluated_at (\<lambda>now. pc_expires_at c \<le> now)
      \<and> pi_expires_at i = Some (pc_expires_at c)
      \<and> pi_challenge_hash i = Some (pc_challenge_hash c)
      \<and> pc_scenario_id c = pi_scenario_id i
      \<and> pc_price_id c = None
      \<and> pc_resource c = pi_resource i
      \<and> pc_protocol c = pi_protocol i
      \<and> pc_asset c = pi_asset i
      \<and> pc_amount c = pi_amount i
      \<and> payment_recipients_match X (ai_network (pi_asset i)) (pc_recipient c) (pi_recipient i)
      \<and> \<not> is_blank (pc_nonce c)
      \<and> sc_id (si_scenario identity) = pi_scenario_id i
      \<and> sc_client_id (si_scenario identity) = cl_id (si_client identity)
      \<and> pi_policy_id i = Some (pp_id p)
      \<and> pi_wallet_id i = Some (w_id (pw_wallet w))
      \<and> pp_enabled p
      \<and> pp_scenario_id p = sc_id (si_scenario identity)
      \<and> allows_wallet p (w_id (pw_wallet w))
      \<and> allows_direction p Outbound
      \<and> allows_protocol p (pi_protocol i)
      \<and> allows_asset p (pi_asset i)
      \<and> allows_payment_recipient X p (ai_network (pi_asset i)) (pi_recipient i)
      \<and> allows_origin p origin
      \<and> BudgetUnit_matches (pp_budget_unit p) (pi_asset i)
      \<and> pi_amount i \<le> pl_max_per_payment limits
      \<and> \<not> is_none_or (hard_daily_limit limits) (\<lambda>maximum. pi_amount i > maximum)
      \<and> signing_ready_for_payment_network X w (ai_network (pi_asset i))
      \<and> pw_custody w = Local
      \<and> pw_budget_unit w = Some (budget_unit (pi_asset i))
      \<and> \<not> is_some_and (pw_max_per_payment w) (\<lambda>maximum. pi_amount i > maximum)
      \<and> \<not> is_some_and (pw_max_per_day w) (\<lambda>maximum. pi_amount i > maximum)
      \<and> pw_active_key_version w = Some (kv_version k)
      \<and> kv_status k = Active
      \<and> kv_wallet_id k = w_id (pw_wallet w)
      \<and> kv_algorithm k = w_algorithm (pw_wallet w)
      \<and> kv_address k = w_address (pw_wallet w)
      \<and> kv_public_key k = w_public_key (pw_wallet w)
      \<and> kv_version k \<noteq> 0
      \<and> \<not> is_some_and evaluated_at (\<lambda>now. kv_activated_at k > now)
      \<and> \<not> is_blank (kv_encryption_scheme k)
      \<and> \<not> is_blank (kv_kek_id k)
      \<and> kv_wrapped_data_key k \<noteq> []
      \<and> kv_wrap_nonce k \<noteq> []
      \<and> kv_key_ciphertext k \<noteq> []
      \<and> kv_key_nonce k \<noteq> []
      \<and> kv_aad k \<noteq> []
      \<and> kv_retired_at k = None)"

definition validate_authorization_state ::
  "externals \<Rightarrow> OutboundSigningIdentity \<Rightarrow> PaymentPolicy \<Rightarrow> PaymentWallet \<Rightarrow> EncryptedWalletKeyVersion \<Rightarrow>
     int option \<Rightarrow> unit result" where
  "validate_authorization_state X identity p w k evaluated_at =
     and_then (canonical_origin X (pi_resource (si_intent identity))) (\<lambda>origin.
     and_then (ok_or (limits_for p Outbound)
       (PolicyDenied ''outbound payment signing authority is no longer valid'')) (\<lambda>limits.
     if signing_state_valid X identity p limits w k origin evaluated_at then Inr ()
     else Inl (PolicyDenied ''outbound payment signing authority is no longer valid'')))"

definition validate_signing_events ::
  "PaymentEvent list \<Rightarrow> string \<Rightarrow> string \<Rightarrow> SealedSensitiveMaterial \<Rightarrow> unit result" where
  "validate_signing_events events intent_id credential_hash sealed_credential =
     (let requested = filter (\<lambda>e. ev_event_type e = SignRequested) events;
          signed = filter (\<lambda>e. ev_event_type e = EvSigned) events in
      if length events \<noteq> 2
         \<or> length requested \<noteq> 1
         \<or> length signed \<noteq> 1
         \<or> list_ex (\<lambda>e. ev_intent_id e \<noteq> intent_id \<or> ev_attempt_no e \<noteq> 0) events
         \<or> ev_signature_ref (hd signed) \<noteq> Some credential_hash
         \<or> json_as_str (json_get (ev_payload (hd signed)) ''credential_hash'') \<noteq> Some credential_hash
         \<or> Option.bind (json_get (ev_payload (hd signed)) ''sealed_credential'') sealed_from_value
             \<noteq> Some sealed_credential
      then Inl (conflict ''outbound signing events are incomplete or inconsistent'')
      else Inr ())"

section \<open>Reads\<close>

definition load_challenge :: "db \<Rightarrow> string \<Rightarrow> PaymentChallenge result" where
  "load_challenge s intent_id =
     and_then (ok_or (find_for_intent_type s intent_id ChallengeReceived 0)
       (Storage ''authorized outbound intent has no durable challenge'')) (\<lambda>e.
     and_then (ok_or (json_get (ev_payload e) ''challenge'')
       (Storage ''challenge event payload is incomplete'')) (\<lambda>v.
     ok_or (challenge_from_value v) (Storage ''decode outbound payment challenge'')))"

text \<open>The intent joined with its enabled scenario and that scenario's enabled client.\<close>

definition signing_join :: "db \<Rightarrow> string \<Rightarrow> (PaymentIntent \<times> PaymentScenario \<times> PaymentClient) option" where
  "signing_join s intent_id =
     Option.bind (load_intent s intent_id) (\<lambda>i.
     Option.bind (find (\<lambda>sc. sc_id sc = pi_scenario_id i) (pay_scenario s)) (\<lambda>sc.
     Option.bind (find (\<lambda>c. cl_id c = sc_client_id sc) (pay_client s)) (\<lambda>c.
     if cl_enabled c \<and> sc_enabled sc then Some (i, sc, c) else None)))"

definition load_identity :: "db \<Rightarrow> string \<Rightarrow> string \<Rightarrow> OutboundSigningIdentity option result" where
  "load_identity s who intent_id =
     (case signing_join s intent_id of
        Some (i, sc, c) \<Rightarrow>
          if cl_auth_principal c \<noteq> who \<or> pi_direction i \<noteq> Outbound then Inr None
          else and_then (load_challenge s (pi_id i)) (\<lambda>ch.
            Inr (Some \<lparr>si_client = c, si_scenario = sc, si_intent = i, si_challenge = ch\<rparr>))
      | None \<Rightarrow> Inr None)"

definition load_identity_for_access ::
  "db \<Rightarrow> string option \<Rightarrow> string \<Rightarrow> OutboundSigningIdentity option result" where
  "load_identity_for_access s expected intent_id =
     (case signing_join s intent_id of
        Some (i, sc, c) \<Rightarrow>
          if is_none_or expected (\<lambda>who. cl_auth_principal c = who)
          then load_identity s (cl_auth_principal c) intent_id
          else Inr None
      | None \<Rightarrow> Inr None)"

definition is_signed_replay_status :: "PaymentStatus \<Rightarrow> bool" where
  "is_signed_replay_status st \<longleftrightarrow> st \<in> {Signed, Submitted, PendingSettlement, Unknown, Settled}"

definition intent_credential :: "db \<Rightarrow> string \<Rightarrow> string option" where
  "intent_credential s intent_id =
     Option.bind (find (\<lambda>r. pi_id (ir_intent r) = intent_id) (pay_intent s)) ir_credential_hash"

definition load_signed :: "db \<Rightarrow> OutboundSigningIdentity \<Rightarrow> PersistedSignedPayment result" where
  "load_signed s identity =
     and_then (ok_or (find_for_intent_type s (pi_id (si_intent identity)) EvSigned 0)
       (Storage ''signed payment has no durable signed event'')) (\<lambda>e.
     and_then (ok_or (ev_signature_ref e) (Storage ''decode outbound signing join'')) (\<lambda>credential_hash.
     and_then (ok_or (json_get (ev_payload e) ''sealed_credential'')
       (Storage ''signed event has no sealed credential'')) (\<lambda>v.
     and_then (ok_or (sealed_from_value v) (Storage ''decode sealed signed credential'')) (\<lambda>sealed.
     if intent_credential s (pi_id (si_intent identity)) \<noteq> Some credential_hash
        \<or> json_as_str (json_get (ev_payload e) ''credential_hash'') \<noteq> Some credential_hash
     then Inl (Storage ''signed event credential fingerprint is inconsistent'')
     else Inr \<lparr>sp_identity = identity, sp_credential_hash = credential_hash, sp_sealed_credential = sealed\<rparr>))))"

definition load_authorized ::
  "externals \<Rightarrow> db \<Rightarrow> OutboundSigningIdentity \<Rightarrow> OutboundSigningAuthorization result" where
  "load_authorized X s identity =
     and_then (ok_or (pi_policy_id (si_intent identity)) (Storage ''authorized signing intent has no policy''))
       (\<lambda>policy_id.
     and_then (ok_or (pi_wallet_id (si_intent identity)) (Storage ''authorized signing intent has no wallet''))
       (\<lambda>wallet_id.
     and_then (ok_or (load_policy s policy_id) (Storage ''authorized signing policy does not exist'')) (\<lambda>p.
     and_then (load_payment_wallet X s wallet_id) (\<lambda>loaded.
     and_then (ok_or loaded (Storage ''authorized signing wallet does not exist'')) (\<lambda>w.
     and_then (ok_or (load_active_key s wallet_id) (Storage ''authorized signing wallet has no active key'')) (\<lambda>k.
     and_then (validate_authorization_state X identity p w k None) (\<lambda>_.
     Inr \<lparr>oa_identity = identity, oa_policy = p, oa_wallet = w, oa_active_key = k\<rparr>)))))))"

definition load_for_principal ::
  "externals \<Rightarrow> db \<Rightarrow> string option \<Rightarrow> string \<Rightarrow> OutboundSigningRead option result" where
  "load_for_principal X s expected intent_id =
     (if expected = Some [] then Inl Unauthenticated
      else and_then (load_identity_for_access s expected intent_id) (\<lambda>found.
      case found of
        None \<Rightarrow> Inr None
      | Some identity \<Rightarrow>
          if is_signed_replay_status (pi_status (si_intent identity))
          then and_then (load_signed s identity) (\<lambda>p. Inr (Some (ReadSigned p)))
          else if pi_status (si_intent identity) = Authorized
          then and_then (load_authorized X s identity) (\<lambda>a. Inr (Some (ReadAuthorized a)))
          else Inr None))"

section \<open>Committing a signature\<close>

definition lock_signing_principal :: "SigningGuard \<Rightarrow> db \<Rightarrow> unit result" where
  "lock_signing_principal g s =
     (if list_ex (\<lambda>c. cl_id c = sg_client_id g \<and> cl_auth_principal c = sg_principal g
            \<and> list_ex (\<lambda>sc. sc_client_id sc = cl_id c \<and> sc_id sc = sg_scenario_id g) (pay_scenario s)) (pay_client s)
      then Inr () else Inl Forbidden)"

definition lock_signing_payment_authority :: "SigningGuard \<Rightarrow> db \<Rightarrow> unit result" where
  "lock_signing_payment_authority g s =
     (if \<not> list_ex (\<lambda>p. pp_id p = sg_policy_id g) (pay_policy s)
      then Inl (conflict ''outbound signing policy authority changed'')
      else if \<not> list_ex (\<lambda>w. w_id (pw_wallet w) = sg_wallet_id g) (pay_wallet s)
      then Inl (conflict ''outbound signing wallet authority changed'')
      else if \<not> list_ex (\<lambda>k. kv_wallet_id k = sg_wallet_id g \<and> kv_version k = sg_expected_key_version g
             \<and> kv_status k = Active) (wallet_key_version s)
      then Inl (conflict ''outbound signing key authority changed'')
      else Inr ())"

definition load_and_validate_guard ::
  "externals \<Rightarrow> SigningGuard \<Rightarrow> PaymentIntent \<Rightarrow> PaymentChallenge \<Rightarrow> db \<Rightarrow> OutboundSigningAuthorization result" where
  "load_and_validate_guard X g i c s =
     and_then (load_identity s (sg_principal g) (pi_id i)) (\<lambda>found.
     and_then (ok_or found Forbidden) (\<lambda>identity.
     and_then (load_authorized X s identity) (\<lambda>a.
     if cl_id (si_client (oa_identity a)) \<noteq> sg_client_id g
        \<or> cl_updated_at (si_client (oa_identity a)) \<noteq> sg_expected_client_updated_at g
        \<or> sc_id (si_scenario (oa_identity a)) \<noteq> sg_scenario_id g
        \<or> sc_updated_at (si_scenario (oa_identity a)) \<noteq> sg_expected_scenario_updated_at g
        \<or> pp_id (oa_policy a) \<noteq> sg_policy_id g
        \<or> pp_updated_at (oa_policy a) \<noteq> sg_expected_policy_updated_at g
        \<or> w_id (pw_wallet (oa_wallet a)) \<noteq> sg_wallet_id g
        \<or> pw_updated_at (oa_wallet a) \<noteq> sg_expected_wallet_updated_at g
        \<or> kv_version (oa_active_key a) \<noteq> sg_expected_key_version g
        \<or> pi_updated_at (si_intent (oa_identity a)) \<noteq> sg_expected_intent_updated_at g
        \<or> pc_challenge_hash (si_challenge (oa_identity a)) \<noteq> sg_challenge_hash g
        \<or> si_challenge (oa_identity a) \<noteq> c
        \<or> \<not> same_immutable_identity_as (si_intent (oa_identity a)) i
        \<or> pi_status i \<noteq> Signed
        \<or> pi_updated_at i \<le> sg_expected_intent_updated_at g
     then Inl (conflict ''outbound signing authority changed before commit'')
     else and_then (validate_authorization_state X (oa_identity a) (oa_policy a) (oa_wallet a) (oa_active_key a)
       (Some (sg_evaluated_at g))) (\<lambda>_.
     Inr a))))"

definition replay_signed ::
  "db \<Rightarrow> OutboundSigningIdentity \<Rightarrow> PaymentIntent \<Rightarrow> PaymentChallenge \<Rightarrow>
     PersistedSignedPayment IdempotentWrite result" where
  "replay_signed s identity intended c =
     and_then (load_signed s identity) (\<lambda>existing.
     if si_challenge (sp_identity existing) \<noteq> c
        \<or> \<not> same_immutable_identity_as (si_intent (sp_identity existing)) intended
     then Inl (conflict ''signed payment replay differs from the committed credential'')
     else Inr (ReplayOf existing))"

definition bind_signed_credential :: "PaymentIntent \<Rightarrow> string \<Rightarrow> db \<Rightarrow> db result" where
  "bind_signed_credential i credential_hash s =
     (let hit = unbound_row i; change = bind_credential credential_hash in
      if list_ex (\<lambda>r. hit r \<and> (\<not> pay_intent_check (change r)
           \<or> list_ex (\<lambda>q. \<not> hit q \<and> pay_intent_clash q (change r)) (pay_intent s))) (pay_intent s)
      then Inl (conflict ''signed credential binding rejected'')
      else if rows_affected hit (pay_intent s) \<noteq> 1
      then Inl (conflict ''payment credential was already bound'')
      else Inr (s\<lparr>pay_intent := update_where hit change (pay_intent s)\<rparr>))"

text \<open>
  The source reads the identity again after locking the policy, the wallet and the key. Both reads are
  part of one transaction and return the same rows, so the identity is read once here before the guard
  is loaded and validated.
\<close>

definition commit_signed ::
  "externals \<Rightarrow> PaymentIntent \<Rightarrow> PaymentChallenge \<Rightarrow> string \<Rightarrow> SealedSensitiveMaterial \<Rightarrow> SigningGuard \<Rightarrow>
     PaymentEvent list \<Rightarrow> OutboxMessage list \<Rightarrow> db \<Rightarrow> PersistedSignedPayment IdempotentWrite result \<times> db" where
  "commit_signed X i c credential_hash sealed g events outbox = transaction (\<lambda>s.
     and_then (lock_signing_principal g s) (\<lambda>_.
     and_then (load_identity s (sg_principal g) (pi_id i)) (\<lambda>found.
     and_then (ok_or found Forbidden) (\<lambda>identity.
     if is_signed_replay_status (pi_status (si_intent identity))
     then and_then (replay_signed s identity i c) (\<lambda>w. Inr (w, s))
     else and_then (lock_signing_payment_authority g s) (\<lambda>_.
     and_then (load_and_validate_guard X g i c s) (\<lambda>a.
     and_then (validate_signing_events events (pi_id i) credential_hash sealed) (\<lambda>_.
     and_then (update_intent i (sg_expected_intent_updated_at g) Unchanged s) (\<lambda>t.
     and_then (bind_signed_credential i credential_hash t) (\<lambda>u.
     and_then (append_side_effects events outbox u) (\<lambda>v.
     Inr (Inserted \<lparr>sp_identity = \<lparr>si_client = si_client (oa_identity a),
           si_scenario = si_scenario (oa_identity a), si_intent = i, si_challenge = c\<rparr>,
         sp_credential_hash = credential_hash, sp_sealed_credential = sealed\<rparr>, v)))))))))))"

section \<open>Lemmas\<close>

lemma sealed_round_trip: "sealed_from_value (sealed_to_value m) = Some m"
proof -
  have "of_int (uint (sm_version m)) = sm_version m" "0 \<le> uint (sm_version m)" "uint (sm_version m) < 256"
    using uint_lt2p [of "sm_version m"] by simp_all
  then show ?thesis
    by (simp add: sealed_to_value_def json_object_def known_fields_def)
qed

text \<open>The signed event of a commit.\<close>

lemma validate_signing_events_ok:
  assumes "validate_signing_events es intent_id h m = Inr ()"
  obtains e where "e \<in> set es" "ev_intent_id e = intent_id" "ev_event_type e = EvSigned" "ev_attempt_no e = 0"
    "ev_signature_ref e = Some h" "json_as_str (json_get (ev_payload e) ''credential_hash'') = Some h"
    "Option.bind (json_get (ev_payload e) ''sealed_credential'') sealed_from_value = Some m"
proof -
  from assms have one: "length (filter (\<lambda>e. ev_event_type e = EvSigned) es) = 1"
    by (simp add: validate_signing_events_def Let_def split: if_splits)
  then obtain e where e: "filter (\<lambda>e. ev_event_type e = EvSigned) es = [e]"
    by (auto simp: length_Suc_conv)
  then have "e \<in> set es" "ev_event_type e = EvSigned" by (auto dest: filter_singleton_in)
  with assms e that show thesis
    by (auto simp: validate_signing_events_def Let_def list_ex_iff split: if_splits)
qed

lemma bind_signed_ok:
  assumes "bind_signed_credential i h v = Inr t"
  shows "t = v\<lparr>pay_intent := update_where (unbound_row i) (bind_credential h) (pay_intent v)\<rparr>"
    "rows_affected (unbound_row i) (pay_intent v) = 1"
    "\<And>q r. q \<in> set (pay_intent v) \<Longrightarrow> r \<in> set (pay_intent v) \<Longrightarrow> unbound_row i r \<Longrightarrow> \<not> unbound_row i q \<Longrightarrow>
       \<not> pay_intent_clash q (bind_credential h r)"
    "\<And>r. r \<in> set (pay_intent v) \<Longrightarrow> unbound_row i r \<Longrightarrow> pay_intent_check (bind_credential h r)"
  using assms by (auto simp: bind_signed_credential_def Let_def result_simps list_ex_iff split: if_splits)

lemma commit_signed_cases:
  assumes "commit_signed X i c h m g es ms s = (w, t)"
  obtains (failed) e where "w = Inl e" "t = s"
  | (replayed) identity p where "w = Inr (ReplayOf p)" "t = s"
    "load_identity s (sg_principal g) (pi_id i) = Inr (Some identity)"
    "is_signed_replay_status (pi_status (si_intent identity))"
    "load_signed s identity = Inr p" "si_challenge identity = c"
    "same_immutable_identity_as (si_intent identity) i"
  | (signed) a u v where "w = Inr (Inserted \<lparr>sp_identity = \<lparr>si_client = si_client (oa_identity a),
       si_scenario = si_scenario (oa_identity a), si_intent = i, si_challenge = c\<rparr>,
       sp_credential_hash = h, sp_sealed_credential = m\<rparr>)"
    "load_and_validate_guard X g i c s = Inr a" "validate_signing_events es (pi_id i) h m = Inr ()"
    "update_intent i (sg_expected_intent_updated_at g) Unchanged s = Inr u"
    "bind_signed_credential i h u = Inr v" "append_side_effects es ms v = Inr t"
proof (cases w)
  case (Inl e)
  with assms failed show thesis by (auto simp: commit_signed_def dest: transaction_err)
next
  case (Inr x)
  have "sp_identity p = identity" if "load_signed s identity = Inr p" for identity p
    using that by (auto simp: load_signed_def result_simps)
  with Inr assms replayed signed show thesis
    by (auto simp: commit_signed_def transaction_ok replay_signed_def result_simps split: if_splits)
qed

section \<open>One signature per payment\<close>

lemma side_effects_events:
  assumes "append_side_effects es ms s = Inr t"
  shows "\<exists>zs. pay_event t = pay_event s @ zs" "set es \<subseteq> set (pay_event t)"
    "unique_rows pay_event_clash (pay_event s) \<Longrightarrow> unique_rows pay_event_clash (pay_event t)"
proof -
  from assms obtain u where u: "each_step (\<lambda>e t. state_of (insert_event e t)) es s = Inr u"
    and t: "each_step insert_outbox ms u = Inr t"
    by (auto simp: append_side_effects_def result_simps)
  have same: "pay_event t = pay_event u" using outbox_frame [OF t] by auto
  show "\<exists>zs. pay_event t = pay_event s @ zs" using event_log.batch_appends [OF u] same by auto
  show "set es \<subseteq> set (pay_event t)" using event_log.batch_stores [OF u] same by auto
  show "unique_rows pay_event_clash (pay_event s) \<Longrightarrow> unique_rows pay_event_clash (pay_event t)"
    using event_log.batch_unique [OF u] same by simp
qed

lemma find_event_unique:
  assumes "unique_rows pay_event_clash (pay_event s)" "e \<in> set (pay_event s)"
    and "ev_intent_id e = i" "ev_event_type e = ty" "ev_attempt_no e = n"
  shows "find_for_intent_type s i ty n = Some e"
proof (cases "find_for_intent_type s i ty n")
  case None
  from find_None_notin [OF this [unfolded find_for_intent_type_def] assms(2)] assms(3-5) show ?thesis by simp
next
  case (Some f)
  note in_rows = find_Some_in [OF this [unfolded find_for_intent_type_def]]
  then have "pay_event_clash f e" using assms(3-5) by (simp add: pay_event_clash_def)
  with in_rows have "f \<in> set (filter (\<lambda>x. pay_event_clash x e) (pay_event s))" by simp
  also have "filter (\<lambda>x. pay_event_clash x e) (pay_event s) = [e]"
    using filter_clash_unique [OF assms(1,2) clash_sym(1)] by (simp add: pay_event_clash_def)
  finally show ?thesis using Some by simp
qed

lemma intent_row_unique:
  assumes "payment_inv s" "q \<in> set (pay_intent s)" "r \<in> set (pay_intent s)"
    and "pi_id (ir_intent q) = pi_id (ir_intent r)"
  shows "q = r"
proof (rule ccontr)
  assume "q \<noteq> r"
  with assms(2,3) obtain i j where "i < length (pay_intent s)" "j < length (pay_intent s)" "i \<noteq> j"
    "q = pay_intent s ! i" "r = pay_intent s ! j"
    by (metis in_set_conv_nth)
  with assms(1,4) show False
    unfolding payment_inv_def unique_rows_def sorted_wrt_iff_nth_less
    by (metis (mono_tags, lifting) linorder_neqE_nat pay_intent_clash_def)
qed

lemma intent_credential_evolves:
  assumes "intents_evolve s t" "intent_credential s i = Some h"
  shows "intent_credential t i = Some h"
proof -
  from assms(2) obtain q where q: "find (\<lambda>r. pi_id (ir_intent r) = i) (pay_intent s) = Some q"
    "ir_credential_hash q = Some h"
    by (auto simp: intent_credential_def split: Option.bind_splits)
  from assms(1) [unfolded intents_evolve_def] q(1) obtain r
    where "find (\<lambda>r. pi_id (ir_intent r) = i) (pay_intent t) = Some r" "row_evolves q r"
    by (rule intent_history.grows_find)
  with q(2) show ?thesis by (auto simp: intent_credential_def row_evolves_def)
qed

lemma signed_stores:
  assumes "commit_signed X i c h m g es ms s = (Inr (Inserted p), t)"
  shows "sp_credential_hash p = h" "sp_sealed_credential p = m"
    "\<exists>e \<in> set (pay_event t). ev_intent_id e = pi_id i \<and> ev_event_type e = EvSigned \<and> ev_attempt_no e = 0
       \<and> ev_signature_ref e = Some h
       \<and> Option.bind (json_get (ev_payload e) ''sealed_credential'') sealed_from_value = Some m"
    "payment_inv s \<Longrightarrow> intent_credential t (pi_id i) = Some h"
proof -
  show "sp_credential_hash p = h" "sp_sealed_credential p = m"
    using assms by (auto elim: commit_signed_cases)
  from assms obtain u v where ev: "validate_signing_events es (pi_id i) h m = Inr ()"
    and u: "update_intent i (sg_expected_intent_updated_at g) Unchanged s = Inr u"
    and v: "bind_signed_credential i h u = Inr v" and t: "append_side_effects es ms v = Inr t"
    by (auto elim: commit_signed_cases)
  show "\<exists>e \<in> set (pay_event t). ev_intent_id e = pi_id i \<and> ev_event_type e = EvSigned \<and> ev_attempt_no e = 0
       \<and> ev_signature_ref e = Some h
       \<and> Option.bind (json_get (ev_payload e) ''sealed_credential'') sealed_from_value = Some m"
    using ev by (rule validate_signing_events_ok) (use side_effects_events(2) [OF t] in blast)
  assume "payment_inv s"
  with u have inv: "payment_inv u" by (rule update_intent_inv) simp
  obtain r where r: "r \<in> set (pay_intent u)" "unbound_row i r"
    using rows_affected_one [of "unbound_row i" "pay_intent u"] bind_signed_ok(2) [OF v] by auto
  then obtain q where q: "find (\<lambda>r. pi_id (ir_intent r) = pi_id i) (pay_intent u) = Some q"
    using find_None_notin [of "\<lambda>r. pi_id (ir_intent r) = pi_id i"] by (fastforce simp: unbound_row_def)
  have "q = r"
    using intent_row_unique [OF inv _ r(1)] find_Some_in [OF q] r(2) by (simp add: unbound_row_def)
  moreover have "find (\<lambda>r. pi_id (ir_intent r) = pi_id i) (pay_intent v)
      = Some (if unbound_row i q then bind_credential h q else q)"
    using find_update_where [of "\<lambda>r. pi_id (ir_intent r)" "bind_credential h"] q
    by (simp add: bind_signed_ok(1) [OF v])
  moreover have "pay_intent t = pay_intent v" using append_side_effects_frame [OF t] by auto
  ultimately show "intent_credential t (pi_id i) = Some h"
    using r(2) by (simp add: intent_credential_def)
qed

lemma signed_again:
  assumes "commit_signed X j c h m g es ms s = (Inr w, t)" "payment_inv s"
    and "unique_rows pay_event_clash (pay_event s)"
    and "intent_credential s (pi_id j) = Some k" "e \<in> set (pay_event s)" "ev_intent_id e = pi_id j"
    and "ev_event_type e = EvSigned" "ev_attempt_no e = 0" "ev_signature_ref e = Some k"
    and "Option.bind (json_get (ev_payload e) ''sealed_credential'') sealed_from_value = Some n"
  obtains q where "w = ReplayOf q" "sp_credential_hash q = k" "sp_sealed_credential q = n" "t = s"
  using assms(1)
proof (cases rule: commit_signed_cases)
  case (replayed identity p)
  have id: "pi_id (si_intent identity) = pi_id j" using replayed(7) by (simp add: same_immutable_identity_as_def)
  have "find_for_intent_type s (pi_id j) EvSigned 0 = Some e"
    using find_event_unique [OF assms(3,5)] assms(6-8) by simp
  with replayed(5) assms(9,10) have "sp_credential_hash p = k" "sp_sealed_credential p = n"
    by (auto simp: load_signed_def id result_simps)
  with replayed(1,2) that show thesis by auto
next
  case (signed a u v)
  obtain r where r: "r \<in> set (pay_intent u)" "unbound_row j r"
    using rows_affected_one [of "unbound_row j" "pay_intent u"] bind_signed_ok(2) [OF signed(5)] by auto
  have inv: "payment_inv u" using signed(4) assms(2) by (rule update_intent_inv) simp
  have "intent_credential u (pi_id j) = Some k"
    using intent_credential_evolves update_intent_evolves [OF signed(4)] assms(4) by blast
  then obtain q where q: "find (\<lambda>r. pi_id (ir_intent r) = pi_id j) (pay_intent u) = Some q"
    "ir_credential_hash q = Some k"
    by (auto simp: intent_credential_def split: Option.bind_splits)
  have "q = r" using intent_row_unique [OF inv _ r(1)] find_Some_in [OF q(1)] r(2) by (simp add: unbound_row_def)
  with q(2) r(2) show thesis by (simp add: unbound_row_def)
qed simp

end
