(* ===== verification/Payment_Steps.thy ===== *)
theory Payment_Steps
  imports Signing_Store "HOL-Library.Sublist"
begin

text \<open>
  What every transaction over payments, approvals, signatures and reconciliation leases preserves: the
  catalogue tables, the append-only journals, the foreign keys of intents, events and ledger entries,
  and the payment and approval invariants, while intents and approvals evolve along their lifecycles.
\<close>

section \<open>The journals and the references of the payment tables\<close>

definition journal_inv :: "db \<Rightarrow> bool" where
  "journal_inv s \<longleftrightarrow>
     unique_rows pay_event_clash (pay_event s) \<and> unique_rows pay_outbox_clash (pay_outbox s)
     \<and> (\<forall>m \<in> set (pay_outbox s). pay_outbox_check m)
     \<and> ledger_inv (pay_ledger s)"

definition payment_refs_inv :: "db \<Rightarrow> bool" where
  "payment_refs_inv s \<longleftrightarrow>
     (\<forall>r \<in> set (pay_intent s). pay_intent_fk s (ir_intent r))
     \<and> (\<forall>e \<in> set (pay_event s). pay_event_fk s e)
     \<and> (\<forall>l \<in> set (pay_ledger s). pay_ledger_fk s l)"

definition same_catalog :: "db \<Rightarrow> db \<Rightarrow> bool" where
  "same_catalog s t \<longleftrightarrow>
     pay_wallet t = pay_wallet s \<and> wallet_key_version t = wallet_key_version s
     \<and> pay_wallet_balance t = pay_wallet_balance s \<and> pay_client t = pay_client s
     \<and> pay_scenario t = pay_scenario s \<and> pay_scenario_approver t = pay_scenario_approver s
     \<and> pay_policy t = pay_policy s \<and> pay_policy_wallet t = pay_policy_wallet s
     \<and> pay_price t = pay_price s"

lemma intent_fk_same:
  "same_catalog s t \<Longrightarrow> same_immutable_identity_as i j \<Longrightarrow> pay_intent_fk t j = pay_intent_fk s i"
  by (simp add: pay_intent_fk_def same_catalog_def same_immutable_identity_as_def)

lemma intents_ex:
  assumes "intents_evolve s t" "list_ex (\<lambda>r. Q (ir_intent r)) (pay_intent s)"
    and "\<And>i j. same_immutable_identity_as i j \<Longrightarrow> Q i \<Longrightarrow> Q j"
  shows "list_ex (\<lambda>r. Q (ir_intent r)) (pay_intent t)"
  using assms unfolding list_ex_iff intents_evolve_def
  by (metis evolves_def intent_history.grows_in row_evolves_def)

lemma event_fk_evolves: "pay_event_fk s e \<Longrightarrow> intents_evolve s t \<Longrightarrow> pay_event_fk t e"
  unfolding pay_event_fk_def
  by (rule intents_ex [of s t "\<lambda>i. pi_id i = ev_intent_id e"]) (simp_all add: same_immutable_identity_as_def)

lemma ledger_fk_evolves:
  assumes "pay_ledger_fk s l" "intents_evolve s t" "same_catalog s t" "set (pay_ledger s) \<subseteq> set (pay_ledger t)"
  shows "pay_ledger_fk t l"
proof -
  have "list_ex (\<lambda>r. pi_id (ir_intent r) = i
          \<and> is_none_or (le_scenario_id l) (\<lambda>c. pi_scenario_id (ir_intent r) = c
              \<and> pi_wallet_id (ir_intent r) = Some (le_wallet_id l))) (pay_intent t)"
    if "le_intent_id l = Some i" for i
    using assms(1) that
    by (intro intents_ex [OF assms(2), of "\<lambda>j. pi_id j = i \<and> is_none_or (le_scenario_id l)
          (\<lambda>c. pi_scenario_id j = c \<and> pi_wallet_id j = Some (le_wallet_id l))"])
      (simp_all add: pay_ledger_fk_def is_none_or_def same_immutable_identity_as_def)
  then show ?thesis
    using assms(1,3,4) unfolding pay_ledger_fk_def same_catalog_def
    by (auto simp: is_none_or_def list_ex_iff split: option.splits)
qed

section \<open>Messages of the outbox\<close>

text \<open>
  A message keeps its content, its attempts are counted up, and once it is delivered or given up it does not
  change any more.
\<close>

definition message_evolves :: "OutboxMessage \<Rightarrow> OutboxMessage \<Rightarrow> bool" where
  "message_evolves m n \<longleftrightarrow>
     same_logical_message m n \<and> ob_attempt_count m \<le> ob_attempt_count n \<and> (ob_status m \<noteq> ObPending \<longrightarrow> n = m)"

interpretation message_history: table_history message_evolves ob_id
  by unfold_locales (auto simp: message_evolves_def same_logical_message_def)

definition messages_evolve :: "db \<Rightarrow> db \<Rightarrow> bool" where
  "messages_evolve s t \<longleftrightarrow> grows message_evolves (pay_outbox s) (pay_outbox t)"

lemma messages_evolve_same [simp]: "pay_outbox t = pay_outbox s \<Longrightarrow> messages_evolve s t"
  by (simp add: messages_evolve_def message_history.grows_refl)

lemma messages_evolve_trans: "messages_evolve s t \<Longrightarrow> messages_evolve t u \<Longrightarrow> messages_evolve s u"
  unfolding messages_evolve_def by (rule message_history.grows_trans)

section \<open>The relation every transaction satisfies\<close>

definition keeps :: "db \<Rightarrow> db \<Rightarrow> bool" where
  "keeps s t \<longleftrightarrow>
     same_catalog s t \<and> intents_evolve s t \<and> messages_evolve s t
     \<and> prefix (pay_event s) (pay_event t) \<and> prefix (pay_ledger s) (pay_ledger t)
     \<and> (journal_inv s \<longrightarrow> journal_inv t) \<and> (payment_refs_inv s \<longrightarrow> payment_refs_inv t)
     \<and> (payment_inv s \<longrightarrow> payment_inv t)
     \<and> (approval_inv s \<longrightarrow> approval_inv t \<and> approvals_evolve s t)"

lemma keeps_refl [simp]: "keeps s s"
  by (simp add: keeps_def same_catalog_def intents_evolve_same approvals_evolve_same)

lemma keeps_trans [trans]: "keeps s t \<Longrightarrow> keeps t u \<Longrightarrow> keeps s u"
  unfolding keeps_def
  by (auto intro: intents_evolve_trans approvals_evolve_trans messages_evolve_trans prefix_order.trans
      simp: same_catalog_def)

lemma payment_refs_kept:
  assumes "payment_refs_inv s" "same_catalog s t" "intents_evolve s t"
    and "set (pay_ledger s) \<subseteq> set (pay_ledger t)"
    and "\<And>r. r \<in> set (pay_intent t) \<Longrightarrow> pay_intent_fk t (ir_intent r)"
    and "\<And>e. e \<in> set (pay_event t) \<Longrightarrow> e \<in> set (pay_event s) \<or> pay_event_fk t e"
    and "\<And>l. l \<in> set (pay_ledger t) \<Longrightarrow> l \<in> set (pay_ledger s) \<or> pay_ledger_fk t l"
  shows "payment_refs_inv t"
  unfolding payment_refs_inv_def
proof (intro conjI ballI)
  show "pay_event_fk t e" if "e \<in> set (pay_event t)" for e
    using assms(1) assms(6) [OF that] event_fk_evolves [OF _ assms(3)] unfolding payment_refs_inv_def by blast
  show "pay_ledger_fk t l" if "l \<in> set (pay_ledger t)" for l
    using assms(1) assms(7) [OF that] ledger_fk_evolves [OF _ assms(3,2,4)] unfolding payment_refs_inv_def by blast
qed (rule assms(5))

text \<open>A change of intent rows: old payments keep their identity, new ones are checked.\<close>

lemma keeps_intents:
  assumes t: "t = s\<lparr>pay_intent := rows\<rparr>" and ev: "intents_evolve s t"
    and new: "\<And>r. r \<in> set rows \<Longrightarrow>
      (\<exists>q \<in> set (pay_intent s). same_immutable_identity_as (ir_intent q) (ir_intent r)) \<or> pay_intent_fk s (ir_intent r)"
    and inv: "payment_inv s \<Longrightarrow> payment_inv t"
  shows "keeps s t"
proof -
  have cat: "same_catalog s t" by (simp add: t same_catalog_def)
  have "payment_refs_inv t" if refs: "payment_refs_inv s"
  proof (rule payment_refs_kept [OF refs cat ev])
    show "pay_intent_fk t (ir_intent r)" if "r \<in> set (pay_intent t)" for r
    proof -
      from that have "r \<in> set rows" by (simp add: t)
      from new [OF this] refs show ?thesis
        using intent_fk_same [OF cat] same_immutable_identity_refl unfolding payment_refs_inv_def by blast
    qed
  qed (simp_all add: t)
  then show ?thesis
    using cat ev inv approval_inv_frame [of s t]
    by (auto simp: keeps_def journal_inv_def t intro: approvals_evolve_same)
qed

lemma evolves_identity:
  assumes "intents_evolve s t" "length (pay_intent t) = length (pay_intent s)" "r \<in> set (pay_intent t)"
  shows "\<exists>q \<in> set (pay_intent s). same_immutable_identity_as (ir_intent q) (ir_intent r)"
proof -
  from assms(1) obtain xs ys where t: "pay_intent t = xs @ ys" and all: "list_all2 row_evolves (pay_intent s) xs"
    by (auto simp: intents_evolve_def grows_def)
  with assms(2) have "ys = []" by (auto dest: list_all2_lengthD)
  with t all assms(3) obtain q where "q \<in> set (pay_intent s)" "row_evolves q r"
    by (metis append_Nil2 in_set_conv_nth list_all2_conv_all_nth)
  then show ?thesis by (auto simp: row_evolves_def evolves_def)
qed

lemma keeps_intent_update:
  assumes "t = s\<lparr>pay_intent := update_where P f (pay_intent s)\<rparr>" "intents_evolve s t"
    and "payment_inv s \<Longrightarrow> payment_inv t"
  shows "keeps s t"
  using evolves_identity [OF assms(2)] assms
  by (intro keeps_intents [OF assms(1,2) _ assms(3)]) (auto simp: update_where_def)

named_theorems keeps_intros

text \<open>A settlement needs its fact in the ledger, the other updates do not consume.\<close>

lemma keeps_update_settled:
  assumes "update_intent i u m s = Inr t"
    and "payment_inv s \<Longrightarrow> m = RmSettlement \<Longrightarrow> pi_reservation_status i = Consumed \<Longrightarrow>
      list_ex (ledger_fact_for i) (pay_ledger s)"
  shows "keeps s t"
proof -
  have "t = s\<lparr>pay_intent := update_where (intent_hit i u) (write_intent i) (pay_intent s)\<rparr>"
    using assms(1) by (rule update_intent_ok)
  then show ?thesis
    using update_intent_evolves [OF assms(1)] update_intent_inv [OF assms(1)] assms(2)
    by (blast intro: keeps_intent_update)
qed

lemma keeps_update_intent [keeps_intros]:
  "update_intent i u m s = Inr t \<Longrightarrow> m \<noteq> RmSettlement \<Longrightarrow> keeps s t"
  by (rule keeps_update_settled) auto

lemma keeps_insert_intent [keeps_intros]:
  assumes "insert_intent i c s = Inr t" "pi_reservation_status i \<noteq> Consumed"
    and "pi_reservation_status i = Reserved \<Longrightarrow> pi_reserved_amount i = pi_amount i"
  shows "keeps s t"
proof -
  note ok = insert_intent_ok [OF assms(1)]
  then have t: "t = s\<lparr>pay_intent := pay_intent s @ [new_row i c]\<rparr>" by blast
  show ?thesis
  proof (rule keeps_intents [OF t])
    show "intents_evolve s t" by (rule intents_evolve_append) (simp add: t)
    show "payment_inv t" if "payment_inv s"
      using ok assms(2,3) by (intro payment_inv_append [OF that t]) (auto simp: row_ok_def)
  qed (use ok in \<open>auto intro: same_immutable_identity_refl\<close>)
qed

text \<open>Writes to the approval table.\<close>

lemma keeps_approvals:
  assumes "t = s\<lparr>pay_approval := rows\<rparr>" "approval_inv s \<Longrightarrow> approval_inv t \<and> approvals_evolve s t"
  shows "keeps s t"
  using assms(2)
  by (simp add: keeps_def assms(1) same_catalog_def journal_inv_def payment_inv_def payment_refs_inv_def
      pay_intent_fk_def pay_event_fk_def pay_ledger_fk_def intents_evolve_same)

lemma keeps_insert_approval [keeps_intros]: "insert_approval_request a s = Inr t \<Longrightarrow> keeps s t"
  using insert_approval_request_ok [of a s t] insert_approval_keeps [of a s t] by (blast intro: keeps_approvals)

lemma keeps_write_approvals:
  assumes "write_approvals hit change e s = Inr (n, t)" "\<And>a b. hit a \<Longrightarrow> hit b \<Longrightarrow> ar_id a = ar_id b"
    and "\<And>a. approval_inv s \<Longrightarrow> a \<in> set (pay_approval s) \<Longrightarrow> hit a \<Longrightarrow> approval_evolves a (change a)"
  shows "keeps s t"
  using write_approvals_keeps [OF assms(1) _ assms(2)] assms(3)
  by (intro keeps_approvals [OF write_approvals_ok(2) [OF assms(1)]]) blast

lemma keeps_event:
  assumes "state_of (insert_event e s) = Inr t"
  shows "keeps s t"
proof -
  obtain w where w: "insert_event e s = Inr (w, t)" using assms by (auto simp: state_of_ok)
  then show ?thesis
    unfolding insert_event_ok
  proof (elim conjE disjE)
    assume fk: "pay_event_fk s e" and t: "t = s\<lparr>pay_event := pay_event s @ [e]\<rparr>"
    have cat: "same_catalog s t" and ev: "intents_evolve s t" by (simp_all add: t same_catalog_def intents_evolve_same)
    have "payment_refs_inv s \<Longrightarrow> payment_refs_inv t"
      using fk by (intro payment_refs_kept [of s t, OF _ cat ev])
        (auto simp: t payment_refs_inv_def pay_intent_fk_def pay_event_fk_def)
    then show ?thesis
      using cat ev event_log.ins_unique [OF assms] approval_inv_frame [of s t] payment_inv_frame [of s t]
      by (auto simp: keeps_def t journal_inv_def approvals_evolve_same)
  qed simp
qed

lemma keeps_outbox:
  assumes "insert_outbox m s = Inr t"
  shows "keeps s t"
proof -
  obtain x where t: "t = s\<lparr>pay_outbox := x\<rparr>" using insert_outbox_frame [OF assms] by blast
  have "pay_outbox_check k" if "k \<in> set (pay_outbox t)" "k \<notin> set (pay_outbox s)" for k
    using assms that by (auto simp: insert_outbox_ok)
  moreover have "messages_evolve s t"
    using assms by (auto simp: insert_outbox_ok messages_evolve_def message_history.grows_refl message_history.grows_append)
  ultimately show ?thesis
    using outbox_log.ins_unique [OF assms] approval_inv_frame [of s t] payment_inv_frame [of s t]
    by (auto simp: keeps_def t same_catalog_def journal_inv_def approvals_evolve_same intents_evolve_same
        payment_refs_inv_def pay_intent_fk_def pay_event_fk_def pay_ledger_fk_def)
qed

lemma keeps_ledger:
  assumes "state_of (insert_ledger e s) = Inr t"
  shows "keeps s t"
proof -
  obtain w where w: "insert_ledger e s = Inr (w, t)" using assms by (auto simp: state_of_ok)
  have inv: "ledger_inv (pay_ledger s) \<Longrightarrow> ledger_inv (pay_ledger t)" by (rule insert_ledger_inv [OF w])
  show ?thesis
    using w unfolding insert_ledger_ok
  proof (elim conjE disjE exE)
    assume fk: "pay_ledger_fk s e" and t: "t = s\<lparr>pay_ledger := pay_ledger s @ [e]\<rparr>"
    have cat: "same_catalog s t" and ev: "intents_evolve s t" by (simp_all add: t same_catalog_def intents_evolve_same)
    have sub: "set (pay_ledger s) \<subseteq> set (pay_ledger t)" by (auto simp: t)
    have "payment_refs_inv s \<Longrightarrow> payment_refs_inv t"
      using ledger_fk_evolves [OF fk ev cat sub] by (intro payment_refs_kept [of s t, OF _ cat ev sub])
        (auto simp: t payment_refs_inv_def pay_intent_fk_def pay_event_fk_def)
    then show ?thesis
      using cat ev sub inv approval_inv_frame [of s t] payment_inv_frame [of s t]
      by (auto simp: keeps_def t journal_inv_def approvals_evolve_same)
  qed simp
qed

section \<open>Sequences of writes\<close>

lemma each_step_keeps:
  "each_step f xs s = Inr t \<Longrightarrow> (\<And>x s t. f x s = Inr t \<Longrightarrow> keeps s t) \<Longrightarrow> keeps s t"
  using each_step_invariant [of f xs s t "keeps s"] keeps_trans by auto

lemma collect_steps_keeps:
  assumes "collect_steps f xs s = Inr (ys, t)" "\<And>x s y t. f x s = Inr (y, t) \<Longrightarrow> keeps s t"
  shows "keeps s t"
proof -
  have "each_step (\<lambda>x t. state_of (f x t)) xs s = Inr t"
    using assms(1) by (simp flip: collect_steps_state add: state_of_ok)
  then show ?thesis by (rule each_step_keeps) (use assms(2) in \<open>auto simp: state_of_ok\<close>)
qed

lemma keeps_side_effects [keeps_intros]: "append_side_effects es ms s = Inr t \<Longrightarrow> keeps s t"
  unfolding append_side_effects_def result_simps
  by (blast intro: keeps_trans each_step_keeps [where f = "\<lambda>e t. state_of (insert_event e t)"] keeps_event
      each_step_keeps [where f = insert_outbox] keeps_outbox)

lemma keeps_ledgers:
  "each_step (\<lambda>e t. state_of (insert_ledger e t)) es s = Inr t \<Longrightarrow> keeps s t"
  by (rule each_step_keeps) (auto intro: keeps_ledger)

section \<open>Approvals\<close>

lemma keeps_approve [keeps_intros]:
  assumes "decide_approve a i d grant tr s = Inr (p, t)" "find_approval s k = Some a"
  shows "keeps s t"
proof -
  from assms(1) obtain g n where g: "validate_grant a i d g = Inr ()"
    and upd: "write_approvals (decidable_row (ar_id a) (ad_decided_at d)) (approve_row g (ad_decided_at d))
         (conflict ''approval grant update rejected'') s = Inr (n, t)"
    by (auto simp: decide_approve_def result_simps)
  have exp: "gc_exp (ag_claims g) \<le> ar_expires_at a"
    using g by (auto simp: validate_grant_def Let_def result_simps)
  have a: "a \<in> set (pay_approval s)"
    using assms(2) by (auto simp: find_approval_def dest: find_Some_in)
  show ?thesis
  proof (rule keeps_write_approvals [OF upd row_hits(1)])
    show "approval_evolves b (approve_row g (ad_decided_at d) b)"
      if "approval_inv s" "b \<in> set (pay_approval s)" "decidable_row (ar_id a) (ad_decided_at d) b" for b
      using that approval_unique_id [OF that(1) a that(2)] exp
      by (intro approve_evolves) (auto simp: decidable_row_def approval_inv_def dest: approval_check_pending)
  qed
qed

lemma keeps_reject [keeps_intros]:
  assumes "decide_reject a d grant tr s = Inr (p, t)"
  shows "keeps s t"
proof -
  from assms obtain failed expected u n where u: "update_intent failed expected Unchanged s = Inr u"
    and upd: "write_approvals (decidable_row (ar_id a) (ad_decided_at d))
      (reject_row (ad_approved_by d) (ad_decided_at d)) (conflict ''approval rejection update rejected'') u = Inr (n, t)"
    by (auto simp: decide_reject_def result_simps)
  have "keeps s u" using u by (rule keeps_update_intent) simp
  also have "keeps u t"
    by (rule keeps_write_approvals [OF upd row_hits(1)])
      (auto intro: reject_evolves dest: approval_check_pending simp: decidable_row_def approval_inv_def)
  finally show ?thesis .
qed

lemma keeps_expire_one:
  assumes "expire_one now a s = Inr (p, t)"
  shows "keeps s t"
proof -
  from assms obtain n u where upd: "write_approvals (expirable_row (ar_id a) now) expire_row
      (Storage ''expire approval'') s = Inr (n, u)"
    by (auto simp: expire_one_def result_simps)
  have "keeps s u"
    by (rule keeps_write_approvals [OF upd row_hits(3)]) (auto intro: expire_evolves simp: expirable_row_def)
  also have "keeps u t"
    using assms upd
    by (auto simp: expire_one_def result_simps Let_def split: if_splits
        intro: keeps_update_intent keeps_side_effects keeps_trans)
  finally show ?thesis .
qed

lemma request_approval_keeps: "request_approval a s = (w, t) \<Longrightarrow> keeps s t"
  by (cases w)
    (auto simp: request_approval_def transaction_ok result_simps dest: transaction_err
      split: list.splits if_splits intro: keeps_insert_approval)

lemma decide_keeps: "decide d grant tr e ms s = (w, t) \<Longrightarrow> keeps s t"
  by (erule decide_cases)
    (auto split: ApprovalDecisionKind.splits intro: keeps_trans keeps_approve keeps_reject keeps_side_effects)

lemma consume_keeps: "consume_and_reserve X g i origin day now u c e ms s = (w, t) \<Longrightarrow> keeps s t"
proof (erule consume_cases)
  fix a v x
  assume upd: "write_approvals (consumable_row (ar_id a) g now) (consume_row c)
       (conflict ''approval grant consumption rejected'') s = Inr (1, v)"
    and x: "update_intent i u ApprovalReserve v = Inr x" and t: "append_side_effects [e] ms x = Inr t"
  have "keeps s v"
    by (rule keeps_write_approvals [OF upd row_hits(2)]) (auto intro: consume_evolves simp: consumable_row_def)
  also have "keeps v x" using x by (rule keeps_update_intent) simp
  also have "keeps x t" using t by (rule keeps_side_effects)
  finally show ?thesis .
qed simp

lemma expire_due_keeps: "expire_due now limit s = (w, t) \<Longrightarrow> keeps s t"
  by (cases w)
    (auto simp: expire_due_def transaction_ok result_simps dest: transaction_err split: if_splits
      elim!: collect_steps_keeps intro: keeps_expire_one)

section \<open>Payments\<close>

lemma authorize_keeps:
  assumes "authorize X i approval action g es ms s = (w, t)"
  shows "keeps s t"
  using assms
proof (cases rule: authorize_cases)
  case (inserted e q)
  let ?u = "s\<lparr>pay_intent := pay_intent s @ [new_row i None]\<rparr>"
  let ?v = "?u\<lparr>pay_approval := pay_approval s @ (case approval of None \<Rightarrow> [] | Some a \<Rightarrow> [a])\<rparr>"
  have "keeps s ?u"
    using authorization_action_ok [OF inserted(5)] by (intro keeps_insert_intent [OF inserted(6)]) auto
  also have "keeps ?u ?v"
  proof (rule keeps_approvals [OF refl], intro conjI)
    show "approval_inv ?v" if "approval_inv ?u"
      using that inserted(7)
      by (cases approval) (auto simp: approval_inv_def unique_rows_snoc pay_approval_fk_def)
  qed (simp add: approvals_evolve_def approval_history.grows_append)
  also have "keeps ?v t" using inserted(8) by (simp add: keeps_side_effects)
  finally show ?thesis .
qed simp

lemma record_challenge_keeps:
  assumes "record_challenge X i c g es ms s = (w, t)"
  shows "keeps s t"
  using assms
proof (cases rule: record_challenge_cases)
  case (inserted e q)
  have "keeps s (s\<lparr>pay_intent := pay_intent s @ [new_row i None]\<rparr>)"
    using challenge_guard_ok [OF inserted(3)] by (intro keeps_insert_intent [OF inserted(6)]) auto
  also have "keeps \<dots> t" using inserted(7) by (rule keeps_side_effects)
  finally show ?thesis .
qed simp

lemma keeps_bind:
  assumes "t = v\<lparr>pay_intent := update_where (unbound_row i) (bind_credential h) (pay_intent v)\<rparr>"
    "rows_affected (unbound_row i) (pay_intent v) = 1"
    "\<And>q r. q \<in> set (pay_intent v) \<Longrightarrow> r \<in> set (pay_intent v) \<Longrightarrow> unbound_row i r \<Longrightarrow>
      \<not> unbound_row i q \<Longrightarrow> \<not> pay_intent_clash q (bind_credential h r)"
    "\<And>r. r \<in> set (pay_intent v) \<Longrightarrow> unbound_row i r \<Longrightarrow> pay_intent_check (bind_credential h r)"
  shows "keeps v t"
  by (rule keeps_intent_update [OF assms(1) bind_rows [OF assms]])

lemma verify_incoming_keeps:
  assumes "verify_incoming i c u es ms s = (w, t)"
  shows "keeps s t"
  using assms
proof (cases rule: verify_incoming_cases)
  case (committed v)
  from committed(2) have "keeps s v"
    by (rule bind_credential_ok) (blast intro: keeps_trans keeps_update_intent keeps_bind)
  also have "keeps v t" using committed(3) by (rule keeps_side_effects)
  finally show ?thesis .
qed simp

lemma commit_progress_keeps: "commit_progress i u es ms s = (w, t) \<Longrightarrow> keeps s t"
  by (erule commit_progress_cases)
    (auto intro: keeps_trans keeps_update_intent keeps_side_effects dest: progress_mutation)

lemma record_outbound_evidence_keeps: "record_outbound_evidence i u h e ms s = (w, t) \<Longrightarrow> keeps s t"
  by (erule record_outbound_evidence_cases) (auto intro: keeps_trans keeps_update_intent keeps_side_effects)

lemma commit_settlement_keeps:
  assumes "commit_settlement i u es entries ms s = (w, t)"
  shows "keeps s t"
  using assms
proof (cases rule: commit_settlement_cases)
  case (committed old l v)
  have "keeps s l" using committed(4) by (rule keeps_ledgers)
  also have "keeps l v"
    using settlement_fact_kept [OF committed(3,2,4)] by (rule keeps_update_settled [OF committed(5)])
  also have "keeps v t" using committed(6) by (rule keeps_side_effects)
  finally show ?thesis .
qed simp

lemma claim_one_keeps: "reconciliation_claim_one q i s = Inr (c, t) \<Longrightarrow> keeps s t"
  by (rule keeps_intent_update [OF claim_one_effect(1) claim_one_payment])

lemma claim_batch_keeps: "claim_reconciliation_batch q s = Inr (cs, t) \<Longrightarrow> keeps s t"
  by (auto simp: claim_reconciliation_batch_def result_simps elim!: collect_steps_keeps intro: claim_one_keeps)

lemma update_lease_keeps:
  assumes "update_reconciliation_lease i holder a b s = Inr (u, t)"
  shows "keeps s t"
  by (rule keeps_intent_update [OF update_lease_effect(1) update_lease_payment]) (rule assms)+

section \<open>Signing\<close>

lemma commit_signed_keeps:
  assumes "commit_signed X i c h m g es ms s = (w, t)"
  shows "keeps s t"
  using assms
proof (cases rule: commit_signed_cases)
  case (signed a u v)
  have "keeps s u" using signed(4) by (rule keeps_update_intent) simp
  also have "keeps u v" using bind_signed_ok [OF signed(5)] by (rule keeps_bind)
  also have "keeps v t" using signed(6) by (rule keeps_side_effects)
  finally show ?thesis .
qed simp_all

section \<open>Ledger batches and outbox leases\<close>

lemma ledger_append_keeps: "ledger_append e s = (w, t) \<Longrightarrow> keeps s t"
  using keeps_ledger [of e s t]
  by (cases w) (auto simp: ledger_append_def transaction_ok state_of_ok dest: transaction_err)

lemma append_batch_keeps:
  assumes "append_batch es ms s = (w, t)"
  shows "keeps s t"
proof (cases w)
  case (Inr rs)
  with assms obtain u where u: "collect_steps insert_ledger es s = Inr (rs, u)" "each_step insert_outbox ms u = Inr t"
    by (auto simp: append_batch_def insert_ledgers_def transaction_ok result_simps)
  have "keeps s u" by (rule collect_steps_keeps [OF u(1)]) (metis keeps_ledger state_of_ok)
  also have "keeps u t" by (rule each_step_keeps [OF u(2) keeps_outbox])
  finally show ?thesis .
qed (use assms in \<open>auto simp: append_batch_def dest: transaction_err\<close>)

lemma keeps_outbox_update:
  assumes t: "t = s\<lparr>pay_outbox := update_where P f (pay_outbox s)\<rparr>"
    and ok: "\<And>m. m \<in> set (pay_outbox s) \<Longrightarrow> P m \<Longrightarrow> pay_outbox_check (f m)"
    and f: "\<And>m. ob_id (f m) = ob_id m" "\<And>m. ob_destination (f m) = ob_destination m"
      "\<And>m. ob_event_type (f m) = ob_event_type m" "\<And>m. ob_run_id (f m) = ob_run_id m"
    and ev: "\<And>m. P m \<Longrightarrow> message_evolves m (f m)"
  shows "keeps s t"
proof -
  have "messages_evolve s t" by (simp add: messages_evolve_def t message_history.grows_update ev)
  moreover
  have "unique_rows pay_outbox_clash (update_where P f (pay_outbox s)) = unique_rows pay_outbox_clash (pay_outbox s)"
    unfolding update_where_def by (rule unique_rows_map) (simp add: pay_outbox_clash_def f)
  moreover have "\<forall>m \<in> set (update_where P f (pay_outbox s)). pay_outbox_check m"
    if "\<forall>m \<in> set (pay_outbox s). pay_outbox_check m"
    using that ok by (auto simp: update_where_def)
  ultimately show ?thesis
    using approval_inv_frame [of s t] payment_inv_frame [of s t]
    by (auto simp: keeps_def t same_catalog_def journal_inv_def approvals_evolve_same intents_evolve_same
        payment_refs_inv_def pay_intent_fk_def pay_event_fk_def pay_ledger_fk_def)
qed

lemma count_up: "n < 4294967295 \<Longrightarrow> n \<le> (n + 1 :: u32)"
  by (simp add: word_le_nat_alt word_less_nat_alt unat_word_ariths)

lemma outbox_claim_one_keeps: "outbox_claim_one q i s = Inr (m, t) \<Longrightarrow> keeps s t"
  by (erule outbox_claim_one_ok)
    (rule keeps_outbox_update, assumption, simp_all add: outbox_take_def outbox_hit_def outbox_due_def
      message_evolves_def same_logical_message_def count_up)

lemma outbox_claim_keeps: "outbox_claim q s = (w, t) \<Longrightarrow> keeps s t"
  by (cases w)
    (auto simp: outbox_claim_def outbox_claim_step_def transaction_ok dest: transaction_err split: if_splits
      elim!: collect_steps_keeps intro: outbox_claim_one_keeps)

lemma outbox_transition_keeps:
  "mark_delivered i holder n s = Inr (v, t) \<Longrightarrow> keeps s t"
  "reschedule i holder n err s = Inr (v, t) \<Longrightarrow> keeps s t"
  "mark_dead_letter i holder err s = Inr (v, t) \<Longrightarrow> keeps s t"
  by (auto simp: mark_delivered_def reschedule_def mark_dead_letter_def transition_lease_def Let_def list_ex_iff
      message_evolves_def same_logical_message_def split: if_splits intro!: keeps_outbox_update)

end
