(* ===== verification/Entity_Query.thy ===== *)
theory Entity_Query
  imports Schema
begin

text \<open>
  Entity metadata and the prepared SQL that is built from it (\<^verbatim>\<open>storage/entity.rs\<close>,
  \<^verbatim>\<open>storage/query.rs\<close>), and the generic reads and writes the catalogue repositories run. A query
  under construction is the sequence of what was pushed: text, or a bound value. The lemmas show that no
  text comes from a caller, that every value is bound, in order, that a generic mutation has a predicate
  and never touches an identity, and that the pages of a listing are the listing.
\<close>

section \<open>Entity metadata\<close>

datatype EntityWriteMode = ReadOnly | AppendOnly | EwCatalog

text \<open>A decimal is whatever \<^verbatim>\<open>bigdecimal\<close> holds: the sources only pass it on.\<close>

datatype 'd EntityValue =
    EText "string option"
  | EBool "bool option"
  | ESmallInt "int option"
  | EInteger "int option"
  | EDecimal "'d option"
  | EBytes "string option"
  | EJson json

fun is_null :: "'d EntityValue \<Rightarrow> bool" where
  "is_null (EText v) = (v = None)"
| "is_null (EBool v) = (v = None)"
| "is_null (ESmallInt v) = (v = None)"
| "is_null (EInteger v) = (v = None)"
| "is_null (EDecimal v) = (v = None)"
| "is_null (EBytes v) = (v = None)"
| "is_null (EJson v) = False"

datatype EntityField = Column string | Flatten "EntityField list"

fun field_count :: "EntityField list \<Rightarrow> nat" where
  "field_count [] = 0"
| "field_count (Column c # fs) = 1 + field_count fs"
| "field_count (Flatten gs # fs) = field_count gs + field_count fs"

text \<open>\<^verbatim>\<open>collect\<close> writes the names from an offset on and returns the offset after them.\<close>

fun field_collect :: "EntityField list \<Rightarrow> string list \<Rightarrow> nat \<Rightarrow> string list \<times> nat" where
  "field_collect [] result offset = (result, offset)"
| "field_collect (Column c # fs) result offset = field_collect fs (result[offset := c]) (offset + 1)"
| "field_collect (Flatten gs # fs) result offset =
     (case field_collect gs result offset of (r, n) \<Rightarrow> field_collect fs r n)"

definition field_columns :: "nat \<Rightarrow> EntityField list \<Rightarrow> string list" where
  "field_columns n fields_of = fst (field_collect fields_of (replicate n []) 0)"

text \<open>The constants of an implementation of \<^verbatim>\<open>RepositoryEntity\<close>.\<close>

record RepositoryEntity =
  re_table :: string
  re_columns :: "string list"
  re_write_mode :: EntityWriteMode
  re_keys :: "string list"
  re_immutable :: "string list"
  re_revision :: "string option"

text \<open>A \<^verbatim>\<open>BTreeMap\<close>: sorted by column, each column once.\<close>

type_synonym 'd EntityValues = "(string \<times> 'd EntityValue) list"

section \<open>Queries\<close>

datatype EntityComparison = Equal | Less | LessOrEqual | Greater | GreaterOrEqual

fun EntityComparison_sql :: "EntityComparison \<Rightarrow> string" where
  "EntityComparison_sql Equal = '' = ''"
| "EntityComparison_sql Less = '' < ''"
| "EntityComparison_sql LessOrEqual = '' <= ''"
| "EntityComparison_sql Greater = '' > ''"
| "EntityComparison_sql GreaterOrEqual = '' >= ''"

record 'd EntityQuery =
  eq_predicates :: "(string \<times> EntityComparison \<times> 'd EntityValue) list"
  eq_order :: "(string \<times> bool) list"
  eq_range :: "(int \<times> int) option"

definition query_new :: "'d EntityQuery" where
  "query_new = \<lparr>eq_predicates = [], eq_order = [], eq_range = None\<rparr>"

definition query_compare :: "string \<Rightarrow> EntityComparison \<Rightarrow> 'd EntityValue \<Rightarrow> 'd EntityQuery \<Rightarrow> 'd EntityQuery" where
  "query_compare field comparison v q = q\<lparr>eq_predicates := eq_predicates q @ [(field, comparison, v)]\<rparr>"

definition query_eq :: "string \<Rightarrow> 'd EntityValue \<Rightarrow> 'd EntityQuery \<Rightarrow> 'd EntityQuery" where
  "query_eq field v q = query_compare field Equal v q"

definition query_order :: "string \<Rightarrow> bool \<Rightarrow> 'd EntityQuery \<Rightarrow> 'd EntityQuery" where
  "query_order field descending q = q\<lparr>eq_order := eq_order q @ [(field, descending)]\<rparr>"

definition query_limit :: "int \<Rightarrow> int \<Rightarrow> 'd EntityQuery \<Rightarrow> 'd EntityQuery" where
  "query_limit limit offset q = q\<lparr>eq_range := Some (limit, offset)\<rparr>"

text \<open>The bytes of an identifier, with their position.\<close>

definition identifier_byte :: "nat \<Rightarrow> char \<Rightarrow> bool" where
  "identifier_byte index b \<longleftrightarrow> is_ascii_lower b \<or> b = CHR ''_'' \<or> (index > 0 \<and> is_ascii_digit b)"

definition sql_identifier :: "string \<Rightarrow> bool" where
  "sql_identifier field \<longleftrightarrow>
     field \<noteq> [] \<and> list_all (\<lambda>(index, b). identifier_byte index b) (enumerate 0 field)"

definition validate_column :: "RepositoryEntity \<Rightarrow> string \<Rightarrow> unit result" where
  "validate_column E field =
     (if \<not> sql_identifier (re_table E) \<or> \<not> sql_identifier field \<or> field \<notin> set (re_columns E)
      then Inl (InvalidRequest ''unknown repository entity column'')
      else Inr ())"

definition query_validate :: "RepositoryEntity \<Rightarrow> 'd EntityQuery \<Rightarrow> unit result" where
  "query_validate E q =
     and_then (try_each (validate_column E) (map fst (eq_predicates q) @ map fst (eq_order q))) (\<lambda>_.
     if is_some_and (eq_range q) (\<lambda>(limit, offset). limit \<le> 0 \<or> offset < 0)
     then Inl (InvalidRequest ''invalid repository pagination'')
     else Inr ())"

section \<open>Keys\<close>

definition key_query :: "RepositoryEntity \<Rightarrow> 'd EntityValue list \<Rightarrow> 'd EntityQuery result" where
  "key_query E key =
     (if re_keys E = [] \<or> length key \<noteq> length (re_keys E) \<or> list_ex is_null key
      then Inl (InvalidRequest ''invalid entity identity'')
      else let q = fold (\<lambda>(name, v). query_eq name v) (zip (re_keys E) key) query_new in
      and_then (query_validate E q) (\<lambda>_. Inr q))"

definition key_of :: "RepositoryEntity \<Rightarrow> 'd EntityValues result \<Rightarrow> 'd EntityValue list result" where
  "key_of E values_of =
     and_then values_of (\<lambda>vs.
     and_then (try_fold (\<lambda>(rest, key) name.
         and_then (ok_or (map_of rest name) (InvalidRequest ''entity key is missing'')) (\<lambda>v.
         Inr (filter (\<lambda>(k, _). k \<noteq> name) rest, key @ [v]))) (vs, []) (re_keys E)) (\<lambda>(_, key).
     and_then (key_query E key) (\<lambda>_. Inr key)))"

section \<open>Prepared statements\<close>

datatype 'd sql_part = Sql string | Bind "'d EntityValue"

fun is_decimal :: "'d EntityValue \<Rightarrow> bool" where
  "is_decimal (EDecimal _) = True"
| "is_decimal _ = False"

definition predicate_parts :: "EntityComparison \<Rightarrow> 'd EntityValue \<Rightarrow> 'd sql_part list result" where
  "predicate_parts comparison v =
     (if is_null v then
        if comparison \<noteq> Equal then Inl (InvalidRequest ''NULL requires an equality predicate'')
        else Inr [Sql '' IS NULL'']
      else if is_decimal v \<and> comparison \<noteq> Equal
      then Inl (InvalidRequest ''ordered decimal predicates require a compatible SQL encoding'')
      else Inr [Sql (EntityComparison_sql comparison), Bind v])"

fun predicates_parts ::
  "nat \<Rightarrow> (string \<times> EntityComparison \<times> 'd EntityValue) list \<Rightarrow> 'd sql_part list result" where
  "predicates_parts index [] = Inr []"
| "predicates_parts index ((field, comparison, v) # ps) =
     and_then (predicate_parts comparison v) (\<lambda>parts.
     and_then (predicates_parts (index + 1) ps) (\<lambda>rest.
     Inr ([Sql (if index = 0 then '' WHERE '' else '' AND ''), Sql field] @ parts @ rest)))"

definition entity_predicates :: "RepositoryEntity \<Rightarrow> 'd EntityQuery \<Rightarrow> 'd sql_part list result" where
  "entity_predicates E q = and_then (query_validate E q) (\<lambda>_. predicates_parts 0 (eq_predicates q))"

fun order_parts :: "nat \<Rightarrow> (string \<times> bool) list \<Rightarrow> 'd sql_part list" where
  "order_parts index [] = []"
| "order_parts index ((column, descending) # os) =
     [Sql (if index = 0 then '' ORDER BY '' else '', ''), Sql column]
     @ (if descending then [Sql '' DESC''] else []) @ order_parts (index + 1) os"

definition range_parts :: "(int \<times> int) option \<Rightarrow> 'd sql_part list" where
  "range_parts window =
     (case window of
        None \<Rightarrow> []
      | Some (limit, offset) \<Rightarrow>
          [Sql '' LIMIT '', Bind (EInteger (Some limit)), Sql '' OFFSET '', Bind (EInteger (Some offset))])"

definition select_sql :: "RepositoryEntity \<Rightarrow> 'd EntityQuery \<Rightarrow> bool \<Rightarrow> 'd sql_part list result" where
  "select_sql E q counting =
     (if \<not> sql_identifier (re_table E) then Inl (Storage ''invalid entity table'')
      else and_then (entity_predicates E q) (\<lambda>parts.
      Inr ([Sql (if counting then ''SELECT count(*) FROM '' else ''SELECT * FROM ''), Sql (re_table E)] @ parts
        @ (if counting then [] else order_parts 0 (eq_order q) @ range_parts (eq_range q)))))"

text \<open>Parts with a separator pushed before all but the first.\<close>

fun separated :: "string \<Rightarrow> ('a \<Rightarrow> 'd sql_part list) \<Rightarrow> 'a list \<Rightarrow> 'd sql_part list" where
  "separated separator f [] = []"
| "separated separator f [x] = f x"
| "separated separator f (x # y # xs) = f x @ [Sql separator] @ separated separator f (y # xs)"

definition insert_sql :: "RepositoryEntity \<Rightarrow> 'd EntityValues result \<Rightarrow> bool \<Rightarrow> 'd sql_part list result" where
  "insert_sql E values_of ignore_conflict =
     (if re_write_mode E = ReadOnly
      then Inl (InvalidRequest ''entity writes require its aggregate transaction'')
      else and_then values_of (\<lambda>fs.
      if fs = [] then Inl (InvalidRequest ''empty repository entity'')
      else and_then (try_each (validate_column E) (map fst fs)) (\<lambda>_.
      Inr ([Sql ''INSERT INTO '', Sql (re_table E), Sql '' (''] @ separated '', '' (\<lambda>(field, _). [Sql field]) fs
        @ [Sql '') VALUES (''] @ separated '', '' (\<lambda>(_, v). [Bind v]) fs @ [Sql '')'']
        @ (if ignore_conflict then [Sql '' ON CONFLICT DO NOTHING''] else [])))))"

definition immutable_parts :: "RepositoryEntity \<Rightarrow> string \<Rightarrow> 'd sql_part list" where
  "immutable_parts E field =
     [Sql ''('', Sql (re_table E), Sql ''.'', Sql field, Sql '' = EXCLUDED.'', Sql field, Sql '' OR ('',
      Sql (re_table E), Sql ''.'', Sql field, Sql '' IS NULL AND EXCLUDED.'', Sql field, Sql '' IS NULL))'']"

definition upsert_update :: "RepositoryEntity \<Rightarrow> string list \<Rightarrow> string list \<Rightarrow> string \<Rightarrow> unit result" where
  "upsert_update E keys immutable field =
     and_then (validate_column E field) (\<lambda>_.
     if field \<in> set keys \<or> field \<in> set immutable
     then Inl (InvalidRequest ''upsert cannot mutate identity'')
     else Inr ())"

definition upsert_sql ::
  "RepositoryEntity \<Rightarrow> 'd EntityValues result \<Rightarrow> string list \<Rightarrow> string list \<Rightarrow> string list \<Rightarrow> string \<Rightarrow>
     'd sql_part list result" where
  "upsert_sql E values_of keys updates immutable revision =
     (if re_write_mode E \<noteq> EwCatalog then Inl (InvalidRequest ''entity does not allow generic mutation'')
      else if keys = [] \<or> updates = []
      then Inl (InvalidRequest ''upsert requires identity and update columns'')
      else and_then (insert_sql E values_of False) (\<lambda>ins.
      and_then (try_each (validate_column E) keys) (\<lambda>_.
      and_then (try_each (upsert_update E keys immutable) updates) (\<lambda>_.
      and_then (try_each (validate_column E) immutable) (\<lambda>_.
      and_then (if revision = [] then Inr () else validate_column E revision) (\<lambda>_.
      Inr (ins @ [Sql '' ON CONFLICT (''] @ separated '', '' (\<lambda>field. [Sql field]) keys @ [Sql '') DO UPDATE SET '']
        @ separated '', '' (\<lambda>field. [Sql field, Sql '' = EXCLUDED.'', Sql field]) updates
        @ (if immutable \<noteq> [] \<or> revision \<noteq> [] then [Sql '' WHERE ''] else [])
        @ separated '' AND '' (immutable_parts E) immutable
        @ (if revision = [] then []
           else (if immutable \<noteq> [] then [Sql '' AND ''] else [])
             @ [Sql ''EXCLUDED.'', Sql revision, Sql '' > '', Sql (re_table E), Sql ''.'', Sql revision]))))))))"

definition update_field :: "RepositoryEntity \<Rightarrow> string \<Rightarrow> unit result" where
  "update_field E field =
     and_then (validate_column E field) (\<lambda>_.
     if field \<in> set (re_keys E) \<or> field \<in> set (re_immutable E)
     then Inl (InvalidRequest ''entity identity is immutable'')
     else Inr ())"

definition update_sql :: "RepositoryEntity \<Rightarrow> 'd EntityValues \<Rightarrow> 'd EntityQuery \<Rightarrow> 'd sql_part list result" where
  "update_sql E changes q =
     (if re_write_mode E \<noteq> EwCatalog then Inl (InvalidRequest ''entity does not allow generic mutation'')
      else if changes = [] \<or> eq_predicates q = []
      then Inl (InvalidRequest ''entity update requires changes and predicates'')
      else and_then (try_each (update_field E) (map fst changes)) (\<lambda>_.
      and_then (entity_predicates E q) (\<lambda>parts.
      Inr ([Sql ''UPDATE '', Sql (re_table E), Sql '' SET '']
        @ separated '', '' (\<lambda>(field, v). [Sql field, Sql '' = '', Bind v]) changes @ parts))))"

definition delete_by_sql :: "RepositoryEntity \<Rightarrow> 'd EntityQuery \<Rightarrow> 'd sql_part list result" where
  "delete_by_sql E q =
     (if re_write_mode E \<noteq> EwCatalog then Inl (InvalidRequest ''entity does not allow generic mutation'')
      else if eq_predicates q = [] then Inl (InvalidRequest ''entity delete requires predicates'')
      else and_then (entity_predicates E q) (\<lambda>parts.
      Inr ([Sql ''DELETE FROM '', Sql (re_table E)] @ parts)))"

section \<open>Reads and writes of the catalogue repositories\<close>

text \<open>
  What the statements do to a table: \<^verbatim>\<open>hit\<close> is the predicate of the query, \<^verbatim>\<open>check\<close> and
  \<^verbatim>\<open>clash\<close> are the constraints of the table.
\<close>

type_synonym u64 = "64 word"

record PageRequest =
  pg_offset :: u64
  pg_limit :: u32

record 'a Page =
  pg_items :: "'a list"
  pg_total :: nat

definition page_bounds :: "PageRequest \<Rightarrow> (int \<times> int) result" where
  "page_bounds p =
     (if uint (pg_offset p) > 9223372036854775807 then Inl (Storage ''SQLite page offset is too large'')
      else Inr (uint (pg_limit p), uint (pg_offset p)))"

definition entity_page :: "PageRequest \<Rightarrow> 'a list \<Rightarrow> 'a Page result" where
  "entity_page p ordered =
     and_then (page_bounds p) (\<lambda>(limit, offset).
     if limit \<le> 0 \<or> offset < 0 then Inl (InvalidRequest ''invalid repository pagination'')
     else Inr \<lparr>pg_items = take (nat limit) (drop (nat offset) ordered), pg_total = length ordered\<rparr>)"

definition entity_unique :: "'a list \<Rightarrow> 'a option result" where
  "entity_unique rows =
     (case take 2 rows of
        [] \<Rightarrow> Inr None
      | [r] \<Rightarrow> Inr (Some r)
      | _ \<Rightarrow> Inl (Storage ''multiple entities match a unique lookup''))"

definition entity_insert_returning ::
  "('r \<Rightarrow> bool) \<Rightarrow> ('r \<Rightarrow> 'r \<Rightarrow> bool) \<Rightarrow> 'r \<Rightarrow> 'r list \<Rightarrow> 'r list result" where
  "entity_insert_returning check clash r rows =
     (if check r \<and> \<not> list_ex (\<lambda>q. clash q r) rows then Inr (rows @ [r])
      else Inl (StorageConflict ''entity insert rejected''))"

definition entity_update_returning ::
  "('r \<Rightarrow> bool) \<Rightarrow> ('r \<Rightarrow> bool) \<Rightarrow> ('r \<Rightarrow> 'r) \<Rightarrow> 'r list \<Rightarrow> ('r option \<times> 'r list) result" where
  "entity_update_returning check hit change rows =
     (if list_ex (\<lambda>r. hit r \<and> \<not> check (change r)) rows then Inl (Storage ''update entity'')
      else Inr (map_option change (find hit rows), update_where hit change rows))"

text \<open>
  \<^verbatim>\<open>INSERT ... ON CONFLICT (keys) DO NOTHING\<close>: the row constraints are checked first, then the
  key, and a reference only of a row that is really inserted.
\<close>

definition entity_register ::
  "('r \<Rightarrow> bool) \<Rightarrow> ('r \<Rightarrow> bool) \<Rightarrow> ('r \<Rightarrow> 'k) \<Rightarrow> 'r \<Rightarrow> 'r list \<Rightarrow> ('r IdempotentWrite \<times> 'r list) result" where
  "entity_register check fk key r rows =
     (if \<not> check r then Inl (StorageConflict ''entity registration rejected'')
      else case find (\<lambda>q. key q = key r) rows of
        Some existing \<Rightarrow>
          if existing \<noteq> r
          then Inl (StorageConflict ''entity registration identity is bound to different content'')
          else Inr (ReplayOf existing, rows)
      | None \<Rightarrow>
          if fk r then Inr (Inserted r, rows @ [r])
          else Inl (StorageConflict ''entity registration rejected''))"

section \<open>Columns of an entity\<close>

fun column_names :: "EntityField list \<Rightarrow> string list" where
  "column_names [] = []"
| "column_names (Column c # fs) = c # column_names fs"
| "column_names (Flatten gs # fs) = column_names gs @ column_names fs"

lemma length_column_names [simp]: "length (column_names fs) = field_count fs"
  by (induction fs rule: field_count.induct) simp_all

lemma field_collect_columns:
  "offset + field_count fs \<le> length result \<Longrightarrow>
     field_collect fs result offset
       = (take offset result @ column_names fs @ drop (offset + field_count fs) result, offset + field_count fs)"
proof (induction fs arbitrary: result offset rule: field_count.induct)
  case (2 c fs)
  then have "offset < length result" by simp
  then have "take (Suc offset) (result[offset := c]) = take offset result @ [c]"
    by (simp add: take_Suc_conv_app_nth)
  with 2 show ?case by simp
next
  case (3 gs fs)
  then show ?case by (simp add: add_ac)
qed simp

lemma field_columns_names: "field_columns (field_count fs) fs = column_names fs"
  by (simp add: field_columns_def field_collect_columns)

section \<open>Where the text of a statement comes from\<close>

definition sql_fixed :: "string list" where
  "sql_fixed =
     ['' = '', '' < '', '' <= '', '' > '', '' >= '', '' IS NULL'', '' WHERE '', '' AND '', '' ORDER BY '', '', '',
      '' DESC'', '' LIMIT '', '' OFFSET '', ''SELECT count(*) FROM '', ''SELECT * FROM '', ''INSERT INTO '', '' ('',
      '') VALUES ('', '')'', '' ON CONFLICT DO NOTHING'', '' ON CONFLICT ('', '') DO UPDATE SET '', '' = EXCLUDED.'',
      ''('', ''.'', '' OR ('', '' IS NULL AND EXCLUDED.'', '' IS NULL))'', ''EXCLUDED.'', ''UPDATE '', '' SET '',
      ''DELETE FROM '']"

definition sql_name :: "RepositoryEntity \<Rightarrow> string \<Rightarrow> bool" where
  "sql_name E x \<longleftrightarrow> sql_identifier x \<and> (x = re_table E \<or> x \<in> set (re_columns E))"

definition sql_safe :: "RepositoryEntity \<Rightarrow> 'd sql_part list \<Rightarrow> bool" where
  "sql_safe E parts \<longleftrightarrow> (\<forall>x. Sql x \<in> set parts \<longrightarrow> x \<in> set sql_fixed \<or> sql_name E x)"

fun bound :: "'d sql_part list \<Rightarrow> 'd EntityValue list" where
  "bound [] = []"
| "bound (Sql _ # ps) = bound ps"
| "bound (Bind v # ps) = v # bound ps"

lemma sql_fixed_mem [simp]:
  "'' = '' \<in> set sql_fixed" "'' < '' \<in> set sql_fixed" "'' <= '' \<in> set sql_fixed" "'' > '' \<in> set sql_fixed"
  "'' >= '' \<in> set sql_fixed" "'' IS NULL'' \<in> set sql_fixed" "'' WHERE '' \<in> set sql_fixed" "'' AND '' \<in> set sql_fixed"
  "'' ORDER BY '' \<in> set sql_fixed" "'', '' \<in> set sql_fixed" "'' DESC'' \<in> set sql_fixed" "'' LIMIT '' \<in> set sql_fixed"
  "'' OFFSET '' \<in> set sql_fixed" "''SELECT count(*) FROM '' \<in> set sql_fixed" "''SELECT * FROM '' \<in> set sql_fixed" "''INSERT INTO '' \<in> set sql_fixed"
  "'' ('' \<in> set sql_fixed" "'') VALUES ('' \<in> set sql_fixed" "'')'' \<in> set sql_fixed" "'' ON CONFLICT DO NOTHING'' \<in> set sql_fixed"
  "'' ON CONFLICT ('' \<in> set sql_fixed" "'') DO UPDATE SET '' \<in> set sql_fixed" "'' = EXCLUDED.'' \<in> set sql_fixed" "''('' \<in> set sql_fixed"
  "''.'' \<in> set sql_fixed" "'' OR ('' \<in> set sql_fixed" "'' IS NULL AND EXCLUDED.'' \<in> set sql_fixed" "'' IS NULL))'' \<in> set sql_fixed"
  "''EXCLUDED.'' \<in> set sql_fixed" "''UPDATE '' \<in> set sql_fixed" "'' SET '' \<in> set sql_fixed" "''DELETE FROM '' \<in> set sql_fixed"
  by (simp_all add: sql_fixed_def)

lemma sql_safe_simps [simp]:
  "sql_safe E []" "sql_safe E (Bind v # ps) = sql_safe E ps"
  "sql_safe E (Sql x # ps) \<longleftrightarrow> (x \<in> set sql_fixed \<or> sql_name E x) \<and> sql_safe E ps"
  "sql_safe E (ps @ qs) \<longleftrightarrow> sql_safe E ps \<and> sql_safe E qs"
  by (auto simp: sql_safe_def)

lemma bound_append [simp]: "bound (ps @ qs) = bound ps @ bound qs"
  by (induction ps rule: bound.induct) simp_all

lemma sql_safe_separated:
  "x \<in> set sql_fixed \<Longrightarrow> (\<And>a. a \<in> set as \<Longrightarrow> sql_safe E (f a)) \<Longrightarrow> sql_safe E (separated x f as)"
  by (induction x f as rule: separated.induct) simp_all

lemma bound_separated: "bound (separated x f as) = concat (map (\<lambda>a. bound (f a)) as)"
  by (induction x f as rule: separated.induct) simp_all

lemma validate_column_ok: "validate_column E c = Inr () \<longleftrightarrow> sql_identifier (re_table E) \<and> sql_identifier c \<and> c \<in> set (re_columns E)"
  by (simp add: validate_column_def)

lemma column_name: "validate_column E c = Inr () \<Longrightarrow> sql_name E c \<and> sql_name E (re_table E)"
  by (simp add: validate_column_ok sql_name_def)

lemma validate_columns:
  "try_each (validate_column E) cs = Inr () \<Longrightarrow> c \<in> set cs \<Longrightarrow> sql_name E c \<and> sql_name E (re_table E)"
  using column_name by (auto simp: try_each_ok is_ok_iff)

lemma predicate_parts_safe:
  "predicate_parts c v = Inr ps \<Longrightarrow> sql_safe E ps \<and> bound ps = (if is_null v then [] else [v])"
  by (cases c) (auto simp: predicate_parts_def split: if_splits)

lemma predicates_parts_safe:
  assumes "predicates_parts n qs = Inr ps" "\<And>q. q \<in> set qs \<Longrightarrow> sql_name E (fst q)"
  shows "sql_safe E ps" "bound ps = filter (\<lambda>v. \<not> is_null v) (map (\<lambda>q. snd (snd q)) qs)"
    "qs \<noteq> [] \<Longrightarrow> n = 0 \<Longrightarrow> Sql '' WHERE '' \<in> set ps"
proof -
  have "sql_safe E ps \<and> bound ps = filter (\<lambda>v. \<not> is_null v) (map (\<lambda>q. snd (snd q)) qs)
      \<and> (qs \<noteq> [] \<longrightarrow> n = 0 \<longrightarrow> Sql '' WHERE '' \<in> set ps)"
    using assms
  proof (induction n qs arbitrary: ps rule: predicates_parts.induct)
    case (2 n f c v qs)
    then obtain as bs where "predicate_parts c v = Inr as" "predicates_parts (n + 1) qs = Inr bs"
      and ps: "ps = [Sql (if n = 0 then '' WHERE '' else '' AND ''), Sql f] @ as @ bs"
      by (auto simp: result_simps)
    moreover have "sql_name E f" using "2.prems"(2) [of "(f, c, v)"] by simp
    ultimately show ?case
      using "2.IH" "2.prems"(2) predicate_parts_safe [of c v as E] by auto
  qed simp
  then show "sql_safe E ps" "bound ps = filter (\<lambda>v. \<not> is_null v) (map (\<lambda>q. snd (snd q)) qs)"
    "qs \<noteq> [] \<Longrightarrow> n = 0 \<Longrightarrow> Sql '' WHERE '' \<in> set ps" by auto
qed

lemma query_validate_names:
  assumes "query_validate E q = Inr ()"
  shows "\<And>p. p \<in> set (eq_predicates q) \<Longrightarrow> sql_name E (fst p)"
    "\<And>p. p \<in> set (eq_order q) \<Longrightarrow> sql_name E (fst p)"
    "eq_predicates q \<noteq> [] \<Longrightarrow> sql_name E (re_table E)"
    "\<And>l n. eq_range q = Some (l, n) \<Longrightarrow> 0 < l \<and> 0 \<le> n"
proof -
  have cols: "try_each (validate_column E) (map fst (eq_predicates q) @ map fst (eq_order q)) = Inr ()"
    and window: "\<not> is_some_and (eq_range q) (\<lambda>(limit, offset). limit \<le> 0 \<or> offset < 0)"
    using assms by (auto simp: query_validate_def and_then_ok split: if_splits)
  note names = validate_columns [OF cols]
  show "sql_name E (fst p)" if "p \<in> set (eq_predicates q)" for p using names [of "fst p"] that by simp
  show "sql_name E (fst p)" if "p \<in> set (eq_order q)" for p using names [of "fst p"] that by simp
  show "sql_name E (re_table E)" if "eq_predicates q \<noteq> []"
    using names [of "fst (hd (eq_predicates q))"] that by simp
  show "0 < l \<and> 0 \<le> n" if "eq_range q = Some (l, n)" for l n using window that by simp
qed

lemma entity_predicates_safe:
  assumes "entity_predicates E q = Inr ps"
  shows "sql_safe E ps" "bound ps = filter (\<lambda>v. \<not> is_null v) (map (\<lambda>p. snd (snd p)) (eq_predicates q))"
    "eq_predicates q \<noteq> [] \<Longrightarrow> Sql '' WHERE '' \<in> set ps \<and> sql_name E (re_table E)"
    "query_validate E q = Inr ()"
proof -
  have q: "query_validate E q = Inr ()" and ps: "predicates_parts 0 (eq_predicates q) = Inr ps"
    using assms by (auto simp: entity_predicates_def and_then_ok)
  note safe = predicates_parts_safe [OF ps query_validate_names(1) [OF q]]
  show "sql_safe E ps" "bound ps = filter (\<lambda>v. \<not> is_null v) (map (\<lambda>p. snd (snd p)) (eq_predicates q))"
    "query_validate E q = Inr ()"
    using safe q by auto
  show "Sql '' WHERE '' \<in> set ps \<and> sql_name E (re_table E)" if "eq_predicates q \<noteq> []"
    using safe(3) query_validate_names(3) [OF q] that by simp
qed

lemma order_parts_safe:
  "\<forall>p \<in> set os. sql_name E (fst p) \<Longrightarrow> sql_safe E (order_parts n os)"
  by (induction n os rule: order_parts.induct) auto

lemma order_parts_bound [simp]: "bound (order_parts n os) = []"
  by (induction n os rule: order_parts.induct) auto

lemma range_parts_safe [simp]:
  "sql_safe E (range_parts w)"
  "bound (range_parts w) = (case w of None \<Rightarrow> [] | Some (l, n) \<Rightarrow> [EInteger (Some l), EInteger (Some n)])"
  by (auto simp: range_parts_def split: option.splits)

lemma select_sql_safe:
  assumes "select_sql E q c = Inr ps"
  shows "sql_safe E ps"
    "bound ps = filter (\<lambda>v. \<not> is_null v) (map (\<lambda>p. snd (snd p)) (eq_predicates q))
       @ (if c then [] else bound (range_parts (eq_range q)))"
proof -
  from assms obtain as where table: "sql_identifier (re_table E)" and as: "entity_predicates E q = Inr as"
    and ps: "ps = [Sql (if c then ''SELECT count(*) FROM '' else ''SELECT * FROM ''), Sql (re_table E)] @ as
        @ (if c then [] else order_parts 0 (eq_order q) @ range_parts (eq_range q))"
    by (auto simp: select_sql_def result_simps split: if_splits)
  note safe = entity_predicates_safe [OF as]
  show "sql_safe E ps"
    using table safe(1) query_validate_names(2) [OF safe(4)] by (simp add: ps sql_name_def order_parts_safe)
  show "bound ps = filter (\<lambda>v. \<not> is_null v) (map (\<lambda>p. snd (snd p)) (eq_predicates q))
       @ (if c then [] else bound (range_parts (eq_range q)))"
    by (simp add: ps safe(2))
qed

lemma insert_sql_safe:
  assumes "insert_sql E vs c = Inr ps"
  shows "sql_safe E ps \<and> sql_name E (re_table E) \<and> (\<exists>fs. vs = Inr fs \<and> fs \<noteq> [] \<and> bound ps = map snd fs)"
proof -
  from assms obtain fs where fs: "vs = Inr fs" "fs \<noteq> []" "try_each (validate_column E) (map fst fs) = Inr ()"
    and ps: "ps = [Sql ''INSERT INTO '', Sql (re_table E), Sql '' (''] @ separated '', '' (\<lambda>(field, _). [Sql field]) fs
        @ [Sql '') VALUES (''] @ separated '', '' (\<lambda>(_, v). [Bind v]) fs @ [Sql '')'']
        @ (if c then [Sql '' ON CONFLICT DO NOTHING''] else [])"
    by (auto simp: insert_sql_def and_then_ok split: if_splits)
  have names: "sql_name E (fst f)" "sql_name E (re_table E)" if "f \<in> set fs" for f
    using validate_columns [OF fs(3), of "fst f"] that by auto
  have table: "sql_name E (re_table E)" using names(2) [of "hd fs"] fs(2) by simp
  moreover have "sql_safe E (separated '', '' (\<lambda>(field, _). [Sql field]) fs)"
    "sql_safe E (separated '', '' (\<lambda>(_, v). [Bind v]) fs)"
    by (rule sql_safe_separated; use names in auto)+
  moreover have "bound (separated '', '' (\<lambda>(field, _). [Sql field]) fs) = []"
    "bound (separated '', '' (\<lambda>(_, v). [Bind v]) fs) = map snd fs"
    by (induction fs) (auto simp: bound_separated)
  ultimately show ?thesis using fs by (auto simp: ps)
qed

lemma update_sql_safe:
  assumes "update_sql E cs q = Inr ps"
  shows "sql_safe E ps" "Sql '' WHERE '' \<in> set ps"
    "bound ps = map snd cs @ filter (\<lambda>v. \<not> is_null v) (map (\<lambda>p. snd (snd p)) (eq_predicates q))"
    "\<And>c. c \<in> fst ` set cs \<Longrightarrow> c \<in> set (re_columns E) \<and> c \<notin> set (re_keys E) \<and> c \<notin> set (re_immutable E)"
proof -
  from assms obtain as where cs: "cs \<noteq> []" "eq_predicates q \<noteq> []" "try_each (update_field E) (map fst cs) = Inr ()"
    and as: "entity_predicates E q = Inr as"
    and ps: "ps = [Sql ''UPDATE '', Sql (re_table E), Sql '' SET '']
        @ separated '', '' (\<lambda>(field, v). [Sql field, Sql '' = '', Bind v]) cs @ as"
    by (auto simp: update_sql_def and_then_ok split: if_splits)
  note safe = entity_predicates_safe [OF as]
  have each: "sql_name E c \<and> c \<in> set (re_columns E) \<and> c \<notin> set (re_keys E) \<and> c \<notin> set (re_immutable E)"
    if "c \<in> fst ` set cs" for c
    using cs(3) that by (auto simp: try_each_ok is_ok_iff update_field_def and_then_ok validate_column_ok sql_name_def split: if_splits)
  then show "\<And>c. c \<in> fst ` set cs \<Longrightarrow> c \<in> set (re_columns E) \<and> c \<notin> set (re_keys E) \<and> c \<notin> set (re_immutable E)" by blast
  have "sql_safe E (separated '', '' (\<lambda>(field, v). [Sql field, Sql '' = '', Bind v]) cs)"
    by (rule sql_safe_separated) (use each in force)+
  then show "sql_safe E ps" using safe(1,3) cs(2) by (simp add: ps)
  show "Sql '' WHERE '' \<in> set ps" using safe(3) cs(2) by (simp add: ps)
  have "bound (separated '', '' (\<lambda>(field, v). [Sql field, Sql '' = '', Bind v]) cs) = map snd cs"
    by (induction cs) (auto simp: bound_separated)
  then show "bound ps = map snd cs @ filter (\<lambda>v. \<not> is_null v) (map (\<lambda>p. snd (snd p)) (eq_predicates q))"
    by (simp add: ps safe(2))
qed

lemma delete_by_sql_safe:
  assumes "delete_by_sql E q = Inr ps"
  shows "sql_safe E ps" "Sql '' WHERE '' \<in> set ps"
    "bound ps = filter (\<lambda>v. \<not> is_null v) (map (\<lambda>p. snd (snd p)) (eq_predicates q))"
proof -
  from assms obtain as where ne: "eq_predicates q \<noteq> []" and as: "entity_predicates E q = Inr as"
    and ps: "ps = [Sql ''DELETE FROM '', Sql (re_table E)] @ as"
    by (auto simp: delete_by_sql_def and_then_ok split: if_splits)
  from entity_predicates_safe [OF as] ne show "sql_safe E ps" "Sql '' WHERE '' \<in> set ps"
    "bound ps = filter (\<lambda>v. \<not> is_null v) (map (\<lambda>p. snd (snd p)) (eq_predicates q))"
    by (simp_all add: ps)
qed

lemma upsert_sql_safe:
  fixes ps :: "'d sql_part list"
  assumes "upsert_sql E vs ks us im rev_col = Inr ps"
  shows "sql_safe E ps" "\<exists>fs. vs = Inr fs \<and> bound ps = map snd fs" "set us \<inter> (set ks \<union> set im) = {}"
proof -
  from assms obtain ins where ins: "insert_sql E vs False = Inr ins"
    and ks: "try_each (validate_column E) ks = Inr ()" and us: "try_each (upsert_update E ks im) us = Inr ()"
    and im: "try_each (validate_column E) im = Inr ()"
    and rv: "(if rev_col = [] then Inr () else validate_column E rev_col) = Inr ()"
    and ps: "ps = ins @ [Sql '' ON CONFLICT (''] @ separated '', '' (\<lambda>field. [Sql field]) ks @ [Sql '') DO UPDATE SET '']
        @ separated '', '' (\<lambda>field. [Sql field, Sql '' = EXCLUDED.'', Sql field]) us
        @ (if im \<noteq> [] \<or> rev_col \<noteq> [] then [Sql '' WHERE ''] else [])
        @ separated '' AND '' (immutable_parts E) im
        @ (if rev_col = [] then []
           else (if im \<noteq> [] then [Sql '' AND ''] else [])
             @ [Sql ''EXCLUDED.'', Sql rev_col, Sql '' > '', Sql (re_table E), Sql ''.'', Sql rev_col])"
    by (auto simp: upsert_sql_def and_then_ok split: if_splits)
  note ins_safe = insert_sql_safe [OF ins]
  have each: "sql_name E u" "u \<notin> set ks" "u \<notin> set im" if "u \<in> set us" for u
    using us that by (auto simp: try_each_ok is_ok_iff upsert_update_def and_then_ok validate_column_ok sql_name_def split: if_splits)
  show "set us \<inter> (set ks \<union> set im) = {}" using each by blast
  have table: "sql_name E (re_table E)" using ins_safe by blast
  have "sql_safe E (separated '', '' (\<lambda>field. [Sql field]) ks :: 'd sql_part list)"
    by (rule sql_safe_separated) (use validate_columns [OF ks] in auto)
  moreover have "sql_safe E (separated '', '' (\<lambda>field. [Sql field, Sql '' = EXCLUDED.'', Sql field]) us :: 'd sql_part list)"
    by (rule sql_safe_separated) (use each in auto)
  moreover have "sql_safe E (separated '' AND '' (immutable_parts E) im :: 'd sql_part list)"
    by (rule sql_safe_separated) (use validate_columns [OF im] table in \<open>auto simp: immutable_parts_def\<close>)
  moreover have "rev_col \<noteq> [] \<Longrightarrow> sql_name E rev_col" using rv column_name by auto
  ultimately show "sql_safe E ps" using ins_safe by (simp add: ps)
  have "bound (immutable_parts E c :: 'd sql_part list) = []" for c by (simp add: immutable_parts_def)
  then show "\<exists>fs. vs = Inr fs \<and> bound ps = map snd fs"
    using ins_safe by (auto simp: ps bound_separated)
qed

section \<open>Identifiers\<close>

text \<open>No byte of an identifier can end or quote a token of SQL.\<close>

lemma sql_identifier_chars:
  assumes "sql_identifier x" "b \<in> set x"
  shows "is_ascii_lower b \<or> b = CHR ''_'' \<or> is_ascii_digit b"
proof -
  from assms(2) obtain n where "n < length x" "x ! n = b" by (auto simp: in_set_conv_nth)
  then have "(n, b) \<in> set (enumerate 0 x)" by (auto simp: in_set_enumerate_eq)
  then show ?thesis using assms(1) by (auto simp: sql_identifier_def identifier_byte_def list_all_iff)
qed

section \<open>Pages\<close>

lemma entity_page_ok:
  "entity_page p rows = Inr g \<longleftrightarrow>
     uint (pg_offset p) \<le> 9223372036854775807 \<and> pg_limit p \<noteq> 0
     \<and> g = \<lparr>pg_items = take (unat (pg_limit p)) (drop (unat (pg_offset p)) rows), pg_total = length rows\<rparr>"
proof -
  have "uint (pg_limit p) \<le> 0 \<longleftrightarrow> pg_limit p = 0" by (simp add: uint_le_0_iff uint_0_iff)
  then show ?thesis
    by (auto simp: entity_page_def page_bounds_def and_then_ok nat_uint_eq)
qed

text \<open>Reading page after page, from the start until the total is reached, reads every row once.\<close>

lemma take_drop_pages:
  "0 < n \<Longrightarrow> concat (map (\<lambda>k. take n (drop (k * n) xs)) [0..<m]) = take (m * n) xs"
proof (induction m)
  case (Suc m)
  then show ?case by (simp add: take_add add.commute [of n])
qed simp

lemma entity_pages_complete:
  assumes "0 < n" "length rows \<le> m * n"
    and "\<And>k. k < m \<Longrightarrow> entity_page (page k) rows = Inr (result k)"
    and "\<And>k. k < m \<Longrightarrow> unat (pg_offset (page k)) = k * n \<and> unat (pg_limit (page k)) = n"
  shows "concat (map (\<lambda>k. pg_items (result k)) [0..<m]) = rows"
proof -
  have "pg_items (result k) = take n (drop (k * n) rows)" if "k < m" for k
    using assms(3) [OF that] assms(4) [OF that] by (simp add: entity_page_ok)
  then have "concat (map (\<lambda>k. pg_items (result k)) [0..<m]) = concat (map (\<lambda>k. take n (drop (k * n) rows)) [0..<m])"
    by (intro arg_cong [of _ _ concat] map_cong) auto
  with take_drop_pages [OF assms(1), of rows m] assms(2) show ?thesis by simp
qed

end
