(* ===== verification/Catalog_Store.thy ===== *)
theory Catalog_Store
  imports Payment_Steps Entity_Query
begin

text \<open>
  The catalogue repositories (\<^verbatim>\<open>storage/{client,scenario,approver,price}/sqlite.rs\<close> and the entity
  queries of \<^verbatim>\<open>storage/query.rs\<close> they use): registering clients and scenarios, enabling and
  disabling them, authorizing approvers, and maintaining prices. The lemmas show that the keys of each
  table stay unique, that a price is resolved by at most one row, and that no operation of the catalogue
  breaks a reference of a stored intent.
\<close>

section \<open>Constraints\<close>

definition pay_client_check :: "PaymentClient \<Rightarrow> bool" where
  "pay_client_check c \<longleftrightarrow>
     \<not> sql_blank (cl_id c) \<and> \<not> sql_blank (cl_name c) \<and> \<not> sql_blank (cl_auth_principal c)
     \<and> 0 \<le> cl_created_at c \<and> cl_created_at c \<le> cl_updated_at c"

definition pay_client_clash :: "PaymentClient \<Rightarrow> PaymentClient \<Rightarrow> bool" where
  "pay_client_clash c d \<longleftrightarrow> cl_id c = cl_id d \<or> cl_auth_principal c = cl_auth_principal d"

definition pay_scenario_check :: "PaymentScenario \<Rightarrow> bool" where
  "pay_scenario_check sc \<longleftrightarrow>
     \<not> sql_blank (sc_id sc) \<and> \<not> sql_blank (sc_name sc)
     \<and> 0 \<le> sc_created_at sc \<and> sc_created_at sc \<le> sc_updated_at sc"

definition pay_scenario_fk :: "db \<Rightarrow> PaymentScenario \<Rightarrow> bool" where
  "pay_scenario_fk s sc \<longleftrightarrow> list_ex (\<lambda>c. cl_id c = sc_client_id sc) (pay_client s)"

definition pay_scenario_approver_check :: "PaymentScenarioApprover \<Rightarrow> bool" where
  "pay_scenario_approver_check a \<longleftrightarrow>
     \<not> sql_blank (sa_auth_principal a) \<and> 0 \<le> sa_created_at a \<and> sa_created_at a \<le> sa_updated_at a"

definition pay_price_check :: "PaymentPrice \<Rightarrow> bool" where
  "pay_price_check p \<longleftrightarrow>
     \<not> sql_blank (pr_id p) \<and> \<not> sql_blank (pr_resource p) \<and> pr_protocols p \<noteq> []
     \<and> \<not> sql_blank (ai_network (pr_asset p)) \<and> \<not> sql_blank (ai_asset (pr_asset p)) \<and> pr_amount p \<noteq> 0
     \<and> 0 \<le> pr_created_at p \<and> pr_created_at p \<le> pr_updated_at p
     \<and> sql_nonblank_opt (ai_token_contract (pr_asset p))"

definition pay_price_fk :: "db \<Rightarrow> PaymentPrice \<Rightarrow> bool" where
  "pay_price_fk s p \<longleftrightarrow>
     scenario_exists s (pr_scenario_id p)
     \<and> list_ex (\<lambda>q. pp_id q = pr_policy_id p \<and> pp_scenario_id q = pr_scenario_id p) (pay_policy s)
     \<and> list_ex (\<lambda>w. w_id (pw_wallet w) = pr_wallet_id p) (pay_wallet s)
     \<and> list_ex (\<lambda>m. pm_policy_id m = pr_policy_id p \<and> pm_wallet_id m = pr_wallet_id p) (pay_policy_wallet s)"

definition pay_price_clash :: "PaymentPrice \<Rightarrow> PaymentPrice \<Rightarrow> bool" where
  "pay_price_clash p q \<longleftrightarrow>
     pr_id p = pr_id q
     \<or> (pr_enabled p \<and> pr_enabled q \<and> pr_scenario_id p = pr_scenario_id q \<and> pr_resource p = pr_resource q)"

text \<open>
  The references of an intent to a price row, by its identifier and by its composite key;
  \<^verbatim>\<open>RESTRICT\<close> protects both.
\<close>

definition price_referenced :: "db \<Rightarrow> PaymentPrice \<Rightarrow> bool" where
  "price_referenced s p \<longleftrightarrow> list_ex (\<lambda>r. pi_price_id (ir_intent r) = Some (pr_id p)) (pay_intent s)"

definition price_key_referenced :: "db \<Rightarrow> PaymentPrice \<Rightarrow> bool" where
  "price_key_referenced s p \<longleftrightarrow>
     list_ex (\<lambda>r. pi_price_id (ir_intent r) = Some (pr_id p)
       \<and> pi_scenario_id (ir_intent r) = pr_scenario_id p
       \<and> pi_policy_id (ir_intent r) = Some (pr_policy_id p)
       \<and> pi_wallet_id (ir_intent r) = Some (pr_wallet_id p)) (pay_intent s)"

section \<open>Clients\<close>

definition client_insert :: "PaymentClient \<Rightarrow> PaymentClient step" where
  "client_insert c s =
     and_then (map_err (\<lambda>field. InvalidRequest (''invalid payment client '' @ field)) (PaymentClient_validate c)) (\<lambda>_.
     and_then (map_err domain_error
       (entity_insert_returning pay_client_check pay_client_clash c (pay_client s))) (\<lambda>rows.
     Inr (c, s\<lparr>pay_client := rows\<rparr>)))"

definition client_get :: "db \<Rightarrow> string \<Rightarrow> PaymentClient option" where
  "client_get s client_id = find (\<lambda>c. cl_id c = client_id) (pay_client s)"

definition find_by_principal :: "db \<Rightarrow> string \<Rightarrow> PaymentClient option" where
  "find_by_principal s who = find (\<lambda>c. cl_auth_principal c = who) (pay_client s)"

definition client_set_enabled :: "string \<Rightarrow> bool \<Rightarrow> int \<Rightarrow> PaymentClient step" where
  "client_set_enabled client_id enabled updated_at s =
     and_then (entity_update_returning pay_client_check
       (\<lambda>c. cl_id c = client_id \<and> cl_updated_at c \<le> updated_at)
       (\<lambda>c. c\<lparr>cl_enabled := enabled, cl_updated_at := updated_at\<rparr>) (pay_client s)) (\<lambda>(found, rows).
     and_then (ok_or found (conflict ''payment client was not found or update timestamp moved backwards'')) (\<lambda>c.
     Inr (c, s\<lparr>pay_client := rows\<rparr>)))"

definition client_list :: "db \<Rightarrow> PageRequest \<Rightarrow> PaymentClient Page result" where
  "client_list s page = entity_page page (sort_key (\<lambda>c. (cl_created_at c, cl_id c)) (pay_client s))"

section \<open>Scenarios\<close>

definition scenario_register :: "PaymentScenario \<Rightarrow> db \<Rightarrow> PaymentScenario IdempotentWrite result \<times> db" where
  "scenario_register sc = transaction (\<lambda>s.
     and_then (map_err (\<lambda>field. InvalidRequest (''invalid payment scenario '' @ field)) (PaymentScenario_validate sc)) (\<lambda>_.
     and_then (map_err domain_error
       (entity_register pay_scenario_check (pay_scenario_fk s) sc_id sc (pay_scenario s))) (\<lambda>(w, rows).
     Inr (w, s\<lparr>pay_scenario := rows\<rparr>))))"

record ScenarioConfiguration =
  cfg_scenario :: PaymentScenario
  cfg_policy :: PaymentPolicy

definition same_registration :: "PaymentScenario \<Rightarrow> PaymentScenario \<Rightarrow> bool" where
  "same_registration stored requested \<longleftrightarrow>
     sc_id stored = sc_id requested \<and> sc_client_id stored = sc_client_id requested
     \<and> sc_name stored = sc_name requested \<and> sc_enabled stored = sc_enabled requested"

definition same_policy_registration :: "PaymentPolicy \<Rightarrow> PaymentPolicy \<Rightarrow> bool" where
  "same_policy_registration stored requested \<longleftrightarrow>
     pp_id stored = pp_id requested \<and> pp_scenario_id stored = pp_scenario_id requested
     \<and> pp_wallet_ids stored = pp_wallet_ids requested \<and> pp_protocols stored = pp_protocols requested
     \<and> pp_networks stored = pp_networks requested \<and> pp_assets stored = pp_assets requested
     \<and> pp_budget_unit stored = pp_budget_unit requested
     \<and> pp_allowed_recipients stored = pp_allowed_recipients requested
     \<and> pp_allowed_origins stored = pp_allowed_origins requested
     \<and> pp_inbound_limits stored = pp_inbound_limits requested
     \<and> pp_outbound_limits stored = pp_outbound_limits requested \<and> pp_enabled stored = pp_enabled requested"

definition register_scenario_row :: "PaymentScenario \<Rightarrow> PaymentScenario option \<Rightarrow> PaymentScenario step" where
  "register_scenario_row sc existing s =
     (case existing of
        Some x \<Rightarrow> Inr (x, s)
      | None \<Rightarrow>
          if pay_scenario_check sc \<and> pay_scenario_fk s sc
          then Inr (sc, s\<lparr>pay_scenario := pay_scenario s @ [sc]\<rparr>)
          else Inl (conflict ''payment scenario insert rejected''))"

definition register_with_policy ::
  "PaymentScenario \<Rightarrow> PaymentPolicy \<Rightarrow> db \<Rightarrow> ScenarioConfiguration IdempotentWrite result \<times> db" where
  "register_with_policy sc p = transaction (\<lambda>s.
     and_then (map_err (\<lambda>field. InvalidRequest (''invalid payment scenario '' @ field)) (PaymentScenario_validate sc)) (\<lambda>_.
     and_then (validate_policy p) (\<lambda>_.
     if sc_id sc \<noteq> pp_scenario_id p \<or> sc_created_at sc \<noteq> pp_created_at p
     then Inl (InvalidRequest ''initial policy must belong to and be created with its scenario'')
     else let existing = find (\<lambda>x. sc_id x = sc_id sc) (pay_scenario s) in
     and_then (register_scenario_row sc existing s) (\<lambda>(registered, t).
     if \<not> same_registration registered sc
     then Inl (conflict ''scenario registration key is already bound to different content'')
     else case load_policy t (pp_id p) of
       Some stored \<Rightarrow>
         if \<not> same_policy_registration stored p
         then Inl (conflict ''initial payment policy is already bound to different content'')
         else Inr (ReplayOf \<lparr>cfg_scenario = registered, cfg_policy = stored\<rparr>, t)
     | None \<Rightarrow>
         if existing \<noteq> None
         then Inl (conflict ''scenario already exists without the requested atomic initial policy'')
         else and_then (insert_policy_aggregate p t) (\<lambda>u.
         Inr (Inserted \<lparr>cfg_scenario = registered, cfg_policy = p\<rparr>, u))))))"

definition scenario_get :: "db \<Rightarrow> string \<Rightarrow> PaymentScenario option" where
  "scenario_get s scenario_id = find (\<lambda>sc. sc_id sc = scenario_id) (pay_scenario s)"

definition scenario_get_for_client :: "db \<Rightarrow> string \<Rightarrow> string \<Rightarrow> PaymentScenario option" where
  "scenario_get_for_client s client_id scenario_id =
     find (\<lambda>sc. sc_client_id sc = client_id \<and> sc_id sc = scenario_id) (pay_scenario s)"

definition scenario_set_enabled :: "string \<Rightarrow> bool \<Rightarrow> int \<Rightarrow> PaymentScenario step" where
  "scenario_set_enabled scenario_id enabled updated_at s =
     and_then (entity_update_returning pay_scenario_check
       (\<lambda>sc. sc_id sc = scenario_id \<and> sc_updated_at sc \<le> updated_at)
       (\<lambda>sc. sc\<lparr>sc_enabled := enabled, sc_updated_at := updated_at\<rparr>) (pay_scenario s)) (\<lambda>(found, rows).
     and_then (ok_or found (conflict ''payment scenario was not found or update timestamp moved backwards'')) (\<lambda>sc.
     Inr (sc, s\<lparr>pay_scenario := rows\<rparr>)))"

definition list_for_client :: "db \<Rightarrow> string \<Rightarrow> PageRequest \<Rightarrow> PaymentScenario Page result" where
  "list_for_client s client_id page =
     entity_page page (sort_key (\<lambda>sc. (sc_created_at sc, sc_id sc))
       (filter (\<lambda>sc. sc_client_id sc = client_id) (pay_scenario s)))"

section \<open>Approvers\<close>

definition same_approver :: "PaymentScenarioApprover \<Rightarrow> PaymentScenarioApprover \<Rightarrow> bool" where
  "same_approver a b \<longleftrightarrow>
     sa_scenario_id a = sa_scenario_id b \<and> sa_auth_principal a = sa_auth_principal b"

definition approver_upsert :: "PaymentScenarioApprover \<Rightarrow> PaymentScenarioApprover step" where
  "approver_upsert a s =
     and_then (map_err (\<lambda>field. InvalidRequest (''invalid scenario approver '' @ field))
       (PaymentScenarioApprover_validate a)) (\<lambda>_.
     if \<not> pay_scenario_approver_check a then Inl (conflict ''scenario approver upsert rejected'')
     else case find (same_approver a) (pay_scenario_approver s) of
       None \<Rightarrow>
         if scenario_exists s (sa_scenario_id a)
         then Inr (a, s\<lparr>pay_scenario_approver := pay_scenario_approver s @ [a]\<rparr>)
         else Inl (conflict ''scenario approver upsert rejected'')
     | Some stored \<Rightarrow>
         if sa_created_at stored = sa_created_at a \<and> sa_updated_at stored < sa_updated_at a
         then let change = (\<lambda>b. b\<lparr>sa_enabled := sa_enabled a, sa_updated_at := sa_updated_at a\<rparr>) in
           Inr (change stored,
             s\<lparr>pay_scenario_approver := update_where (same_approver a) change (pay_scenario_approver s)\<rparr>)
         else Inl (conflict ''scenario approver identity or revision changed''))"

definition approver_get :: "db \<Rightarrow> string \<Rightarrow> string \<Rightarrow> PaymentScenarioApprover option" where
  "approver_get s scenario_id who =
     find (\<lambda>a. sa_scenario_id a = scenario_id \<and> sa_auth_principal a = who) (pay_scenario_approver s)"

definition is_authorized :: "db \<Rightarrow> string \<Rightarrow> string \<Rightarrow> bool" where
  "is_authorized s scenario_id who \<longleftrightarrow>
     list_ex (\<lambda>a. sa_scenario_id a = scenario_id \<and> sa_auth_principal a = who \<and> sa_enabled a
       \<and> list_ex (\<lambda>sc. sc_id sc = sa_scenario_id a \<and> sc_enabled sc
            \<and> list_ex (\<lambda>c. cl_id c = sc_client_id sc \<and> cl_enabled c) (pay_client s)) (pay_scenario s))
       (pay_scenario_approver s)"

definition approver_set_enabled :: "string \<Rightarrow> string \<Rightarrow> bool \<Rightarrow> int \<Rightarrow> PaymentScenarioApprover step" where
  "approver_set_enabled scenario_id who enabled updated_at s =
     and_then (entity_update_returning pay_scenario_approver_check
       (\<lambda>a. sa_scenario_id a = scenario_id \<and> sa_auth_principal a = who \<and> sa_updated_at a < updated_at)
       (\<lambda>a. a\<lparr>sa_enabled := enabled, sa_updated_at := updated_at\<rparr>) (pay_scenario_approver s)) (\<lambda>(found, rows).
     and_then (ok_or found (conflict ''scenario approver was not found or revision did not advance'')) (\<lambda>a.
     Inr (a, s\<lparr>pay_scenario_approver := rows\<rparr>)))"

definition approvers_for_scenario :: "db \<Rightarrow> string \<Rightarrow> PageRequest \<Rightarrow> PaymentScenarioApprover Page result" where
  "approvers_for_scenario s scenario_id page =
     entity_page page (sort_key (\<lambda>a. (sa_created_at a, sa_auth_principal a))
       (filter (\<lambda>a. sa_scenario_id a = scenario_id) (pay_scenario_approver s)))"

section \<open>Prices\<close>

definition validate_price :: "PaymentPrice \<Rightarrow> unit result" where
  "validate_price p =
     map_err (\<lambda>field. InvalidRequest (''invalid payment price '' @ field)) (PaymentPrice_validate p)"

definition validate_price_authority :: "PaymentPrice \<Rightarrow> db \<Rightarrow> unit result" where
  "validate_price_authority p s =
     (if find_wallet s (pr_wallet_id p) = None then Inl (NotFound (''payment wallet '' @ pr_wallet_id p))
      else and_then (ok_or (load_policy s (pr_policy_id p)) (NotFound (''payment policy '' @ pr_policy_id p))) (\<lambda>q.
      and_then (ok_or (pp_inbound_limits q) (conflict ''price policy does not authorize inbound payments'')) (\<lambda>inbound.
      if pp_scenario_id q \<noteq> pr_scenario_id p
         \<or> pr_wallet_id p \<notin> set (pp_wallet_ids q)
         \<or> \<not> BudgetUnit_matches (pp_budget_unit q) (pr_asset p)
         \<or> ai_network (pr_asset p) \<notin> set (pp_networks q)
         \<or> pr_asset p \<notin> set (pp_assets q)
         \<or> pr_amount p > pl_max_per_payment inbound
         \<or> list_ex (\<lambda>protocol. protocol \<notin> set (pp_protocols q)) (pr_protocols p)
      then Inl (conflict ''price exceeds or falls outside its inbound policy scope'')
      else Inr ())))"

definition price_insert :: "PaymentPrice \<Rightarrow> db \<Rightarrow> PaymentPrice result \<times> db" where
  "price_insert p = transaction (\<lambda>s.
     and_then (validate_price p) (\<lambda>_.
     and_then (validate_price_authority p s) (\<lambda>_.
     if pay_price_check p \<and> pay_price_fk s p \<and> \<not> list_ex (\<lambda>q. pay_price_clash q p) (pay_price s)
     then Inr (p, s\<lparr>pay_price := pay_price s @ [p]\<rparr>)
     else Inl (conflict ''payment price insert rejected''))))"

text \<open>The columns that an update writes: all but the identity.\<close>

definition replace_price :: "PaymentPrice \<Rightarrow> PaymentPrice \<Rightarrow> PaymentPrice" where
  "replace_price p q = q\<lparr>pr_resource := pr_resource p, pr_protocols := pr_protocols p, pr_asset := pr_asset p,
     pr_amount := pr_amount p, pr_wallet_id := pr_wallet_id p, pr_enabled := pr_enabled p,
     pr_updated_at := pr_updated_at p\<rparr>"

definition price_hit :: "PaymentPrice \<Rightarrow> int \<Rightarrow> PaymentPrice \<Rightarrow> bool" where
  "price_hit p expected_updated_at q \<longleftrightarrow>
     pr_id q = pr_id p \<and> pr_scenario_id q = pr_scenario_id p \<and> pr_policy_id q = pr_policy_id p
     \<and> pr_created_at q = pr_created_at p \<and> pr_updated_at q = expected_updated_at"

definition price_update :: "PaymentPrice \<Rightarrow> int \<Rightarrow> db \<Rightarrow> PaymentPrice result \<times> db" where
  "price_update p expected_updated_at = transaction (\<lambda>s.
     and_then (validate_price p) (\<lambda>_.
     if pr_updated_at p \<le> expected_updated_at
     then Inl (conflict ''payment price update timestamp did not advance'')
     else and_then (validate_price_authority p s) (\<lambda>_.
     if list_ex (\<lambda>q. price_hit p expected_updated_at q
          \<and> (\<not> pay_price_check (replace_price p q) \<or> \<not> pay_price_fk s (replace_price p q)
             \<or> (pr_wallet_id q \<noteq> pr_wallet_id p \<and> price_key_referenced s q)
             \<or> list_ex (\<lambda>r. \<not> price_hit p expected_updated_at r \<and> pay_price_clash r (replace_price p q))
                 (pay_price s))) (pay_price s)
     then Inl (conflict ''payment price update rejected'')
     else if rows_affected (price_hit p expected_updated_at) (pay_price s) \<noteq> 1
     then Inl (conflict ''payment price identity or revision changed'')
     else Inr (p, s\<lparr>pay_price := update_where (price_hit p expected_updated_at) (replace_price p) (pay_price s)\<rparr>))))"

definition price_delete :: "string \<Rightarrow> int \<Rightarrow> unit step" where
  "price_delete price_id expected_updated_at s =
     (let hit = (\<lambda>p. pr_id p = price_id \<and> pr_updated_at p = expected_updated_at) in
      if list_ex (\<lambda>p. hit p \<and> price_referenced s p) (pay_price s)
      then Inl (conflict ''price deletion rejected'')
      else if rows_affected hit (pay_price s) \<noteq> 1
      then Inl (conflict ''price revision changed or price does not exist'')
      else Inr ((), s\<lparr>pay_price := filter (\<lambda>p. \<not> hit p) (pay_price s)\<rparr>))"

definition resolve_price :: "db \<Rightarrow> string \<Rightarrow> string \<Rightarrow> string \<Rightarrow> PaymentPrice option result" where
  "resolve_price s scenario_id resource protocol =
     (case filter (\<lambda>p. pr_scenario_id p = scenario_id \<and> pr_resource p = resource \<and> pr_enabled p
          \<and> protocol \<in> set (pr_protocols p)) (pay_price s) of
        [] \<Rightarrow> Inr None
      | [p] \<Rightarrow> Inr (Some p)
      | _ \<Rightarrow> Inl (Storage ''multiple enabled prices own one scenario resource''))"

definition resolve_resource :: "db \<Rightarrow> string \<Rightarrow> string \<Rightarrow> PaymentPrice option result" where
  "resolve_resource s scenario_id resource =
     entity_unique (filter (\<lambda>p. pr_scenario_id p = scenario_id \<and> pr_resource p = resource \<and> pr_enabled p)
       (pay_price s))"

definition prices_for_scenario :: "db \<Rightarrow> string \<Rightarrow> PageRequest \<Rightarrow> PaymentPrice Page result" where
  "prices_for_scenario s scenario_id page =
     entity_page page (sort_key (\<lambda>p. (pr_created_at p, pr_id p))
       (filter (\<lambda>p. pr_scenario_id p = scenario_id) (pay_price s)))"

section \<open>The catalogue invariant\<close>

text \<open>Keys are unique, and every reference of a catalogue row is to a row that is there.\<close>

definition catalog_inv :: "db \<Rightarrow> bool" where
  "catalog_inv s \<longleftrightarrow>
     unique_rows pay_client_clash (pay_client s) \<and> distinct (map sc_id (pay_scenario s))
     \<and> unique_rows same_approver (pay_scenario_approver s) \<and> unique_rows pay_price_clash (pay_price s)
     \<and> (\<forall>sc \<in> set (pay_scenario s). pay_scenario_fk s sc)
     \<and> (\<forall>a \<in> set (pay_scenario_approver s). scenario_exists s (sa_scenario_id a))
     \<and> (\<forall>p \<in> set (pay_policy s). scenario_exists s (pp_scenario_id p))
     \<and> (\<forall>p \<in> set (pay_price s). pay_price_fk s p)"

definition admin_inv :: "db \<Rightarrow> bool" where
  "admin_inv s \<longleftrightarrow> key_inv s \<and> binding_inv s \<and> catalog_inv s"

text \<open>What rows refer to by key, and never loses a key.\<close>

definition wallet_id_of :: "PaymentWallet \<Rightarrow> string" where
  "wallet_id_of r = w_id (pw_wallet r)"

definition policy_key :: "PaymentPolicy \<Rightarrow> string \<times> string" where
  "policy_key p = (pp_id p, pp_scenario_id p)"

definition refs_grow :: "db \<Rightarrow> db \<Rightarrow> bool" where
  "refs_grow s t \<longleftrightarrow>
     cl_id ` set (pay_client s) \<subseteq> cl_id ` set (pay_client t)
     \<and> sc_id ` set (pay_scenario s) \<subseteq> sc_id ` set (pay_scenario t)
     \<and> wallet_id_of ` set (pay_wallet s) \<subseteq> wallet_id_of ` set (pay_wallet t)
     \<and> policy_key ` set (pay_policy s) \<subseteq> policy_key ` set (pay_policy t)
     \<and> membership_key ` set (pay_policy_wallet s) \<subseteq> membership_key ` set (pay_policy_wallet t)"

definition price_key :: "PaymentPrice \<Rightarrow> string \<times> string \<times> string \<times> string" where
  "price_key p = (pr_id p, pr_scenario_id p, pr_policy_id p, pr_wallet_id p)"

definition prices_kept :: "db \<Rightarrow> db \<Rightarrow> bool" where
  "prices_kept s t \<longleftrightarrow>
     (\<forall>p \<in> set (pay_price s). price_key_referenced s p \<longrightarrow> price_key p \<in> price_key ` set (pay_price t))"

definition same_payments :: "db \<Rightarrow> db \<Rightarrow> bool" where
  "same_payments s t \<longleftrightarrow>
     pay_intent t = pay_intent s \<and> pay_event t = pay_event s \<and> pay_approval t = pay_approval s
     \<and> pay_ledger t = pay_ledger s \<and> pay_outbox t = pay_outbox s"

definition manages :: "db \<Rightarrow> db \<Rightarrow> bool" where
  "manages s t \<longleftrightarrow>
     (admin_inv s \<longrightarrow> admin_inv t \<and> same_payments s t \<and> refs_grow s t \<and> prices_kept s t)"

text \<open>The references, as membership of keys.\<close>

lemma list_ex_key: "list_ex (\<lambda>r. key r = k) rows \<longleftrightarrow> k \<in> key ` set rows"
  by (auto simp: list_ex_iff)

lemma fk_keys:
  "pay_scenario_fk s sc \<longleftrightarrow> sc_client_id sc \<in> cl_id ` set (pay_client s)"
  "scenario_exists s i \<longleftrightarrow> i \<in> sc_id ` set (pay_scenario s)"
  "list_ex (\<lambda>w. w_id (pw_wallet w) = i) (pay_wallet s) \<longleftrightarrow> i \<in> wallet_id_of ` set (pay_wallet s)"
  "list_ex (\<lambda>q. pp_id q = i \<and> pp_scenario_id q = j) (pay_policy s) \<longleftrightarrow> (i, j) \<in> policy_key ` set (pay_policy s)"
  "list_ex (\<lambda>m. pm_policy_id m = i \<and> pm_wallet_id m = j) (pay_policy_wallet s)
     \<longleftrightarrow> (i, j) \<in> membership_key ` set (pay_policy_wallet s)"
  by (force simp: pay_scenario_fk_def scenario_exists_def list_ex_iff wallet_id_of_def policy_key_def
      membership_key_def)+

lemma refs_grow_fk:
  assumes "refs_grow s t"
  shows "pay_scenario_fk s sc \<Longrightarrow> pay_scenario_fk t sc" "scenario_exists s i \<Longrightarrow> scenario_exists t i"
    "pay_price_fk s p \<Longrightarrow> pay_price_fk t p"
  using assms by (simp_all add: refs_grow_def pay_price_fk_def fk_keys subset_iff)

lemma refs_grow_refl [simp]: "refs_grow s s"
  by (simp add: refs_grow_def)

lemma refs_grow_trans: "refs_grow s t \<Longrightarrow> refs_grow t u \<Longrightarrow> refs_grow s u"
  unfolding refs_grow_def by (meson subset_trans)

lemma manages_refl [simp]: "manages s s"
  by (simp add: manages_def same_payments_def prices_kept_def)

section \<open>The catalogue operations keep it\<close>

lemma unique_rows_filter: "unique_rows clash rows \<Longrightarrow> unique_rows clash (filter P rows)"
  unfolding unique_rows_def by (rule sorted_wrt_filter)

text \<open>An operation of the catalogue that leaves wallets, policies and payments alone.\<close>

lemma catalog_manages:
  assumes t: "t = s\<lparr>pay_client := cs, pay_scenario := scs, pay_scenario_approver := as, pay_price := ps\<rparr>"
    and refs: "admin_inv s \<Longrightarrow> cl_id ` set (pay_client s) \<subseteq> cl_id ` set cs"
      "admin_inv s \<Longrightarrow> sc_id ` set (pay_scenario s) \<subseteq> sc_id ` set scs"
    and keys: "catalog_inv s \<Longrightarrow> unique_rows pay_client_clash cs" "catalog_inv s \<Longrightarrow> distinct (map sc_id scs)"
      "catalog_inv s \<Longrightarrow> unique_rows same_approver as" "catalog_inv s \<Longrightarrow> unique_rows pay_price_clash ps"
    and fks: "\<And>sc. catalog_inv s \<Longrightarrow> sc \<in> set scs \<Longrightarrow> pay_scenario_fk s sc"
      "\<And>a. catalog_inv s \<Longrightarrow> a \<in> set as \<Longrightarrow> scenario_exists s (sa_scenario_id a)"
      "\<And>p. catalog_inv s \<Longrightarrow> p \<in> set ps \<Longrightarrow> pay_price_fk s p"
    and prices: "prices_kept s t"
  shows "manages s t"
proof -
  have grow: "refs_grow s t" if "admin_inv s" using refs [OF that] by (simp add: refs_grow_def t)
  have "catalog_inv t" if inv: "admin_inv s"
  proof -
    have cat: "catalog_inv s" using inv by (simp add: admin_inv_def)
    have rows: "pay_client t = cs" "pay_scenario t = scs" "pay_scenario_approver t = as" "pay_price t = ps"
      "pay_policy t = pay_policy s" by (simp_all add: t)
    have pol: "scenario_exists s (pp_scenario_id p)" if "p \<in> set (pay_policy s)" for p
      using cat that by (simp add: catalog_inv_def)
    show ?thesis
      unfolding catalog_inv_def rows
      by (intro conjI ballI keys [OF cat] refs_grow_fk [OF grow [OF inv]] fks [OF cat] pol)
  qed
  moreover have "key_inv t" "binding_inv t" if "admin_inv s"
    using that key_inv_core [of s t] binding_inv_cong [of t s] by (auto simp: admin_inv_def t)
  ultimately show ?thesis
    using grow prices by (simp add: manages_def admin_inv_def same_payments_def t)
qed

lemma prices_kept_same: "set (pay_price s) \<subseteq> set (pay_price t) \<Longrightarrow> prices_kept s t"
  by (auto simp: prices_kept_def)

lemma clients_manages:
  assumes "t = s\<lparr>pay_client := cs\<rparr>" "cl_id ` set (pay_client s) \<subseteq> cl_id ` set cs"
    and "catalog_inv s \<Longrightarrow> unique_rows pay_client_clash cs"
  shows "manages s t"
  by (rule catalog_manages [where t = t and s = s and cs = cs and scs = "pay_scenario s" and as = "pay_scenario_approver s" and ps = "pay_price s"])
    (use assms in \<open>auto simp: catalog_inv_def intro: prices_kept_same\<close>)

lemma scenarios_manages:
  assumes "t = s\<lparr>pay_scenario := scs\<rparr>" "sc_id ` set (pay_scenario s) \<subseteq> sc_id ` set scs"
    and "catalog_inv s \<Longrightarrow> distinct (map sc_id scs)"
    and "\<And>sc. catalog_inv s \<Longrightarrow> sc \<in> set scs \<Longrightarrow> pay_scenario_fk s sc"
  shows "manages s t"
  by (rule catalog_manages [where t = t and s = s and cs = "pay_client s" and scs = scs and as = "pay_scenario_approver s" and ps = "pay_price s"])
    (use assms in \<open>auto simp: catalog_inv_def intro: prices_kept_same\<close>)

lemma approvers_manages:
  assumes "t = s\<lparr>pay_scenario_approver := as\<rparr>" "catalog_inv s \<Longrightarrow> unique_rows same_approver as"
    and "\<And>a. catalog_inv s \<Longrightarrow> a \<in> set as \<Longrightarrow> scenario_exists s (sa_scenario_id a)"
  shows "manages s t"
  by (rule catalog_manages [where t = t and s = s and cs = "pay_client s" and scs = "pay_scenario s" and as = as and ps = "pay_price s"])
    (use assms in \<open>auto simp: catalog_inv_def intro: prices_kept_same\<close>)

lemma prices_manages:
  assumes "t = s\<lparr>pay_price := ps\<rparr>" "catalog_inv s \<Longrightarrow> unique_rows pay_price_clash ps"
    and "\<And>p. catalog_inv s \<Longrightarrow> p \<in> set ps \<Longrightarrow> pay_price_fk s p" "prices_kept s t"
  shows "manages s t"
  by (rule catalog_manages [where t = t and s = s and cs = "pay_client s" and scs = "pay_scenario s" and as = "pay_scenario_approver s" and ps = ps])
    (use assms in \<open>auto simp: catalog_inv_def\<close>)

lemma image_update_where:
  "(\<And>r. key (f r) = key r) \<Longrightarrow> key ` set (update_where P f rows) = key ` set rows"
  by (metis list.set_map map_update_where)

lemma unique_rows_update_where:
  assumes "\<And>x y. clash (f x) y = clash x y" "\<And>x y. clash x (f y) = clash x y"
  shows "unique_rows clash (update_where P f rows) = unique_rows clash rows"
  unfolding update_where_def by (rule unique_rows_map) (simp add: assms)

lemma client_insert_manages: "client_insert c s = Inr (v, t) \<Longrightarrow> manages s t"
  by (rule clients_manages [where t = t and s = s and cs = "pay_client s @ [c]"])
    (auto simp: client_insert_def entity_insert_returning_def result_simps catalog_inv_def unique_rows_snoc list_ex_iff split: if_splits)

lemma client_set_enabled_manages: "client_set_enabled i e u s = Inr (v, t) \<Longrightarrow> manages s t"
  by (rule clients_manages [where t = t and s = s and cs = "update_where (\<lambda>c. cl_id c = i \<and> cl_updated_at c \<le> u)
        (\<lambda>c. c\<lparr>cl_enabled := e, cl_updated_at := u\<rparr>) (pay_client s)"])
    (auto simp: client_set_enabled_def entity_update_returning_def result_simps image_update_where catalog_inv_def
      unique_rows_update_where pay_client_clash_def split: if_splits)

lemma scenario_append_manages:
  assumes "t = s\<lparr>pay_scenario := pay_scenario s @ [sc]\<rparr>" "pay_scenario_fk s sc"
    and "find (\<lambda>x. sc_id x = sc_id sc) (pay_scenario s) = None"
  shows "manages s t"
  by (rule scenarios_manages [OF assms(1)])
    (use assms in \<open>auto simp: catalog_inv_def find_None_iff\<close>)

lemma scenario_register_manages: "scenario_register sc s = (v, t) \<Longrightarrow> manages s t"
  by (cases v)
    (auto simp: scenario_register_def entity_register_def transaction_ok result_simps dest: transaction_err
      split: option.splits if_splits intro: scenario_append_manages)

lemma scenario_set_enabled_manages: "scenario_set_enabled i e u s = Inr (v, t) \<Longrightarrow> manages s t"
  by (rule scenarios_manages [where t = t and s = s and scs = "update_where (\<lambda>c. sc_id c = i \<and> sc_updated_at c \<le> u)
        (\<lambda>c. c\<lparr>sc_enabled := e, sc_updated_at := u\<rparr>) (pay_scenario s)"])
    (auto simp: scenario_set_enabled_def entity_update_returning_def result_simps image_update_where catalog_inv_def
      map_update_where in_update_where pay_scenario_fk_def split: if_splits)

lemma approver_update_manages:
  assumes "t = s\<lparr>pay_scenario_approver := update_where P (\<lambda>a. a\<lparr>sa_enabled := e, sa_updated_at := u\<rparr>)
      (pay_scenario_approver s)\<rparr>"
  shows "manages s t"
  by (rule approvers_manages [OF assms])
    (auto simp: catalog_inv_def unique_rows_update_where same_approver_def in_update_where)

lemma approver_set_enabled_manages: "approver_set_enabled i w e u s = Inr (v, t) \<Longrightarrow> manages s t"
  by (auto simp: approver_set_enabled_def entity_update_returning_def result_simps split: if_splits intro: approver_update_manages)

lemma approver_upsert_manages:
  assumes "approver_upsert a s = Inr (v, t)"
  shows "manages s t"
proof (cases "find (same_approver a) (pay_scenario_approver s)")
  case None
  then have t: "t = s\<lparr>pay_scenario_approver := pay_scenario_approver s @ [a]\<rparr>"
    and fk: "scenario_exists s (sa_scenario_id a)"
    using assms by (auto simp: approver_upsert_def result_simps split: if_splits)
  have "\<not> same_approver b a" if "b \<in> set (pay_scenario_approver s)" for b
    using None that by (metis find_None_iff same_approver_def)
  with fk show ?thesis
    by (intro approvers_manages [OF t]) (auto simp: catalog_inv_def unique_rows_snoc)
next
  case (Some b)
  then show ?thesis
    using assms
    by (auto simp: approver_upsert_def Let_def result_simps split: if_splits intro: approver_update_manages)
qed

lemma price_clash_sym: "pay_price_clash p q = pay_price_clash q p"
  by (auto simp: pay_price_clash_def)

lemma price_insert_manages: "price_insert p s = (v, t) \<Longrightarrow> manages s t"
  by (cases v)
    (auto simp: price_insert_def transaction_ok result_simps list_ex_iff catalog_inv_def unique_rows_snoc
      dest: transaction_err split: if_splits intro!: prices_manages prices_kept_same)

lemma price_update_ok:
  assumes "price_update p u s = (Inr v, t)"
  shows "t = s\<lparr>pay_price := update_where (price_hit p u) (replace_price p) (pay_price s)\<rparr>"
    "rows_affected (price_hit p u) (pay_price s) = 1"
    and "\<And>q. q \<in> set (pay_price s) \<Longrightarrow> price_hit p u q \<Longrightarrow> pay_price_fk s (replace_price p q)
      \<and> (pr_wallet_id q = pr_wallet_id p \<or> \<not> price_key_referenced s q)"
    and "\<And>q r. q \<in> set (pay_price s) \<Longrightarrow> r \<in> set (pay_price s) \<Longrightarrow> price_hit p u q \<Longrightarrow> \<not> price_hit p u r \<Longrightarrow>
      \<not> pay_price_clash r (replace_price p q)"
  using assms by (auto simp: price_update_def transaction_ok result_simps list_ex_iff split: if_splits)

lemma price_update_manages:
  assumes "price_update p u s = (v, t)"
  shows "manages s t"
proof (cases v)
  case (Inr q)
  note ok = price_update_ok [OF assms [unfolded Inr]]
  show ?thesis
  proof (rule prices_manages [OF ok(1)])
    show "unique_rows pay_price_clash (update_where (price_hit p u) (replace_price p) (pay_price s))"
      if "catalog_inv s"
      using that ok(2,4) price_clash_sym
      by (intro unique_rows_update_one) (auto simp: catalog_inv_def)
    show "pay_price_fk s r" if "catalog_inv s" "r \<in> set (update_where (price_hit p u) (replace_price p) (pay_price s))" for r
      using that ok(3) by (auto simp: catalog_inv_def in_update_where)
    have "price_key (if price_hit p u q then replace_price p q else q) = price_key q"
      if "q \<in> set (pay_price s)" "price_key_referenced s q" for q
      using ok(3) [OF that(1)] that(2) by (auto simp: price_key_def replace_price_def)
    moreover have "(if price_hit p u q then replace_price p q else q) \<in> set (pay_price t)"
      if "q \<in> set (pay_price s)" for q
      using that by (auto simp: ok(1) update_where_def)
    ultimately show "prices_kept s t"
      unfolding prices_kept_def by (blast intro: image_eqI [OF sym])
  qed
qed (use assms in \<open>auto simp: price_update_def dest: transaction_err\<close>)

lemma price_delete_manages:
  assumes "price_delete i u s = Inr (v, t)"
  shows "manages s t"
proof -
  let ?hit = "\<lambda>p. pr_id p = i \<and> pr_updated_at p = u"
  have t: "t = s\<lparr>pay_price := filter (\<lambda>p. \<not> ?hit p) (pay_price s)\<rparr>"
    and free: "\<And>p. p \<in> set (pay_price s) \<Longrightarrow> ?hit p \<Longrightarrow> \<not> price_referenced s p"
    using assms by (auto simp: price_delete_def Let_def list_ex_iff split: if_splits)
  have "\<not> price_key_referenced s p" if "p \<in> set (pay_price s)" "?hit p" for p
    using free [OF that] by (auto simp: price_referenced_def price_key_referenced_def list_ex_iff)
  then have "prices_kept s t" unfolding prices_kept_def t by auto
  then show ?thesis
    by (intro prices_manages [OF t]) (auto simp: catalog_inv_def intro: unique_rows_filter)
qed

text \<open>A price is found by at most one row, so neither lookup fails.\<close>

lemma enabled_price_unique:
  assumes "catalog_inv s"
  shows "length (filter (\<lambda>p. pr_scenario_id p = i \<and> pr_resource p = r \<and> pr_enabled p \<and> P p) (pay_price s)) \<le> 1"
proof (rule ccontr)
  let ?rows = "filter (\<lambda>p. pr_scenario_id p = i \<and> pr_resource p = r \<and> pr_enabled p \<and> P p) (pay_price s)"
  assume "\<not> length ?rows \<le> 1"
  then obtain a b xs where rows: "?rows = a # b # xs" by (cases ?rows rule: remdups_adj.cases) auto
  have "unique_rows pay_price_clash ?rows"
    using assms by (auto simp: catalog_inv_def intro: unique_rows_filter)
  then have "\<not> pay_price_clash a b" by (simp add: rows unique_rows_def)
  moreover have "a \<in> set ?rows" "b \<in> set ?rows" by (simp_all add: rows)
  ultimately show False by (simp add: pay_price_clash_def)
qed

lemma resolve_price_total:
  assumes "catalog_inv s"
  shows "\<exists>p. resolve_price s i r protocol = Inr p" "\<exists>p. resolve_resource s i r = Inr p"
proof -
  show "\<exists>p. resolve_price s i r protocol = Inr p"
    using enabled_price_unique [OF assms, of i r "\<lambda>p. protocol \<in> set (pr_protocols p)"]
    by (auto simp: resolve_price_def split: list.splits)
  show "\<exists>p. resolve_resource s i r = Inr p"
    using enabled_price_unique [OF assms, of i r "\<lambda>_. True"] by (auto simp: resolve_resource_def entity_unique_def take_Suc eval_nat_numeral split: list.splits)
qed

section \<open>Wallet and policy operations\<close>

lemma core_ids:
  assumes "map wallet_core rows = map wallet_core rows'"
  shows "wallet_id_of ` set rows = wallet_id_of ` set rows'"
proof -
  have "wallet_id_of ` set zs = (w_id \<circ> fst) ` set (map wallet_core zs)" for zs
    by (simp add: image_image wallet_id_of_def wallet_core_def)
  then show ?thesis by (simp only: assms)
qed

text \<open>
  Changes of wallets and policies: the invariants of both theories hold, no key is lost, and every policy
  belongs to a scenario.
\<close>

lemma wallets_manage:
  assumes t: "t = s\<lparr>pay_wallet := ws, wallet_key_version := ks, pay_wallet_balance := bs, pay_policy := ps,
      pay_policy_wallet := ms\<rparr>"
    and inv: "key_inv s \<Longrightarrow> binding_inv s \<Longrightarrow> key_inv t" "binding_inv s \<Longrightarrow> binding_inv t"
    and refs: "binding_inv s \<Longrightarrow> wallet_id_of ` set (pay_wallet s) \<subseteq> wallet_id_of ` set ws"
      "binding_inv s \<Longrightarrow> policy_key ` set (pay_policy s) \<subseteq> policy_key ` set ps"
      "binding_inv s \<Longrightarrow> membership_key ` set (pay_policy_wallet s) \<subseteq> membership_key ` set ms"
    and fk: "\<And>p. binding_inv s \<Longrightarrow> catalog_inv s \<Longrightarrow> p \<in> set ps \<Longrightarrow> scenario_exists s (pp_scenario_id p)"
  shows "manages s t"
proof -
  have grow: "refs_grow s t" if "admin_inv s" using refs that by (simp add: refs_grow_def t admin_inv_def)
  have "catalog_inv t" if admin: "admin_inv s"
  proof -
    have cat: "catalog_inv s" and bind: "binding_inv s" using admin by (simp_all add: admin_inv_def)
    have rows: "pay_client t = pay_client s" "pay_scenario t = pay_scenario s" "pay_price t = pay_price s"
      "pay_scenario_approver t = pay_scenario_approver s" "pay_policy t = ps" by (simp_all add: t)
    note fks = refs_grow_fk [OF grow [OF admin]]
    show ?thesis
      unfolding catalog_inv_def rows
      by (intro conjI ballI fks fk [OF bind cat]) (use cat in \<open>simp_all add: catalog_inv_def\<close>)
  qed
  moreover have "prices_kept s t" by (rule prices_kept_same) (simp add: t)
  moreover have "same_payments s t" by (simp add: same_payments_def t)
  ultimately show ?thesis using grow inv unfolding manages_def admin_inv_def by blast
qed

text \<open>Operations on wallets and keys alone.\<close>

lemma wallet_rows_manage:
  assumes "t = s\<lparr>pay_wallet := ws, wallet_key_version := ks\<rparr>"
    and "key_inv s \<Longrightarrow> key_inv t" "binding_inv s \<Longrightarrow> binding_inv t"
    and "wallet_id_of ` set (pay_wallet s) \<subseteq> wallet_id_of ` set ws"
  shows "manages s t"
  by (rule wallets_manage [where t = t and s = s and ws = ws and ks = ks and bs = "pay_wallet_balance s"
        and ps = "pay_policy s" and ms = "pay_policy_wallet s"])
    (use assms in \<open>simp_all add: catalog_inv_def\<close>)

lemma insert_wallet_rows: "insert_wallet w c cfg s = Inr t \<Longrightarrow> \<exists>r. t = s\<lparr>pay_wallet := pay_wallet s @ [r]\<rparr>"
  using insert_wallet_ok by blast

lemma create_local_manages:
  assumes "create_local_configured X wallet k c s = (v, t)"
  shows "manages s t"
proof (cases v)
  case (Inr w)
  with assms have "create_local_configured X wallet k c s = (Inr w, t)" by simp
  then obtain u where "insert_wallet w Local c s = Inr u" "insert_key k u = Inr t" by (rule create_local_ok)
  then obtain r where "t = s\<lparr>pay_wallet := pay_wallet s @ [r], wallet_key_version := wallet_key_version s @ [k]\<rparr>"
    by (auto dest!: insert_wallet_rows elim!: insert_key_ok)
  then show ?thesis
    using create_local_keys [OF assms] create_local_binding [OF assms] by (rule wallet_rows_manage) auto
qed (use assms in \<open>auto simp: create_local_configured_def dest: transaction_err\<close>)

lemma create_external_manages:
  assumes "create_external_configured X wallet c s = (v, t)"
  shows "manages s t"
proof (cases v)
  case (Inr w)
  with assms obtain r where "t = s\<lparr>pay_wallet := pay_wallet s @ [r]\<rparr>"
    by (auto simp: create_external_configured_def transaction_ok result_simps dest!: insert_wallet_rows)
  then have "t = s\<lparr>pay_wallet := pay_wallet s @ [r], wallet_key_version := wallet_key_version s\<rparr>" by simp
  then show ?thesis
    using create_external_keys [OF assms] create_external_binding [OF assms] by (rule wallet_rows_manage) auto
qed (use assms in \<open>auto simp: create_external_configured_def dest: transaction_err\<close>)

lemma rotate_manages:
  assumes "rotate_wallet X wallet k retired_at s = (v, t)"
  shows "manages s t"
proof (cases v)
  case (Inr w)
  with assms have "rotate_wallet X wallet k retired_at s = (Inr w, t)" by simp
  then obtain a :: EncryptedWalletKeyVersion where "insert_key k (s\<lparr>wallet_key_version := retire_key (w_id w) (kv_version a) retired_at (wallet_key_version s),
       pay_wallet := rekey_wallet w (kv_activated_at k) (pay_wallet s)\<rparr>) = Inr t"
    by (rule rotate_ok)
  then have "t = s\<lparr>pay_wallet := rekey_wallet w (kv_activated_at k) (pay_wallet s),
      wallet_key_version := retire_key (w_id w) (kv_version a) retired_at (wallet_key_version s) @ [k]\<rparr>"
    by (auto elim!: insert_key_ok)
  then show ?thesis
    using rotate_keys [OF assms] rotate_binding [OF assms]
    by (rule wallet_rows_manage) (auto simp: rekey_wallet_def image_update_where wallet_id_of_def)
qed (use assms in \<open>auto simp: rotate_wallet_def dest: transaction_err\<close>)

lemma mark_key_compromised_manages:
  assumes "mark_key_compromised i n u s = (v, t)"
  shows "manages s t"
proof (cases v)
  case (Inr w)
  with assms have "mark_key_compromised i n u s = (Inr (), t)" by simp
  from mark_key_compromised_ok [OF this] obtain ks where "t = s\<lparr>pay_wallet := pay_wallet s, wallet_key_version := ks\<rparr>"
    by simp
  then show ?thesis
    using mark_key_compromised_keys [OF assms] mark_key_compromised_binding [OF assms]
    by (rule wallet_rows_manage) auto
qed (use assms in \<open>auto simp: mark_key_compromised_def dest: transaction_err\<close>)

lemma set_spending_limits_manages:
  assumes "set_spending_limits i u p d m s = (v, t)"
  shows "manages s t"
proof (cases v)
  case (Inr w)
  with assms have "set_spending_limits i u p d m s = (Inr (), t)" by simp
  then obtain r :: PaymentWallet where "t = s\<lparr>pay_wallet := update_where (\<lambda>q. w_id (pw_wallet q) = i \<and> pw_updated_at q = pw_updated_at r)
       (\<lambda>q. q\<lparr>pw_budget_unit := Some u, pw_max_per_payment := p, pw_max_per_day := d,
          pw_updated_at := m\<rparr>) (pay_wallet s)\<rparr>"
    by (rule set_spending_limits_ok)
  then have t: "t = s\<lparr>pay_wallet := update_where (\<lambda>q. w_id (pw_wallet q) = i \<and> pw_updated_at q = pw_updated_at r)
       (\<lambda>q. q\<lparr>pw_budget_unit := Some u, pw_max_per_payment := p, pw_max_per_day := d,
          pw_updated_at := m\<rparr>) (pay_wallet s), wallet_key_version := wallet_key_version s\<rparr>"
    by simp
  show ?thesis
    using t set_spending_limits_keys [OF assms] set_spending_limits_binding [OF assms]
    by (rule wallet_rows_manage) (auto simp: image_update_where wallet_id_of_def)
qed (use assms in \<open>auto simp: set_spending_limits_def dest: transaction_err\<close>)

lemma set_enabled_manages:
  assumes "set_enabled i e u s = (v, t)"
  shows "manages s t"
proof (cases v)
  case (Inr w)
  with assms have t: "t = s\<lparr>pay_wallet := update_where (\<lambda>q. w_id (pw_wallet q) = i \<and> pw_updated_at q \<le> u)
      (\<lambda>q. q\<lparr>pw_enabled := e, pw_updated_at := u\<rparr>) (pay_wallet s), wallet_key_version := wallet_key_version s\<rparr>"
    by (auto simp: set_enabled_def transaction_ok Let_def split: if_splits)
  show ?thesis
    using t set_enabled_keys [OF assms] set_enabled_binding [OF assms]
    by (rule wallet_rows_manage) (auto simp: image_update_where wallet_id_of_def)
qed (use assms in \<open>auto simp: set_enabled_def dest: transaction_err\<close>)

lemma upsert_balance_manages:
  assumes "upsert_balance b s = (v, t)"
  shows "manages s t"
proof -
  obtain bs where "t = s\<lparr>pay_wallet_balance := bs\<rparr>"
    using assms by (cases v) (auto simp: upsert_balance_def transaction_ok result_simps dest!: transaction_err
        split: option.splits if_splits intro: that [of "pay_wallet_balance s"])
  then show ?thesis
    using key_inv_core [of s t] binding_inv_cong [of t s]
    by (intro wallets_manage [where ws = "pay_wallet s" and ks = "wallet_key_version s" and bs = bs
        and ps = "pay_policy s" and ms = "pay_policy_wallet s"]) (simp_all add: catalog_inv_def)
qed

lemma policy_aggregate_manages:
  assumes "insert_policy_aggregate p s = Inr t" "binding_inv s"
  shows "manages s t"
proof -
  note ok = insert_policy_aggregate_ok [OF assms]
  from ok(6) obtain x y z where "t = s\<lparr>pay_policy := x, pay_wallet := y, pay_policy_wallet := z\<rparr>" by blast
  then have t: "t = s\<lparr>pay_wallet := y, wallet_key_version := wallet_key_version s,
      pay_wallet_balance := pay_wallet_balance s, pay_policy := x, pay_policy_wallet := z\<rparr>" by simp
  have rows: "x = pay_policy s @ [p\<lparr>pp_wallet_ids := []\<rparr>]" "z = pay_policy_wallet s @ map (membership p) (pp_wallet_ids p)"
    "map wallet_core y = map wallet_core (pay_wallet s)"
    using ok(2,3,7) by (simp_all add: t)
  show ?thesis
  proof (rule wallets_manage [OF t])
    show "key_inv s \<Longrightarrow> key_inv t" by (rule key_inv_core [OF _ ok(7)]) (simp_all add: t)
    show "wallet_id_of ` set (pay_wallet s) \<subseteq> wallet_id_of ` set y" using core_ids [OF rows(3)] by simp
    show "scenario_exists s (pp_scenario_id q)" if "catalog_inv s" "q \<in> set x" for q
      using that ok(5) by (auto simp: rows catalog_inv_def)
  qed (use ok(1) in \<open>auto simp: rows\<close>)
qed

lemma manages_binding: "(binding_inv s \<Longrightarrow> manages s t) \<Longrightarrow> manages s t"
  unfolding manages_def admin_inv_def by blast

lemma manages_trans:
  assumes "manages s t" "manages t u" "pay_price t = pay_price s"
  shows "manages s u"
proof -
  have "prices_kept s u" if "prices_kept t u" "pay_intent t = pay_intent s"
    using that assms(3) by (simp add: prices_kept_def price_key_referenced_def)
  with assms(1,2) show ?thesis
    unfolding manages_def same_payments_def by (auto intro: refs_grow_trans)
qed

lemma policy_insert_manages: "policy_insert p s = (v, t) \<Longrightarrow> manages s t"
  by (cases v)
    (auto simp: policy_insert_result intro: manages_binding policy_aggregate_manages,
      auto simp: policy_insert_def dest: transaction_err)

lemma policy_update_manages:
  assumes "policy_update p u s = (v, t)"
  shows "manages s t"
proof (rule manages_binding, cases v)
  fix q
  assume inv: "binding_inv s" and "v = Inr q"
  with assms have "policy_update p u s = (Inr q, t)" by simp
  then show "manages s t"
  proof (rule policy_update_ok [OF _ inv])
    fix p0 x
    assume core: "map wallet_core x = map wallet_core (pay_wallet s)"
      and t: "t = s\<lparr>pay_wallet := x, pay_policy := update_where (\<lambda>q. pp_id q = pp_id p \<and> pp_updated_at q = u)
       (replace_policy p) (pay_policy s)\<rparr>"
    have t': "t = s\<lparr>pay_wallet := x, wallet_key_version := wallet_key_version s,
        pay_wallet_balance := pay_wallet_balance s, pay_policy := pay_policy t,
        pay_policy_wallet := pay_policy_wallet s\<rparr>" by (simp add: t)
    have keys: "policy_key ` set (pay_policy t) = policy_key ` set (pay_policy s)"
      by (simp add: t image_update_where policy_key_def)
    show "manages s t"
    proof (rule wallets_manage [OF t'])
      show "key_inv s \<Longrightarrow> key_inv t" by (rule key_inv_core) (simp_all add: t core)
      show "binding_inv s \<Longrightarrow> binding_inv t" by (rule policy_update_binding [OF assms])
      show "wallet_id_of ` set (pay_wallet s) \<subseteq> wallet_id_of ` set x" using core_ids [OF core] by simp
      show "scenario_exists s (pp_scenario_id q)" if "catalog_inv s" "q \<in> set (pay_policy t)" for q
        using that by (auto simp: t in_update_where catalog_inv_def)
    qed (simp_all add: keys)
  qed
qed (use assms in \<open>auto simp: policy_update_def dest: transaction_err\<close>)

lemma register_with_policy_manages:
  assumes "register_with_policy sc p s = (v, t)"
  shows "manages s t"
proof (cases v)
  case (Inr c)
  with assms obtain x u where x: "register_scenario_row sc (find (\<lambda>x. sc_id x = sc_id sc) (pay_scenario s)) s = Inr (x, u)"
    and t: "t = u \<or> (find (\<lambda>x. sc_id x = sc_id sc) (pay_scenario s) = None \<and> insert_policy_aggregate p u = Inr t)"
    by (auto simp: register_with_policy_def transaction_ok result_simps Let_def split: if_splits option.splits)
  have u: "manages s u" and price: "pay_price u = pay_price s"
    using x by (auto simp: register_scenario_row_def split: option.splits if_splits intro: scenario_append_manages)
  from t show ?thesis
  proof
    assume agg: "find (\<lambda>x. sc_id x = sc_id sc) (pay_scenario s) = None \<and> insert_policy_aggregate p u = Inr t"
    have "manages u t" by (rule manages_binding) (use agg in \<open>blast intro: policy_aggregate_manages\<close>)
    with u price show ?thesis by (blast intro: manages_trans)
  qed (use u in simp)
qed (use assms in \<open>auto simp: register_with_policy_def dest: transaction_err\<close>)

end
