(* ===== verification/Vault.thy ===== *)
theory Vault
  imports Catalog_Store
begin

text \<open>
  The whole store as a transition system: one step is one call of a repository operation, committed or
  rolled back, and the reachable databases are those the service can produce from an empty one. The
  operations of all clients interleave freely. The lemmas show the invariant of every reachable
  database and how payments, approvals, journals and references develop along every run.
\<close>

section \<open>Steps\<close>

inductive vault_step :: "externals \<Rightarrow> db \<Rightarrow> db \<Rightarrow> bool" for X where
  step_create_local: "create_local_configured X w k c s = (v, t) \<Longrightarrow> vault_step X s t"
| step_create_external: "create_external_configured X w c s = (v, t) \<Longrightarrow> vault_step X s t"
| step_rotate: "rotate_wallet X w k retired_at s = (v, t) \<Longrightarrow> vault_step X s t"
| step_compromise: "mark_key_compromised i n retired_at s = (u, t) \<Longrightarrow> vault_step X s t"
| step_limits: "set_spending_limits i unit per_payment per_day updated_at s = (u, t) \<Longrightarrow> vault_step X s t"
| step_wallet_enabled: "set_enabled i e updated_at s = (u, t) \<Longrightarrow> vault_step X s t"
| step_balance: "upsert_balance b s = (bv, t) \<Longrightarrow> vault_step X s t"
| step_policy_insert: "policy_insert p s = (pv, t) \<Longrightarrow> vault_step X s t"
| step_policy_update: "policy_update p expected s = (pv, t) \<Longrightarrow> vault_step X s t"
| step_client_insert: "client_insert cl s = Inr (clv, t) \<Longrightarrow> vault_step X s t"
| step_client_enabled: "client_set_enabled i e updated_at s = Inr (clv, t) \<Longrightarrow> vault_step X s t"
| step_scenario_register: "scenario_register sc s = (scv, t) \<Longrightarrow> vault_step X s t"
| step_scenario_policy: "register_with_policy sc p s = (cfgv, t) \<Longrightarrow> vault_step X s t"
| step_scenario_enabled: "scenario_set_enabled i e updated_at s = Inr (sv, t) \<Longrightarrow> vault_step X s t"
| step_approver_upsert: "approver_upsert a s = Inr (av, t) \<Longrightarrow> vault_step X s t"
| step_approver_enabled: "approver_set_enabled i who e updated_at s = Inr (av, t) \<Longrightarrow> vault_step X s t"
| step_price_insert: "price_insert pr s = (prv, t) \<Longrightarrow> vault_step X s t"
| step_price_update: "price_update pr expected s = (prv, t) \<Longrightarrow> vault_step X s t"
| step_price_delete: "price_delete i expected s = Inr (uv, t) \<Longrightarrow> vault_step X s t"
| step_authorize: "authorize X i' approval action g es ms s = (rv, t) \<Longrightarrow> vault_step X s t"
| step_record_challenge: "record_challenge X i' ch cg es ms s = (iv, t) \<Longrightarrow> vault_step X s t"
| step_verify_incoming: "verify_incoming i' cr expected es ms s = (iw, t) \<Longrightarrow> vault_step X s t"
| step_commit_progress: "commit_progress i' expected es ms s = (iw, t) \<Longrightarrow> vault_step X s t"
| step_record_evidence: "record_outbound_evidence i' expected h ev ms s = (iv, t) \<Longrightarrow> vault_step X s t"
| step_commit_settlement: "commit_settlement i' expected es entries ms s = (iw, t) \<Longrightarrow> vault_step X s t"
| step_claim_reconciliation: "claim_reconciliation_batch q s = Inr (cv, t) \<Longrightarrow> vault_step X s t"
| step_renew_reconciliation: "renew_reconciliation_lease i holder n s = Inr (uv, t) \<Longrightarrow> vault_step X s t"
| step_release_reconciliation: "release_reconciliation_lease i holder n s = Inr (uv, t) \<Longrightarrow> vault_step X s t"
| step_request_approval: "request_approval ar s = (arv, t) \<Longrightarrow> vault_step X s t"
| step_decide: "decide d grant tr ev ms s = (dv, t) \<Longrightarrow> vault_step X s t"
| step_consume: "consume_and_reserve X vg i' origin day now expected c ev ms s = (iw, t) \<Longrightarrow> vault_step X s t"
| step_expire_due: "expire_due now limit s = (xv, t) \<Longrightarrow> vault_step X s t"
| step_commit_signed: "commit_signed X i' cr h m sg es ms s = (gv, t) \<Longrightarrow> vault_step X s t"
| step_ledger_append: "ledger_append l s = (lv, t) \<Longrightarrow> vault_step X s t"
| step_append_batch: "append_batch entries ms s = (bsv, t) \<Longrightarrow> vault_step X s t"
| step_outbox_claim: "outbox_claim oq s = (mv, t) \<Longrightarrow> vault_step X s t"
| step_delivered: "mark_delivered i holder n s = Inr (uv, t) \<Longrightarrow> vault_step X s t"
| step_reschedule: "reschedule i holder n err s = Inr (uv, t) \<Longrightarrow> vault_step X s t"
| step_dead_letter: "mark_dead_letter i holder err s = Inr (uv, t) \<Longrightarrow> vault_step X s t"

definition empty_db :: db where
  "empty_db = \<lparr>pay_wallet = [], wallet_key_version = [], pay_wallet_balance = [], pay_client = [],
     pay_scenario = [], pay_scenario_approver = [], pay_policy = [], pay_policy_wallet = [], pay_price = [],
     pay_intent = [], pay_event = [], pay_approval = [], pay_ledger = [], pay_outbox = []\<rparr>"

definition reachable :: "externals \<Rightarrow> db \<Rightarrow> bool" where
  "reachable X s \<longleftrightarrow> (vault_step X)\<^sup>*\<^sup>* empty_db s"

section \<open>The invariant\<close>

definition vault_inv :: "db \<Rightarrow> bool" where
  "vault_inv s \<longleftrightarrow>
     admin_inv s \<and> payment_inv s \<and> approval_inv s \<and> journal_inv s \<and> payment_refs_inv s"

definition vault_evolves :: "db \<Rightarrow> db \<Rightarrow> bool" where
  "vault_evolves s t \<longleftrightarrow>
     intents_evolve s t \<and> approvals_evolve s t \<and> messages_evolve s t \<and> prefix (pay_event s) (pay_event t)
     \<and> prefix (pay_ledger s) (pay_ledger t) \<and> refs_grow s t"

lemma lease_steps_keep:
  "renew_reconciliation_lease i holder n s = Inr (u, t) \<Longrightarrow> keeps s t"
  "release_reconciliation_lease i holder n s = Inr (u, t) \<Longrightarrow> keeps s t"
  by (simp_all add: renew_reconciliation_lease_def release_reconciliation_lease_def update_lease_keeps)

lemma vault_step_kind: "vault_step X s t \<Longrightarrow> keeps s t \<or> manages s t"
  by (induction rule: vault_step.induct)
    (blast intro: create_local_manages create_external_manages rotate_manages mark_key_compromised_manages
      set_spending_limits_manages set_enabled_manages upsert_balance_manages policy_insert_manages
      policy_update_manages client_insert_manages client_set_enabled_manages scenario_register_manages
      register_with_policy_manages scenario_set_enabled_manages approver_upsert_manages
      approver_set_enabled_manages price_insert_manages price_update_manages price_delete_manages
      authorize_keeps record_challenge_keeps verify_incoming_keeps commit_progress_keeps
      record_outbound_evidence_keeps commit_settlement_keeps claim_batch_keeps
      request_approval_keeps decide_keeps
      consume_keeps expire_due_keeps commit_signed_keeps ledger_append_keeps append_batch_keeps
      outbox_claim_keeps outbox_transition_keeps lease_steps_keep)+

lemma same_catalog_admin:
  assumes "same_catalog s t" "admin_inv s"
  shows "admin_inv t" "refs_grow s t"
proof -
  note eq = assms(1) [unfolded same_catalog_def]
  show "refs_grow s t" using eq by (simp add: refs_grow_def)
  have "catalog_inv t = catalog_inv s"
    using eq by (simp add: catalog_inv_def pay_scenario_fk_def scenario_exists_def pay_price_fk_def)
  then show "admin_inv t"
    using assms(2) eq key_inv_core [of s t] binding_inv_cong [of t s] by (simp add: admin_inv_def)
qed

lemma keeps_vault:
  assumes "keeps s t" "vault_inv s"
  shows "vault_inv t" "vault_evolves s t"
  using assms same_catalog_admin [of s t] by (auto simp: keeps_def vault_inv_def vault_evolves_def)

lemma managed_intent_fk:
  assumes "refs_grow s t" "prices_kept s t" "pay_intent t = pay_intent s"
    and "r \<in> set (pay_intent s)" "pay_intent_fk s (ir_intent r)"
  shows "pay_intent_fk t (ir_intent r)"
proof -
  let ?i = "ir_intent r"
  have price: "list_ex (\<lambda>p. pr_id p = q \<and> pr_scenario_id p = pi_scenario_id ?i
      \<and> Some (pr_policy_id p) = pi_policy_id ?i \<and> Some (pr_wallet_id p) = pi_wallet_id ?i) (pay_price t)"
    if q: "pi_price_id ?i = Some q" for q
  proof -
    obtain p where p: "p \<in> set (pay_price s)" "pr_id p = q" "pr_scenario_id p = pi_scenario_id ?i"
      "Some (pr_policy_id p) = pi_policy_id ?i" "Some (pr_wallet_id p) = pi_wallet_id ?i"
      using assms(5) q by (auto simp: pay_intent_fk_def list_ex_iff)
    then have "price_key_referenced s p"
      using assms(4) q unfolding price_key_referenced_def list_ex_iff by metis
    then obtain p' where "p' \<in> set (pay_price t)" "price_key p' = price_key p"
      using assms(2) p(1) unfolding prices_kept_def by (metis imageE)
    with p show ?thesis by (auto simp: list_ex_iff price_key_def)
  qed
  show ?thesis
    using assms(1,5) price
    unfolding pay_intent_fk_def scenario_exists_def [symmetric] fk_keys refs_grow_def
    by (auto simp: is_none_or_iff subset_iff)
qed

lemma manages_vault:
  assumes "manages s t" "vault_inv s"
  shows "vault_inv t" "vault_evolves s t"
proof -
  have m: "admin_inv t" "same_payments s t" and grow: "refs_grow s t" "prices_kept s t"
    using assms by (simp_all add: manages_def vault_inv_def)
  note eq = m(2) [unfolded same_payments_def]
  have ev: "intents_evolve s t" using eq by (simp add: intents_evolve_same)
  show "vault_evolves s t" using eq ev grow(1) by (simp add: vault_evolves_def approvals_evolve_same)
  have "pay_ledger_fk t l" if "pay_ledger_fk s l" for l
    using that grow(1) eq unfolding pay_ledger_fk_def refs_grow_def scenario_exists_def [symmetric] fk_keys
    by (auto simp: is_none_or_iff subset_iff)
  then have "payment_refs_inv t"
    using assms(2) eq managed_intent_fk [OF grow] event_fk_evolves [OF _ ev]
    unfolding vault_inv_def payment_refs_inv_def by simp
  with m assms(2) eq show "vault_inv t"
    using payment_inv_frame [of s t] approval_inv_frame [OF _ _ ev]
    by (simp add: vault_inv_def journal_inv_def)
qed

lemma vault_step_inv:
  assumes "vault_step X s t" "vault_inv s"
  shows "vault_inv t" "vault_evolves s t"
  using vault_step_kind [OF assms(1)] keeps_vault [OF _ assms(2)] manages_vault [OF _ assms(2)] by blast+

lemma vault_evolves_refl: "vault_evolves s s"
  by (simp add: vault_evolves_def intents_evolve_same approvals_evolve_same)

lemma vault_evolves_trans: "vault_evolves s t \<Longrightarrow> vault_evolves t u \<Longrightarrow> vault_evolves s u"
  unfolding vault_evolves_def
  by (meson intents_evolve_trans approvals_evolve_trans messages_evolve_trans prefix_order.trans refs_grow_trans)

lemma vault_run:
  assumes "(vault_step X)\<^sup>*\<^sup>* s t" "vault_inv s"
  shows "vault_inv t" "vault_evolves s t"
  using assms(1)
proof induction
  case (step t u)
  from vault_step_inv [OF step(2) step(3)] step(4)
  show "vault_inv u" "vault_evolves s u" by (blast intro: vault_evolves_trans)+
qed (use assms(2) in \<open>simp_all add: vault_evolves_refl\<close>)

lemma vault_inv_empty: "vault_inv empty_db"
  by (simp add: vault_inv_def admin_inv_def key_inv_def key_history_def wallet_keys_def binding_inv_def
      find_wallet_def catalog_inv_def unique_rows_def payment_inv_def approval_inv_def journal_inv_def
      ledger_inv_def payment_refs_inv_def empty_db_def)

lemma reachable_inv: "reachable X s \<Longrightarrow> vault_inv s"
  unfolding reachable_def by (blast intro: vault_run(1) vault_inv_empty)

section \<open>Runs\<close>

lemma reachable_trans: "reachable X s \<Longrightarrow> (vault_step X)\<^sup>*\<^sup>* s t \<Longrightarrow> reachable X t"
  unfolding reachable_def by (rule rtranclp_trans)

lemma reachable_step: "reachable X s \<Longrightarrow> vault_step X s t \<Longrightarrow> reachable X t"
  by (rule reachable_trans) auto

lemma run_intent:
  assumes "reachable X s" "(vault_step X)\<^sup>*\<^sup>* s t" "load_intent s k = Some i"
  obtains j where "load_intent t k = Some j" "evolves i j"
  using vault_run(2) [OF assms(2) reachable_inv [OF assms(1)]] assms(3)
  by (auto simp: vault_evolves_def elim: intents_evolve_load)

lemma run_credential:
  assumes "reachable X s" "(vault_step X)\<^sup>*\<^sup>* s t" "intent_credential s k = Some h"
  shows "intent_credential t k = Some h"
  using vault_run(2) [OF assms(2) reachable_inv [OF assms(1)]] assms(3)
  by (auto simp: vault_evolves_def intro: intent_credential_evolves)

lemma run_approval:
  assumes "reachable X s" "(vault_step X)\<^sup>*\<^sup>* s t" "find_approval s k = Some a"
  obtains b where "find_approval t k = Some b" "approval_evolves a b"
  using vault_run(2) [OF assms(2) reachable_inv [OF assms(1)]] assms(3)
  by (auto simp: vault_evolves_def elim: approvals_evolve_find)

lemma run_message:
  assumes "reachable X s" "(vault_step X)\<^sup>*\<^sup>* s t" "find (\<lambda>m. ob_id m = k) (pay_outbox s) = Some m"
  obtains n where "find (\<lambda>m. ob_id m = k) (pay_outbox t) = Some n" "message_evolves m n"
  using vault_run(2) [OF assms(2) reachable_inv [OF assms(1)]] assms(3)
  by (auto simp: vault_evolves_def messages_evolve_def elim: message_history.grows_find)

lemma run_journals:
  assumes "reachable X s" "(vault_step X)\<^sup>*\<^sup>* s t"
  shows "prefix (pay_event s) (pay_event t)" "prefix (pay_ledger s) (pay_ledger t)"
  using vault_run(2) [OF assms(2) reachable_inv [OF assms(1)]] by (simp_all add: vault_evolves_def)

lemma released_stays: "reservation_step\<^sup>*\<^sup>* a b \<Longrightarrow> a \<in> {Released, Consumed} \<Longrightarrow> b = a"
  by (induction rule: rtranclp_induct) (auto elim: reservation_step_from)

lemma reachable_intent:
  assumes "reachable X s" "r \<in> set (pay_intent s)"
  shows "load_intent s (pi_id (ir_intent r)) = Some (ir_intent r)" "row_ok r" "consumed_backed (pay_ledger s) r"
proof -
  have inv: "payment_inv s" using reachable_inv [OF assms(1)] by (simp add: vault_inv_def)
  then show "row_ok r" "consumed_backed (pay_ledger s) r" using assms(2) by (auto simp: payment_inv_def)
  obtain q where q: "find (\<lambda>q. pi_id (ir_intent q) = pi_id (ir_intent r)) (pay_intent s) = Some q"
    using find_None_notin [of "\<lambda>q. pi_id (ir_intent q) = pi_id (ir_intent r)", OF _ assms(2)] by fastforce
  then have "q = r" using intent_row_unique [OF inv _ assms(2)] find_Some_in [OF q] by simp
  then show "load_intent s (pi_id (ir_intent r)) = Some (ir_intent r)" using q by (simp add: load_intent_def)
qed

text \<open>The intent that owns a run is the same along every run of the store.\<close>

lemma run_of_intent:
  assumes "reachable X s" "(vault_step X)\<^sup>*\<^sup>* s t" "load_intent_by_run s c k = Some i"
  obtains j where "load_intent_by_run t c k = Some j" "evolves i j"
proof -
  from assms(3) obtain q where q: "q \<in> set (pay_intent s)" "ir_intent q = i" "pi_scenario_id i = c" "pi_run_id i = k"
    by (auto simp: load_intent_by_run_def dest!: find_Some_in)
  obtain r where r: "r \<in> set (pay_intent t)" "evolves i (ir_intent r)"
    using vault_run(2) [OF assms(2) reachable_inv [OF assms(1)]] q intent_history.grows_in
    by (fastforce simp: vault_evolves_def intents_evolve_def row_evolves_def)
  then have same: "pi_scenario_id (ir_intent r) = c" "pi_run_id (ir_intent r) = k"
    using q by (simp_all add: evolves_def same_immutable_identity_as_def)
  obtain j where j: "load_intent_by_run t c k = Some j"
    using find_None_notin [of "\<lambda>i. pi_scenario_id i = c \<and> pi_run_id i = k" "map ir_intent (pay_intent t)" "ir_intent r"]
      r(1) same by (fastforce simp: load_intent_by_run_def)
  then obtain p where p: "p \<in> set (pay_intent t)" "ir_intent p = j" "pi_scenario_id j = c" "pi_run_id j = k"
    by (auto simp: load_intent_by_run_def dest!: find_Some_in)
  have "payment_inv t"
    using reachable_inv [OF reachable_trans [OF assms(1,2)]] by (simp add: vault_inv_def)
  then have "unique_rows pay_intent_clash (pay_intent t)" by (simp add: payment_inv_def)
  from filter_clash_unique [OF this r(1) clash_sym(4)] have "filter (\<lambda>y. pay_intent_clash y r) (pay_intent t) = [r]"
    by (simp add: pay_intent_clash_def)
  moreover have "p \<in> set (filter (\<lambda>y. pay_intent_clash y r) (pay_intent t))"
    using p same by (simp add: pay_intent_clash_def same_run_def)
  ultimately have "p = r" by simp
  with that j p(2) r(2) show thesis by simp
qed

lemma reachable_intent_wf: "reachable X s \<Longrightarrow> intent_wf s"
  using reachable_inv [of X s]
  by (fastforce simp: vault_inv_def payment_inv_def intent_wf_def unique_rows_def distinct_conv_nth
      sorted_wrt_iff_nth_less pay_intent_clash_def nat_neq_iff)

lemma reachable_outbox_wf: "reachable X s \<Longrightarrow> outbox_wf s"
  using reachable_inv [of X s]
  by (fastforce simp: vault_inv_def journal_inv_def outbox_wf_def unique_rows_def distinct_conv_nth
      sorted_wrt_iff_nth_less pay_outbox_clash_def nat_neq_iff)

end
