(* ===== verification/Demo.thy ===== *)
theory Demo
  imports Vault "HOL-Library.Code_Target_Nat"
begin

text \<open>
  One concrete run of the store, from the empty database: a client, a wallet with its key, a scenario
  with its policy, then payments. It shows that the hypotheses of the theorems on runs
  can hold together, with a concrete function for every third-party one.
\<close>

section \<open>The third-party functions\<close>

text \<open>Small numbers are inside every word: evaluation need not compute the modulus.\<close>

lemma take_bit_small [code]:
  "take_bit n (k :: int) = (if 0 \<le> k \<and> k < 256 \<and> 8 \<le> n then k else k mod 2 ^ n)"
proof -
  have "k mod 2 ^ n = k" if k: "0 \<le> k" "k < 256" "8 \<le> n"
  proof -
    have "(2 :: int) ^ 8 \<le> 2 ^ n" using k(3) by (intro power_increasing) simp_all
    then show ?thesis using k by simp
  qed
  then show ?thesis by (simp add: take_bit_eq_mod)
qed

definition demo_X :: externals where
  "demo_X = \<lparr>x_pubkey = (\<lambda>v. if v = ''A'' \<or> v = ''B'' then Some v else None), x_signature = (\<lambda>_. None),
     x_sha256 = (\<lambda>v. take 32 (v @ replicate 32 (CHR 0x00))), x_url = (\<lambda>v. if v = ''v'' then Some \<lparr>url_scheme = ''http'', url_host = Some ''a'', url_username = [],
         url_password = None, url_fragment = None, url_origin = ''o''\<rparr> else None)\<rparr>"

section \<open>The catalogue\<close>

definition demo_client :: PaymentClient where
  "demo_client = \<lparr>cl_id = ''c'', cl_name = ''n'', cl_auth_principal = ''u'', cl_enabled = True,
     cl_created_at = 1, cl_updated_at = 1\<rparr>"

definition demo_wallet :: Wallet where
  "demo_wallet = \<lparr>w_id = ''w'', w_algorithm = ''ed25519'', w_address = ''A'',
     w_public_key = ''k'', w_created_at = 1\<rparr>"

definition demo_key :: EncryptedWalletKeyVersion where
  "demo_key = \<lparr>kv_wallet_id = ''w'', kv_version = 1, kv_algorithm = ''ed25519'',
     kv_address = ''A'', kv_public_key = ''k'', kv_encryption_scheme = ENCRYPTION_SCHEME,
     kv_kek_id = ''k'', kv_wrapped_data_key = ''d'', kv_wrap_nonce = replicate 16 (CHR ''n''),
     kv_key_ciphertext = ''x'', kv_key_nonce = replicate 16 (CHR ''m''), kv_aad = ''a'',
     kv_status = Active, kv_activated_at = 1, kv_retired_at = None, kv_created_at = 1\<rparr>"

definition demo_unit :: BudgetUnit where
  "demo_unit = \<lparr>bu_asset = ''U'', bu_decimals = 6\<rparr>"

definition demo_asset :: AssetIdentity where
  "demo_asset = \<lparr>ai_network = ''solana:1'', ai_asset = ''U'', ai_token_contract = None, ai_decimals = 6\<rparr>"

definition demo_config :: WalletCreationConfig where
  "demo_config = \<lparr>wc_enabled = True, wc_budget_unit = Some demo_unit, wc_max_per_payment = Some 50,
     wc_max_per_day = Some 100\<rparr>"

definition demo_scenario :: PaymentScenario where
  "demo_scenario = \<lparr>sc_id = ''s'', sc_client_id = ''c'', sc_name = ''n'', sc_enabled = True,
     sc_created_at = 1, sc_updated_at = 1\<rparr>"

definition demo_limits :: PaymentPolicyLimits where
  "demo_limits = \<lparr>pl_max_per_payment = 50, pl_max_per_day = 80, pl_approval_threshold = Some 40,
     pl_approval_enabled = True, pl_approval_overage = Some 10\<rparr>"

definition demo_policy :: PaymentPolicy where
  "demo_policy = \<lparr>pp_id = ''p'', pp_scenario_id = ''s'', pp_wallet_ids = [''w''],
     pp_protocols = [''x''], pp_networks = [''solana:1''], pp_assets = [demo_asset],
     pp_budget_unit = demo_unit, pp_allowed_recipients = [''B''],
     pp_allowed_origins = [''o''], pp_inbound_limits = None,
     pp_outbound_limits = Some demo_limits, pp_enabled = True, pp_created_at = 1, pp_updated_at = 1\<rparr>"

definition demo_clients :: db where
  "demo_clients = empty_db\<lparr>pay_client := [demo_client]\<rparr>"

definition demo_wallet_row :: PaymentWallet where
  "demo_wallet_row = \<lparr>pw_wallet = demo_wallet, pw_custody = Local, pw_enabled = True,
     pw_active_key_version = None, pw_budget_unit = Some demo_unit, pw_max_per_payment = Some 50,
     pw_max_per_day = Some 100, pw_updated_at = 1\<rparr>"

definition demo_wallets :: db where
  "demo_wallets = demo_clients\<lparr>pay_wallet := [demo_wallet_row], wallet_key_version := [demo_key]\<rparr>"

definition demo_catalog :: db where
  "demo_catalog = demo_wallets\<lparr>pay_scenario := [demo_scenario],
     pay_policy := [demo_policy\<lparr>pp_wallet_ids := []\<rparr>],
     pay_policy_wallet := [\<lparr>pm_policy_id = ''p'', pm_wallet_id = ''w'', pm_created_at = 1\<rparr>]\<rparr>"

lemma demo_client_insert: "client_insert demo_client empty_db = Inr (demo_client, demo_clients)"
  by code_simp

lemma demo_create_local:
  "create_local_configured demo_X demo_wallet demo_key demo_config demo_clients
     = (Inr demo_wallet, demo_wallets)"
  by code_simp

lemma demo_register:
  "register_with_policy demo_scenario demo_policy demo_wallets
     = (Inr (Inserted \<lparr>cfg_scenario = demo_scenario, cfg_policy = demo_policy\<rparr>), demo_catalog)"
  by code_simp

section \<open>A reserved payment\<close>

definition demo_challenge :: PaymentChallenge where
  "demo_challenge = \<lparr>pc_scenario_id = ''s'', pc_price_id = None, pc_resource = ''v'',
     pc_protocol = ''x'', pc_asset = demo_asset, pc_amount = 30, pc_recipient = ''B'',
     pc_nonce = ''n'', pc_challenge_hash = ''h'', pc_expires_at = 1000, pc_payload = JNull\<rparr>"

definition demo_intent :: PaymentIntent where
  "demo_intent = \<lparr>pi_id = ''i'', pi_scenario_id = ''s'', pi_run_id = ''r'', pi_wallet_id = Some ''w'',
     pi_policy_id = Some ''p'', pi_price_id = None, pi_direction = Outbound, pi_protocol = ''x'',
     pi_asset = demo_asset, pi_recipient = ''B'', pi_amount = 30, pi_settled_amount = 0,
     pi_resource = ''v'', pi_challenge_hash = Some ''h'', pi_request_hash = ''h'', pi_status = Authorized,
     pi_reservation_status = Reserved, pi_reserved_amount = 30, pi_tx_hash = None,
     pi_settlement_ref = None, pi_next_reconcile_at = None, pi_created_at = 100, pi_updated_at = 100,
     pi_expires_at = Some 1000, pi_settled_at = None\<rparr>"

definition demo_guard :: AuthorizationGuard where
  "demo_guard = \<lparr>g_principal = ''u'', g_client = demo_client, g_scenario = demo_scenario,
     g_policy = demo_policy, g_expected_wallet_updated_at = 1, g_expected_wallet_key_version = Some 1,
     g_origin = ''o'', g_day_started_at = 0, g_evaluated_at = 100\<rparr>"

definition demo_received :: PaymentEvent where
  "demo_received = \<lparr>ev_id = ''1'', ev_intent_id = ''i'', ev_event_type = ChallengeReceived,
     ev_attempt_no = 0, ev_signature_ref = None, ev_tx_hash = None,
     ev_payload = json_object [(''challenge'', challenge_to_value demo_challenge),
       (''challenge_hash'', JString ''h'')], ev_created_at = 100\<rparr>"

definition demo_row :: "PaymentIntent \<Rightarrow> intent_row" where
  "demo_row i = \<lparr>ir_intent = i, ir_credential_hash = None, ir_reconcile_attempts = 0,
     ir_lease_owner = None, ir_lease_expires_at = None\<rparr>"

definition demo_reserved :: db where
  "demo_reserved = demo_catalog\<lparr>pay_intent := [demo_row demo_intent], pay_event := [demo_received]\<rparr>"

lemma demo_authorize:
  "authorize demo_X demo_intent None Reserve demo_guard [demo_received] [] demo_catalog
     = (Inr (Inserted \<lparr>arec_intent = demo_intent, arec_approval = None\<rparr>), demo_reserved)"
  by code_simp


section \<open>Signing and settlement\<close>

definition demo_sealed :: SealedSensitiveMaterial where
  "demo_sealed = \<lparr>sm_version = 1, sm_key_id = ''k'', sm_nonce = ''n'', sm_ciphertext = ''c''\<rparr>"

definition demo_signed_intent :: PaymentIntent where
  "demo_signed_intent = demo_intent\<lparr>pi_status := Signed, pi_next_reconcile_at := Some 130,
     pi_updated_at := 110\<rparr>"

definition demo_signing_guard :: SigningGuard where
  "demo_signing_guard = \<lparr>sg_principal = ''u'', sg_client_id = ''c'', sg_expected_client_updated_at = 1,
     sg_scenario_id = ''s'', sg_expected_scenario_updated_at = 1, sg_policy_id = ''p'',
     sg_expected_policy_updated_at = 1, sg_wallet_id = ''w'', sg_expected_wallet_updated_at = 1,
     sg_expected_key_version = 1, sg_expected_intent_updated_at = 100, sg_challenge_hash = ''h'',
     sg_evaluated_at = 105\<rparr>"

definition demo_event :: "string \<Rightarrow> string \<Rightarrow> PaymentEventType \<Rightarrow> int \<Rightarrow> PaymentEvent" where
  "demo_event eid intent kind created = \<lparr>ev_id = eid, ev_intent_id = intent, ev_event_type = kind,
     ev_attempt_no = 0, ev_signature_ref = None, ev_tx_hash = None, ev_payload = JNull,
     ev_created_at = created\<rparr>"

definition demo_requested :: PaymentEvent where
  "demo_requested = demo_event ''2'' ''i'' SignRequested 110"

definition demo_signed_event :: PaymentEvent where
  "demo_signed_event = (demo_event ''3'' ''i'' EvSigned 110)\<lparr>ev_signature_ref := Some ''h'',
     ev_payload := json_object [(''credential_hash'', JString ''h''),
       (''sealed_credential'', sealed_to_value demo_sealed)]\<rparr>"

definition demo_signed_row :: "PaymentIntent \<Rightarrow> intent_row" where
  "demo_signed_row i = (demo_row i)\<lparr>ir_credential_hash := Some ''h''\<rparr>"

definition demo_signed :: db where
  "demo_signed = demo_reserved\<lparr>pay_intent := [demo_signed_row demo_signed_intent],
     pay_event := [demo_received, demo_requested, demo_signed_event]\<rparr>"

definition demo_signed_payment :: PersistedSignedPayment where
  "demo_signed_payment = \<lparr>sp_identity = \<lparr>si_client = demo_client, si_scenario = demo_scenario,
       si_intent = demo_signed_intent, si_challenge = demo_challenge\<rparr>,
     sp_credential_hash = ''h'', sp_sealed_credential = demo_sealed\<rparr>"

lemma demo_commit_signed:
  "commit_signed demo_X demo_signed_intent demo_challenge ''h'' demo_sealed demo_signing_guard
     [demo_requested, demo_signed_event] [] demo_reserved = (Inr (Inserted demo_signed_payment), demo_signed)"
  by code_simp

definition demo_settled_intent :: PaymentIntent where
  "demo_settled_intent = demo_signed_intent\<lparr>pi_status := Settled, pi_next_reconcile_at := None,
     pi_settled_amount := 30,
     pi_reservation_status := Consumed, pi_tx_hash := Some ''t'', pi_updated_at := 120,
     pi_settled_at := Some 120\<rparr>"

definition demo_transfer :: PaymentLedgerEntry where
  "demo_transfer = \<lparr>le_id = ''l'', le_intent_id = Some ''i'', le_scenario_id = Some ''s'',
     le_wallet_id = ''w'', le_entry_type = Transfer, le_direction = Outbound, le_asset = demo_asset,
     le_amount = 30, le_posting_key = ''k'', le_tx_hash = Some ''t'', le_settlement_ref = None,
     le_effect_ref = None, le_transfer_ref = Some ''t'', le_reversal_of = None, le_effective_at = 115,
     le_created_at = 120\<rparr>"

definition demo_settled_event :: PaymentEvent where
  "demo_settled_event = demo_event ''4'' ''i'' EvSettled 120"

definition demo_settled :: db where
  "demo_settled = demo_signed\<lparr>pay_intent := [demo_signed_row demo_settled_intent],
     pay_event := [demo_received, demo_requested, demo_signed_event, demo_settled_event],
     pay_ledger := [demo_transfer]\<rparr>"

lemma demo_commit_settlement:
  "commit_settlement demo_settled_intent 110 [demo_settled_event] [demo_transfer] [] demo_signed
     = (Inr demo_settled_intent, demo_settled)"
  by code_simp


section \<open>A payment that needs approval\<close>

definition demo_challenge2 :: PaymentChallenge where
  "demo_challenge2 = demo_challenge\<lparr>pc_amount := 45, pc_challenge_hash := ''g''\<rparr>"

definition demo_pending_intent :: PaymentIntent where
  "demo_pending_intent = demo_intent\<lparr>pi_id := ''j'', pi_run_id := ''q'', pi_amount := 45,
     pi_challenge_hash := Some ''g'', pi_request_hash := ''g'', pi_status := PendingApproval,
     pi_reservation_status := Unreserved, pi_reserved_amount := 0, pi_created_at := 200,
     pi_updated_at := 200\<rparr>"

definition demo_approval :: ApprovalRequest where
  "demo_approval = \<lparr>ar_id = ''a'', ar_intent_id = ''j'', ar_run_id = ''q'', ar_requested_amount = 45,
     ar_approved_amount = None, ar_requested_by = ''u'', ar_approved_by = None, ar_status = ApPending,
     ar_intent_hash = ''g'', ar_grant_jti = None, ar_grant_claims_hash = None,
     ar_sealed_grant_token = None, ar_expires_at = 900, ar_consumed_at = None, ar_created_at = 200,
     ar_approved_at = None\<rparr>"

definition demo_received2 :: PaymentEvent where
  "demo_received2 = (demo_event ''5'' ''j'' ChallengeReceived 200)\<lparr>
     ev_payload := json_object [(''challenge'', challenge_to_value demo_challenge2),
       (''challenge_hash'', JString ''g'')]\<rparr>"

definition demo_message :: OutboxMessage where
  "demo_message = \<lparr>ob_id = ''m'', ob_aggregate_type = ''y'', ob_aggregate_id = ''j'',
     ob_event_type = ''z'', ob_destination = ''client:c.payments'', ob_run_id = ''q'', ob_payload = JNull,
     ob_status = ObPending, ob_attempt_count = 0, ob_available_at = 200, ob_lease_owner = None,
     ob_lease_expires_at = None, ob_last_error = None, ob_created_at = 200, ob_delivered_at = None\<rparr>"

definition demo_pending :: db where
  "demo_pending = demo_catalog\<lparr>pay_intent := [demo_row demo_pending_intent],
     pay_event := [demo_received2], pay_approval := [demo_approval],
     pay_outbox := [demo_message]\<rparr>"

lemma demo_request:
  "authorize demo_X demo_pending_intent (Some demo_approval) RequestApproval
     (demo_guard\<lparr>g_evaluated_at := 200\<rparr>) [demo_received2] [demo_message] demo_catalog
   = (Inr (Inserted \<lparr>arec_intent = demo_pending_intent, arec_approval = Some demo_approval\<rparr>), demo_pending)"
  by code_simp

definition demo_claims :: ApprovalGrantClaims where
  "demo_claims = \<lparr>gc_iss = ''v'', gc_aud = ''p'', gc_jti = ''j'', gc_approval_id = ''a'',
     gc_intent_id = ''j'', gc_intent_hash = ''g'', gc_amount = 45, gc_approver = ''b'', gc_iat = 210,
     gc_exp = 800\<rparr>"

definition demo_claims_hash :: string where
  "demo_claims_hash = replicate 64 (CHR ''0'')"

definition demo_grant :: ApprovalGrant where
  "demo_grant = \<lparr>ag_claims = demo_claims, ag_claims_hash = demo_claims_hash, ag_sealed_token = demo_sealed\<rparr>"

definition demo_decision :: ApprovalDecision where
  "demo_decision = \<lparr>ad_approval_id = ''a'', ad_intent_id = ''j'', ad_decision = Approve,
     ad_approved_amount = Some 45, ad_approved_by = ''b'', ad_reason = None, ad_decided_at = 210\<rparr>"

definition demo_granted_event :: PaymentEvent where
  "demo_granted_event = demo_event ''6'' ''j'' ApprovalGranted 210"

definition demo_approved :: db where
  "demo_approved = demo_pending\<lparr>pay_approval := [approve_row demo_grant 210 demo_approval],
     pay_event := pay_event demo_pending @ [demo_granted_event]\<rparr>"

lemma demo_decide:
  "decide demo_decision (Some demo_grant) None demo_granted_event [] demo_pending
     = (Inr (approve_row demo_grant 210 demo_approval), demo_approved)"
  by code_simp

definition demo_verified :: VerifiedApprovalGrant where
  "demo_verified = \<lparr>vg_claims = demo_claims, vg_claims_hash = demo_claims_hash\<rparr>"

definition demo_approved_intent :: PaymentIntent where
  "demo_approved_intent = demo_pending_intent\<lparr>pi_status := Authorized, pi_reservation_status := Reserved,
     pi_reserved_amount := 45, pi_updated_at := 220\<rparr>"

definition demo_consumed_event :: PaymentEvent where
  "demo_consumed_event = demo_event ''7'' ''j'' ApprovalConsumed 220"

definition demo_consumed :: db where
  "demo_consumed = demo_approved\<lparr>
     pay_intent := [demo_row demo_approved_intent],
     pay_approval := [consume_row 220 (approve_row demo_grant 210 demo_approval)],
     pay_event := pay_event demo_approved @ [demo_consumed_event]\<rparr>"

lemma demo_consume:
  "consume_and_reserve demo_X demo_verified demo_approved_intent ''o'' 0 220 200 220
     demo_consumed_event [] demo_approved = (Inr demo_approved_intent, demo_consumed)"
  by code_simp

section \<open>The runs\<close>

lemma demo_reachable_catalog: "reachable demo_X demo_catalog"
  unfolding reachable_def
  by (meson converse_rtranclp_into_rtranclp rtranclp.rtrancl_refl step_client_insert step_create_local
      step_scenario_policy demo_client_insert demo_create_local demo_register)

lemma demo_steps:
  "vault_step demo_X demo_catalog demo_reserved" "vault_step demo_X demo_reserved demo_signed"
  "vault_step demo_X demo_signed demo_settled" "vault_step demo_X demo_catalog demo_pending"
  "vault_step demo_X demo_pending demo_approved" "vault_step demo_X demo_approved demo_consumed"
  by (rule step_authorize [OF demo_authorize] step_commit_signed [OF demo_commit_signed]
      step_commit_settlement [OF demo_commit_settlement] step_authorize [OF demo_request]
      step_decide [OF demo_decide] step_consume [OF demo_consume])+

lemma demo_reachable:
  "reachable demo_X demo_reserved" "reachable demo_X demo_signed" "reachable demo_X demo_settled"
  "reachable demo_X demo_pending" "reachable demo_X demo_approved" "reachable demo_X demo_consumed"
  using demo_reachable_catalog demo_steps by (meson reachable_step)+

section \<open>A claim, and a second scenario on the same wallet\<close>

definition demo_lease :: OutboxLeaseRequest where
  "demo_lease = \<lparr>lr_owner = ''a'', lr_class = PaymentEvents, lr_now = 300, lr_lease_until = 400, lr_limit = 5\<rparr>"

definition demo_claimed :: db where
  "demo_claimed = demo_pending\<lparr>pay_outbox := [outbox_take demo_lease demo_message]\<rparr>"

lemma demo_claim:
  "outbox_claim demo_lease demo_pending = (Inr [outbox_take demo_lease demo_message], demo_claimed)"
  by code_simp

definition demo_reconcile :: ReconciliationLeaseRequest where
  "demo_reconcile = \<lparr>rl_owner = ''a'', rl_now = 300, rl_lease_until = 400, rl_limit = 5\<rparr>"

definition demo_scenario2 :: PaymentScenario where
  "demo_scenario2 = demo_scenario\<lparr>sc_id := ''S''\<rparr>"

definition demo_policy2 :: PaymentPolicy where
  "demo_policy2 = demo_policy\<lparr>pp_id := ''P'', pp_scenario_id := ''S''\<rparr>"

definition demo_shared :: db where
  "demo_shared = demo_catalog\<lparr>pay_scenario := [demo_scenario, demo_scenario2],
     pay_policy := [demo_policy\<lparr>pp_wallet_ids := []\<rparr>, demo_policy2\<lparr>pp_wallet_ids := []\<rparr>],
     pay_policy_wallet := [\<lparr>pm_policy_id = ''p'', pm_wallet_id = ''w'', pm_created_at = 1\<rparr>,
       \<lparr>pm_policy_id = ''P'', pm_wallet_id = ''w'', pm_created_at = 1\<rparr>]\<rparr>"

lemma demo_register2:
  "register_with_policy demo_scenario2 demo_policy2 demo_catalog
     = (Inr (Inserted \<lparr>cfg_scenario = demo_scenario2, cfg_policy = demo_policy2\<rparr>), demo_shared)"
  by code_simp

lemma demo_reachable_shared: "reachable demo_X demo_shared"
  using reachable_step [OF demo_reachable_catalog step_scenario_policy [OF demo_register2]] .

end
