(* ===== verification/Access.thy ===== *)
theory Access
  imports Catalog_Store
begin

text \<open>
  Who may act on what (\<^verbatim>\<open>handler/client.rs\<close>, \<^verbatim>\<open>handler/scenario.rs\<close>, the approver check of
  \<^verbatim>\<open>payment/approval.rs\<close>), and the validation helpers of the payment services
  (\<^verbatim>\<open>payment/validation.rs\<close>): identifiers, HTTP origins and UTC days. The lemmas state what a resolved
  access context guarantees and that the days tile the time line.
\<close>

section \<open>Definitions\<close>

definition is_identifier :: "string \<Rightarrow> bool" where
  "is_identifier v \<longleftrightarrow>
     v \<noteq> [] \<and> length v \<le> 128
     \<and> list_all (\<lambda>b. is_ascii_alphanumeric b \<or> b \<in> {CHR ''.'', CHR ''_'', CHR ''-'', CHR '':''}) v"

definition validate_identifier :: "string \<Rightarrow> string \<Rightarrow> unit result" where
  "validate_identifier field v =
     (if is_identifier v then Inr () else Inl (InvalidRequest (field @ '' is invalid'')))"

definition canonical_http_origin :: "externals \<Rightarrow> string \<Rightarrow> string result" where
  "canonical_http_origin X resource =
     and_then (ok_or (x_url X resource) (InvalidRequest ''payment resource is not an absolute URL'')) (\<lambda>parsed.
     if url_scheme parsed \<notin> {''http'', ''https''}
        \<or> url_host parsed = None
        \<or> url_username parsed \<noteq> []
        \<or> url_password parsed \<noteq> None
        \<or> url_fragment parsed \<noteq> None
     then Inl (InvalidRequest ''payment resource URL is unsafe'')
     else Inr (url_origin parsed))"

definition utc_day_start :: "int \<Rightarrow> int" where
  "utc_day_start now = saturating_sub now (now mod 86400)"

definition outbound_credential_context :: "string \<Rightarrow> string" where
  "outbound_credential_context intent_id = ''payment:'' @ intent_id @ '':outbound-credential''"

definition next_timestamp :: "int \<Rightarrow> int \<Rightarrow> int" where
  "next_timestamp previous now = max now (saturating_add previous 1)"

text \<open>
  The event and the message a service writes: a fresh event of the first attempt, and a message that no
  worker has seen.
\<close>

definition fresh_event :: "string \<Rightarrow> PaymentIntent \<Rightarrow> PaymentEventType \<Rightarrow> json \<Rightarrow> int \<Rightarrow> PaymentEvent" where
  "fresh_event eid i event_type payload at =
     \<lparr>ev_id = eid, ev_intent_id = pi_id i, ev_event_type = event_type, ev_attempt_no = 0, ev_signature_ref = None,
      ev_tx_hash = None, ev_payload = payload, ev_created_at = at\<rparr>"

definition fresh_message ::
  "string \<Rightarrow> string \<Rightarrow> string \<Rightarrow> string \<Rightarrow> string \<Rightarrow> string \<Rightarrow> json \<Rightarrow> int \<Rightarrow> OutboxMessage" where
  "fresh_message mid aggregate_type aggregate_id event_type destination run_id payload at =
     \<lparr>ob_id = mid, ob_aggregate_type = aggregate_type, ob_aggregate_id = aggregate_id,
      ob_event_type = event_type, ob_destination = destination, ob_run_id = run_id, ob_payload = payload,
      ob_status = ObPending, ob_attempt_count = 0, ob_available_at = at, ob_lease_owner = None,
      ob_lease_expires_at = None, ob_last_error = None, ob_created_at = at, ob_delivered_at = None\<rparr>"

definition client_authenticate :: "db \<Rightarrow> string \<Rightarrow> PaymentClient result" where
  "client_authenticate s who =
     (if is_blank who then Inl Unauthenticated
      else case find_by_principal s who of
        Some c \<Rightarrow> if authenticates c who then Inr c else Inl Forbidden
      | None \<Rightarrow> Inl Forbidden)"

record AccessContext =
  ac_principal :: string
  ac_client :: PaymentClient
  ac_scenario :: PaymentScenario

definition filter_opt :: "('a \<Rightarrow> bool) \<Rightarrow> 'a option \<Rightarrow> 'a option" where
  "filter_opt p x = (case x of Some a \<Rightarrow> if p a then Some a else None | None \<Rightarrow> None)"

definition scenario_authorize :: "db \<Rightarrow> string \<Rightarrow> string \<Rightarrow> AccessContext result" where
  "scenario_authorize s who scenario_id =
     (if who = UNRESTRICTED_PRINCIPAL then
        and_then (ok_or (filter_opt sc_enabled (scenario_get s scenario_id)) Forbidden) (\<lambda>sc.
        and_then (ok_or (filter_opt cl_enabled (client_get s (sc_client_id sc))) Forbidden) (\<lambda>c.
        Inr \<lparr>ac_principal = cl_auth_principal c, ac_client = c, ac_scenario = sc\<rparr>))
      else
        and_then (client_authenticate s who) (\<lambda>c.
        and_then (ok_or (filter_opt sc_enabled (scenario_get_for_client s (cl_id c) scenario_id)) Forbidden) (\<lambda>sc.
        Inr \<lparr>ac_principal = who, ac_client = c, ac_scenario = sc\<rparr>)))"

definition authorize_approver :: "db \<Rightarrow> string \<Rightarrow> string \<Rightarrow> unit result" where
  "authorize_approver s who scenario_id =
     (if who = UNRESTRICTED_PRINCIPAL then Inr ()
      else if is_blank who \<or> is_blank scenario_id then Inl Forbidden
      else if is_authorized s scenario_id who then Inr ()
      else Inl Forbidden)"

section \<open>What they guarantee\<close>

lemma fresh_event_simps [simp]:
  "ev_intent_id (fresh_event eid i ty p at) = pi_id i" "ev_event_type (fresh_event eid i ty p at) = ty"
  "ev_attempt_no (fresh_event eid i ty p at) = 0" "ev_payload (fresh_event eid i ty p at) = p"
  "ev_id (fresh_event eid i ty p at) = eid" "ev_created_at (fresh_event eid i ty p at) = at"
  "ev_signature_ref (fresh_event eid i ty p at) = None" "ev_tx_hash (fresh_event eid i ty p at) = None"
  by (simp_all add: fresh_event_def)

lemma next_timestamp_advances: "previous < i64_max \<Longrightarrow> i64_min \<le> previous \<Longrightarrow> previous < next_timestamp previous now"
  by (simp add: next_timestamp_def saturating_add_def i64_clamp_def i64_max_def i64_min_def)

lemma filter_opt_Some [simp]: "filter_opt p x = Some a \<longleftrightarrow> x = Some a \<and> p a"
  by (auto simp: filter_opt_def split: option.splits)

lemma validate_identifier_ok [simp]: "validate_identifier f v = Inr u \<longleftrightarrow> is_identifier v"
  by (simp add: validate_identifier_def)

lemma canonical_http_origin_ok:
  "canonical_http_origin X r = Inr x \<longleftrightarrow>
     (\<exists>p. x_url X r = Some p \<and> url_scheme p \<in> {''http'', ''https''} \<and> url_host p \<noteq> None
        \<and> url_username p = [] \<and> url_password p = None \<and> url_fragment p = None \<and> x = url_origin p)"
  by (auto simp: canonical_http_origin_def result_simps)

lemma client_authenticate_ok:
  "client_authenticate s who = Inr c \<Longrightarrow>
     c \<in> set (pay_client s) \<and> authenticates c who \<and> find_by_principal s who = Some c"
  by (auto simp: client_authenticate_def find_by_principal_def dest: find_Some_in
      split: if_splits option.splits)

lemma utc_day_start_bounds:
  assumes "in_i64 now" "0 \<le> now"
  shows "0 \<le> utc_day_start now" "utc_day_start now \<le> now" "now < utc_day_start now + 86400"
    and "utc_day_start now mod 86400 = 0"
proof -
  have m: "0 \<le> now mod 86400" "now mod 86400 < 86400" "now mod 86400 \<le> now"
    using assms(2) by (simp_all add: zmod_le_nonneg_dividend)
  then have eq: "utc_day_start now = now - now mod 86400"
    using assms by (simp add: utc_day_start_def saturating_sub_def i64_clamp_def in_i64_def i64_min_def)
  show "0 \<le> utc_day_start now" "utc_day_start now \<le> now" "now < utc_day_start now + 86400"
    using m by (simp_all add: eq)
  show "utc_day_start now mod 86400 = 0" by (simp add: eq mod_diff_eq [symmetric])
qed

lemma scenario_authorize_ok:
  assumes "scenario_authorize s who scenario_id = Inr a"
  shows "ac_client a \<in> set (pay_client s)" "cl_enabled (ac_client a)"
    and "cl_auth_principal (ac_client a) = ac_principal a"
    and "ac_scenario a \<in> set (pay_scenario s)" "sc_id (ac_scenario a) = scenario_id" "sc_enabled (ac_scenario a)"
    and "sc_client_id (ac_scenario a) = cl_id (ac_client a)"
    and "who \<noteq> UNRESTRICTED_PRINCIPAL \<Longrightarrow> ac_principal a = who \<and> authenticates (ac_client a) who"
proof -
  consider (open_edge) sc c where "who = UNRESTRICTED_PRINCIPAL" "scenario_get s scenario_id = Some sc"
      "sc_enabled sc" "client_get s (sc_client_id sc) = Some c" "cl_enabled c"
      "a = \<lparr>ac_principal = cl_auth_principal c, ac_client = c, ac_scenario = sc\<rparr>"
    | (closed) c sc where "who \<noteq> UNRESTRICTED_PRINCIPAL" "client_authenticate s who = Inr c"
      "scenario_get_for_client s (cl_id c) scenario_id = Some sc" "sc_enabled sc"
      "a = \<lparr>ac_principal = who, ac_client = c, ac_scenario = sc\<rparr>"
    using assms by (auto simp: scenario_authorize_def result_simps split: if_splits)
  note cases = this
  from cases show "ac_client a \<in> set (pay_client s)"
    by cases (auto simp: client_get_def dest: find_Some_in client_authenticate_ok)
  from cases show "cl_enabled (ac_client a)"
    by cases (auto simp: authenticates_def dest: client_authenticate_ok)
  from cases show "cl_auth_principal (ac_client a) = ac_principal a"
    by cases (auto simp: authenticates_def dest: client_authenticate_ok)
  from cases show "ac_scenario a \<in> set (pay_scenario s)"
    by cases (auto simp: scenario_get_def scenario_get_for_client_def dest: find_Some_in)
  from cases show "sc_id (ac_scenario a) = scenario_id"
    by cases (auto simp: scenario_get_def scenario_get_for_client_def dest: find_Some_in)
  from cases show "sc_enabled (ac_scenario a)" by cases auto
  from cases show "sc_client_id (ac_scenario a) = cl_id (ac_client a)"
    by cases (auto simp: scenario_get_for_client_def client_get_def dest: find_Some_in)
  show "who \<noteq> UNRESTRICTED_PRINCIPAL \<Longrightarrow> ac_principal a = who \<and> authenticates (ac_client a) who"
    using cases by cases (auto dest: client_authenticate_ok)
qed

end
