(* ===== verification/Material.thy ===== *)
theory Material
  imports Access Signing_Store
begin

text \<open>
  Sealed recovery material (\<^verbatim>\<open>utils/secure_material.rs\<close>, \<^verbatim>\<open>utils/aead.rs\<close>): an AES-256-GCM key
  ring that seals bytes under a context and opens them again. The cipher, base64, JSON text and JWTs are
  third-party code: they are the fields of a record that the definitions take as an argument, and what they
  are documented to do are the named predicates below. The lemmas show that an envelope opens with its key
  ring, also after a key rotation, and only in the context it was sealed for.
\<close>

section \<open>Third-party primitives\<close>

text \<open>
  \<^verbatim>\<open>k_to_vec\<close> is \<^verbatim>\<open>serde_json::to_vec\<close>, which writes the fields of an object in the order of
  the list; \<^verbatim>\<open>k_from_slice\<close> is \<^verbatim>\<open>serde_json::from_slice\<close> to a value; \<^verbatim>\<open>k_b64\<close> and
  \<^verbatim>\<open>k_unb64\<close> are the unpadded URL-safe base64 codec; \<^verbatim>\<open>k_uuid_v4\<close> tells whether 16 bytes are a
  random RFC 4122 UUID; \<^verbatim>\<open>k_encrypt\<close> and \<^verbatim>\<open>k_decrypt\<close> take a key, a nonce, the associated data
  and a message; the \<^verbatim>\<open>k_jwt\<close> functions are \<^verbatim>\<open>jsonwebtoken\<close>'s \<^verbatim>\<open>encode\<close>,
  \<^verbatim>\<open>decode_header\<close> and \<^verbatim>\<open>decode\<close> with an audience and an issuer. \<^verbatim>\<open>k_debug\<close> is how
  \<^verbatim>\<open>{:?}\<close> quotes a string, which depends on the tables of Unicode.
\<close>

record jwt_header =
  jh_alg :: string
  jh_typ :: "string option"
  jh_kid :: "string option"

record primitives =
  k_to_vec :: "json \<Rightarrow> string"
  k_from_slice :: "string \<Rightarrow> json option"
  k_b64 :: "string \<Rightarrow> string"
  k_unb64 :: "string \<Rightarrow> string option"
  k_uuid_v4 :: "string \<Rightarrow> bool"
  k_encrypt :: "string \<Rightarrow> string \<Rightarrow> string \<Rightarrow> string \<Rightarrow> string option"
  k_decrypt :: "string \<Rightarrow> string \<Rightarrow> string \<Rightarrow> string \<Rightarrow> string option"
  k_jwt_encode :: "jwt_header \<Rightarrow> json \<Rightarrow> string \<Rightarrow> string option"
  k_jwt_header :: "string \<Rightarrow> jwt_header option"
  k_jwt_decode :: "string \<Rightarrow> string \<Rightarrow> string \<Rightarrow> string \<Rightarrow> json option"
  k_debug :: "string \<Rightarrow> string"

definition base64_inverts :: "primitives \<Rightarrow> bool" where
  "base64_inverts K \<longleftrightarrow> (\<forall>v. k_unb64 K (k_b64 K v) = Some v)"

definition aead_decrypts :: "primitives \<Rightarrow> bool" where
  "aead_decrypts K \<longleftrightarrow>
     (\<forall>key n ad m c. k_encrypt K key n ad m = Some c \<longrightarrow> k_decrypt K key n ad c = Some m)"

definition aead_authenticates :: "primitives \<Rightarrow> bool" where
  "aead_authenticates K \<longleftrightarrow>
     (\<forall>key n ad m c ad'. k_encrypt K key n ad m = Some c \<longrightarrow> ad' \<noteq> ad \<longrightarrow> k_decrypt K key n ad' c = None)"

section \<open>Definitions\<close>

definition UuidNonceCodec_parse :: "primitives \<Rightarrow> string \<Rightarrow> string result" where
  "UuidNonceCodec_parse K bytes =
     (if length bytes \<noteq> 16 then Inl (Crypto ''AES-GCM nonce is not a UUID v4'')
      else if \<not> k_uuid_v4 K bytes then Inl (Crypto ''AES-GCM nonce is not a UUID v4'')
      else Inr bytes)"

definition MATERIAL_VERSION :: u8 where "MATERIAL_VERSION = 2"

record Aes256GcmMaterialProtector =
  mp_active_key_id :: string
  mp_keys :: "(string \<times> string) list"

definition validate_material_context :: "string \<Rightarrow> unit result" where
  "validate_material_context context =
     (if context = [] \<or> length context > 512 \<or> has_control context
      then Inl (Crypto ''sensitive-material context is invalid'')
      else Inr ())"

definition validate_material_key_id :: "string \<Rightarrow> unit result" where
  "validate_material_key_id key_id =
     (if is_identifier key_id then Inr () else Inl (Config ''sensitive-material key id is invalid''))"

definition add_material_key ::
  "(string \<times> string) list \<Rightarrow> string \<times> string \<Rightarrow> (string \<times> string) list result" where
  "add_material_key ring entry =
     and_then (validate_material_key_id (fst entry)) (\<lambda>_.
     if map_of ring (fst entry) \<noteq> None
     then Inl (Config (''duplicate sensitive-material key id: '' @ fst entry))
     else Inr (ring @ [entry]))"

definition MaterialProtector_new :: "string \<Rightarrow> (string \<times> string) list \<Rightarrow> Aes256GcmMaterialProtector result" where
  "MaterialProtector_new active_key_id keys =
     and_then (validate_material_key_id active_key_id) (\<lambda>_.
     and_then (try_fold add_material_key [] keys) (\<lambda>ring.
     if ring = [] \<or> map_of ring active_key_id = None
     then Inl (Config ''sensitive-material active key is missing from the key ring'')
     else Inr \<lparr>mp_active_key_id = active_key_id, mp_keys = ring\<rparr>))"

definition material_aad :: "string \<Rightarrow> string \<Rightarrow> string" where
  "material_aad context key_id =
     ''agentvault.sensitive-material.v2'' @ [CHR 0x00] @ context @ [CHR 0x00] @ key_id"

definition material_seal ::
  "primitives \<Rightarrow> Aes256GcmMaterialProtector \<Rightarrow> string \<Rightarrow> string \<Rightarrow> string \<Rightarrow> SealedSensitiveMaterial result" where
  "material_seal K P nonce context plaintext =
     and_then (validate_material_context context) (\<lambda>_.
     if plaintext = [] then Inl (Crypto ''sensitive material must not be empty'')
     else and_then (ok_or (map_of (mp_keys P) (mp_active_key_id P))
       (Crypto ''active sensitive-material key is unavailable'')) (\<lambda>key.
     let aad = material_aad context (mp_active_key_id P) in
     if length key \<noteq> 32 then Inl (Crypto ''sensitive-material key length is invalid'')
     else and_then (ok_or (k_encrypt K key nonce aad plaintext)
       (Crypto ''sensitive-material encryption failed'')) (\<lambda>ciphertext.
     Inr \<lparr>sm_version = MATERIAL_VERSION, sm_key_id = mp_active_key_id P, sm_nonce = k_b64 K nonce,
          sm_ciphertext = k_b64 K ciphertext\<rparr>)))"

definition material_open ::
  "primitives \<Rightarrow> Aes256GcmMaterialProtector \<Rightarrow> string \<Rightarrow> SealedSensitiveMaterial \<Rightarrow> string result" where
  "material_open K P context m =
     and_then (validate_material_context context) (\<lambda>_.
     if sm_version m \<noteq> MATERIAL_VERSION then Inl (Crypto ''unsupported sensitive-material envelope version'')
     else and_then (validate_material_key_id (sm_key_id m)) (\<lambda>_.
     and_then (ok_or (map_of (mp_keys P) (sm_key_id m))
       (Crypto ''sensitive-material key version is unavailable'')) (\<lambda>key.
     and_then (ok_or (k_unb64 K (sm_nonce m)) (Crypto ''sensitive-material nonce is invalid'')) (\<lambda>bytes.
     and_then (map_err (\<lambda>_. Crypto ''sensitive-material nonce is invalid'') (UuidNonceCodec_parse K bytes)) (\<lambda>nonce.
     and_then (ok_or (k_unb64 K (sm_ciphertext m)) (Crypto ''sensitive-material ciphertext is invalid'')) (\<lambda>ciphertext.
     let aad = material_aad context (sm_key_id m) in
     if length key \<noteq> 32 then Inl (Crypto ''sensitive-material key length is invalid'')
     else ok_or (k_decrypt K key nonce aad ciphertext)
       (Crypto ''sensitive-material authentication failed'')))))))"

section \<open>The associated data names its context\<close>

lemma has_control_zero: "CHR 0x00 \<in> set s \<Longrightarrow> has_control s"
  by (induction s rule: has_control.induct) (auto simp: ascii_def)

lemma is_identifier_no_zero: "is_identifier v \<Longrightarrow> CHR 0x00 \<notin> set v"
  by (auto simp: is_identifier_def list_all_iff is_ascii_alphanumeric_def is_ascii_digit_def
      is_ascii_upper_def is_ascii_lower_def ascii_def)

lemma split_at_separator:
  "a @ [z] @ b = c @ [z] @ d \<Longrightarrow> z \<notin> set a \<Longrightarrow> z \<notin> set c \<Longrightarrow> a = c \<and> b = d"
proof (induction a arbitrary: c)
  case Nil
  then show ?case by (cases c) auto
next
  case (Cons x a)
  then show ?case by (cases c) auto
qed

lemma material_aad_inj:
  assumes "validate_material_context c = Inr ()" "validate_material_context d = Inr ()"
  shows "material_aad c k = material_aad d l \<longleftrightarrow> c = d \<and> k = l"
proof -
  have "CHR 0x00 \<notin> set c" "CHR 0x00 \<notin> set d"
    using assms has_control_zero by (auto simp: validate_material_context_def split: if_splits)
  then show ?thesis using split_at_separator [of c "CHR 0x00" k d l] by (auto simp: material_aad_def)
qed

section \<open>Opening what was sealed\<close>

lemma UuidNonceCodec_parse_ok [simp]:
  "UuidNonceCodec_parse K b = Inr n \<longleftrightarrow> n = b \<and> length b = 16 \<and> k_uuid_v4 K b"
  by (auto simp: UuidNonceCodec_parse_def)

lemma material_seal_ok:
  assumes "material_seal K P nonce context m = Inr e"
  obtains key c where "validate_material_context context = Inr ()" "m \<noteq> []" "length key = 32"
    "map_of (mp_keys P) (mp_active_key_id P) = Some key"
    "k_encrypt K key nonce (material_aad context (mp_active_key_id P)) m = Some c"
    "e = \<lparr>sm_version = MATERIAL_VERSION, sm_key_id = mp_active_key_id P, sm_nonce = k_b64 K nonce,
          sm_ciphertext = k_b64 K c\<rparr>"
  using assms that by (auto simp: material_seal_def result_simps Let_def split: if_splits)

lemma material_open_sealed:
  assumes "material_seal K P nonce context m = Inr e" "base64_inverts K" "aead_decrypts K"
    and "length nonce = 16" "k_uuid_v4 K nonce" "is_identifier (mp_active_key_id P)"
    and "map_of (mp_keys Q) (sm_key_id e) = map_of (mp_keys P) (sm_key_id e)"
  shows "material_open K Q context e = Inr m"
  using assms(1)
proof (rule material_seal_ok)
  fix key c
  assume "validate_material_context context = Inr ()" "length key = 32"
    "map_of (mp_keys P) (mp_active_key_id P) = Some key"
    "k_encrypt K key nonce (material_aad context (mp_active_key_id P)) m = Some c"
    "e = \<lparr>sm_version = MATERIAL_VERSION, sm_key_id = mp_active_key_id P, sm_nonce = k_b64 K nonce,
          sm_ciphertext = k_b64 K c\<rparr>"
  with assms(2-) show ?thesis
    by (simp add: material_open_def validate_material_key_id_def base64_inverts_def aead_decrypts_def
        UuidNonceCodec_parse_def)
qed

lemma material_open_other_context:
  assumes "material_seal K P nonce context m = Inr e" "base64_inverts K" "aead_authenticates K"
    and "map_of (mp_keys Q) (sm_key_id e) = map_of (mp_keys P) (sm_key_id e)" "d \<noteq> context"
  shows "\<exists>err. material_open K Q d e = Inl err"
  using assms(1)
proof (rule material_seal_ok)
  fix key c
  assume s: "validate_material_context context = Inr ()" "map_of (mp_keys P) (mp_active_key_id P) = Some key"
    "k_encrypt K key nonce (material_aad context (mp_active_key_id P)) m = Some c"
    "e = \<lparr>sm_version = MATERIAL_VERSION, sm_key_id = mp_active_key_id P, sm_nonce = k_b64 K nonce,
          sm_ciphertext = k_b64 K c\<rparr>"
  have False if "material_open K Q d e = Inr p" for p
  proof -
    from that s assms(2,4) have "validate_material_context d = Inr ()"
      "k_decrypt K key nonce (material_aad d (mp_active_key_id P)) c = Some p"
      by (auto simp: material_open_def result_simps base64_inverts_def Let_def split: if_splits)
    moreover have "material_aad d (mp_active_key_id P) \<noteq> material_aad context (mp_active_key_id P)"
      using material_aad_inj [OF calculation(1) s(1)] assms(5) by simp
    ultimately show False using s(3) assms(3) by (auto simp: aead_authenticates_def)
  qed
  then show ?thesis by (cases "material_open K Q d e") auto
qed

section \<open>Key rings\<close>

lemma add_material_key_ok:
  "add_material_key ring e = Inr ring' \<longleftrightarrow>
     is_identifier (fst e) \<and> fst e \<notin> fst ` set ring \<and> ring' = ring @ [e]"
  by (auto simp: add_material_key_def validate_material_key_id_def result_simps map_of_eq_None_iff)

lemma add_material_keys:
  assumes "try_fold add_material_key ring keys = Inr ring'" "distinct (map fst ring)"
  shows "ring' = ring @ keys \<and> distinct (map fst ring')"
  using assms
proof (induction keys arbitrary: ring)
  case (Cons e keys)
  then obtain r where r: "add_material_key ring e = Inr r" "try_fold add_material_key r keys = Inr ring'"
    by (auto simp: result_simps)
  then have d: "distinct (map fst r)" "r = ring @ [e]" using Cons.prems(2) by (auto simp: add_material_key_ok)
  show ?case using conjunct1 [OF Cons.IH [OF r(2) d(1)]] conjunct2 [OF Cons.IH [OF r(2) d(1)]] d(2) by simp
qed simp

lemma MaterialProtector_new_ok:
  assumes "MaterialProtector_new active keys = Inr P"
  shows "mp_keys P = keys" "mp_active_key_id P = active" "distinct (map fst keys)" "is_identifier active"
    and "active \<in> fst ` set keys"
proof -
  from assms obtain ring where r: "try_fold add_material_key [] keys = Inr ring"
    and P: "is_identifier active" "map_of ring active \<noteq> None"
      "P = \<lparr>mp_active_key_id = active, mp_keys = ring\<rparr>"
    by (auto simp: MaterialProtector_new_def result_simps validate_material_key_id_def split: if_splits)
  from add_material_keys [OF r] have "ring = keys" "distinct (map fst keys)" by auto
  with P show "mp_keys P = keys" "mp_active_key_id P = active" "distinct (map fst keys)" "is_identifier active"
    "active \<in> fst ` set keys"
    by (auto simp: map_of_eq_None_iff)
qed

end
