(* ===== verification/Grant_Token.thy ===== *)
theory Grant_Token
  imports Material Approval_Store
begin

text \<open>
  One-time approval grants as JWTs (\<^verbatim>\<open>payment/approval_grant.rs\<close>): the versioned signing key ring,
  issuing a grant that is sealed at once, and verifying the sealed grant against the approval it is stored
  with. The lemmas show that the constant-time comparison is equality, that a stored grant verifies to the
  claims it was issued with, and what a verified grant is bound to.
\<close>

unbundle bit_operations_syntax

section \<open>Text and claims\<close>

definition utf8_tail :: "char \<Rightarrow> bool" where
  "utf8_tail c \<longleftrightarrow> 128 \<le> ascii c \<and> ascii c < 192"

text \<open>\<^verbatim>\<open>std::str::from_utf8\<close>: the well-formed byte sequences of the Unicode standard.\<close>

fun is_utf8 :: "string \<Rightarrow> bool" where
  "is_utf8 [] \<longleftrightarrow> True"
| "is_utf8 (a # s) \<longleftrightarrow>
     (if ascii a < 128 then is_utf8 s
      else if 194 \<le> ascii a \<and> ascii a \<le> 223 then
        (case s of b # t \<Rightarrow> utf8_tail b \<and> is_utf8 t | _ \<Rightarrow> False)
      else if 224 \<le> ascii a \<and> ascii a \<le> 239 then
        (case s of b # c # t \<Rightarrow> utf8_tail b \<and> utf8_tail c \<and> (ascii a = 224 \<longrightarrow> 160 \<le> ascii b)
            \<and> (ascii a = 237 \<longrightarrow> ascii b < 160) \<and> is_utf8 t
         | _ \<Rightarrow> False)
      else if 240 \<le> ascii a \<and> ascii a \<le> 244 then
        (case s of b # c # d # t \<Rightarrow> utf8_tail b \<and> utf8_tail c \<and> utf8_tail d
            \<and> (ascii a = 240 \<longrightarrow> 144 \<le> ascii b) \<and> (ascii a = 244 \<longrightarrow> ascii b < 144) \<and> is_utf8 t
         | _ \<Rightarrow> False)
      else False)"

definition claims_to_value :: "ApprovalGrantClaims \<Rightarrow> json" where
  "claims_to_value c = JObject
     [(''iss'', JString (gc_iss c)), (''aud'', JString (gc_aud c)), (''jti'', JString (gc_jti c)),
      (''approval_id'', JString (gc_approval_id c)), (''intent_id'', JString (gc_intent_id c)),
      (''intent_hash'', JString (gc_intent_hash c)), (''amount'', JString (amount_to_string (gc_amount c))),
      (''approver'', JString (gc_approver c)), (''iat'', JNumber (gc_iat c)), (''exp'', JNumber (gc_exp c))]"

fun claims_from_value :: "json \<Rightarrow> ApprovalGrantClaims option" where
  "claims_from_value (JObject fs) =
     (if known_fields [''iss'', ''aud'', ''jti'', ''approval_id'', ''intent_id'', ''intent_hash'', ''amount'',
          ''approver'', ''iat'', ''exp''] fs then
        case (json_string (map_of fs ''iss''), json_string (map_of fs ''aud''), json_string (map_of fs ''jti''),
              json_string (map_of fs ''approval_id''), json_string (map_of fs ''intent_id''),
              json_string (map_of fs ''intent_hash''),
              Option.bind (json_string (map_of fs ''amount'')) amount_from_str,
              json_string (map_of fs ''approver''), json_i64 (map_of fs ''iat''), json_i64 (map_of fs ''exp'')) of
          (Some i, Some a, Some j, Some ap, Some it, Some h, Some m, Some w, Some t, Some e) \<Rightarrow>
            Some \<lparr>gc_iss = i, gc_aud = a, gc_jti = j, gc_approval_id = ap, gc_intent_id = it, gc_intent_hash = h,
                  gc_amount = m, gc_approver = w, gc_iat = t, gc_exp = e\<rparr>
        | _ \<Rightarrow> None
      else None)"
| "claims_from_value _ = None"

section \<open>The token service\<close>

record JwtApprovalGrantTokenService =
  gt_issuer :: string
  gt_audience :: string
  gt_active_key_id :: string
  gt_signing_keys :: "(string \<times> string) list"
  gt_material_protector :: Aes256GcmMaterialProtector

definition validate_jwt_identity :: "string \<Rightarrow> string \<Rightarrow> unit result" where
  "validate_jwt_identity field v =
     (if is_blank v \<or> length v > 256 \<or> has_control v
      then Inl (Config (''approval JWT '' @ field @ '' is invalid''))
      else Inr ())"

definition validate_jwt_key_id :: "string \<Rightarrow> unit result" where
  "validate_jwt_key_id key_id =
     (if is_identifier key_id then Inr () else Inl (Config ''approval JWT key id is invalid''))"

definition add_jwt_key ::
  "(string \<times> string) list \<Rightarrow> string \<times> string \<Rightarrow> (string \<times> string) list result" where
  "add_jwt_key ring entry =
     and_then (validate_jwt_key_id (fst entry)) (\<lambda>_.
     if map_of ring (fst entry) \<noteq> None
     then Inl (Config (''duplicate approval JWT key id: '' @ fst entry))
     else Inr (ring @ [entry]))"

definition from_resolved_keys ::
  "string \<Rightarrow> string \<Rightarrow> string \<Rightarrow> (string \<times> string) list \<Rightarrow> Aes256GcmMaterialProtector \<Rightarrow>
     JwtApprovalGrantTokenService result" where
  "from_resolved_keys issuer audience active_key_id signing_keys material_protector =
     and_then (validate_jwt_identity ''issuer'' issuer) (\<lambda>_.
     and_then (validate_jwt_identity ''audience'' audience) (\<lambda>_.
     and_then (validate_jwt_key_id active_key_id) (\<lambda>_.
     and_then (try_fold add_jwt_key [] signing_keys) (\<lambda>ring.
     if ring = [] \<or> map_of ring active_key_id = None
     then Inl (Config ''approval JWT active signing key is missing from the key ring'')
     else Inr \<lparr>gt_issuer = issuer, gt_audience = audience, gt_active_key_id = active_key_id,
        gt_signing_keys = ring, gt_material_protector = material_protector\<rparr>))))"

definition claims_hash :: "externals \<Rightarrow> primitives \<Rightarrow> ApprovalGrantClaims \<Rightarrow> string result" where
  "claims_hash X K c =
     (let encoded = k_to_vec K (claims_to_value c) in
      if length encoded \<ge> 2 ^ 64 then Inl (Crypto ''approval JWT claims are too large'')
      else Inr (hex_encode (x_sha256 X
        (''agentvault.approval-jwt-claims.v1'' @ be_bytes64 (length encoded) @ encoded))))"

definition constant_time_eq :: "string \<Rightarrow> string \<Rightarrow> bool" where
  "constant_time_eq left right =
     (if length left \<noteq> length right then False
      else fold (\<lambda>(l, r) difference. difference OR ((of_nat (ascii l) :: u8) XOR of_nat (ascii r))) (zip left right) 0 = 0)"

definition grant_material_context :: "string \<Rightarrow> string \<Rightarrow> string" where
  "grant_material_context approval_id jti = ''approval:'' @ approval_id @ '':grant:'' @ jti"

definition validate_stored_claims ::
  "JwtApprovalGrantTokenService \<Rightarrow> ApprovalRequest \<Rightarrow> ApprovalGrantClaims \<Rightarrow> string \<Rightarrow> int \<Rightarrow> unit result" where
  "validate_stored_claims T a c hash now =
     and_then (map_err (\<lambda>_. Forbidden) (ApprovalGrantClaims_validate c)) (\<lambda>_.
     and_then (ok_or (ar_approved_amount a) (Storage ''approved row has no amount'')) (\<lambda>stored_amount.
     and_then (ok_or (ar_approved_by a) (Storage ''approved row has no approver'')) (\<lambda>stored_approver.
     and_then (ok_or (ar_grant_jti a) (Storage ''approved row has no grant jti'')) (\<lambda>stored_jti.
     and_then (ok_or (ar_grant_claims_hash a) (Storage ''approved row has no grant claims hash'')) (\<lambda>stored_hash.
     if gc_iss c \<noteq> gt_issuer T
        \<or> gc_aud c \<noteq> gt_audience T
        \<or> gc_jti c \<noteq> stored_jti
        \<or> gc_approval_id c \<noteq> ar_id a
        \<or> gc_intent_id c \<noteq> ar_intent_id a
        \<or> gc_intent_hash c \<noteq> ar_intent_hash a
        \<or> gc_amount c \<noteq> stored_amount
        \<or> gc_approver c \<noteq> stored_approver
        \<or> Some (gc_iat c) \<noteq> ar_approved_at a
        \<or> gc_exp c \<noteq> ar_expires_at a
        \<or> gc_iat c > now
        \<or> gc_exp c \<le> now
        \<or> \<not> constant_time_eq hash stored_hash
     then Inl Forbidden
     else Inr ())))))"

text \<open>\<^verbatim>\<open>jti\<close> and \<^verbatim>\<open>nonce\<close> are the random values that the call draws.\<close>

definition grant_issue ::
  "externals \<Rightarrow> primitives \<Rightarrow> JwtApprovalGrantTokenService \<Rightarrow> string \<Rightarrow> string \<Rightarrow> ApprovalRequest \<Rightarrow>
     ApprovalDecision \<Rightarrow> int \<Rightarrow> ApprovalGrant result" where
  "grant_issue X K T jti nonce a d expires_at =
     (if ad_decision d \<noteq> Approve \<or> ar_id a \<noteq> ad_approval_id d \<or> ar_intent_id a \<noteq> ad_intent_id d
      then Inl (InvalidRequest ''approval JWT can only be issued for the bound approval decision'')
      else and_then (ok_or (ad_approved_amount d) (InvalidRequest ''approved amount is required'')) (\<lambda>amount.
      let claims = \<lparr>gc_iss = gt_issuer T, gc_aud = gt_audience T, gc_jti = jti, gc_approval_id = ar_id a,
            gc_intent_id = ar_intent_id a, gc_intent_hash = ar_intent_hash a, gc_amount = amount,
            gc_approver = ad_approved_by d, gc_iat = ad_decided_at d, gc_exp = expires_at\<rparr> in
      and_then (map_err (\<lambda>field. InvalidRequest (''invalid approval JWT claim: '' @ field))
        (ApprovalGrantClaims_validate claims)) (\<lambda>_.
      and_then (ok_or (map_of (gt_signing_keys T) (gt_active_key_id T))
        (Crypto ''active approval JWT signing key is unavailable'')) (\<lambda>key.
      let header = \<lparr>jh_alg = ''HS256'', jh_typ = Some ''JWT'', jh_kid = Some (gt_active_key_id T)\<rparr> in
      and_then (ok_or (k_jwt_encode K header (claims_to_value claims) key)
        (Crypto ''approval JWT signing failed'')) (\<lambda>token.
      and_then (material_seal K (gt_material_protector T) nonce
        (grant_material_context (gc_approval_id claims) (gc_jti claims)) token) (\<lambda>sealed_token.
      and_then (claims_hash X K claims) (\<lambda>hash.
      Inr \<lparr>ag_claims = claims, ag_claims_hash = hash, ag_sealed_token = sealed_token\<rparr>)))))))"

definition grant_verify ::
  "externals \<Rightarrow> primitives \<Rightarrow> JwtApprovalGrantTokenService \<Rightarrow> ApprovalRequest \<Rightarrow> int \<Rightarrow> VerifiedApprovalGrant result"
where
  "grant_verify X K T a now =
     (if ar_status a \<notin> {ApApproved, ApConsumed} \<or> \<not> has_persisted_grant a
      then Inl (InvalidTransition ''approval JWT is not available for this approval'')
      else and_then (ok_or (ar_grant_jti a) (Storage ''approved row has no grant jti'')) (\<lambda>jti.
      and_then (ok_or (ar_sealed_grant_token a) (Storage ''approved row has no sealed grant JWT'')) (\<lambda>sealed.
      and_then (material_open K (gt_material_protector T) (grant_material_context (ar_id a) jti) sealed) (\<lambda>token.
      if \<not> is_utf8 token then Inl (Crypto ''sealed approval JWT is invalid'')
      else and_then (ok_or (k_jwt_header K token) Forbidden) (\<lambda>header.
      if jh_alg header \<noteq> ''HS256'' \<or> jh_typ header \<noteq> Some ''JWT'' then Inl Forbidden
      else and_then (ok_or (jh_kid header) Forbidden) (\<lambda>key_id.
      and_then (ok_or (map_of (gt_signing_keys T) key_id) Forbidden) (\<lambda>key.
      and_then (ok_or (Option.bind (k_jwt_decode K token key (gt_audience T) (gt_issuer T)) claims_from_value)
        Forbidden) (\<lambda>claims.
      and_then (claims_hash X K claims) (\<lambda>hash.
      and_then (validate_stored_claims T a claims hash now) (\<lambda>_.
      Inr \<lparr>vg_claims = claims, vg_claims_hash = hash\<rparr>))))))))))"

text \<open>
  \<^verbatim>\<open>jsonwebtoken\<close>: a compact token is non-empty ASCII text that carries its header, and it decodes
  under its key to its claims if they name the audience and the issuer.
\<close>

definition jwt_decodes :: "primitives \<Rightarrow> bool" where
  "jwt_decodes K \<longleftrightarrow>
     (\<forall>h c key t. k_jwt_encode K h c key = Some t \<longrightarrow>
        t \<noteq> [] \<and> list_all (\<lambda>b. ascii b < 128) t \<and> k_jwt_header K t = Some h
        \<and> (\<forall>aud iss. json_get c ''aud'' = Some (JString aud) \<longrightarrow> json_get c ''iss'' = Some (JString iss) \<longrightarrow>
             k_jwt_decode K t key aud iss = Some c))"

section \<open>Lemmas\<close>

lemma ascii_utf8: "list_all (\<lambda>b. ascii b < 128) t \<Longrightarrow> is_utf8 t"
  by (induction t) simp_all

lemma claims_round_trip:
  "in_i64 (gc_iat c) \<Longrightarrow> in_i64 (gc_exp c) \<Longrightarrow> claims_from_value (claims_to_value c) = Some c"
  by (cases c) (simp add: claims_to_value_def known_fields_def)

lemma or_xor_fold:
  "fold (\<lambda>(l, r) difference. difference OR ((of_nat (ascii l) :: u8) XOR of_nat (ascii r))) ps d = 0 \<longleftrightarrow>
     d = 0 \<and> list_all (\<lambda>(l, r). l = r) ps"
proof (induction ps arbitrary: d)
  case (Cons p ps)
  obtain l r where p: "p = (l, r)" by force
  have "(of_nat (ascii l) :: u8) = of_nat (ascii r) \<longleftrightarrow> l = r"
  proof
    assume "(of_nat (ascii l) :: u8) = of_nat (ascii r)"
    then have "unat (of_nat (ascii l) :: u8) = unat (of_nat (ascii r) :: u8)" by simp
    then have "ascii l = ascii r" by (simp add: unat_of_nat)
    then show "l = r" by (simp add: ascii_def of_char_eq_iff)
  qed simp
  moreover have "x XOR y = 0 \<longleftrightarrow> x = y" for x y :: u8
  proof
    assume "x XOR y = 0"
    then have "(x XOR y) XOR y = y" by simp
    then show "x = y" by (simp add: xor.assoc)
  qed simp
  ultimately have "d OR ((of_nat (ascii l) :: u8) XOR of_nat (ascii r)) = 0 \<longleftrightarrow> d = 0 \<and> l = r" by (simp add: or_eq_0_iff)
  with Cons.IH show ?case by (simp add: p)
qed simp

lemma constant_time_eq_iff: "constant_time_eq a b \<longleftrightarrow> a = b"
proof (cases "length a = length b")
  case True
  then have "list_all (\<lambda>(l, r). l = r) (zip a b) \<longleftrightarrow> a = b"
    by (induction a b rule: list_induct2) auto
  with True show ?thesis by (simp add: constant_time_eq_def or_xor_fold)
qed (auto simp: constant_time_eq_def)

section \<open>Issuing and verifying\<close>

lemma grant_issue_ok:
  assumes "grant_issue X K T jti nonce a d e = Inr g"
  obtains key token where "ad_decision d = Approve" "ar_id a = ad_approval_id d" "ar_intent_id a = ad_intent_id d"
    "ad_approved_amount d = Some (gc_amount (ag_claims g))"
    "ag_claims g = \<lparr>gc_iss = gt_issuer T, gc_aud = gt_audience T, gc_jti = jti, gc_approval_id = ar_id a,
       gc_intent_id = ar_intent_id a, gc_intent_hash = ar_intent_hash a, gc_amount = gc_amount (ag_claims g),
       gc_approver = ad_approved_by d, gc_iat = ad_decided_at d, gc_exp = e\<rparr>"
    "ApprovalGrantClaims_validate (ag_claims g) = Inr ()"
    "map_of (gt_signing_keys T) (gt_active_key_id T) = Some key"
    "k_jwt_encode K \<lparr>jh_alg = ''HS256'', jh_typ = Some ''JWT'', jh_kid = Some (gt_active_key_id T)\<rparr>
       (claims_to_value (ag_claims g)) key = Some token"
    "material_seal K (gt_material_protector T) nonce (grant_material_context (ar_id a) jti) token
       = Inr (ag_sealed_token g)"
    "claims_hash X K (ag_claims g) = Inr (ag_claims_hash g)"
  using assms that by (auto simp: grant_issue_def result_simps Let_def split: if_splits)

lemma grant_verify_ok:
  assumes "grant_verify X K T a now = Inr v"
  shows "ar_status a \<in> {ApApproved, ApConsumed}" "validate_stored_claims T a (vg_claims v) (vg_claims_hash v) now = Inr ()"
    and "claims_hash X K (vg_claims v) = Inr (vg_claims_hash v)"
  using assms by (auto simp: grant_verify_def result_simps split: if_splits)

lemma validate_stored_claims_ok:
  assumes "validate_stored_claims T a c h now = Inr ()"
  shows "ApprovalGrantClaims_validate c = Inr ()" "gc_approval_id c = ar_id a" "gc_intent_id c = ar_intent_id a"
    and "gc_intent_hash c = ar_intent_hash a" "ar_approved_amount a = Some (gc_amount c)"
    and "ar_approved_by a = Some (gc_approver c)" "ar_grant_jti a = Some (gc_jti c)"
    and "ar_grant_claims_hash a = Some h" "gc_iat c \<le> now" "now < gc_exp c" "gc_exp c = ar_expires_at a"
    and "ar_approved_at a = Some (gc_iat c)" "gc_iss c = gt_issuer T" "gc_aud c = gt_audience T"
  using assms by (auto simp: validate_stored_claims_def result_simps constant_time_eq_iff split: if_splits)

text \<open>
  The service that verifies may be a later one: it has the same identity and retains the keys that signed and
  sealed the grant.
\<close>

definition retains_keys :: "JwtApprovalGrantTokenService \<Rightarrow> JwtApprovalGrantTokenService \<Rightarrow> bool" where
  "retains_keys T U \<longleftrightarrow>
     gt_issuer U = gt_issuer T \<and> gt_audience U = gt_audience T
     \<and> (\<forall>k v. map_of (gt_signing_keys T) k = Some v \<longrightarrow> map_of (gt_signing_keys U) k = Some v)
     \<and> (\<forall>k v. map_of (mp_keys (gt_material_protector T)) k = Some v \<longrightarrow>
           map_of (mp_keys (gt_material_protector U)) k = Some v)"

lemma grant_verify_issued:
  assumes issue: "grant_issue X K T jti nonce a d e = Inr g"
    and laws: "base64_inverts K" "aead_decrypts K" "jwt_decodes K"
    and nonce: "length nonce = 16" "k_uuid_v4 K nonce" and "is_identifier (mp_active_key_id (gt_material_protector T))"
    and U: "retains_keys T U" and time: "ad_decided_at d \<le> now" "now < e" "in_i64 (ad_decided_at d)" "in_i64 e"
  shows "grant_verify X K U (approve_row g (ad_decided_at d) a) now
    = Inr \<lparr>vg_claims = ag_claims g, vg_claims_hash = ag_claims_hash g\<rparr>"
  using issue
proof (rule grant_issue_ok)
  fix key token
  let ?c = "ag_claims g" and ?b = "approve_row g (ad_decided_at d) a"
  let ?h = "\<lparr>jh_alg = ''HS256'', jh_typ = Some ''JWT'', jh_kid = Some (gt_active_key_id T)\<rparr>"
  assume amount: "ad_approved_amount d = Some (gc_amount ?c)"
    and c: "?c = \<lparr>gc_iss = gt_issuer T, gc_aud = gt_audience T, gc_jti = jti, gc_approval_id = ar_id a,
       gc_intent_id = ar_intent_id a, gc_intent_hash = ar_intent_hash a, gc_amount = gc_amount ?c,
       gc_approver = ad_approved_by d, gc_iat = ad_decided_at d, gc_exp = e\<rparr>"
    and valid: "ApprovalGrantClaims_validate ?c = Inr ()"
    and key: "map_of (gt_signing_keys T) (gt_active_key_id T) = Some key"
    and token: "k_jwt_encode K ?h (claims_to_value ?c) key = Some token"
    and seal: "material_seal K (gt_material_protector T) nonce (grant_material_context (ar_id a) jti) token
       = Inr (ag_sealed_token g)"
    and hash: "claims_hash X K ?c = Inr (ag_claims_hash g)"
  have f: "gc_iss ?c = gt_issuer T" "gc_aud ?c = gt_audience T" "gc_jti ?c = jti" "gc_approval_id ?c = ar_id a"
    "gc_intent_id ?c = ar_intent_id a" "gc_intent_hash ?c = ar_intent_hash a" "gc_approver ?c = ad_approved_by d"
    "gc_iat ?c = ad_decided_at d" "gc_exp ?c = e"
    using arg_cong [OF c, of gc_iss] arg_cong [OF c, of gc_aud] arg_cong [OF c, of gc_jti]
      arg_cong [OF c, of gc_approval_id] arg_cong [OF c, of gc_intent_id] arg_cong [OF c, of gc_intent_hash]
      arg_cong [OF c, of gc_approver] arg_cong [OF c, of gc_iat] arg_cong [OF c, of gc_exp]
    by simp_all
  have tok: "list_all (\<lambda>b. ascii b < 128) token" "k_jwt_header K token = Some ?h"
    "k_jwt_decode K token key (gt_audience T) (gt_issuer T) = Some (claims_to_value ?c)"
    using laws(3) token f(1,2) by (auto simp: jwt_decodes_def claims_to_value_def)
  have keys: "map_of (gt_signing_keys U) (gt_active_key_id T) = Some key" "gt_issuer U = gt_issuer T"
    "gt_audience U = gt_audience T"
    using U key by (simp_all add: retains_keys_def)
  have "sm_key_id (ag_sealed_token g) = mp_active_key_id (gt_material_protector T)"
    "map_of (mp_keys (gt_material_protector T)) (mp_active_key_id (gt_material_protector T)) \<noteq> None"
    using seal by (auto elim: material_seal_ok)
  then have "map_of (mp_keys (gt_material_protector U)) (sm_key_id (ag_sealed_token g))
      = map_of (mp_keys (gt_material_protector T)) (sm_key_id (ag_sealed_token g))"
    using U by (auto simp: retains_keys_def)
  from material_open_sealed [OF seal laws(1,2) nonce assms(7) this]
  have op: "material_open K (gt_material_protector U) (grant_material_context (ar_id a) jti) (ag_sealed_token g)
      = Inr token" .
  have "validate_stored_claims U ?b ?c (ag_claims_hash g) now = Inr ()"
    using valid f keys time(1,2) by (simp add: validate_stored_claims_def approve_row_def constant_time_eq_iff)
  moreover have "claims_from_value (claims_to_value ?c) = Some ?c" using claims_round_trip f time(3,4) by simp
  ultimately show ?thesis
    using op tok keys hash f ascii_utf8 [OF tok(1)]
    by (simp add: grant_verify_def approve_row_def has_persisted_grant_def)
qed

end
