(* ===== verification/Approval_Workflow.thy ===== *)
theory Approval_Workflow
  imports Grant_Token Vault
begin

text \<open>
  The approval workflow (\<^verbatim>\<open>payment/approval.rs\<close>): an administrator decides on a pending approval, a
  repeated decision is recognised and answered from the stored row, and the stored grant is consumed into a
  reservation. The random identifiers that a call draws are arguments. The lemmas show who may decide, that
  every call is one step of the store, and that a decision can be repeated.
\<close>

section \<open>Definitions\<close>

definition approval_decision_from_request :: "string \<Rightarrow> SubmitApprovalDecision \<Rightarrow> int \<Rightarrow> ApprovalDecision" where
  "approval_decision_from_request who r now =
     \<lparr>ad_approval_id = sd_approval_id r, ad_intent_id = sd_intent_id r, ad_decision = sd_decision r,
      ad_approved_amount = sd_approved_amount r, ad_approved_by = who, ad_reason = sd_reason r,
      ad_decided_at = now\<rparr>"

definition grant_expiration :: "int \<Rightarrow> int \<Rightarrow> int \<Rightarrow> int" where
  "grant_expiration request_expires_at decided_at grant_ttl_seconds =
     min request_expires_at (saturating_add decided_at grant_ttl_seconds)"

definition approval_decision_event ::
  "string \<Rightarrow> ApprovalRequest \<Rightarrow> PaymentIntent \<Rightarrow> string \<Rightarrow> bool \<Rightarrow> int \<Rightarrow> PaymentEvent" where
  "approval_decision_event eid a i who granted now =
     fresh_event eid i (if granted then ApprovalGranted else ApprovalRejected)
       (json_object [(''approval_id'', JString (ar_id a)), (''approved_by'', JString who)]) now"

definition approval_decision_message ::
  "string \<Rightarrow> ApprovalRequest \<Rightarrow> PaymentIntent \<Rightarrow> bool \<Rightarrow> int \<Rightarrow> OutboxMessage" where
  "approval_decision_message mid a i granted now =
     fresh_message mid ''payment_approval'' (ar_id a)
       (if granted then ''approval_granted'' else ''approval_rejected'')
       (''scenario:'' @ pi_scenario_id i @ ''.payments'') (pi_run_id i)
       (json_object [(''approval_id'', JString (ar_id a)), (''intent_id'', JString (pi_id i)),
         (''run_id'', JString (pi_run_id i))]) now"

definition replay_answer ::
  "externals \<Rightarrow> primitives \<Rightarrow> JwtApprovalGrantTokenService \<Rightarrow> SubmitApprovalDecision \<Rightarrow> int \<Rightarrow> ApprovalRequest \<Rightarrow>
     PaymentIntent \<Rightarrow> ApprovalRequest option result" where
  "replay_answer X K T r now a i =
     (case (ar_status a, sd_decision r) of
       (ApApproved, Approve) \<Rightarrow>
         if sd_approved_amount r \<noteq> ar_approved_amount a
         then Inl (PaymentConflict ''approval decision replay changed'')
         else and_then (grant_verify X K T a now) (\<lambda>v.
         if gc_intent_id (vg_claims v) \<noteq> pi_id i
            \<or> gc_intent_hash (vg_claims v) \<noteq> pi_request_hash i
            \<or> gc_amount (vg_claims v) \<noteq> pi_amount i
         then Inl (PaymentConflict ''approval decision replay changed'')
         else Inr (Some a))
     | (ApConsumed, Approve) \<Rightarrow>
         if sd_approved_amount r = ar_approved_amount a then Inr (Some a)
         else Inl (PaymentConflict ''approval decision replay changed'')
     | (ApRejected, Reject) \<Rightarrow>
         if sd_approved_amount r = None then Inr (Some a)
         else Inl (PaymentConflict ''approval decision replay changed'')
     | _ \<Rightarrow> Inl (PaymentConflict ''approval decision replay changed''))"

definition replay_decision ::
  "externals \<Rightarrow> primitives \<Rightarrow> JwtApprovalGrantTokenService \<Rightarrow> string \<Rightarrow> SubmitApprovalDecision \<Rightarrow> int \<Rightarrow> db \<Rightarrow>
     ApprovalRequest option result" where
  "replay_decision X K T who r now s =
     and_then (ok_or (find_approval s (sd_approval_id r)) (NotFound ''payment approval'')) (\<lambda>a.
     if ar_status a = ApPending then Inr None
     else if ar_intent_id a \<noteq> sd_intent_id r then Inl (PaymentConflict ''approval is bound to another intent'')
     else and_then (ok_or (load_intent s (sd_intent_id r)) (NotFound ''payment intent'')) (\<lambda>i.
     and_then (authorize_approver s who (pi_scenario_id i)) (\<lambda>_.
     if ar_requested_by a = who \<or> ar_approved_by a \<noteq> Some who then Inl Forbidden
     else replay_answer X K T r now a i)))"

definition decision_context ::
  "string \<Rightarrow> SubmitApprovalDecision \<Rightarrow> int \<Rightarrow> db \<Rightarrow> (ApprovalRequest \<times> PaymentIntent \<times> ApprovalDecision) result" where
  "decision_context who r now s =
     and_then (ok_or (find_approval s (sd_approval_id r)) (NotFound ''payment approval'')) (\<lambda>a.
     and_then (ok_or (load_intent s (sd_intent_id r)) (NotFound ''payment intent'')) (\<lambda>i.
     if ar_intent_id a \<noteq> pi_id i \<or> ar_intent_id a \<noteq> sd_intent_id r \<or> ar_intent_hash a \<noteq> pi_request_hash i
     then Inl (PaymentConflict ''approval is bound to another intent'')
     else and_then (authorize_approver s who (pi_scenario_id i)) (\<lambda>_.
     if ar_requested_by a = who then Inl Forbidden
     else if sd_decision r = Approve \<and> sd_approved_amount r \<noteq> Some (pi_amount i)
     then Inl (InvalidRequest ''fixed-charge approval must authorize the exact intent amount'')
     else let d = approval_decision_from_request who r now in
     and_then (map_err (\<lambda>field. InvalidTransition (''invalid approval decision: '' @ field))
       (validate_decision a d now)) (\<lambda>_.
     Inr (a, i, d)))))"

definition rejected_intent :: "PaymentIntent \<Rightarrow> int \<Rightarrow> PaymentIntent" where
  "rejected_intent i now =
     i\<lparr>pi_status := Failed, pi_reservation_status := Unreserved, pi_reserved_amount := 0,
       pi_next_reconcile_at := None, pi_updated_at := next_timestamp (pi_updated_at i) now\<rparr>"

text \<open>The random values of one call: a grant identifier, a nonce, an event and a message identifier.\<close>

record decision_ids =
  di_jti :: string
  di_nonce :: string
  di_event :: string
  di_message :: string

definition submit_decision ::
  "externals \<Rightarrow> primitives \<Rightarrow> JwtApprovalGrantTokenService \<Rightarrow> int \<Rightarrow> decision_ids \<Rightarrow> string \<Rightarrow>
     SubmitApprovalDecision \<Rightarrow> int \<Rightarrow> db \<Rightarrow> ApprovalRequest result \<times> db" where
  "submit_decision X K T grant_ttl_seconds ids who r now s =
     (case replay_decision X K T who r now s of
        Inl e \<Rightarrow> (Inl e, s)
      | Inr (Some a) \<Rightarrow> (Inr a, s)
      | Inr None \<Rightarrow>
     (case decision_context who r now s of
        Inl e \<Rightarrow> (Inl e, s)
      | Inr (a, i, d) \<Rightarrow>
     (case (if ad_decision d = Approve
            then and_then (grant_issue X K T (di_jti ids) (di_nonce ids) a d
                   (grant_expiration (ar_expires_at a) now grant_ttl_seconds)) (\<lambda>g. Inr (Some g))
            else Inr None) of
        Inl e \<Rightarrow> (Inl e, s)
      | Inr grant \<Rightarrow>
          let granted = (grant \<noteq> None) in
          decide d grant (if granted then None else Some (rejected_intent i now, pi_updated_at i))
            (approval_decision_event (di_event ids) a i who granted now)
            [approval_decision_message (di_message ids) a i granted now] s)))"

definition consume_intent :: "PaymentIntent \<Rightarrow> amount \<Rightarrow> int \<Rightarrow> PaymentIntent" where
  "consume_intent i amount now =
     i\<lparr>pi_status := Authorized, pi_reservation_status := Reserved, pi_reserved_amount := amount,
       pi_updated_at := next_timestamp (pi_updated_at i) now\<rparr>"

definition consume_grant ::
  "externals \<Rightarrow> primitives \<Rightarrow> JwtApprovalGrantTokenService \<Rightarrow> string \<Rightarrow> string \<Rightarrow> string \<Rightarrow> string \<Rightarrow> string \<Rightarrow>
     int \<Rightarrow> db \<Rightarrow> PaymentIntent result \<times> db" where
  "consume_grant X K T event_id message_id who approval_id intent_id now s =
     (case and_then (ok_or (find_approval s approval_id) (NotFound ''payment approval'')) (\<lambda>a.
           and_then (ok_or (load_intent s intent_id) (NotFound ''payment intent'')) (\<lambda>i.
           and_then (authorize_approver s who (pi_scenario_id i)) (\<lambda>_.
           if ar_intent_id a \<noteq> pi_id i
              \<or> ar_intent_hash a \<noteq> pi_request_hash i
              \<or> ar_status a \<noteq> ApApproved
              \<or> pi_status i \<noteq> PendingApproval
           then Inl (InvalidTransition ''approval grant is not available for this intent'')
           else and_then (grant_verify X K T a now) (\<lambda>v.
           if gc_intent_id (vg_claims v) \<noteq> pi_id i
              \<or> gc_intent_hash (vg_claims v) \<noteq> pi_request_hash i
              \<or> gc_amount (vg_claims v) \<noteq> pi_amount i
           then Inl Forbidden
           else and_then (canonical_http_origin X (pi_resource i)) (\<lambda>origin.
           Inr (a, i, v, origin)))))) of
        Inl e \<Rightarrow> (Inl e, s)
      | Inr (a, i, v, origin) \<Rightarrow>
          let j = consume_intent i (gc_amount (vg_claims v)) now in
          consume_and_reserve X v j origin (utc_day_start now) now (pi_updated_at i) now
            (fresh_event event_id j ApprovalConsumed (json_object [(''approval_id'', JString (ar_id a))]) now)
            [fresh_message message_id ''payment_intent'' (pi_id j) ''payment_authorized''
               (''scenario:'' @ pi_scenario_id j @ ''.payments'') (pi_run_id j)
               (json_object [(''approval_id'', JString (ar_id a)), (''intent_id'', JString (pi_id j)),
                 (''run_id'', JString (pi_run_id j))]) now] s)"

section \<open>Who decides\<close>

lemma authorize_approver_ok:
  "authorize_approver s who sc = Inr u \<longleftrightarrow>
     who = UNRESTRICTED_PRINCIPAL \<or> (\<not> is_blank who \<and> \<not> is_blank sc \<and> is_authorized s sc who)"
  by (auto simp: authorize_approver_def)

lemma decision_context_ok:
  assumes "decision_context who r now s = Inr (a, i, d)"
  shows "find_approval s (sd_approval_id r) = Some a" "load_intent s (sd_intent_id r) = Some i"
    and "ar_intent_id a = pi_id i" "pi_id i = sd_intent_id r" "ar_intent_hash a = pi_request_hash i"
    and "authorize_approver s who (pi_scenario_id i) = Inr ()" "ar_requested_by a \<noteq> who"
    and "d = approval_decision_from_request who r now" "validate_decision a d now = Inr ()"
    and "sd_decision r = Approve \<Longrightarrow> sd_approved_amount r = Some (pi_amount i)"
  using assms by (auto simp: decision_context_def result_simps Let_def split: if_splits)

lemma replay_answer_ok:
  assumes "replay_answer X K T r now a i = Inr o'"
  shows "o' = Some a" "sd_decision r = Approve \<longleftrightarrow> ar_status a \<in> {ApApproved, ApConsumed}"
    and "sd_decision r = Reject \<longleftrightarrow> ar_status a = ApRejected"
  using assms
  by (cases "ar_status a"; cases "sd_decision r"; auto simp: replay_answer_def result_simps split: if_splits)+

lemma replay_decision_some:
  assumes "replay_decision X K T who r now s = Inr (Some b)"
  obtains i where "find_approval s (sd_approval_id r) = Some b" "load_intent s (sd_intent_id r) = Some i"
    "ar_intent_id b = sd_intent_id r" "authorize_approver s who (pi_scenario_id i) = Inr ()"
    "ar_requested_by b \<noteq> who" "ar_approved_by b = Some who"
    "sd_decision r = Approve \<longleftrightarrow> ar_status b \<in> {ApApproved, ApConsumed}"
    "sd_decision r = Reject \<longleftrightarrow> ar_status b = ApRejected"
proof -
  from assms obtain a i where "find_approval s (sd_approval_id r) = Some a" "ar_intent_id a = sd_intent_id r"
    "load_intent s (sd_intent_id r) = Some i" "authorize_approver s who (pi_scenario_id i) = Inr ()"
    "ar_requested_by a \<noteq> who" "ar_approved_by a = Some who" "replay_answer X K T r now a i = Inr (Some b)"
    by (auto simp: replay_decision_def result_simps split: if_splits)
  with replay_answer_ok [of X K T r now a i "Some b"] that show thesis by auto
qed

lemma replay_decision_none:
  "replay_decision X K T who r now s = Inr None \<Longrightarrow>
     \<exists>a. find_approval s (sd_approval_id r) = Some a \<and> ar_status a = ApPending"
  by (auto simp: replay_decision_def result_simps dest: replay_answer_ok(1) split: if_splits)

text \<open>A call that answers with an approval either repeats a stored decision or decides a pending one.\<close>

lemma submit_decision_cases:
  assumes "submit_decision X K T ttl ids who r now s = (Inr b, t)"
  obtains (replay) "t = s" "replay_decision X K T who r now s = Inr (Some b)"
  | (granted) a i g where "replay_decision X K T who r now s = Inr None"
      "decision_context who r now s = Inr (a, i, approval_decision_from_request who r now)"
      "sd_decision r = Approve"
      "grant_issue X K T (di_jti ids) (di_nonce ids) a (approval_decision_from_request who r now)
         (grant_expiration (ar_expires_at a) now ttl) = Inr g"
      "decide (approval_decision_from_request who r now) (Some g) None
         (approval_decision_event (di_event ids) a i who True now)
         [approval_decision_message (di_message ids) a i True now] s = (Inr b, t)"
  | (rejected) a i where "replay_decision X K T who r now s = Inr None"
      "decision_context who r now s = Inr (a, i, approval_decision_from_request who r now)"
      "sd_decision r = Reject"
      "decide (approval_decision_from_request who r now) None (Some (rejected_intent i now, pi_updated_at i))
         (approval_decision_event (di_event ids) a i who False now)
         [approval_decision_message (di_message ids) a i False now] s = (Inr b, t)"
proof (cases "replay_decision X K T who r now s")
  case (Inl e)
  with assms show ?thesis by (simp add: submit_decision_def)
next
  case (Inr o')
  show ?thesis
  proof (cases o')
    case (Some c)
    with Inr assms show ?thesis by (auto simp: submit_decision_def intro: replay)
  next
    case None
    obtain a i d where c: "decision_context who r now s = Inr (a, i, d)"
      using assms Inr None by (auto simp: submit_decision_def split: sum.splits)
    note d = decision_context_ok(8) [OF c]
    then have kind: "ad_decision d = sd_decision r" by (simp add: approval_decision_from_request_def)
    show ?thesis
    proof (cases "sd_decision r")
      case Approve
      then show ?thesis
        using assms Inr None c d kind granted
        by (auto simp: submit_decision_def and_then_def split: sum.splits)
    next
      case Reject
      then show ?thesis
        using assms Inr None c d kind rejected by (auto simp: submit_decision_def)
    qed
  qed
qed

section \<open>What a decision stores\<close>

lemma decide_grant_stores:
  assumes "decide d (Some g) None e ms s = (Inr b, t)" "ad_decision d = Approve"
  obtains a where "find_approval s (ad_approval_id d) = Some a" "b = approve_row g (ad_decided_at d) a"
    "find_approval t (ad_approval_id d) = Some b" "pay_intent t = pay_intent s"
  using assms(1)
proof (cases rule: decide_cases)
  case (decided a i p u)
  have w: "write_approvals (decidable_row (ar_id a) (ad_decided_at d)) (approve_row g (ad_decided_at d))
      (conflict ''approval grant update rejected'') s = Inr (1, u)" "p = approve_row g (ad_decided_at d) a"
    using decided(7) assms(2) by (auto simp: decide_approve_def result_simps split: if_splits)
  note u = write_approvals_ok(2) [OF w(1)]
  obtain es os where t: "t = u\<lparr>pay_event := es, pay_outbox := os\<rparr>"
    using append_side_effects_frame [OF decided(8)] by blast
  have a: "decidable_row (ar_id a) (ad_decided_at d) a"
    using validate_decision_ok(1) [OF decided(3)] by (simp add: decidable_row_def is_pending_at_def)
  have "find_approval u k = map_option (\<lambda>r. if decidable_row (ar_id a) (ad_decided_at d) r
      then approve_row g (ad_decided_at d) r else r) (find_approval s k)" for k
    using find_update_where [of ar_id "approve_row g (ad_decided_at d)"]
    by (simp add: u find_approval_def approve_row_def)
  then have "find_approval t (ad_approval_id d) = Some (approve_row g (ad_decided_at d) a)"
    using decided(2) a by (simp add: t find_approval_def)
  with that decided w show thesis by (simp add: t u)
qed simp

lemma decide_reject_stores:
  assumes "decide d None (Some (j, n)) e ms s = (Inr b, t)" "ad_decision d = Reject"
  obtains a where "find_approval s (ad_approval_id d) = Some a"
    "b = reject_row (ad_approved_by d) (ad_decided_at d) a"
    "find_approval t (ad_approval_id d) = Some b" "load_intent t (pi_id j) = Some j"
  using assms(1)
proof (cases rule: decide_cases)
  case (decided a i p u)
  then obtain v where v: "update_intent j n Unchanged s = Inr v"
    and w: "write_approvals (decidable_row (ar_id a) (ad_decided_at d))
      (reject_row (ad_approved_by d) (ad_decided_at d)) (conflict ''approval rejection update rejected'') v = Inr (1, u)"
      "p = reject_row (ad_approved_by d) (ad_decided_at d) a"
    using assms(2) by (auto simp: decide_reject_def result_simps split: if_splits)
  note u = write_approvals_ok(2) [OF w(1)]
  obtain es os where t: "t = u\<lparr>pay_event := es, pay_outbox := os\<rparr>"
    using append_side_effects_frame [OF decided(8)] by blast
  have a: "decidable_row (ar_id a) (ad_decided_at d) a"
    using validate_decision_ok(1) [OF decided(3)] by (simp add: decidable_row_def is_pending_at_def)
  have "find_approval u k = map_option (\<lambda>r. if decidable_row (ar_id a) (ad_decided_at d) r
      then reject_row (ad_approved_by d) (ad_decided_at d) r else r) (find_approval s k)" for k
    using find_update_where [of ar_id "reject_row (ad_approved_by d) (ad_decided_at d)"]
    by (simp add: u find_approval_def reject_row_def update_intent_approvals [OF v])
  then have "find_approval t (ad_approval_id d) = Some (reject_row (ad_approved_by d) (ad_decided_at d) a)"
    using decided(2) a by (simp add: t find_approval_def)
  moreover have "load_intent t (pi_id j) = Some j"
    using load_intent_update(1) [OF v] by (simp add: t u load_intent_def)
  ultimately show thesis using that decided w by simp
qed simp

section \<open>Decisions can be repeated\<close>

lemma material_open_retained:
  assumes "material_open K P c m = Inr v"
    and "\<forall>k x. map_of (mp_keys P) k = Some x \<longrightarrow> map_of (mp_keys Q) k = Some x"
  shows "material_open K Q c m = Inr v"
  using assms by (auto simp: material_open_def result_simps Let_def split: if_splits)

lemma grant_verify_retained:
  assumes "grant_verify X K T a now = Inr v" "retains_keys T U" "now \<le> now'" "now' < ar_expires_at a"
  shows "grant_verify X K U a now' = Inr v"
proof -
  from assms(1) obtain jti sealed token header kid key claims hash where
    v: "ar_status a \<in> {ApApproved, ApConsumed}" "has_persisted_grant a" "ar_grant_jti a = Some jti"
    "ar_sealed_grant_token a = Some sealed"
    "material_open K (gt_material_protector T) (grant_material_context (ar_id a) jti) sealed = Inr token"
    "is_utf8 token" "k_jwt_header K token = Some header" "jh_alg header = ''HS256''" "jh_typ header = Some ''JWT''"
    "jh_kid header = Some kid" "map_of (gt_signing_keys T) kid = Some key"
    "Option.bind (k_jwt_decode K token key (gt_audience T) (gt_issuer T)) claims_from_value = Some claims"
    "claims_hash X K claims = Inr hash" "validate_stored_claims T a claims hash now = Inr ()"
    "v = \<lparr>vg_claims = claims, vg_claims_hash = hash\<rparr>"
    unfolding grant_verify_def by (auto simp: result_simps split: if_splits)
  have U: "gt_issuer U = gt_issuer T" "gt_audience U = gt_audience T" "map_of (gt_signing_keys U) kid = Some key"
    "material_open K (gt_material_protector U) (grant_material_context (ar_id a) jti) sealed = Inr token"
    using assms(2) v(11) material_open_retained [OF v(5)] by (simp_all add: retains_keys_def)
  note c = validate_stored_claims_ok [OF v(14)]
  have "validate_stored_claims U a claims hash now' = Inr ()"
    using c assms(3,4) U by (simp add: validate_stored_claims_def constant_time_eq_iff)
  then show ?thesis using v U by (simp add: grant_verify_def)
qed

lemma decided_authority:
  assumes "decide d g tr e ms s = (w, t)"
  shows "authorize_approver t who sc = authorize_approver s who sc"
proof -
  have "same_catalog s t" using decide_keeps [OF assms] by (simp add: keeps_def)
  then show ?thesis by (simp add: same_catalog_def authorize_approver_def is_authorized_def)
qed

lemma replay_decision_intro:
  assumes "find_approval t (sd_approval_id r) = Some b" "load_intent t (sd_intent_id r) = Some i"
    and "ar_status b \<noteq> ApPending" "ar_intent_id b = sd_intent_id r"
    and "authorize_approver t who (pi_scenario_id i) = Inr ()" "ar_requested_by b \<noteq> who" "ar_approved_by b = Some who"
    and "replay_answer X K U r now b i = Inr (Some b)"
  shows "submit_decision X K U ttl ids who r now t = (Inr b, t)"
  using assms by (simp add: submit_decision_def replay_decision_def)

lemma replay_answer_retained:
  assumes "replay_answer X K T r now a i = Inr o'" "retains_keys T U" "now \<le> now'"
    and "ar_status a = ApApproved \<Longrightarrow> now' < ar_expires_at a"
  shows "replay_answer X K U r now' a i = Inr o'"
proof -
  have "grant_verify X K U a now' = Inr v" if "ar_status a = ApApproved" "grant_verify X K T a now = Inr v" for v
    using grant_verify_retained [OF that(2) assms(2,3)] assms(4) that(1) by simp
  then show ?thesis
    using assms(1)
    by (cases "ar_status a"; cases "sd_decision r") (auto simp: replay_answer_def result_simps split: if_splits)
qed

lemma submit_decision_repeats:
  assumes first: "submit_decision X K T ttl ids who r now s = (Inr b, t)"
    and laws: "base64_inverts K" "aead_decrypts K" "jwt_decodes K"
    and ids: "length (di_nonce ids) = 16" "k_uuid_v4 K (di_nonce ids)"
      "is_identifier (mp_active_key_id (gt_material_protector T))"
    and U: "retains_keys T U" and time: "now \<le> now'" "in_i64 now" "in_i64 (ar_expires_at b)"
      "ar_status b = ApApproved \<Longrightarrow> now' < ar_expires_at b"
  shows "submit_decision X K U ttl' ids' who r now' t = (Inr b, t)"
  using first
proof (cases rule: submit_decision_cases)
  case replay
  then obtain i where "find_approval s (sd_approval_id r) = Some b" "load_intent s (sd_intent_id r) = Some i"
    "ar_status b \<noteq> ApPending" "ar_intent_id b = sd_intent_id r" "authorize_approver s who (pi_scenario_id i) = Inr ()"
    "ar_requested_by b \<noteq> who" "ar_approved_by b = Some who" "replay_answer X K T r now b i = Inr (Some b)"
    by (auto simp: replay_decision_def result_simps dest: replay_answer_ok(1) split: if_splits)
  with replay(1) replay_answer_retained [OF _ U time(1,4)] show ?thesis
    by (intro replay_decision_intro) auto
next
  case (granted a i g)
  let ?d = "approval_decision_from_request who r now"
  note c = decision_context_ok [OF granted(2)]
  have d: "ad_decision ?d = Approve" "ad_approval_id ?d = sd_approval_id r" "ad_decided_at ?d = now"
    "ad_approved_amount ?d = Some (pi_amount i)"
    using granted(3) c(10) by (simp_all add: approval_decision_from_request_def)
  have f: "gc_approver (ag_claims g) = who" "gc_amount (ag_claims g) = pi_amount i"
    "gc_exp (ag_claims g) = grant_expiration (ar_expires_at a) now ttl" "gc_intent_id (ag_claims g) = pi_id i"
    "gc_intent_hash (ag_claims g) = pi_request_hash i"
    using granted(4) d(4) c(3,5)
    by (auto simp: grant_issue_def result_simps Let_def approval_decision_from_request_def split: if_splits)
  from granted(5) d(1) obtain a' where a': "find_approval s (sd_approval_id r) = Some a'" "b = approve_row g now a'"
    "find_approval t (sd_approval_id r) = Some b" "pay_intent t = pay_intent s"
    by (rule decide_grant_stores) (simp add: d)
  with c(1) have b: "b = approve_row g now a" by simp
  have "grant_verify X K U (approve_row g (ad_decided_at ?d) a) now'
      = Inr \<lparr>vg_claims = ag_claims g, vg_claims_hash = ag_claims_hash g\<rparr>"
    using time f by (intro grant_verify_issued [OF granted(4) laws ids U]) (simp_all add: d b approve_row_def)
  then have "replay_answer X K U r now' b i = Inr (Some b)"
    using granted(3) c(10) f by (simp add: replay_answer_def b d approve_row_def)
  then show ?thesis
    using a' c f decided_authority [OF granted(5)]
    by (intro replay_decision_intro [of _ _ _ i]) (simp_all add: load_intent_def b approve_row_def)
next
  case (rejected a i)
  let ?d = "approval_decision_from_request who r now" and ?j = "rejected_intent i now"
  note c = decision_context_ok [OF rejected(2)]
  have d: "ad_decision ?d = Reject" "ad_approval_id ?d = sd_approval_id r" "ad_approved_by ?d = who"
    using rejected(3) by (simp_all add: approval_decision_from_request_def)
  from rejected(4) d(1) obtain a' where a': "find_approval s (sd_approval_id r) = Some a'"
    "b = reject_row who (ad_decided_at ?d) a'" "find_approval t (sd_approval_id r) = Some b"
    "load_intent t (pi_id ?j) = Some ?j"
    by (rule decide_reject_stores) (simp add: d)
  have "sd_approved_amount r = None"
    using validate_decision_ok(5) [OF c(9)] d(1) by (simp add: approval_decision_from_request_def)
  then have "replay_answer X K U r now' b ?j = Inr (Some b)"
    using a'(2) rejected(3) by (simp add: replay_answer_def reject_row_def)
  then show ?thesis
    using a' c decided_authority [OF rejected(4)]
    by (intro replay_decision_intro [of _ _ _ ?j]) (simp_all add: reject_row_def rejected_intent_def)
qed

section \<open>Four eyes, and one step of the store\<close>

lemma submit_decision_four_eyes:
  assumes "submit_decision X K T ttl ids who r now s = (Inr b, t)"
  obtains a i where "find_approval s (sd_approval_id r) = Some a" "load_intent s (sd_intent_id r) = Some i"
    "ar_intent_id a = sd_intent_id r" "ar_requested_by a \<noteq> who"
    "authorize_approver s who (pi_scenario_id i) = Inr ()" "ar_approved_by b = Some who"
    "ar_requested_by b = ar_requested_by a"
  using assms
proof (cases rule: submit_decision_cases)
  case replay
  then show ?thesis using that by (auto elim!: replay_decision_some)
next
  case (granted a i g)
  note c = decision_context_ok [OF granted(2)]
  from granted(4) have "gc_approver (ag_claims g) = who"
    by (auto simp: grant_issue_def result_simps Let_def approval_decision_from_request_def split: if_splits)
  moreover have "b = approve_row g (ad_decided_at (approval_decision_from_request who r now)) a"
    using granted(3,5) c(1) by (auto simp: approval_decision_from_request_def elim!: decide_grant_stores)
  ultimately show ?thesis using that [of a i] c by (simp add: approve_row_def)
next
  case (rejected a i)
  note c = decision_context_ok [OF rejected(2)]
  have "b = reject_row who now a"
    using rejected(3,4) c(1) by (auto simp: approval_decision_from_request_def elim!: decide_reject_stores)
  then show ?thesis using that [of a i] c by (simp add: reject_row_def)
qed

lemma submit_decision_step:
  assumes "submit_decision X K T ttl ids who r now s = (w, t)"
  shows "t = s \<or> vault_step X s t"
  using assms unfolding submit_decision_def Let_def
  by (auto intro: step_decide split: sum.splits option.splits prod.splits if_splits)

lemma consume_grant_step:
  assumes "consume_grant X K T eid mid who a i now s = (w, t)"
  shows "t = s \<or> vault_step X s t"
  using assms unfolding consume_grant_def Let_def
  by (auto intro: step_consume split: sum.splits prod.splits)

end
