(* ===== verification/Protocol_Port.thy ===== *)
theory Protocol_Port
  imports Access
begin

text \<open>
  The boundary to the payment protocols (\<^verbatim>\<open>protocol/adapter.rs\<close>, \<^verbatim>\<open>protocol/factory.rs\<close>): an
  adapter is a trait object, so it is a record of the functions that the services call through it, and the
  registry is the immutable table of the configured adapters with their priority. The lemmas show that a
  registry holds each adapter under its own name and how an HTTP challenge finds its adapter.
\<close>

section \<open>Adapters\<close>

record ProtocolSigningRequest =
  sr_digest :: string
  sr_payload :: json

record ProtocolValidation =
  pv_payer :: "string option"
  pv_requires_external_settlement :: bool

record ProtocolSettlement =
  ps_protocol :: string
  ps_payment_payload :: json
  ps_payment_requirements :: json

record ProtocolMerchantEvidence =
  me_accepted :: bool
  me_transaction :: "string option"
  me_network :: "string option"
  me_payer :: "string option"

record PaymentProtocol =
  pt_name :: string
  pt_decode_http_challenge :: "string \<Rightarrow> (string \<times> string) list \<Rightarrow> string \<Rightarrow> json option result"
  pt_merchant_evidence_header :: string
  pt_decode_merchant_evidence :: "string \<Rightarrow> ProtocolMerchantEvidence result"
  pt_credential_payer :: "PaymentChallenge \<Rightarrow> PaymentCredential \<Rightarrow> string result"
  pt_validate_payment :: "PaymentChallenge \<Rightarrow> PaymentIntent \<Rightarrow> unit result"
  pt_prepare_signing :: "PaymentChallenge \<Rightarrow> string \<Rightarrow> int \<Rightarrow> ProtocolSigningRequest result"
  pt_complete_signing :: "PaymentChallenge \<Rightarrow> ProtocolSigningRequest \<Rightarrow> string \<Rightarrow> PaymentCredential result"
  pt_build_challenge :: "PaymentPrice \<Rightarrow> string \<Rightarrow> int \<Rightarrow> PaymentChallenge result"
  pt_verify_credential :: "PaymentChallenge \<Rightarrow> PaymentCredential \<Rightarrow> int \<Rightarrow> ProtocolValidation result"
  pt_credential_fingerprint :: "PaymentChallenge \<Rightarrow> PaymentCredential \<Rightarrow> string result"
  pt_settle_payment :: "PaymentChallenge \<Rightarrow> PaymentCredential \<Rightarrow> ProtocolSettlement result"

section \<open>The registry\<close>

record ProtocolRegistry =
  rg_adapters :: "(string \<times> PaymentProtocol) list"
  rg_priority :: "string list"

definition registry_get :: "ProtocolRegistry \<Rightarrow> string \<Rightarrow> PaymentProtocol result" where
  "registry_get R protocol =
     ok_or (map_of (rg_adapters R) protocol) (PaymentProtocol (''unsupported payment protocol: '' @ protocol))"

definition registry_contains :: "ProtocolRegistry \<Rightarrow> string \<Rightarrow> bool" where
  "registry_contains R protocol \<longleftrightarrow> map_of (rg_adapters R) protocol \<noteq> None"

primrec resolve_by_priority ::
  "ProtocolRegistry \<Rightarrow> string \<Rightarrow> (string \<times> string) list \<Rightarrow> string \<Rightarrow> string list \<Rightarrow> (PaymentProtocol \<times> json) result"
where
  "resolve_by_priority R resource headers body [] =
     Inl (PaymentProtocol ''HTTP response contains no enabled payment challenge'')"
| "resolve_by_priority R resource headers body (p # ps) =
     and_then (registry_get R p) (\<lambda>adapter.
     and_then (pt_decode_http_challenge adapter resource headers body) (\<lambda>wire.
     case wire of Some w \<Rightarrow> Inr (adapter, w) | None \<Rightarrow> resolve_by_priority R resource headers body ps))"

definition resolve_http_challenge ::
  "ProtocolRegistry \<Rightarrow> string option \<Rightarrow> string \<Rightarrow> (string \<times> string) list \<Rightarrow> string \<Rightarrow> (PaymentProtocol \<times> json) result"
where
  "resolve_http_challenge R protocol_hint resource headers body =
     (case protocol_hint of
        Some protocol \<Rightarrow>
          if protocol \<noteq> trim protocol then Inl (PaymentProtocol ''payment protocol hint is not canonical'')
          else and_then (registry_get R protocol) (\<lambda>adapter.
          and_then (pt_decode_http_challenge adapter resource headers body) (\<lambda>wire.
          and_then (ok_or wire (PaymentProtocol (''HTTP response did not advertise '' @ protocol))) (\<lambda>w.
          Inr (adapter, w))))
      | None \<Rightarrow> resolve_by_priority R resource headers body (rg_priority R))"

definition register_adapter :: "ProtocolRegistry \<Rightarrow> PaymentProtocol \<Rightarrow> ProtocolRegistry result" where
  "register_adapter R adapter =
     (if map_of (rg_adapters R) (pt_name adapter) \<noteq> None
      then Inl (Config (''duplicate payment protocol adapter: '' @ pt_name adapter))
      else Inr \<lparr>rg_adapters = rg_adapters R @ [(pt_name adapter, adapter)],
                rg_priority = rg_priority R @ [pt_name adapter]\<rparr>)"

definition factory_build :: "PaymentProtocol list \<Rightarrow> ProtocolRegistry result" where
  "factory_build adapters = try_fold register_adapter \<lparr>rg_adapters = [], rg_priority = []\<rparr> adapters"

section \<open>What a registry holds\<close>

lemma registry_get_ok [simp]: "registry_get R p = Inr a \<longleftrightarrow> map_of (rg_adapters R) p = Some a"
  by (simp add: registry_get_def ok_or_def split: option.splits)

lemma register_adapters:
  assumes "try_fold register_adapter R adapters = Inr R'"
    and "distinct (map fst (rg_adapters R))"
  shows "rg_adapters R' = rg_adapters R @ map (\<lambda>a. (pt_name a, a)) adapters
    \<and> rg_priority R' = rg_priority R @ map pt_name adapters \<and> distinct (map fst (rg_adapters R'))"
  using assms
proof (induction adapters arbitrary: R)
  case (Cons a adapters)
  then obtain Q where Q: "register_adapter R a = Inr Q" "try_fold register_adapter Q adapters = Inr R'"
    by (auto simp: result_simps)
  then have q: "Q = \<lparr>rg_adapters = rg_adapters R @ [(pt_name a, a)], rg_priority = rg_priority R @ [pt_name a]\<rparr>"
    "pt_name a \<notin> fst ` set (rg_adapters R)"
    by (auto simp: register_adapter_def map_of_eq_None_iff split: if_splits)
  with Cons.prems(2) have "distinct (map fst (rg_adapters Q))" by simp
  from Cons.IH [OF Q(2) this] show ?case by (elim conjE) (simp add: q(1))
qed simp

lemma factory_build_ok:
  assumes "factory_build adapters = Inr R"
  shows "rg_adapters R = map (\<lambda>a. (pt_name a, a)) adapters" "rg_priority R = map pt_name adapters"
    and "distinct (map pt_name adapters)"
  using register_adapters [OF assms [unfolded factory_build_def]] by (auto simp: comp_def)

lemma factory_build_get:
  assumes "factory_build adapters = Inr R"
  shows "registry_get R p = Inr a \<longleftrightarrow> a \<in> set adapters \<and> pt_name a = p"
proof -
  note R = factory_build_ok [OF assms]
  have "distinct (map fst (rg_adapters R))" using R by (simp add: comp_def)
  then show ?thesis by (auto simp: map_of_eq_Some_iff R(1))
qed

lemma resolve_by_priority_ok:
  assumes "resolve_by_priority R resource headers body ps = Inr (a, w)"
  shows "\<exists>before p after. ps = before @ p # after \<and> map_of (rg_adapters R) p = Some a
    \<and> pt_decode_http_challenge a resource headers body = Inr (Some w)
    \<and> (\<forall>q \<in> set before. \<exists>b. map_of (rg_adapters R) q = Some b
          \<and> pt_decode_http_challenge b resource headers body = Inr None)"
  using assms
proof (induction ps)
  case (Cons p ps)
  then obtain b o' where b: "map_of (rg_adapters R) p = Some b"
    "pt_decode_http_challenge b resource headers body = Inr o'"
    "(case o' of Some w' \<Rightarrow> Inr (b, w') | None \<Rightarrow> resolve_by_priority R resource headers body ps) = Inr (a, w)"
    by (auto simp: result_simps)
  show ?case
  proof (cases o')
    case None
    with b Cons.IH obtain before q after where q: "ps = before @ q # after" "map_of (rg_adapters R) q = Some a"
      "pt_decode_http_challenge a resource headers body = Inr (Some w)"
      "\<forall>q \<in> set before. \<exists>b. map_of (rg_adapters R) q = Some b
          \<and> pt_decode_http_challenge b resource headers body = Inr None"
      by auto
    with b None show ?thesis by (intro exI [of _ "p # before"] exI [of _ q] exI [of _ after]) auto
  next
    case (Some v)
    with b show ?thesis by (intro exI [of _ "[]"] exI [of _ p] exI [of _ ps]) auto
  qed
qed simp

end
