(* ===== verification/Authorizer.thy ===== *)
theory Authorizer
  imports Protocol_Port Material Vault
begin

text \<open>
  Outbound authorization (\<^verbatim>\<open>payment/authorization.rs\<close>): the command is validated, a repeated run is
  answered from the stored payment, every policy and wallet of the scenario is evaluated against a budget
  snapshot, the best candidate becomes a payment, and one transaction of the payment repository records it.
  The lemmas show what the selection picks and that the service writes at most one step of the store.
\<close>

section \<open>Listing policies\<close>

definition list_policies :: "(PaymentPolicy \<Rightarrow> bool) \<Rightarrow> PageRequest \<Rightarrow> db \<Rightarrow> PaymentPolicy Page result" where
  "list_policies hit page s =
     and_then (page_bounds page) (\<lambda>(limit, offset).
     let rows = filter hit (pay_policy s);
         ordered = sort_key (\<lambda>p. (pp_created_at p, pp_id p)) rows in
     Inr \<lparr>pg_items = map (\<lambda>p. p\<lparr>pp_wallet_ids := load_wallet_ids s (pp_id p)\<rparr>)
            (take (nat limit) (drop (nat offset) ordered)),
          pg_total = length rows\<rparr>)"

section \<open>Commands and results\<close>

definition hash_request :: "externals \<Rightarrow> string \<Rightarrow> string \<Rightarrow> string" where
  "hash_request X domain encoded =
     hex_encode (x_sha256 X (domain @ be_bytes64 (min (length encoded) (2 ^ 64 - 1)) @ encoded))"

definition request_hash :: "externals \<Rightarrow> primitives \<Rightarrow> AuthorizePayment \<Rightarrow> string" where
  "request_hash X K c =
     hash_request X ''agentvault.authorize-payment.v2'' (k_to_vec K (json_object
       [(''scenario_id'', JString (ap_scenario_id c)), (''run_id'', JString (ap_run_id c)),
        (''challenge'', challenge_to_value (ap_challenge c))]))"

definition validate_authorize_command :: "externals \<Rightarrow> AuthorizePayment \<Rightarrow> unit result" where
  "validate_authorize_command X c =
     and_then (validate_identifier ''scenario_id'' (ap_scenario_id c)) (\<lambda>_.
     and_then (validate_identifier ''run_id'' (ap_run_id c)) (\<lambda>_.
     if pc_scenario_id (ap_challenge c) \<noteq> ap_scenario_id c \<or> pc_price_id (ap_challenge c) \<noteq> None
     then Inl (InvalidRequest ''outbound challenge scenario binding is invalid'')
     else and_then (map_err (\<lambda>_. InvalidRequest ''payment recipient is invalid for its network'')
       (canonicalize_payment_recipient X (ai_network (pc_asset (ap_challenge c))) (pc_recipient (ap_challenge c))))
       (\<lambda>canonical.
     if canonical \<noteq> pc_recipient (ap_challenge c)
     then Inl (InvalidRequest ''payment recipient must use its canonical network form'')
     else Inr ())))"

definition authorization_result :: "AuthorizationRecord \<Rightarrow> PaymentAuthorizationResult result" where
  "authorization_result r =
     (let i = arec_intent r in
      case pi_status i of
        PendingApproval \<Rightarrow>
          and_then (ok_or (arec_approval r) (Storage ''pending intent has no approval row'')) (\<lambda>a.
          Inr (RequiresApproval (pi_id i) (ar_id a)))
      | Failed \<Rightarrow> Inr (Denied (pi_id i) ''payment authorization was denied or expired'')
      | Expired \<Rightarrow> Inr (Denied (pi_id i) ''payment authorization was denied or expired'')
      | _ \<Rightarrow> Inr (AuthorizedResult (pi_id i) (pi_reserved_amount i)))"

definition replay_result ::
  "AuthorizePayment \<Rightarrow> string \<Rightarrow> db \<Rightarrow> PaymentAuthorizationResult option result" where
  "replay_result c hash s =
     (case find_run s (ap_scenario_id c) (ap_run_id c) of
        None \<Rightarrow> Inr None
      | Some existing \<Rightarrow>
          if pi_request_hash (arec_intent existing) \<noteq> hash
          then Inl (PaymentConflict ''run_id was reused for different payment content'')
          else and_then (authorization_result existing) (\<lambda>r. Inr (Some r)))"

section \<open>Choosing a policy and a wallet\<close>

record PolicyWalletCandidate =
  pwc_policy :: PaymentPolicy
  pwc_wallet_id :: string
  pwc_selection_key :: string
  pwc_budget :: BudgetSnapshot
  pwc_origin :: string
  pwc_decision :: PolicyDecision

definition MAX_SCENARIO_POLICIES :: u32 where "MAX_SCENARIO_POLICIES = 1000"
definition MAX_WALLET_CANDIDATES :: nat where "MAX_WALLET_CANDIDATES = 4096"

definition wallet_supports_payment_network :: "externals \<Rightarrow> BudgetSnapshot \<Rightarrow> string \<Rightarrow> bool" where
  "wallet_supports_payment_network X b network \<longleftrightarrow>
     (\<not> is_evm_payment_network network \<or> is_evm_wallet_algorithm (bs_wallet_algorithm b))
     \<and> is_ok (canonicalize_payment_recipient X network (bs_wallet_address b))"

primrec decision_rank :: "PolicyDecision \<Rightarrow> nat" where
  "decision_rank Allowed = 0"
| "decision_rank PdRequiresApproval = 1"
| "decision_rank (PdDenied reason) = 2"

definition selection_key :: "externals \<Rightarrow> string \<Rightarrow> string \<Rightarrow> string \<Rightarrow> string" where
  "selection_key X hash policy_id wallet_id =
     x_sha256 X (posting_preimage ''agentvault.wallet-selection.v1'' [hash, policy_id, wallet_id])"

text \<open>
  \<^verbatim>\<open>compare_candidates\<close> compares lexicographically, and \<^verbatim>\<open>sort_by\<close> is stable: each strategy is
  a sort by the tuple of what it compares.
\<close>

definition sort_candidates ::
  "WalletSelectionStrategy \<Rightarrow> PolicyWalletCandidate list \<Rightarrow> PolicyWalletCandidate list" where
  "sort_candidates strategy cs =
     (case strategy of
        LeastSpent \<Rightarrow> sort_key (\<lambda>c. (decision_rank (pwc_decision c),
          bs_wallet_spent_and_reserved (pwc_budget c), pwc_selection_key c,
          pp_id (pwc_policy c), pwc_wallet_id c)) cs
      | StableRandom \<Rightarrow> sort_key (\<lambda>c. (decision_rank (pwc_decision c), pwc_selection_key c,
          bs_wallet_spent_and_reserved (pwc_budget c),
          pp_id (pwc_policy c), pwc_wallet_id c)) cs)"

definition policy_in_scope :: "externals \<Rightarrow> PaymentChallenge \<Rightarrow> string \<Rightarrow> PaymentPolicy \<Rightarrow> bool" where
  "policy_in_scope X ch origin p \<longleftrightarrow>
     pp_enabled p
     \<and> allows_direction p Outbound
     \<and> allows_protocol p (pc_protocol ch)
     \<and> allows_asset p (pc_asset ch)
     \<and> allows_payment_recipient X p (ai_network (pc_asset ch)) (pc_recipient ch)
     \<and> allows_origin p origin"

definition candidate_decision ::
  "externals \<Rightarrow> PaymentPolicy \<Rightarrow> string \<Rightarrow> PaymentChallenge \<Rightarrow> string \<Rightarrow> BudgetSnapshot \<Rightarrow> int \<Rightarrow> PolicyDecision result"
where
  "candidate_decision X p wallet_id ch origin b now =
     (if \<not> bs_wallet_enabled b then Inr (PdDenied ''payment wallet is disabled'')
      else if bs_wallet_active_key_version b = None
      then Inr (PdDenied ''payment wallet has no active local signing key'')
      else if \<not> wallet_supports_payment_network X b (ai_network (pc_asset ch))
      then Inr (PdDenied ''payment wallet is incompatible with the payment network'')
      else PolicyEngine_evaluate X p
        \<lparr>pe_direction = Outbound, pe_challenge = ch, pe_wallet_id = wallet_id, pe_origin = origin,
         pe_scenario_usage = bs_scenario_spent_and_reserved b,
         pe_wallet_budget = \<lparr>wb_usage = bs_wallet_spent_and_reserved b,
           wb_shared_across_scenarios = bs_wallet_shared_across_scenarios b,
           wb_max_per_payment = bs_wallet_max_per_payment b, wb_max_per_day = bs_wallet_max_per_day b\<rparr>,
         pe_now = now\<rparr>)"

definition wallet_candidate ::
  "externals \<Rightarrow> AuthorizePayment \<Rightarrow> string \<Rightarrow> string \<Rightarrow> int \<Rightarrow> db \<Rightarrow> PaymentPolicy \<Rightarrow> string \<Rightarrow>
     PolicyWalletCandidate result" where
  "wallet_candidate X c hash origin now s p wallet_id =
     and_then (budget_snapshot X (ap_scenario_id c) wallet_id Outbound
       (budget_unit (pc_asset (ap_challenge c))) (utc_day_start now) now s) (\<lambda>b.
     and_then (candidate_decision X p wallet_id (ap_challenge c) origin b now) (\<lambda>decision.
     Inr \<lparr>pwc_policy = p, pwc_wallet_id = wallet_id, pwc_selection_key = selection_key X hash (pp_id p) wallet_id,
          pwc_budget = b, pwc_origin = origin, pwc_decision = decision\<rparr>))"

definition add_candidate ::
  "(string \<Rightarrow> PolicyWalletCandidate result) \<Rightarrow> PolicyWalletCandidate list \<Rightarrow> string \<Rightarrow> PolicyWalletCandidate list result"
where
  "add_candidate candidate cs wallet_id =
     (if length cs \<ge> MAX_WALLET_CANDIDATES
      then Inl (PolicyDenied ''scenario has more than 4096 eligible policy-wallet candidates'')
      else and_then (candidate wallet_id) (\<lambda>c. Inr (cs @ [c])))"

definition add_policy ::
  "externals \<Rightarrow> AuthorizePayment \<Rightarrow> string \<Rightarrow> string \<Rightarrow> int \<Rightarrow> db \<Rightarrow> PolicyWalletCandidate list \<Rightarrow> PaymentPolicy \<Rightarrow>
     PolicyWalletCandidate list result" where
  "add_policy X c hash origin now s cs p =
     and_then (if pp_enabled p \<and> allows_direction p Outbound
         then map_err (\<lambda>field. PolicyDenied (''invalid policy field: '' @ field)) (PaymentPolicy_validate p)
         else Inr ()) (\<lambda>_.
     if \<not> policy_in_scope X (ap_challenge c) origin p then Inr cs
     else try_fold (add_candidate (wallet_candidate X c hash origin now s p)) cs (pp_wallet_ids p))"

definition policy_decision ::
  "externals \<Rightarrow> WalletSelectionStrategy \<Rightarrow> AuthorizePayment \<Rightarrow> string \<Rightarrow> int \<Rightarrow> db \<Rightarrow> PolicyWalletCandidate result" where
  "policy_decision X strategy c hash now s =
     and_then (list_policies (\<lambda>p. pp_scenario_id p = ap_scenario_id c)
       \<lparr>pg_offset = 0, pg_limit = MAX_SCENARIO_POLICIES\<rparr> s) (\<lambda>page.
     if pg_total page \<noteq> length (pg_items page)
     then Inl (PolicyDenied ''scenario has more than 1000 policies; wallet selection is bounded'')
     else and_then (canonical_http_origin X (pc_resource (ap_challenge c))) (\<lambda>origin.
     and_then (try_fold (add_policy X c hash origin now s) [] (pg_items page)) (\<lambda>cs.
     case sort_candidates strategy cs of
       [] \<Rightarrow> Inl (PolicyDenied ''scenario has no eligible outbound policy-wallet candidate'')
     | best # _ \<Rightarrow> Inr best)))"

section \<open>The payment and what accompanies it\<close>

primrec authorization_state ::
  "PolicyDecision \<Rightarrow> amount \<Rightarrow> PaymentStatus \<times> ReservationStatus \<times> amount \<times> AuthorizationAction" where
  "authorization_state Allowed amount = (Authorized, Reserved, amount, Reserve)"
| "authorization_state PdRequiresApproval amount = (PendingApproval, Unreserved, 0, RequestApproval)"
| "authorization_state (PdDenied reason) amount = (Failed, Unreserved, 0, RecordDenied)"

definition build_payment_intent ::
  "string \<Rightarrow> AuthorizePayment \<Rightarrow> string \<Rightarrow> string \<Rightarrow> string \<Rightarrow> PolicyDecision \<Rightarrow> int \<Rightarrow>
     (PaymentIntent \<times> AuthorizationAction) result" where
  "build_payment_intent intent_id c policy_id wallet_id hash decision now =
     (case authorization_state decision (pc_amount (ap_challenge c)) of
        (status, reservation_status, reserved_amount, action) \<Rightarrow>
          let ch = ap_challenge c;
              i = \<lparr>pi_id = intent_id, pi_scenario_id = ap_scenario_id c, pi_run_id = ap_run_id c,
                pi_wallet_id = Some wallet_id, pi_policy_id = Some policy_id, pi_price_id = None,
                pi_direction = Outbound, pi_protocol = pc_protocol ch, pi_asset = pc_asset ch,
                pi_recipient = pc_recipient ch, pi_amount = pc_amount ch, pi_settled_amount = 0,
                pi_resource = pc_resource ch, pi_challenge_hash = Some (pc_challenge_hash ch),
                pi_request_hash = hash, pi_status = status, pi_reservation_status = reservation_status,
                pi_reserved_amount = reserved_amount, pi_tx_hash = None, pi_settlement_ref = None,
                pi_next_reconcile_at = None, pi_created_at = now, pi_updated_at = now,
                pi_expires_at = Some (pc_expires_at ch), pi_settled_at = None\<rparr> in
          and_then (map_err (\<lambda>field. InvalidRequest (''invalid payment intent field: '' @ field))
            (PaymentIntent_validate i)) (\<lambda>_. Inr (i, action)))"

definition build_approval_request ::
  "string \<Rightarrow> AccessContext \<Rightarrow> AuthorizePayment \<Rightarrow> PaymentIntent \<Rightarrow> string \<Rightarrow> int \<Rightarrow> int \<Rightarrow> ApprovalRequest" where
  "build_approval_request approval_id access c i hash approval_ttl_seconds now =
     \<lparr>ar_id = approval_id, ar_intent_id = pi_id i, ar_run_id = pi_run_id i, ar_requested_amount = pi_amount i,
      ar_approved_amount = None, ar_requested_by = ac_principal access, ar_approved_by = None,
      ar_status = ApPending, ar_intent_hash = hash, ar_grant_jti = None, ar_grant_claims_hash = None,
      ar_sealed_grant_token = None,
      ar_expires_at = min (pc_expires_at (ap_challenge c)) (saturating_add now approval_ttl_seconds),
      ar_consumed_at = None, ar_created_at = now, ar_approved_at = None\<rparr>"

definition approval_required_message ::
  "string \<Rightarrow> AccessContext \<Rightarrow> AuthorizePayment \<Rightarrow> PaymentIntent \<Rightarrow> ApprovalRequest \<Rightarrow> int \<Rightarrow> OutboxMessage" where
  "approval_required_message mid access c i a now =
     fresh_message mid ''payment_intent'' (pi_id i) ''approval_required''
       (''client:'' @ cl_id (ac_client access) @ ''.approvals'') (pi_run_id i)
       (json_object [(''approval_id'', JString (ar_id a)), (''intent_id'', JString (pi_id i)),
         (''scenario_id'', JString (ap_scenario_id c)), (''run_id'', JString (pi_run_id i)),
         (''amount'', JString (amount_to_string (ar_requested_amount a))),
         (''expires_at'', JNumber (ar_expires_at a))]) now"

text \<open>The random identifiers that one call draws.\<close>

record authorization_ids =
  ids_intent :: string
  ids_received :: string
  ids_decided :: string
  ids_approval :: string
  ids_message :: string

definition build_authorization_artifacts ::
  "authorization_ids \<Rightarrow> AccessContext \<Rightarrow> AuthorizePayment \<Rightarrow> PaymentIntent \<Rightarrow> PolicyDecision \<Rightarrow> string \<Rightarrow> int \<Rightarrow> int \<Rightarrow>
     ApprovalRequest option \<times> PaymentEvent list \<times> OutboxMessage list" where
  "build_authorization_artifacts ids access c i decision hash approval_ttl_seconds now =
     (let received = fresh_event (ids_received ids) i ChallengeReceived
            (json_object [(''challenge_hash'', JString (pc_challenge_hash (ap_challenge c))),
              (''challenge'', challenge_to_value (ap_challenge c))]) now in
      case decision of
        PdRequiresApproval \<Rightarrow>
          let a = build_approval_request (ids_approval ids) access c i hash approval_ttl_seconds now in
          (Some a,
           [received, fresh_event (ids_decided ids) i ApprovalRequested
             (json_object [(''approval_id'', JString (ar_id a)),
               (''amount'', JString (amount_to_string (ar_requested_amount a)))]) now],
           [approval_required_message (ids_message ids) access c i a now])
      | PdDenied reason \<Rightarrow>
          (None, [received, fresh_event (ids_decided ids) i EvFailed
             (json_object [(''reason'', JString reason)]) now], [])
      | Allowed \<Rightarrow> (None, [received], []))"

section \<open>The service\<close>

record PaymentAuthorizer =
  pa_protocols :: ProtocolRegistry
  pa_approval_ttl_seconds :: int
  pa_wallet_selection_strategy :: WalletSelectionStrategy

definition PaymentAuthorizer_new ::
  "ProtocolRegistry \<Rightarrow> int \<Rightarrow> WalletSelectionStrategy \<Rightarrow> PaymentAuthorizer result" where
  "PaymentAuthorizer_new protocols approval_ttl_seconds strategy =
     (if approval_ttl_seconds \<le> 0 then Inl (Config ''approval TTL must be positive'')
      else Inr \<lparr>pa_protocols = protocols, pa_approval_ttl_seconds = approval_ttl_seconds,
                pa_wallet_selection_strategy = strategy\<rparr>)"

definition authorization_guard_of ::
  "AccessContext \<Rightarrow> PolicyWalletCandidate \<Rightarrow> int \<Rightarrow> AuthorizationGuard" where
  "authorization_guard_of access selected now =
     \<lparr>g_principal = ac_principal access, g_client = ac_client access, g_scenario = ac_scenario access,
      g_policy = pwc_policy selected,
      g_expected_wallet_updated_at = bs_wallet_updated_at (pwc_budget selected),
      g_expected_wallet_key_version = bs_wallet_active_key_version (pwc_budget selected),
      g_origin = pwc_origin selected, g_day_started_at = utc_day_start now, g_evaluated_at = now\<rparr>"

text \<open>Everything the service decides before its transaction.\<close>

datatype authorization_plan =
    AnswerReplay PaymentAuthorizationResult
  | WritePayment AccessContext PolicyWalletCandidate PaymentIntent AuthorizationAction

definition authorization_plan ::
  "externals \<Rightarrow> primitives \<Rightarrow> PaymentAuthorizer \<Rightarrow> string \<Rightarrow> string \<Rightarrow> AuthorizePayment \<Rightarrow> int \<Rightarrow> db \<Rightarrow>
     authorization_plan result" where
  "authorization_plan X K A intent_id who c now s =
     and_then (validate_authorize_command X c) (\<lambda>_.
     and_then (scenario_authorize s who (ap_scenario_id c)) (\<lambda>access.
     let hash = request_hash X K c in
     and_then (replay_result c hash s) (\<lambda>replayed.
     case replayed of
       Some r \<Rightarrow> Inr (AnswerReplay r)
     | None \<Rightarrow>
         and_then (policy_decision X (pa_wallet_selection_strategy A) c hash now s) (\<lambda>selected.
         and_then (build_payment_intent intent_id c (pp_id (pwc_policy selected)) (pwc_wallet_id selected) hash
           (pwc_decision selected) now) (\<lambda>(i, action).
         and_then (registry_get (pa_protocols A) (pi_protocol i)) (\<lambda>adapter.
         and_then (pt_validate_payment adapter (ap_challenge c) i) (\<lambda>_.
         Inr (WritePayment access selected i action))))))))"

definition authorize_payment ::
  "externals \<Rightarrow> primitives \<Rightarrow> PaymentAuthorizer \<Rightarrow> authorization_ids \<Rightarrow> string \<Rightarrow> AuthorizePayment \<Rightarrow> int \<Rightarrow> db \<Rightarrow>
     PaymentAuthorizationResult result \<times> db" where
  "authorize_payment X K A ids who c now s =
     (case authorization_plan X K A (ids_intent ids) who c now s of
        Inl e \<Rightarrow> (Inl e, s)
      | Inr (AnswerReplay r) \<Rightarrow> (Inr r, s)
      | Inr (WritePayment access selected i action) \<Rightarrow>
     (case build_authorization_artifacts ids access c i (pwc_decision selected) (request_hash X K c)
         (pa_approval_ttl_seconds A) now of
        (approval, events, outbox) \<Rightarrow>
     (case authorize X i approval action (authorization_guard_of access selected now) events outbox s of
        (written, t) \<Rightarrow>
          (and_then written (\<lambda>w.
             let r = (case w of Inserted r \<Rightarrow> r | ReplayOf r \<Rightarrow> r) in
             if pi_request_hash (arec_intent r) \<noteq> pi_request_hash i
             then Inl (PaymentConflict ''run_id was reused for different payment content'')
             else authorization_result r), t))))"

section \<open>What the selection picks\<close>

lemma add_candidate_ok:
  "add_candidate f cs w = Inr ds \<longleftrightarrow> length cs < MAX_WALLET_CANDIDATES \<and> (\<exists>d. f w = Inr d \<and> ds = cs @ [d])"
  by (auto simp: add_candidate_def result_simps not_le)

lemma add_candidates_ok:
  "try_fold (add_candidate f) cs ws = Inr ds \<Longrightarrow>
     (\<forall>w \<in> set ws. is_ok (f w)) \<and> set ds = set cs \<union> {d. \<exists>w \<in> set ws. f w = Inr d}"
proof (induction ws arbitrary: cs)
  case (Cons w ws)
  then obtain d where "f w = Inr d" "try_fold (add_candidate f) (cs @ [d]) ws = Inr ds"
    by (auto simp: add_candidate_ok result_simps)
  with Cons.IH [of "cs @ [d]"] show ?case by auto
qed simp

lemma wallet_candidate_ok:
  "wallet_candidate X c hash origin now s p w = Inr d \<Longrightarrow>
     pwc_policy d = p \<and> pwc_wallet_id d = w \<and> pwc_origin d = origin
     \<and> budget_snapshot X (ap_scenario_id c) w Outbound (budget_unit (pc_asset (ap_challenge c)))
          (utc_day_start now) now s = Inr (pwc_budget d)
     \<and> candidate_decision X p w (ap_challenge c) origin (pwc_budget d) now = Inr (pwc_decision d)"
  by (auto simp: wallet_candidate_def result_simps)

text \<open>The policies and wallets a payment may use, and the candidate that each pair becomes.\<close>

definition eligible ::
  "externals \<Rightarrow> AuthorizePayment \<Rightarrow> string \<Rightarrow> db \<Rightarrow> PaymentPolicy \<Rightarrow> string \<Rightarrow> bool" where
  "eligible X c origin s p wallet_id \<longleftrightarrow>
     (\<exists>r \<in> set (pay_policy s). pp_scenario_id r = ap_scenario_id c
        \<and> p = r\<lparr>pp_wallet_ids := load_wallet_ids s (pp_id r)\<rparr>)
     \<and> policy_in_scope X (ap_challenge c) origin p \<and> wallet_id \<in> set (pp_wallet_ids p)"

lemma add_policies_ok:
  "try_fold (add_policy X c hash origin now s) cs ps = Inr ds \<Longrightarrow>
     (\<forall>p \<in> set ps. policy_in_scope X (ap_challenge c) origin p \<longrightarrow>
        PaymentPolicy_validate p = Inr ()
        \<and> (\<forall>w \<in> set (pp_wallet_ids p). is_ok (wallet_candidate X c hash origin now s p w)))
     \<and> set ds = set cs \<union> {d. \<exists>p \<in> set ps. policy_in_scope X (ap_challenge c) origin p
          \<and> (\<exists>w \<in> set (pp_wallet_ids p). wallet_candidate X c hash origin now s p w = Inr d)}"
proof (induction ps arbitrary: cs)
  case (Cons p ps)
  then obtain es where step: "add_policy X c hash origin now s cs p = Inr es"
    and rest: "try_fold (add_policy X c hash origin now s) es ps = Inr ds"
    by (auto simp: result_simps)
  show ?case
  proof (cases "policy_in_scope X (ap_challenge c) origin p")
    case True
    with step have "PaymentPolicy_validate p = Inr ()"
      and "try_fold (add_candidate (wallet_candidate X c hash origin now s p)) cs (pp_wallet_ids p) = Inr es"
      by (auto simp: add_policy_def result_simps policy_in_scope_def)
    with True Cons.IH [OF rest] show ?thesis by (auto dest!: add_candidates_ok)
  next
    case False
    with step have "es = cs" by (auto simp: add_policy_def result_simps split: if_splits)
    with False Cons.IH [OF rest] show ?thesis by auto
  qed
qed simp

lemma sort_key_hd_le:
  fixes k :: "'a \<Rightarrow> 'b :: linorder"
  assumes "sort_key k xs = b # bs" "x \<in> set xs"
  shows "k b \<le> k x"
proof -
  have "sorted (map k (b # bs))" unfolding assms(1) [symmetric] by (rule sorted_sort_key)
  moreover have "x \<in> set (b # bs)" unfolding assms(1) [symmetric] using assms(2) by simp
  ultimately show ?thesis by auto
qed

lemma sort_candidates_best:
  assumes "sort_candidates strategy cs = b # bs"
  shows "b \<in> set cs" "c \<in> set cs \<Longrightarrow> decision_rank (pwc_decision b) \<le> decision_rank (pwc_decision c)"
proof -
  have "set (sort_candidates strategy cs) = set cs"
    by (cases strategy) (simp_all add: sort_candidates_def)
  then show "b \<in> set cs" using assms by auto
  show "c \<in> set cs \<Longrightarrow> decision_rank (pwc_decision b) \<le> decision_rank (pwc_decision c)"
    using assms by (cases strategy) (auto simp: sort_candidates_def dest!: sort_key_hd_le)
qed

lemma take_drop_same: "length (take m (drop n xs)) = length xs \<Longrightarrow> take m (drop n xs) = xs"
  by (cases n; cases xs) (auto simp: min_def split: if_splits)

lemma list_policies_all:
  assumes "list_policies hit page s = Inr ps" "pg_total ps = length (pg_items ps)"
  shows "set (pg_items ps)
    = {p. \<exists>r \<in> set (pay_policy s). hit r \<and> p = r\<lparr>pp_wallet_ids := load_wallet_ids s (pp_id r)\<rparr>}"
proof -
  obtain limit offset where items: "pg_items ps = map (\<lambda>p. p\<lparr>pp_wallet_ids := load_wallet_ids s (pp_id p)\<rparr>)
      (take limit (drop offset (sort_key (\<lambda>p. (pp_created_at p, pp_id p)) (filter hit (pay_policy s)))))"
    and "pg_total ps = length (filter hit (pay_policy s))"
    using assms(1) by (auto simp: list_policies_def Let_def result_simps)
  with assms(2) have "take limit (drop offset (sort_key (\<lambda>p. (pp_created_at p, pp_id p)) (filter hit (pay_policy s))))
      = sort_key (\<lambda>p. (pp_created_at p, pp_id p)) (filter hit (pay_policy s))"
    by (intro take_drop_same) auto
  with items show ?thesis by auto
qed

lemma policy_decision_ok:
  assumes "policy_decision X strategy c hash now s = Inr best"
  obtains origin where "canonical_http_origin X (pc_resource (ap_challenge c)) = Inr origin"
    "eligible X c origin s (pwc_policy best) (pwc_wallet_id best)"
    "wallet_candidate X c hash origin now s (pwc_policy best) (pwc_wallet_id best) = Inr best"
    "PaymentPolicy_validate (pwc_policy best) = Inr ()"
    "\<And>p w. eligible X c origin s p w \<Longrightarrow> \<exists>d. wallet_candidate X c hash origin now s p w = Inr d
       \<and> decision_rank (pwc_decision best) \<le> decision_rank (pwc_decision d)"
proof -
  from assms obtain page origin cs bs
    where page: "list_policies (\<lambda>p. pp_scenario_id p = ap_scenario_id c)
        \<lparr>pg_offset = 0, pg_limit = MAX_SCENARIO_POLICIES\<rparr> s = Inr page" "pg_total page = length (pg_items page)"
      and origin: "canonical_http_origin X (pc_resource (ap_challenge c)) = Inr origin"
      and cs: "try_fold (add_policy X c hash origin now s) [] (pg_items page) = Inr cs"
      and best: "sort_candidates strategy cs = best # bs"
  proof -
    from assms obtain page origin cs
      where found: "list_policies (\<lambda>p. pp_scenario_id p = ap_scenario_id c)
          \<lparr>pg_offset = 0, pg_limit = MAX_SCENARIO_POLICIES\<rparr> s = Inr page" "pg_total page = length (pg_items page)"
        "canonical_http_origin X (pc_resource (ap_challenge c)) = Inr origin"
        "try_fold (add_policy X c hash origin now s) [] (pg_items page) = Inr cs"
        and best: "(case sort_candidates strategy cs of
           [] \<Rightarrow> Inl (PolicyDenied ''scenario has no eligible outbound policy-wallet candidate'')
         | best # _ \<Rightarrow> Inr best) = Inr best"
      unfolding policy_decision_def and_then_ok if_err_ok by blast
    from best obtain bs where "sort_candidates strategy cs = best # bs"
      by (cases "sort_candidates strategy cs") auto
    with found show thesis by (rule that)
  qed
  note items = list_policies_all [OF page]
  note added = add_policies_ok [OF cs]
  from sort_candidates_best(1) [OF best] added obtain p w
    where pw: "p \<in> set (pg_items page)" "policy_in_scope X (ap_challenge c) origin p" "w \<in> set (pp_wallet_ids p)"
      and cand: "wallet_candidate X c hash origin now s p w = Inr best" by auto
  from cand have [simp]: "pwc_policy best = p" "pwc_wallet_id best = w"
    by (auto dest: wallet_candidate_ok)
  show thesis
  proof (rule that [OF origin])
    show "eligible X c origin s (pwc_policy best) (pwc_wallet_id best)"
      using pw by (auto simp: eligible_def items)
    show "wallet_candidate X c hash origin now s (pwc_policy best) (pwc_wallet_id best) = Inr best"
      using cand by simp
    show "PaymentPolicy_validate (pwc_policy best) = Inr ()" using pw added by simp
    fix q v
    assume "eligible X c origin s q v"
    then have q: "q \<in> set (pg_items page)" "policy_in_scope X (ap_challenge c) origin q" "v \<in> set (pp_wallet_ids q)"
      by (auto simp: eligible_def items)
    with added obtain d where d: "wallet_candidate X c hash origin now s q v = Inr d"
      by (metis is_ok_iff)
    with q added have "d \<in> set cs" by auto
    from d sort_candidates_best(2) [OF best this]
    show "\<exists>d. wallet_candidate X c hash origin now s q v = Inr d
       \<and> decision_rank (pwc_decision best) \<le> decision_rank (pwc_decision d)" by blast
  qed
qed

section \<open>One transaction at most\<close>

lemma authorize_payment_step:
  assumes "authorize_payment X K A ids who c now s = (r, t)"
  shows "t = s \<or> vault_step X s t"
  using assms
  by (auto simp: authorize_payment_def split: sum.splits authorization_plan.splits prod.splits
      intro: step_authorize)

end
