(* ===== verification/Authorizer_Commit.thy ===== *)
theory Authorizer_Commit
  imports Authorizer
begin

text \<open>
  What the authorizer plans as a reservation, the payment repository commits: on the database the plan was
  made from, the guard, the event, the budget and the row constraints of \<^verbatim>\<open>authorize\<close> all accept it.
\<close>

section \<open>What a planned reservation is made of\<close>

lemma budget_snapshot_wallet:
  assumes "budget_snapshot X c w d u day now s = Inr b"
  obtains r where "load_payment_wallet X s w = Inr (Some r)" "pw_budget_unit r = Some u"
    "bs_wallet_updated_at b = pw_updated_at r" "bs_wallet_active_key_version b = pw_active_key_version r"
    "budget_snapshot_connection X c w d u day now s = Inr b"
  using assms unfolding budget_snapshot_def budget_snapshot_connection_def Let_def and_then_ok ok_or_ok if_err_ok
  by (auto split: if_splits)

lemma candidate_allowed:
  assumes "candidate_decision X p w ch origin b now = Inr Allowed"
  obtains l where "PaymentPolicy_validate p = Inr ()" "now < pc_expires_at ch" "allows_wallet p w"
    "pp_scenario_id p = pc_scenario_id ch" "allows_protocol p (pc_protocol ch)" "allows_asset p (pc_asset ch)"
    "allows_payment_recipient X p (ai_network (pc_asset ch)) (pc_recipient ch)" "allows_origin p origin"
    "limits_for p Outbound = Some l" "pc_amount ch \<le> pl_max_per_payment l"
    "usage_within (bs_scenario_spent_and_reserved b) (pc_amount ch) (pl_max_per_day l)"
    "wallet_within_limits (snapshot_wallet_budget b) (pc_amount ch)"
  using assms
  by (auto simp: candidate_decision_def engine_allows_iff policy_scope_matches_def snapshot_wallet_budget_def
      split: if_splits)

lemma eligible_policy:
  assumes "admin_inv s" "eligible X c origin s p w"
  shows "load_policy s (pp_id p) = Some p" "pp_scenario_id p = ap_scenario_id c" "w \<in> set (pp_wallet_ids p)"
    and "list_ex (\<lambda>m. pm_policy_id m = pp_id p \<and> pm_wallet_id m = w) (pay_policy_wallet s)"
    and "list_ex (\<lambda>r. pp_id r = pp_id p \<and> pp_scenario_id r = ap_scenario_id c) (pay_policy s)"
proof -
  from assms(2) obtain r where r: "r \<in> set (pay_policy s)" "pp_scenario_id r = ap_scenario_id c"
    and p: "p = r\<lparr>pp_wallet_ids := load_wallet_ids s (pp_id r)\<rparr>" and w: "w \<in> set (pp_wallet_ids p)"
    by (auto simp: eligible_def)
  have "distinct (map pp_id (pay_policy s))" using assms(1) by (simp add: admin_inv_def binding_inv_def)
  from find_distinct [OF this r(1)] show "load_policy s (pp_id p) = Some p" by (simp add: load_policy_def p)
  show "pp_scenario_id p = ap_scenario_id c" using r by (simp add: p)
  show "w \<in> set (pp_wallet_ids p)" by (rule w)
  show "list_ex (\<lambda>m. pm_policy_id m = pp_id p \<and> pm_wallet_id m = w) (pay_policy_wallet s)"
    using w by (auto simp: p load_wallet_ids_def list_ex_iff)
  show "list_ex (\<lambda>r. pp_id r = pp_id p \<and> pp_scenario_id r = ap_scenario_id c) (pay_policy s)"
    using r by (auto simp: p list_ex_iff)
qed

text \<open>The facts about a planned reservation that the transaction checks again.\<close>

lemma planned_reservation:
  assumes plan: "authorization_plan X K A intent_id who c now s = Inr (WritePayment access sel i Reserve)"
    and inv: "admin_inv s"
  obtains
    "scenario_authorize s who (ap_scenario_id c) = Inr access"
    "find_run s (ap_scenario_id c) (ap_run_id c) = None"
    "PaymentIntent_validate i = Inr ()" "pi_id i = intent_id" "pi_scenario_id i = ap_scenario_id c"
    "pi_run_id i = ap_run_id c" "pi_wallet_id i = Some (pwc_wallet_id sel)"
    "pi_policy_id i = Some (pp_id (pwc_policy sel))" "pi_request_hash i = request_hash X K c"
    "build_payment_intent intent_id c (pp_id (pwc_policy sel)) (pwc_wallet_id sel) (request_hash X K c)
       Allowed now = Inr (i, Reserve)"
    "pwc_decision sel = Allowed"
    "candidate_decision X (pwc_policy sel) (pwc_wallet_id sel) (ap_challenge c) (pwc_origin sel) (pwc_budget sel) now
       = Inr Allowed"
    "budget_snapshot X (ap_scenario_id c) (pwc_wallet_id sel) Outbound (budget_unit (pc_asset (ap_challenge c)))
       (utc_day_start now) now s = Inr (pwc_budget sel)"
    "eligible X c (pwc_origin sel) s (pwc_policy sel) (pwc_wallet_id sel)"
    "canonicalize_payment_recipient X (ai_network (pc_asset (ap_challenge c))) (pc_recipient (ap_challenge c))
       = Inr (pc_recipient (ap_challenge c))"
    "pc_scenario_id (ap_challenge c) = ap_scenario_id c" "pc_price_id (ap_challenge c) = None"
proof -
  from plan have cmd: "validate_authorize_command X c = Inr ()"
    and acc: "scenario_authorize s who (ap_scenario_id c) = Inr access"
    and rep: "replay_result c (request_hash X K c) s = Inr None"
    and sel: "policy_decision X (pa_wallet_selection_strategy A) c (request_hash X K c) now s = Inr sel"
    and build: "build_payment_intent intent_id c (pp_id (pwc_policy sel)) (pwc_wallet_id sel)
      (request_hash X K c) (pwc_decision sel) now = Inr (i, Reserve)"
    by (auto simp: authorization_plan_def Let_def result_simps split: option.splits)
  have dec: "pwc_decision sel = Allowed"
    using build by (cases "pwc_decision sel") (auto simp: build_payment_intent_def Let_def result_simps)
  from sel obtain origin where "eligible X c origin s (pwc_policy sel) (pwc_wallet_id sel)"
    and cand: "wallet_candidate X c (request_hash X K c) origin now s (pwc_policy sel) (pwc_wallet_id sel) = Inr sel"
    by (rule policy_decision_ok)
  moreover note wallet_candidate_ok [OF cand]
  moreover have "find_run s (ap_scenario_id c) (ap_run_id c) = None"
    using rep by (auto simp: replay_result_def result_simps split: option.splits if_splits)
  ultimately show thesis
    by (intro that)
      (use acc build dec cmd in \<open>auto simp: build_payment_intent_def Let_def result_simps
        validate_authorize_command_def\<close>)
qed

section \<open>The transaction accepts it\<close>

lemma access_selects:
  assumes "admin_inv s" "scenario_authorize s who scenario_id = Inr a"
  shows "select_client s (cl_id (ac_client a)) (ac_principal a) = Some (ac_client a)"
    and "select_scenario s (sc_id (ac_scenario a)) (cl_id (ac_client a)) = Some (ac_scenario a)"
proof -
  note ok = scenario_authorize_ok [OF assms(2)]
  have clients: "unique_rows pay_client_clash (pay_client s)" and scenarios: "distinct (map sc_id (pay_scenario s))"
    using assms(1) by (simp_all add: admin_inv_def catalog_inv_def)
  obtain k where k: "select_client s (cl_id (ac_client a)) (ac_principal a) = Some k"
    using ok(1,3) by (cases "select_client s (cl_id (ac_client a)) (ac_principal a)")
      (auto simp: select_client_def find_None_iff)
  then have "k \<in> set (pay_client s)" "cl_id k = cl_id (ac_client a)"
    by (auto simp: select_client_def dest: find_Some_in)
  with unique_rows_eq [OF clients _ ok(1)] k
  show "select_client s (cl_id (ac_client a)) (ac_principal a) = Some (ac_client a)"
    by (auto simp: pay_client_clash_def)
  obtain z where z: "select_scenario s (sc_id (ac_scenario a)) (cl_id (ac_client a)) = Some z"
    using ok(4,7) by (cases "select_scenario s (sc_id (ac_scenario a)) (cl_id (ac_client a))")
      (auto simp: select_scenario_def find_None_iff)
  then have "z \<in> set (pay_scenario s)" "sc_id z = sc_id (ac_scenario a)"
    by (auto simp: select_scenario_def dest: find_Some_in)
  with scenarios ok(4) z
  show "select_scenario s (sc_id (ac_scenario a)) (cl_id (ac_client a)) = Some (ac_scenario a)"
    by (auto simp: distinct_map dest: inj_onD)
qed

lemma payment_intent_sel:
  assumes "build_payment_intent intent_id c pid wid hash Allowed now = Inr (i, action)"
  shows "PaymentIntent_validate i = Inr ()"
    and "pi_id i = intent_id" "pi_scenario_id i = ap_scenario_id c" "pi_run_id i = ap_run_id c"
    and "pi_wallet_id i = Some wid" "pi_policy_id i = Some pid" "pi_price_id i = None" "pi_direction i = Outbound"
    and "pi_protocol i = pc_protocol (ap_challenge c)" "pi_asset i = pc_asset (ap_challenge c)"
    and "pi_recipient i = pc_recipient (ap_challenge c)" "pi_amount i = pc_amount (ap_challenge c)"
    and "pi_settled_amount i = 0" "pi_resource i = pc_resource (ap_challenge c)"
    and "pi_challenge_hash i = Some (pc_challenge_hash (ap_challenge c))" "pi_request_hash i = hash"
    and "pi_status i = Authorized" "pi_reservation_status i = Reserved"
    and "pi_reserved_amount i = pc_amount (ap_challenge c)" "pi_tx_hash i = None" "pi_settlement_ref i = None"
    and "pi_next_reconcile_at i = None" "pi_created_at i = now" "pi_updated_at i = now"
    and "pi_expires_at i = Some (pc_expires_at (ap_challenge c))" "pi_settled_at i = None"
  using assms by (auto simp: build_payment_intent_def Let_def result_simps)

lemma guard_accepts:
  assumes plan: "authorization_plan X K A intent_id who c now s = Inr (WritePayment access sel i Reserve)"
    and inv: "admin_inv s" and who: "who \<noteq> UNRESTRICTED_PRINCIPAL"
    and wallet: "load_payment_wallet X s (pwc_wallet_id sel) = Inr (Some w)"
    and ready: "signing_ready_for_payment_network X w (ai_network (pc_asset (ap_challenge c)))"
  shows "validate_authorization_guard X i (authorization_guard_of access sel now) Reserve s = Inr ()"
  using plan inv
proof (rule planned_reservation)
  assume acc: "scenario_authorize s who (ap_scenario_id c) = Inr access"
    and build: "build_payment_intent intent_id c (pp_id (pwc_policy sel)) (pwc_wallet_id sel) (request_hash X K c)
      Allowed now = Inr (i, Reserve)"
    and cand: "candidate_decision X (pwc_policy sel) (pwc_wallet_id sel) (ap_challenge c) (pwc_origin sel)
      (pwc_budget sel) now = Inr Allowed"
    and snap: "budget_snapshot X (ap_scenario_id c) (pwc_wallet_id sel) Outbound
      (budget_unit (pc_asset (ap_challenge c))) (utc_day_start now) now s = Inr (pwc_budget sel)"
    and elig: "eligible X c (pwc_origin sel) s (pwc_policy sel) (pwc_wallet_id sel)"
  note i = payment_intent_sel [OF build] and p = eligible_policy [OF inv elig]
    and a = scenario_authorize_ok [OF acc] and sel = access_selects [OF inv acc]
  from PaymentIntent_validate_ok(1) [OF i(1)] have ids: "authority_ids i = Inr (pp_id (pwc_policy sel), pwc_wallet_id sel)"
    by (auto simp: i authority_ids_ok)
  from snap wallet have w: "pw_budget_unit w = Some (budget_unit (pc_asset (ap_challenge c)))"
    "bs_wallet_updated_at (pwc_budget sel) = pw_updated_at w"
    "bs_wallet_active_key_version (pwc_budget sel) = pw_active_key_version w"
    by (auto elim!: budget_snapshot_wallet)
  have found: "find_wallet s (pwc_wallet_id sel) \<noteq> None"
    using wallet by (auto elim: load_payment_wallet_Some)
  from cand show ?thesis
  proof (rule candidate_allowed)
    fix l
    assume ok: "PaymentPolicy_validate (pwc_policy sel) = Inr ()" "now < pc_expires_at (ap_challenge c)"
      "allows_wallet (pwc_policy sel) (pwc_wallet_id sel)"
      "allows_protocol (pwc_policy sel) (pc_protocol (ap_challenge c))"
      "allows_asset (pwc_policy sel) (pc_asset (ap_challenge c))"
      "allows_payment_recipient X (pwc_policy sel) (ai_network (pc_asset (ap_challenge c))) (pc_recipient (ap_challenge c))"
      "allows_origin (pwc_policy sel) (pwc_origin sel)" "limits_for (pwc_policy sel) Outbound = Some l"
      "pc_amount (ap_challenge c) \<le> pl_max_per_payment l"
    have unit: "budget_unit (pc_asset (ap_challenge c)) = pp_budget_unit (pwc_policy sel)"
      using ok(1,5) by (simp add: PaymentPolicy_validate_assets allows_asset_def)
    have lock: "lock_authorization_scope s (cl_id (ac_client access)) (ap_scenario_id c) (pp_id (pwc_policy sel)) None
        (pwc_wallet_id sel) = Inr ()"
      using a(1,4,5,7) p(5) found
      by (auto simp: lock_authorization_scope_def lock_policy_wallet_def list_ex_iff)
    show ?thesis
      unfolding validate_authorization_guard_def authorization_guard_of_def ids i(1) map_err_simps and_then_Inr
        prod.case AuthorizationGuard.select_convs a(5) lock sel [unfolded a(5)] p(1) wallet ok_or_simps
      using a(6,7) p(2,3) ready w unit ok a(8) [OF who]
      by (simp add: i allows_wallet_def allows_direction_def not_less)
  qed
qed

lemma budget_accepts:
  assumes plan: "authorization_plan X K A intent_id who c now s = Inr (WritePayment access sel i Reserve)"
    and inv: "admin_inv s"
  shows "validate_authorization_action X i None Reserve (authorization_guard_of access sel now) s = Inr ()"
  using plan inv
proof (rule planned_reservation)
  assume acc: "scenario_authorize s who (ap_scenario_id c) = Inr access"
    and build: "build_payment_intent intent_id c (pp_id (pwc_policy sel)) (pwc_wallet_id sel) (request_hash X K c)
      Allowed now = Inr (i, Reserve)"
    and cand: "candidate_decision X (pwc_policy sel) (pwc_wallet_id sel) (ap_challenge c) (pwc_origin sel)
      (pwc_budget sel) now = Inr Allowed"
    and snap: "budget_snapshot X (ap_scenario_id c) (pwc_wallet_id sel) Outbound
      (budget_unit (pc_asset (ap_challenge c))) (utc_day_start now) now s = Inr (pwc_budget sel)"
    and elig: "eligible X c (pwc_origin sel) s (pwc_policy sel) (pwc_wallet_id sel)"
  note i = payment_intent_sel [OF build] and a = scenario_authorize_ok [OF acc]
  from PaymentIntent_validate_ok(1) [OF i(1)] have ids: "authority_ids i = Inr (pp_id (pwc_policy sel), pwc_wallet_id sel)"
    by (auto simp: i authority_ids_ok)
  have sc: "scenario_exists s (pi_scenario_id i)"
    using a(4,5) by (auto simp: i scenario_exists_def list_ex_iff)
  from snap have conn: "budget_snapshot_connection X (pi_scenario_id i) (pwc_wallet_id sel) (pi_direction i)
      (budget_unit (pi_asset i)) (utc_day_start now) now s = Inr (pwc_budget sel)"
    by (auto simp: i elim: budget_snapshot_wallet)
  from cand show ?thesis
  proof (rule candidate_allowed)
    fix l
    assume l: "limits_for (pwc_policy sel) Outbound = Some l" "pc_amount (ap_challenge c) \<le> pl_max_per_payment l"
      "usage_within (bs_scenario_spent_and_reserved (pwc_budget sel)) (pc_amount (ap_challenge c)) (pl_max_per_day l)"
      "wallet_within_limits (snapshot_wallet_budget (pwc_budget sel)) (pc_amount (ap_challenge c))"
    have lim: "limits_for (pwc_policy sel) (pi_direction i) = Some l" using l(1) by (simp add: i)
    have "enforce_budget X i (utc_day_start now) now False s = Inr ()"
      unfolding enforce_budget_iff [OF ids sc eligible_policy(1) [OF inv elig] lim
        daily_ceiling_def [of False l, simplified] conn]
      using l by (simp add: i)
    then show ?thesis
      by (simp add: validate_authorization_action_def i authorization_guard_of_def)
  qed
qed

lemma received_event_accepted:
  assumes build: "build_payment_intent intent_id c pid wid hash Allowed now = Inr (i, action)"
    and "canonicalize_payment_recipient X (ai_network (pc_asset (ap_challenge c))) (pc_recipient (ap_challenge c))
      = Inr (pc_recipient (ap_challenge c))"
    and "pc_scenario_id (ap_challenge c) = ap_scenario_id c" "pc_price_id (ap_challenge c) = None"
    and "\<not> is_blank (pc_nonce (ap_challenge c))" "\<not> is_blank (pc_challenge_hash (ap_challenge c))"
    and "in_i64 (pc_expires_at (ap_challenge c))"
  shows "validate_challenge_received_event X [fresh_event eid i ChallengeReceived
      (json_object [(''challenge_hash'', JString (pc_challenge_hash (ap_challenge c))),
        (''challenge'', challenge_to_value (ap_challenge c))]) now] i = Inr ()"
  using assms
  by (simp add: validate_challenge_received_event_def event_challenge_def payment_intent_sel [OF build]
      challenge_matches_intent_def payment_recipients_match_def challenge_round_trip)

lemma trim_start_spaces: "list_all (\<lambda>c. c = CHR '' '') v \<Longrightarrow> trim_start v = []"
proof -
  have "ws1 (CHR '' '')" by (simp add: ws1_def ascii_def)
  then show "list_all (\<lambda>c. c = CHR '' '') v \<Longrightarrow> trim_start v = []"
    by (induction v rule: trim_start.induct) simp_all
qed

lemma sql_blank_is_blank: "sql_blank v \<Longrightarrow> is_blank v"
  by (simp add: sql_blank_def is_blank_def trim_def trim_start_spaces trim_end_def)

lemma insert_accepts:
  assumes plan: "authorization_plan X K A intent_id who c now s = Inr (WritePayment access sel i Reserve)"
    and inv: "admin_inv s" and now: "0 \<le> now"
    and fresh: "\<not> list_ex (\<lambda>r. pi_id (ir_intent r) = intent_id) (pay_intent s)"
    and written: "\<not> is_blank (pc_resource (ap_challenge c))" "\<not> is_blank (pc_challenge_hash (ap_challenge c))"
  shows "insert_intent i None s = Inr (s\<lparr>pay_intent := pay_intent s @ [new_row i None]\<rparr>)"
  using plan inv
proof (rule planned_reservation)
  assume acc: "scenario_authorize s who (ap_scenario_id c) = Inr access"
    and run: "find_run s (ap_scenario_id c) (ap_run_id c) = None"
    and build: "build_payment_intent intent_id c (pp_id (pwc_policy sel)) (pwc_wallet_id sel) (request_hash X K c)
      Allowed now = Inr (i, Reserve)"
    and cand: "candidate_decision X (pwc_policy sel) (pwc_wallet_id sel) (ap_challenge c) (pwc_origin sel)
      (pwc_budget sel) now = Inr Allowed"
    and snap: "budget_snapshot X (ap_scenario_id c) (pwc_wallet_id sel) Outbound
      (budget_unit (pc_asset (ap_challenge c))) (utc_day_start now) now s = Inr (pwc_budget sel)"
    and elig: "eligible X c (pwc_origin sel) s (pwc_policy sel) (pwc_wallet_id sel)"
  note i = payment_intent_sel [OF build] and a = scenario_authorize_ok [OF acc] and p = eligible_policy [OF inv elig]
  have valid: "PaymentIntent_validate i = Inr ()" by (rule i(1))
  from PaymentIntent_validate_ok(1) [OF valid] have ids: "authority_ids i = Inr (pp_id (pwc_policy sel), pwc_wallet_id sel)"
    by (auto simp: i authority_ids_ok)
  from snap obtain w where w: "find_wallet s (pwc_wallet_id sel) = Some w"
    by (auto elim!: budget_snapshot_wallet load_payment_wallet_Some)
  have fk: "pay_intent_fk s i"
    using a(4,5) p(4,5) w by (auto simp: pay_intent_fk_def i list_ex_iff find_wallet_def dest: find_Some_in)
  have clash: "\<not> list_ex (\<lambda>q. pay_intent_clash q (new_row i None)) (pay_intent s)"
    using run fresh
    by (auto simp: pay_intent_clash_def same_run_def same_credential_def same_inbound_challenge_def list_ex_iff i
        find_run_def load_run_def load_intent_by_run_def find_None_iff)
  from cand show ?thesis
  proof (rule candidate_allowed)
    fix l
    assume ok: "now < pc_expires_at (ap_challenge c)" "allows_asset (pwc_policy sel) (pc_asset (ap_challenge c))"
      "allows_protocol (pwc_policy sel) (pc_protocol (ap_challenge c))" "PaymentPolicy_validate (pwc_policy sel) = Inr ()"
      "limits_for (pwc_policy sel) Outbound = Some l" "pc_amount (ap_challenge c) \<le> pl_max_per_payment l"
    have check: "pay_intent_check (new_row i None)"
      using valid ok(1) now written
      by (auto simp: pay_intent_check_def Let_def new_row_def i PaymentIntent_validate_def AssetIdentity_validate_def
          result_simps is_zero_def sql_nonblank_opt_def is_none_or_iff is_some_and_iff dest: sql_blank_is_blank)
    have "validate_intent_authority i s = Inr ()"
      unfolding validate_intent_authority_def ids map_err_simps and_then_Inr prod.case p(1) ok_or_simps
      using ok p(2,3) by (simp add: i allows_asset_def allows_protocol_def BudgetUnit_matches_iff not_less
          PaymentPolicy_validate_assets)
    with valid fk clash check show ?thesis by (simp add: insert_intent_def new_row_def)
  qed
qed

lemma received_event_inserts:
  assumes refs: "payment_refs_inv s" and "i = ir_intent r"
    and fresh: "\<not> list_ex (\<lambda>q. pi_id (ir_intent q) = pi_id i) (pay_intent s)"
      "\<not> list_ex (\<lambda>e. ev_id e = eid) (pay_event s)"
    and written: "\<not> is_blank eid" "\<not> is_blank (pi_id i)" and "0 \<le> now"
  shows "\<exists>u. append_side_effects [fresh_event eid i ChallengeReceived payload now] []
      (s\<lparr>pay_intent := pay_intent s @ [r]\<rparr>) = Inr u \<and> pay_intent u = pay_intent s @ [r]"
proof -
  have "ev_intent_id e \<noteq> pi_id i" if "e \<in> set (pay_event s)" for e
    using refs that fresh(1) by (auto simp: payment_refs_inv_def pay_event_fk_def list_ex_iff)
  then have "filter (\<lambda>x. pay_event_clash x (fresh_event eid i ChallengeReceived payload now)) (pay_event s) = []"
    using fresh(2) by (auto simp: filter_empty_conv pay_event_clash_def fresh_event_def list_ex_iff)
  with assms show ?thesis
    by (auto simp: append_side_effects_def state_of_def insert_event_def PaymentEvent_validate_def fresh_event_def
        pay_event_check_def pay_event_fk_def sql_nonblank_opt_def is_none_or_iff dest: sql_blank_is_blank)
qed

text \<open>All four checks together: the call answers with the authorized amount and the payment is stored.\<close>

lemma planned_reservation_commits:
  assumes plan: "authorization_plan X K A (ids_intent ids) who c now s = Inr (WritePayment access sel i Reserve)"
    and inv: "vault_inv s" and who: "who \<noteq> UNRESTRICTED_PRINCIPAL" and time: "0 \<le> now" "in_i64 (pc_expires_at (ap_challenge c))"
    and wallet: "load_payment_wallet X s (pwc_wallet_id sel) = Inr (Some w)"
      "signing_ready_for_payment_network X w (ai_network (pc_asset (ap_challenge c)))"
    and fresh: "\<not> list_ex (\<lambda>r. pi_id (ir_intent r) = ids_intent ids) (pay_intent s)"
      "\<not> list_ex (\<lambda>e. ev_id e = ids_received ids) (pay_event s)" "\<not> is_blank (ids_received ids)"
    and written: "\<not> is_blank (pc_resource (ap_challenge c))" "\<not> is_blank (pc_challenge_hash (ap_challenge c))"
      "\<not> is_blank (pc_nonce (ap_challenge c))"
  shows "\<exists>t. authorize_payment X K A ids who c now s
      = (Inr (AuthorizedResult (ids_intent ids) (pc_amount (ap_challenge c))), t)
    \<and> pay_intent t = pay_intent s @ [new_row i None]"
proof -
  have admin: "admin_inv s" and refs: "payment_refs_inv s" using inv by (simp_all add: vault_inv_def)
  show ?thesis
    using plan admin
  proof (rule planned_reservation)
    assume run: "find_run s (ap_scenario_id c) (ap_run_id c) = None"
      and build: "build_payment_intent (ids_intent ids) c (pp_id (pwc_policy sel)) (pwc_wallet_id sel)
        (request_hash X K c) Allowed now = Inr (i, Reserve)" and dec: "pwc_decision sel = Allowed"
      and rcpt: "canonicalize_payment_recipient X (ai_network (pc_asset (ap_challenge c)))
        (pc_recipient (ap_challenge c)) = Inr (pc_recipient (ap_challenge c))"
        "pc_scenario_id (ap_challenge c) = ap_scenario_id c" "pc_price_id (ap_challenge c) = None"
    note i = payment_intent_sel [OF build]
    let ?e = "fresh_event (ids_received ids) i ChallengeReceived
      (json_object [(''challenge_hash'', JString (pc_challenge_hash (ap_challenge c))),
        (''challenge'', challenge_to_value (ap_challenge c))]) now"
    obtain u where u: "append_side_effects [?e] [] (s\<lparr>pay_intent := pay_intent s @ [new_row i None]\<rparr>) = Inr u"
      "pay_intent u = pay_intent s @ [new_row i None]"
      using received_event_inserts [OF refs, of i "new_row i None" "ids_received ids" now] fresh time(1)
        PaymentIntent_validate_ok(6) [OF i(1)] by (auto simp: i)
    have "authorize X i None Reserve (authorization_guard_of access sel now) [?e] [] s
        = (Inr (Inserted \<lparr>arec_intent = i, arec_approval = None\<rparr>), u)"
      unfolding authorize_def transaction_ok
      using run guard_accepts [OF plan admin who wallet] received_event_accepted [OF build rcpt written(3,2) time(2)]
        budget_accepts [OF plan admin] insert_accepts [OF plan admin time(1) fresh(1) written(1,2)] u(1)
      by (simp add: i find_run_def)
    then show ?thesis
      using u(2)
      by (simp add: authorize_payment_def plan dec build_authorization_artifacts_def authorization_result_def i)
  qed
qed

end
