(* ===== verification/Service.thy ===== *)
theory Service
  imports Protocol_Port Material Vault
begin

text \<open>
  How an asynchronous service runs. A service is a chain of database accesses and calls to an external
  settlement provider (\<^verbatim>\<open>payment/provider.rs\<close>, \<^verbatim>\<open>model/settlement.rs\<close>). Between two accesses
  the other workers of the deployment run, so a world holds the database, what the others will do before
  each of the next accesses, and the log of the provider calls made so far. The lemmas show that whatever
  a chain of accesses does, the database only ever moves along the steps of the repositories, so that
  everything that holds of a reachable database holds at every point of a service.
\<close>

section \<open>Providers\<close>

type_synonym u64 = "64 word"

datatype SettlementOperation = Verify | Settle

record SettlementProviderRequest =
  rq_protocol :: string
  rq_run_id :: string
  rq_payment_payload :: json
  rq_payment_requirements :: json

record SettlementProviderResult =
  rs_valid :: bool
  rs_settled :: bool
  rs_payer :: "string option"
  rs_transaction :: "string option"
  rs_settlement_ref :: "string option"
  rs_effect_ref :: "string option"
  rs_invalid_reason :: "string option"
  rs_asset :: "AssetIdentity option"
  rs_amount :: "amount option"
  rs_recipient :: "string option"
  rs_confirmations :: "u64 option"
  rs_extensions :: "(string \<times> json) list"

text \<open>A provider is a trait object: the record holds its \<^verbatim>\<open>execute\<close>.\<close>

record SettlementProviderBinding =
  sb_authority :: string
  sb_confirmation_depths :: "(string \<times> u64) list"
  sb_execute :: "SettlementOperation \<Rightarrow> SettlementProviderRequest \<Rightarrow> SettlementProviderResult result"

definition confirmation_depth :: "SettlementProviderBinding \<Rightarrow> string \<Rightarrow> u64 result" where
  "confirmation_depth b network =
     ok_or (map_of (sb_confirmation_depths b) network)
       (Settlement (''external provider '' @ sb_authority b @ '' has no trusted confirmation depth for '' @ network))"

definition register_provider ::
  "(string \<times> SettlementProviderBinding) list \<Rightarrow> string \<times> SettlementProviderBinding \<Rightarrow>
     (string \<times> SettlementProviderBinding) list result" where
  "register_provider registered = (\<lambda>(protocol, b).
     if is_blank protocol \<or> is_blank (sb_authority b) \<or> sb_confirmation_depths b = []
        \<or> list_ex (\<lambda>(network, depth). is_blank network \<or> depth = 0) (sb_confirmation_depths b)
        \<or> map_of registered protocol \<noteq> None
     then Inl (Config (''invalid or duplicate settlement provider protocol: '' @ protocol))
     else Inr (registered @ [(protocol, b)]))"

definition SettlementProviderRegistry_new ::
  "(string \<times> SettlementProviderBinding) list \<Rightarrow> (string \<times> SettlementProviderBinding) list result" where
  "SettlementProviderRegistry_new providers = try_fold register_provider [] providers"

definition provider_get ::
  "(string \<times> SettlementProviderBinding) list \<Rightarrow> string \<Rightarrow> SettlementProviderBinding result" where
  "provider_get providers protocol =
     ok_or (map_of providers protocol) (Settlement (''no external provider configured for '' @ protocol))"

section \<open>Worlds and services\<close>

text \<open>A logged call also names the payment it was made for.\<close>

record provider_call =
  ca_operation :: SettlementOperation
  ca_intent_id :: string
  ca_request :: SettlementProviderRequest

record world =
  wd_db :: db
  wd_others :: "(db \<Rightarrow> db) list"
  wd_calls :: "provider_call list"

type_synonym 'a service = "world \<Rightarrow> 'a result \<times> world"

definition svc_result :: "'a result \<Rightarrow> 'a service" where
  "svc_result r w = (r, w)"

definition svc_match :: "'a service \<Rightarrow> ('a \<Rightarrow> 'b service) \<Rightarrow> (error \<Rightarrow> 'b service) \<Rightarrow> 'b service" where
  "svc_match m f g w = (case m w of (Inr a, v) \<Rightarrow> f a v | (Inl e, v) \<Rightarrow> g e v)"

definition svc_then :: "'a service \<Rightarrow> ('a \<Rightarrow> 'b service) \<Rightarrow> 'b service" where
  "svc_then m f = svc_match m f (\<lambda>e. svc_result (Inl e))"

definition meanwhile :: "world \<Rightarrow> world" where
  "meanwhile w = (case wd_others w of [] \<Rightarrow> w | e # es \<Rightarrow> w\<lparr>wd_db := e (wd_db w), wd_others := es\<rparr>)"

definition db_read :: "(db \<Rightarrow> 'a result) \<Rightarrow> 'a service" where
  "db_read q w = (let v = meanwhile w in (q (wd_db v), v))"

definition db_write :: "(db \<Rightarrow> 'a result \<times> db) \<Rightarrow> 'a service" where
  "db_write tx w = (let v = meanwhile w in case tx (wd_db v) of (r, t) \<Rightarrow> (r, v\<lparr>wd_db := t\<rparr>))"

definition provider_execute ::
  "SettlementProviderBinding \<Rightarrow> SettlementOperation \<Rightarrow> string \<Rightarrow> SettlementProviderRequest \<Rightarrow>
     SettlementProviderResult service" where
  "provider_execute b operation intent_id request w =
     (sb_execute b operation request,
      w\<lparr>wd_calls := wd_calls w @ [\<lparr>ca_operation = operation, ca_intent_id = intent_id, ca_request = request\<rparr>]\<rparr>)"

section \<open>What a service can do to the database\<close>

definition polite :: "externals \<Rightarrow> world \<Rightarrow> bool" where
  "polite X w \<longleftrightarrow> (\<forall>e \<in> set (wd_others w). \<forall>s. (vault_step X)\<^sup>*\<^sup>* s (e s))"

definition world_evolves :: "externals \<Rightarrow> world \<Rightarrow> world \<Rightarrow> bool" where
  "world_evolves X w v \<longleftrightarrow>
     polite X v \<and> (vault_step X)\<^sup>*\<^sup>* (wd_db w) (wd_db v) \<and> prefix (wd_calls w) (wd_calls v)
     \<and> set (wd_others v) \<subseteq> set (wd_others w)"

definition steps_only :: "externals \<Rightarrow> 'a service \<Rightarrow> bool" where
  "steps_only X m \<longleftrightarrow> (\<forall>w. polite X w \<longrightarrow> world_evolves X w (snd (m w)))"

definition one_step :: "externals \<Rightarrow> (db \<Rightarrow> 'a result \<times> db) \<Rightarrow> bool" where
  "one_step X tx \<longleftrightarrow> (\<forall>s. snd (tx s) = s \<or> vault_step X s (snd (tx s)))"

named_theorems service_intros \<open>services that move the database along its steps\<close>

lemma world_evolves_refl: "polite X w \<Longrightarrow> world_evolves X w w"
  by (simp add: world_evolves_def)

lemma world_evolves_trans: "world_evolves X w v \<Longrightarrow> world_evolves X v u \<Longrightarrow> world_evolves X w u"
  by (auto simp: world_evolves_def intro: rtranclp_trans prefix_order.trans)

lemma world_evolves_polite: "world_evolves X w v \<Longrightarrow> polite X v"
  by (simp add: world_evolves_def)

lemma meanwhile_evolves: "polite X w \<Longrightarrow> world_evolves X w (meanwhile w)"
  by (auto simp: world_evolves_def meanwhile_def polite_def split: list.splits)

lemma meanwhile_calls [simp]: "wd_calls (meanwhile w) = wd_calls w"
  by (simp add: meanwhile_def split: list.splits)

lemma steps_only_result [service_intros]: "steps_only X (svc_result r)"
  by (simp add: steps_only_def svc_result_def world_evolves_refl)

lemma steps_only_match [service_intros]:
  assumes "steps_only X m" "\<And>a. steps_only X (f a)" "\<And>e. steps_only X (g e)"
  shows "steps_only X (svc_match m f g)"
  unfolding steps_only_def
proof (intro allI impI)
  fix w
  assume w: "polite X w"
  obtain r v where m: "m w = (r, v)" by fastforce
  with assms(1) w have v: "world_evolves X w v" by (auto simp: steps_only_def dest!: spec [of _ w])
  show "world_evolves X w (snd (svc_match m f g w))"
  proof (cases r)
    case (Inl e)
    have "world_evolves X v (snd (g e v))" using assms(3) world_evolves_polite [OF v] by (simp add: steps_only_def)
    with v show ?thesis by (auto simp: svc_match_def m Inl intro: world_evolves_trans)
  next
    case (Inr a)
    have "world_evolves X v (snd (f a v))" using assms(2) world_evolves_polite [OF v] by (simp add: steps_only_def)
    with v show ?thesis by (auto simp: svc_match_def m Inr intro: world_evolves_trans)
  qed
qed

lemma steps_only_then [service_intros]:
  "steps_only X m \<Longrightarrow> (\<And>a. steps_only X (f a)) \<Longrightarrow> steps_only X (svc_then m f)"
  unfolding svc_then_def by (intro service_intros) auto

lemma steps_only_read [service_intros]: "steps_only X (db_read q)"
  by (simp add: steps_only_def db_read_def Let_def meanwhile_evolves)

lemma steps_only_write [service_intros]:
  assumes "one_step X tx"
  shows "steps_only X (db_write tx)"
  unfolding steps_only_def
proof (intro allI impI)
  fix w
  assume "polite X w"
  then have v: "world_evolves X w (meanwhile w)" by (rule meanwhile_evolves)
  obtain r t where t: "tx (wd_db (meanwhile w)) = (r, t)" by fastforce
  with assms have "(vault_step X)\<^sup>*\<^sup>* (wd_db (meanwhile w)) t"
    by (auto simp: one_step_def dest!: spec [of _ "wd_db (meanwhile w)"])
  with v t show "world_evolves X w (snd (db_write tx w))"
    by (auto simp: world_evolves_def polite_def db_write_def Let_def)
qed

lemma steps_only_execute [service_intros]: "steps_only X (provider_execute b operation i request)"
  by (auto simp: steps_only_def provider_execute_def world_evolves_def polite_def)

lemma steps_only_if [service_intros]: "steps_only X m \<Longrightarrow> steps_only X n \<Longrightarrow> steps_only X (if c then m else n)"
  by simp

lemma steps_only_reachable:
  assumes "steps_only X m" "polite X w" "reachable X (wd_db w)" "m w = (r, v)"
  shows "reachable X (wd_db v)" "polite X v" "prefix (wd_calls w) (wd_calls v)"
    and "(vault_step X)\<^sup>*\<^sup>* (wd_db w) (wd_db v)"
  using assms reachable_trans by (force simp: steps_only_def world_evolves_def)+

end
