(* ===== verification/Settlement_Facts.thy ===== *)
theory Settlement_Facts
  imports Service
begin

text \<open>
  The pure part of payee settlement (\<^verbatim>\<open>payment/settlement/facts.rs\<close>, \<^verbatim>\<open>model/settlement.rs\<close>,
  \<^verbatim>\<open>model/receipt.rs\<close>): when provider evidence confirms a payment, the confirmed payment with its
  receipt, ledger entry, event and message, and the checkpoint of a requested settlement. The lemmas show
  what confirmed evidence guarantees and that a stored receipt and a stored checkpoint are read back.
\<close>

section \<open>Evidence\<close>

definition asset_identity_matches :: "AssetIdentity \<Rightarrow> AssetIdentity \<Rightarrow> bool" where
  "asset_identity_matches observed expected \<longleftrightarrow>
     ai_network observed = ai_network expected
     \<and> eq_ignore_ascii_case (ai_asset observed) (ai_asset expected)
     \<and> ai_decimals observed = ai_decimals expected
     \<and> (case (ai_token_contract observed, ai_token_contract expected) of
          (Some l, Some r) \<Rightarrow> eq_ignore_ascii_case l r
        | (None, None) \<Rightarrow> True
        | _ \<Rightarrow> False)"

definition validate_confirmed_for ::
  "externals \<Rightarrow> SettlementProviderResult \<Rightarrow> PaymentIntent \<Rightarrow> u64 \<Rightarrow> unit result" where
  "validate_confirmed_for X r i minimum_confirmations =
     (let asset_matches = is_some_and (rs_asset r) (\<lambda>asset. asset_identity_matches asset (pi_asset i));
          recipient_matches = is_some_and (rs_recipient r)
            (\<lambda>recipient. payment_recipients_match X (ai_network (pi_asset i)) recipient (pi_recipient i));
          confirmations_match = (minimum_confirmations = 0
            \<or> is_some_and (rs_confirmations r) (\<lambda>v. v \<ge> minimum_confirmations)) in
      if \<not> rs_valid r \<or> \<not> rs_settled r \<or> \<not> asset_matches \<or> rs_amount r \<noteq> Some (pi_amount i)
         \<or> \<not> recipient_matches \<or> \<not> confirmations_match
         \<or> (is_none_or (rs_transaction r) (\<lambda>v. v = []) \<and> is_none_or (rs_settlement_ref r) (\<lambda>v. v = []))
      then Inl (Settlement ''provider settlement evidence does not match the payment intent'')
      else Inr ())"

text \<open>Structs become JSON values: an absent option of a provider result is \<^verbatim>\<open>null\<close>.\<close>

definition opt_value :: "('a \<Rightarrow> json) \<Rightarrow> 'a option \<Rightarrow> json" where
  "opt_value enc v = (case v of None \<Rightarrow> JNull | Some a \<Rightarrow> enc a)"

definition provider_result_to_value :: "SettlementProviderResult \<Rightarrow> json" where
  "provider_result_to_value r = json_object
     [(''valid'', JBool (rs_valid r)), (''settled'', JBool (rs_settled r)),
      (''payer'', opt_value JString (rs_payer r)), (''transaction'', opt_value JString (rs_transaction r)),
      (''settlementRef'', opt_value JString (rs_settlement_ref r)),
      (''effectRef'', opt_value JString (rs_effect_ref r)),
      (''invalidReason'', opt_value JString (rs_invalid_reason r)),
      (''asset'', opt_value asset_to_value (rs_asset r)),
      (''amount'', opt_value (\<lambda>a. JString (amount_to_string a)) (rs_amount r)),
      (''recipient'', opt_value JString (rs_recipient r)),
      (''confirmations'', opt_value (\<lambda>n. JNumber (uint n)) (rs_confirmations r)),
      (''extensions'', json_object (rs_extensions r))]"

definition evidence_hash :: "externals \<Rightarrow> primitives \<Rightarrow> json \<Rightarrow> string" where
  "evidence_hash X K v =
     (let encoded = k_to_vec K v in
      hex_encode (x_sha256 X (''agentvault.settlement-evidence.v1''
        @ be_bytes64 (min (length encoded) (2 ^ 64 - 1)) @ encoded)))"

definition provider_verification_ref ::
  "externals \<Rightarrow> primitives \<Rightarrow> string \<Rightarrow> SettlementProviderResult \<Rightarrow> string" where
  "provider_verification_ref X K intent_id r =
     evidence_hash X K (json_object [(''intent_id'', JString intent_id), (''operation'', JString ''verify''),
       (''result'', provider_result_to_value r)])"

section \<open>Receipts\<close>

definition receipt_to_value :: "PaymentReceipt \<Rightarrow> json" where
  "receipt_to_value r = json_object
     ([(''intent_id'', JString (rc_intent_id r)), (''scenario_id'', JString (rc_scenario_id r)),
       (''direction'', JString (PaymentDirection_as_str (rc_direction r))),
       (''protocol'', JString (rc_protocol r)), (''asset'', asset_to_value (rc_asset r)),
       (''recipient'', JString (rc_recipient r))]
      @ opt_field ''payer'' JString (rc_payer r)
      @ [(''requested_amount'', JString (amount_to_string (rc_requested_amount r))),
         (''settled_amount'', JString (amount_to_string (rc_settled_amount r))),
         (''status'', JString (PaymentStatus_as_str (rc_status r)))]
      @ opt_field ''tx_hash'' JString (rc_tx_hash r)
      @ opt_field ''settlement_ref'' JString (rc_settlement_ref r)
      @ [(''evidence_hash'', JString (rc_evidence_hash r)), (''confirmed_at'', JNumber (rc_confirmed_at r))])"

definition receipt_fields :: "string list" where
  "receipt_fields = [''intent_id'', ''scenario_id'', ''direction'', ''protocol'', ''asset'', ''recipient'',
     ''payer'', ''requested_amount'', ''settled_amount'', ''status'', ''tx_hash'', ''settlement_ref'',
     ''evidence_hash'', ''confirmed_at'']"

definition json_enum :: "(string \<Rightarrow> 'a result) \<Rightarrow> json option \<Rightarrow> 'a option" where
  "json_enum decode v =
     Option.bind (json_string v) (\<lambda>s. case decode s of Inr a \<Rightarrow> Some a | Inl e \<Rightarrow> None)"

fun receipt_from_value :: "json \<Rightarrow> PaymentReceipt option" where
  "receipt_from_value (JObject fs) =
     (if known_fields receipt_fields fs then
        Option.bind (json_string (map_of fs ''intent_id'')) (\<lambda>intent_id.
        Option.bind (json_string (map_of fs ''scenario_id'')) (\<lambda>scenario_id.
        Option.bind (json_enum codec_direction (map_of fs ''direction'')) (\<lambda>direction.
        Option.bind (json_string (map_of fs ''protocol'')) (\<lambda>protocol.
        Option.bind (Option.bind (map_of fs ''asset'') asset_from_value) (\<lambda>asset.
        Option.bind (json_string (map_of fs ''recipient'')) (\<lambda>recipient.
        Option.bind (json_opt_string (map_of fs ''payer'')) (\<lambda>payer.
        Option.bind (Option.bind (json_string (map_of fs ''requested_amount'')) amount_from_str) (\<lambda>requested.
        Option.bind (Option.bind (json_string (map_of fs ''settled_amount'')) amount_from_str) (\<lambda>settled.
        Option.bind (json_enum codec_payment_status (map_of fs ''status'')) (\<lambda>status.
        Option.bind (json_opt_string (map_of fs ''tx_hash'')) (\<lambda>tx_hash.
        Option.bind (json_opt_string (map_of fs ''settlement_ref'')) (\<lambda>settlement_ref.
        Option.bind (json_string (map_of fs ''evidence_hash'')) (\<lambda>hash.
        Option.bind (json_i64 (map_of fs ''confirmed_at'')) (\<lambda>confirmed_at.
        Some \<lparr>rc_intent_id = intent_id, rc_scenario_id = scenario_id, rc_direction = direction,
              rc_protocol = protocol, rc_asset = asset, rc_recipient = recipient, rc_payer = payer,
              rc_requested_amount = requested, rc_settled_amount = settled, rc_status = status,
              rc_tx_hash = tx_hash, rc_settlement_ref = settlement_ref, rc_evidence_hash = hash,
              rc_confirmed_at = confirmed_at\<rparr>))))))))))))))
      else None)"
| "receipt_from_value _ = None"

text \<open>The text of a JSON error is the crate's, and no definition reads it.\<close>

definition json_error :: error where "json_error = Json ''''"

definition durable_receipt :: "PaymentEvent option \<Rightarrow> PaymentEvent option \<Rightarrow> PaymentReceipt result" where
  "durable_receipt settled reconciled =
     (let found = (case settled of Some e \<Rightarrow> Some e | None \<Rightarrow> reconciled) in
      case Option.bind found (\<lambda>e. json_get (ev_payload e) ''receipt'') of
        None \<Rightarrow> Inl (Storage ''settled intent has no durable receipt'')
      | Some v \<Rightarrow> ok_or (receipt_from_value v) json_error)"

section \<open>Requested settlements\<close>

definition is_concurrent_settlement_winner :: "PaymentIntent \<Rightarrow> PaymentIntent \<Rightarrow> bool" where
  "is_concurrent_settlement_winner expected current \<longleftrightarrow>
     pi_status current = Settled \<and> same_immutable_identity_as current expected"

record EvmAuthorizationQuery =
  eq_network :: string
  eq_token_contract :: string
  eq_payer :: string
  eq_nonce :: string
  eq_recipient :: string
  eq_amount :: amount
  eq_from_block :: u64

record Eip3009AuthorizationIdentity =
  ei_payer :: string
  ei_nonce :: string
  ei_valid_before :: int

definition uses_eip3009_recovery :: "PaymentIntent \<Rightarrow> bool" where
  "uses_eip3009_recovery i \<longleftrightarrow>
     pi_direction i = Inbound \<and> pi_protocol i = ''x402'' \<and> is_evm_payment_network (ai_network (pi_asset i))"

text \<open>
  Decoding the payload of an x402 payment is the work of its adapter, over the types of a third-party
  crate: the query takes the decoder as an argument.
\<close>

definition authorization_query ::
  "(json \<Rightarrow> Eip3009AuthorizationIdentity result) \<Rightarrow> PaymentIntent \<Rightarrow> ProtocolSettlement \<Rightarrow> u64 \<Rightarrow>
     (EvmAuthorizationQuery \<times> int) result" where
  "authorization_query authorization_identity i p from_block =
     (if \<not> uses_eip3009_recovery i \<or> ps_protocol p \<noteq> ''x402''
      then Inl (Settlement ''EIP-3009 recovery requires an inbound x402 intent'')
      else and_then (ok_or (ai_token_contract (pi_asset i))
        (Settlement ''x402 recovery intent has no token contract'')) (\<lambda>token_contract.
      and_then (authorization_identity (ps_payment_payload p)) (\<lambda>a.
      Inr (\<lparr>eq_network = ai_network (pi_asset i), eq_token_contract = token_contract, eq_payer = ei_payer a,
            eq_nonce = ei_nonce a, eq_recipient = pi_recipient i, eq_amount = pi_amount i,
            eq_from_block = from_block\<rparr>, ei_valid_before a))))"

definition recovery_kind :: "PaymentIntent \<Rightarrow> string" where
  "recovery_kind i = (if uses_eip3009_recovery i then ''eip3009_authorization_event'' else ''provider_verify'')"

definition settlement_request_payload :: "PaymentIntent \<Rightarrow> u64 option \<Rightarrow> json" where
  "settlement_request_payload i from_block = json_object
     ([(''run_id'', JString (pi_run_id i)), (''recovery'', JString (recovery_kind i))]
      @ opt_field ''from_block'' (\<lambda>b. JNumber (uint b)) from_block)"

fun json_u64 :: "json \<Rightarrow> u64 option" where
  "json_u64 (JNumber n) = (if 0 \<le> n \<and> n < 2 ^ 64 then Some (of_int n) else None)"
| "json_u64 _ = None"

fun json_as_object :: "json \<Rightarrow> (string \<times> json) list option" where
  "json_as_object (JObject fs) = Some fs"
| "json_as_object _ = None"

definition settlement_request_from_block :: "PaymentIntent \<Rightarrow> PaymentEvent \<Rightarrow> u64 option result" where
  "settlement_request_from_block i e =
     and_then (ok_or (json_as_object (ev_payload e)) (Storage ''settlement operation payload is malformed'')) (\<lambda>fs.
     let exact_fields = (length fs = (if uses_eip3009_recovery i then 3 else 2)
           \<and> map_of fs ''run_id'' \<noteq> None \<and> map_of fs ''recovery'' \<noteq> None
           \<and> (\<not> uses_eip3009_recovery i \<or> map_of fs ''from_block'' \<noteq> None)) in
     if ev_intent_id e \<noteq> pi_id i \<or> ev_event_type e \<noteq> SettlementRequested \<or> ev_attempt_no e \<noteq> 0
        \<or> ev_signature_ref e \<noteq> None \<or> ev_tx_hash e \<noteq> None \<or> \<not> exact_fields
        \<or> json_as_str (map_of fs ''run_id'') \<noteq> Some (pi_run_id i)
        \<or> json_as_str (map_of fs ''recovery'') \<noteq> Some (recovery_kind i)
     then Inl (Storage ''durable settlement operation does not match the payment intent'')
     else case map_of fs ''from_block'' of
         None \<Rightarrow> Inr None
       | Some v \<Rightarrow> and_then (ok_or (json_u64 v) (Storage ''settlement recovery checkpoint is malformed'')) (\<lambda>b.
           Inr (Some b)))"

definition authorization_expiry_deadline :: "PaymentIntent \<Rightarrow> int \<Rightarrow> int" where
  "authorization_expiry_deadline i valid_before =
     max (case pi_expires_at i of Some e \<Rightarrow> e | None \<Rightarrow> valid_before) valid_before"

definition authorization_is_definitively_expired :: "int \<Rightarrow> int \<Rightarrow> int \<Rightarrow> bool" where
  "authorization_is_definitively_expired observed_at chain_observed_at expiry \<longleftrightarrow>
     observed_at \<ge> expiry \<and> chain_observed_at \<ge> expiry"

definition reservation_after_non_settlement :: "PaymentStatus \<Rightarrow> ReservationStatus \<Rightarrow> ReservationStatus" where
  "reservation_after_non_settlement status reservation_status =
     (if status \<in> {Failed, Expired} \<and> reservation_status = Reserved then Released else reservation_status)"

section \<open>Commands\<close>

record IssuePaymentChallenge =
  ic_scenario_id :: string
  ic_run_id :: string
  ic_price_id :: string
  ic_resource :: string
  ic_origin :: string
  ic_protocol :: string
  ic_request_hash :: string

record VerifyIncomingPayment =
  vp_scenario_id :: string
  vp_run_id :: string
  vp_challenge_hash :: string
  vp_request_hash :: string
  vp_credential :: PaymentCredential

record IncomingVerification =
  iv_intent :: PaymentIntent
  iv_valid :: bool
  iv_verification_ref :: "string option"

record SettleIncomingPayment =
  sp_scenario_id :: string
  sp_run_id :: string
  sp_intent_id :: string
  sp_verification_ref :: string

record SettledIncomingPayment =
  sd_intent :: PaymentIntent
  sd_receipt :: PaymentReceipt

definition validate_issue_command :: "externals \<Rightarrow> IssuePaymentChallenge \<Rightarrow> unit result" where
  "validate_issue_command X c =
     and_then (validate_identifier ''scenario_id'' (ic_scenario_id c)) (\<lambda>_.
     and_then (validate_identifier ''run_id'' (ic_run_id c)) (\<lambda>_.
     and_then (validate_identifier ''price_id'' (ic_price_id c)) (\<lambda>_.
     and_then (validate_identifier ''protocol'' (ic_protocol c)) (\<lambda>_.
     and_then (validate_identifier ''request_hash'' (ic_request_hash c)) (\<lambda>_.
     if is_blank (ic_resource c)
     then Inl (InvalidRequest ''resource and canonical origin binding is invalid'')
     else and_then (canonical_http_origin X (ic_resource c)) (\<lambda>origin.
     if origin \<noteq> ic_origin c then Inl (InvalidRequest ''resource and canonical origin binding is invalid'')
     else Inr ()))))))"

definition validate_verify_command :: "VerifyIncomingPayment \<Rightarrow> unit result" where
  "validate_verify_command c =
     and_then (validate_identifier ''scenario_id'' (vp_scenario_id c)) (\<lambda>_.
     and_then (validate_identifier ''run_id'' (vp_run_id c)) (\<lambda>_.
     and_then (validate_identifier ''challenge_hash'' (vp_challenge_hash c)) (\<lambda>_.
     and_then (validate_identifier ''request_hash'' (vp_request_hash c)) (\<lambda>_.
     and_then (validate_identifier ''credential.protocol'' (cr_protocol (vp_credential c))) (\<lambda>_.
     and_then (validate_identifier ''credential.challenge_hash'' (cr_challenge_hash (vp_credential c))) (\<lambda>_.
     and_then (validate_identifier ''credential.credential_hash'' (cr_credential_hash (vp_credential c))) (\<lambda>_.
     if cr_challenge_hash (vp_credential c) \<noteq> vp_challenge_hash c
     then Inl (PaymentConflict ''credential is bound to another challenge'')
     else Inr ())))))))"

definition validate_settle_command :: "SettleIncomingPayment \<Rightarrow> unit result" where
  "validate_settle_command c =
     and_then (validate_identifier ''scenario_id'' (sp_scenario_id c)) (\<lambda>_.
     and_then (validate_identifier ''run_id'' (sp_run_id c)) (\<lambda>_.
     and_then (validate_identifier ''intent_id'' (sp_intent_id c)) (\<lambda>_.
     validate_identifier ''verification_ref'' (sp_verification_ref c))))"

definition ensure_settlement_intent_binding :: "PaymentIntent \<Rightarrow> SettleIncomingPayment \<Rightarrow> unit result" where
  "ensure_settlement_intent_binding i c =
     (if pi_run_id i \<noteq> sp_run_id c \<or> pi_direction i \<noteq> Inbound then Inl Forbidden else Inr ())"

definition ensure_replay_identity :: "PaymentIntent \<Rightarrow> IssuePaymentChallenge \<Rightarrow> unit result" where
  "ensure_replay_identity i c =
     (if pi_scenario_id i \<noteq> ic_scenario_id c \<or> pi_run_id i \<noteq> ic_run_id c
         \<or> pi_price_id i \<noteq> Some (ic_price_id c) \<or> pi_resource i \<noteq> ic_resource c
         \<or> pi_protocol i \<noteq> ic_protocol c \<or> pi_request_hash i \<noteq> ic_request_hash c
      then Inl (PaymentConflict ''run_id was reused for different challenge content'')
      else Inr ())"

definition ensure_incoming_identity :: "PaymentIntent \<Rightarrow> string \<Rightarrow> string \<Rightarrow> unit result" where
  "ensure_incoming_identity i run_id request_hash =
     (if pi_direction i \<noteq> Inbound \<or> pi_run_id i \<noteq> run_id then Inl Forbidden
      else case check_replay i request_hash of
          Replay \<Rightarrow> Inr ()
        | Conflict \<Rightarrow> Inl (PaymentConflict ''run_id was reused for different request content''))"

section \<open>What is written\<close>

definition build_inbound_intent ::
  "string \<Rightarrow> IssuePaymentChallenge \<Rightarrow> PaymentPrice \<Rightarrow> Wallet \<Rightarrow> PaymentChallenge \<Rightarrow> int \<Rightarrow> PaymentIntent result" where
  "build_inbound_intent intent_id c price w ch now =
     (let i = \<lparr>pi_id = intent_id, pi_scenario_id = ic_scenario_id c, pi_run_id = ic_run_id c,
        pi_wallet_id = Some (pr_wallet_id price), pi_policy_id = Some (pr_policy_id price),
        pi_price_id = Some (pr_id price), pi_direction = Inbound, pi_protocol = ic_protocol c,
        pi_asset = pr_asset price, pi_recipient = w_address w, pi_amount = pr_amount price, pi_settled_amount = 0,
        pi_resource = pr_resource price, pi_challenge_hash = Some (pc_challenge_hash ch),
        pi_request_hash = ic_request_hash c, pi_status = Created, pi_reservation_status = Reserved,
        pi_reserved_amount = pr_amount price, pi_tx_hash = None, pi_settlement_ref = None,
        pi_next_reconcile_at = None, pi_created_at = now, pi_updated_at = now,
        pi_expires_at = Some (pc_expires_at ch), pi_settled_at = None\<rparr> in
      and_then (map_err (\<lambda>field. InvalidRequest (''invalid inbound intent field: '' @ field))
        (PaymentIntent_validate i)) (\<lambda>_. Inr i))"

definition validate_payee_challenge ::
  "externals \<Rightarrow> PaymentChallenge \<Rightarrow> PaymentPrice \<Rightarrow> Wallet \<Rightarrow> int \<Rightarrow> unit result" where
  "validate_payee_challenge X ch price w now =
     (if pc_scenario_id ch \<noteq> pr_scenario_id price \<or> pc_price_id ch \<noteq> Some (pr_id price)
         \<or> pc_resource ch \<noteq> pr_resource price \<or> pc_asset ch \<noteq> pr_asset price
         \<or> pc_amount ch \<noteq> pr_amount price \<or> \<not> address_matches X w (pc_recipient ch)
         \<or> pc_expires_at ch \<le> now \<or> is_blank (pc_challenge_hash ch)
      then Inl (PaymentProtocol ''adapter produced a challenge inconsistent with the price'')
      else Inr ())"

definition settlement_material_context :: "PaymentIntent \<Rightarrow> string" where
  "settlement_material_context i = ''payment-intent:'' @ pi_id i @ '':'' @ pi_protocol i"

definition confirmed_intent :: "PaymentIntent \<Rightarrow> SettlementProviderResult \<Rightarrow> int \<Rightarrow> int \<Rightarrow> PaymentIntent" where
  "confirmed_intent i r updated_at effective_at =
     i\<lparr>pi_status := Settled, pi_settled_amount := pi_amount i, pi_tx_hash := rs_transaction r,
       pi_settlement_ref := rs_settlement_ref r, pi_next_reconcile_at := None,
       pi_reservation_status := (if pi_reservation_status i = Reserved then Consumed else pi_reservation_status i),
       pi_updated_at := updated_at, pi_settled_at := Some (max effective_at (pi_created_at i))\<rparr>"

definition confirmed_receipt ::
  "externals \<Rightarrow> primitives \<Rightarrow> PaymentIntent \<Rightarrow> SettlementProviderResult \<Rightarrow> int \<Rightarrow> PaymentReceipt result" where
  "confirmed_receipt X K i r confirmed_at =
     (let receipt = \<lparr>rc_intent_id = pi_id i, rc_scenario_id = pi_scenario_id i, rc_direction = Inbound,
        rc_protocol = pi_protocol i, rc_asset = pi_asset i, rc_recipient = pi_recipient i, rc_payer = rs_payer r,
        rc_requested_amount = pi_amount i, rc_settled_amount = pi_amount i, rc_status = Settled,
        rc_tx_hash = rs_transaction r, rc_settlement_ref = rs_settlement_ref r,
        rc_evidence_hash = evidence_hash X K (provider_result_to_value r), rc_confirmed_at = confirmed_at\<rparr> in
      and_then (map_err (\<lambda>field. Settlement (''invalid confirmed receipt field: '' @ field))
        (PaymentReceipt_validate receipt)) (\<lambda>_. Inr receipt))"

definition confirmed_ledger ::
  "externals \<Rightarrow> string \<Rightarrow> PaymentIntent \<Rightarrow> string \<Rightarrow> SettlementProviderResult \<Rightarrow> int \<Rightarrow> int \<Rightarrow>
     PaymentLedgerEntry result" where
  "confirmed_ledger X entry_id i authority r effective_at created_at =
     and_then (map_err (\<lambda>field. Settlement (''invalid settlement posting evidence: '' @ field))
       (settlement_posting_key X authority (ai_network (pi_asset i)) (rs_transaction r) (rs_settlement_ref r)
         (rs_effect_ref r))) (\<lambda>posting_key.
     and_then (ok_or (pi_wallet_id i) (Storage ''inbound intent has no wallet'')) (\<lambda>wallet_id.
     let entry = \<lparr>le_id = entry_id, le_intent_id = Some (pi_id i), le_scenario_id = Some (pi_scenario_id i),
       le_wallet_id = wallet_id, le_entry_type = Payment, le_direction = Inbound, le_asset = pi_asset i,
       le_amount = pi_amount i, le_posting_key = posting_key, le_tx_hash = rs_transaction r,
       le_settlement_ref = rs_settlement_ref r, le_effect_ref = rs_effect_ref r, le_transfer_ref = None,
       le_reversal_of = None, le_effective_at = effective_at, le_created_at = created_at\<rparr> in
     and_then (map_err (\<lambda>field. Settlement (''invalid ledger field: '' @ field))
       (PaymentLedgerEntry_validate entry)) (\<lambda>_. Inr entry)))"

definition confirmed_event ::
  "string \<Rightarrow> PaymentIntent \<Rightarrow> SettlementProviderResult \<Rightarrow> PaymentReceipt \<Rightarrow> int \<Rightarrow> PaymentEvent" where
  "confirmed_event eid i r receipt confirmed_at =
     (fresh_event eid i EvSettled (json_object [(''receipt'', receipt_to_value receipt)]) confirmed_at)
       \<lparr>ev_tx_hash := rs_transaction r\<rparr>"

definition confirmed_outbox :: "string \<Rightarrow> PaymentIntent \<Rightarrow> int \<Rightarrow> OutboxMessage" where
  "confirmed_outbox mid i confirmed_at =
     fresh_message mid ''payment_intent'' (pi_id i) ''payment_settled''
       (''scenario:'' @ pi_scenario_id i @ ''.payments'') (pi_run_id i)
       (json_object [(''intent_id'', JString (pi_id i)), (''scenario_id'', JString (pi_scenario_id i)),
         (''run_id'', JString (pi_run_id i))]) confirmed_at"

section \<open>What confirmed evidence guarantees\<close>

lemma validate_confirmed_for_ok:
  "validate_confirmed_for X r i n = Inr () \<longleftrightarrow>
     rs_valid r \<and> rs_settled r \<and> rs_amount r = Some (pi_amount i)
     \<and> (\<exists>a. rs_asset r = Some a \<and> asset_identity_matches a (pi_asset i))
     \<and> (\<exists>p. rs_recipient r = Some p \<and> payment_recipients_match X (ai_network (pi_asset i)) p (pi_recipient i))
     \<and> (n = 0 \<or> (\<exists>v. rs_confirmations r = Some v \<and> n \<le> v))
     \<and> ((\<exists>v. rs_transaction r = Some v \<and> v \<noteq> []) \<or> (\<exists>v. rs_settlement_ref r = Some v \<and> v \<noteq> []))"
  by (auto simp: validate_confirmed_for_def Let_def is_some_and_iff is_none_or_iff)

lemma receipt_round_trip:
  assumes "in_i64 (rc_confirmed_at r)"
  shows "receipt_from_value (receipt_to_value r) = Some r"
proof -
  have dir: "json_enum codec_direction (Some (JString (PaymentDirection_as_str d))) = Some d" for d
    by (cases d) (simp_all add: json_enum_def codec_direction_def)
  have status: "json_enum codec_payment_status (Some (JString (PaymentStatus_as_str z))) = Some z" for z
    by (cases z) (simp_all add: json_enum_def codec_payment_status_def)
  show ?thesis
    using assms
    by (cases r; cases "rc_payer r"; cases "rc_tx_hash r"; cases "rc_settlement_ref r")
      (simp_all add: receipt_to_value_def json_object_def opt_field_def known_fields_def receipt_fields_def dir status)
qed

lemma durable_receipt_settled:
  assumes "in_i64 (rc_confirmed_at receipt)"
  shows "durable_receipt (Some (confirmed_event eid i r receipt at)) e = Inr receipt"
  using assms by (simp add: durable_receipt_def confirmed_event_def receipt_round_trip)

lemma settlement_request_read_back:
  assumes "uses_eip3009_recovery i \<longleftrightarrow> from_block \<noteq> None"
  shows "settlement_request_from_block i
    (fresh_event eid i SettlementRequested (settlement_request_payload i from_block) at) = Inr from_block"
proof -
  have "uint b < 2 ^ 64" for b :: u64 using uint_lt2p [of b] by simp
  with assms show ?thesis
    by (cases from_block)
      (simp_all add: settlement_request_from_block_def settlement_request_payload_def json_object_def opt_field_def
        recovery_kind_def Let_def)
qed

lemma released_only_when_final:
  "reservation_after_non_settlement status reservation \<noteq> reservation \<Longrightarrow>
     status \<in> {Failed, Expired} \<and> reservation = Reserved"
  by (auto simp: reservation_after_non_settlement_def split: if_splits)

end
