(* ===== verification/Settlement.thy ===== *)
theory Settlement
  imports Settlement_Facts
begin

text \<open>
  Payee settlement (\<^verbatim>\<open>payment/settlement/challenge.rs\<close>, \<^verbatim>\<open>verification.rs\<close>,
  \<^verbatim>\<open>commit.rs\<close>, \<^verbatim>\<open>recovery.rs\<close>): a challenge is issued for a price, a credential is
  verified and bound, the provider is asked once to settle, and its confirmed answer becomes a ledger
  entry; a settlement that was requested and not answered is recovered by looking at the chain or asking
  the provider again, never by settling again. The lemmas show that every service moves the database along
  the steps of the repositories, and that the provider's settle operation is called at most once for a payment.
\<close>

section \<open>The coordinator\<close>

record ConfirmedTransfer =
  ct_authority :: string
  ct_transaction :: string
  ct_effect_ref :: string
  ct_confirmations :: u64
  ct_minimum_confirmations :: u64
  ct_effective_at :: int

datatype EvmAuthorizationObservation =
    EvmConfirmed ConfirmedTransfer
  | EvmPending
  | EvmNoEffect u64 int
  | EvmMismatch string

datatype ReconciliationProviderObservation =
    Observed string u64 SettlementProviderResult "int option"
  | ObExpired string

record SettlementCoordinator =
  co_protocols :: ProtocolRegistry
  co_providers :: "(string \<times> SettlementProviderBinding) list"
  co_protector :: Aes256GcmMaterialProtector
  co_authorization_identity :: "json \<Rightarrow> Eip3009AuthorizationIdentity result"
  co_latest_block :: "string \<Rightarrow> u64 result"
  co_lookup_authorization :: "EvmAuthorizationQuery \<Rightarrow> EvmAuthorizationObservation result"
  co_reconciliation_delay_seconds :: int

text \<open>The random identifiers that one call may draw.\<close>

record settlement_ids =
  st_intent :: string
  st_created :: string
  st_nonce :: string
  st_submitted :: string
  st_outcome :: string
  st_requested :: string
  st_settled :: string
  st_ledger :: string
  st_message :: string

definition provider_request :: "ProtocolSettlement \<Rightarrow> string \<Rightarrow> SettlementProviderRequest" where
  "provider_request p run_id =
     \<lparr>rq_protocol = ps_protocol p, rq_run_id = run_id, rq_payment_payload = ps_payment_payload p,
      rq_payment_requirements = ps_payment_requirements p\<rparr>"

definition settlement_to_value :: "ProtocolSettlement \<Rightarrow> json" where
  "settlement_to_value p = JObject
     [(''protocol'', JString (ps_protocol p)), (''payment_payload'', ps_payment_payload p),
      (''payment_requirements'', ps_payment_requirements p)]"

fun settlement_from_value :: "json \<Rightarrow> ProtocolSettlement option" where
  "settlement_from_value (JObject fs) =
     (if known_fields [''protocol'', ''payment_payload'', ''payment_requirements''] fs then
        case (json_string (map_of fs ''protocol''), map_of fs ''payment_payload'', map_of fs ''payment_requirements'') of
          (Some p, Some v, Some r) \<Rightarrow> Some \<lparr>ps_protocol = p, ps_payment_payload = v, ps_payment_requirements = r\<rparr>
        | _ \<Rightarrow> None
      else None)"
| "settlement_from_value _ = None"

fun credential_from_value :: "json \<Rightarrow> PaymentCredential option" where
  "credential_from_value (JObject fs) =
     (if known_fields [''protocol'', ''challenge_hash'', ''credential_hash'', ''payload''] fs then
        case (json_string (map_of fs ''protocol''), json_string (map_of fs ''challenge_hash''),
              json_string (map_of fs ''credential_hash''), map_of fs ''payload'') of
          (Some p, Some c, Some h, Some v) \<Rightarrow>
            Some \<lparr>cr_protocol = p, cr_challenge_hash = c, cr_credential_hash = h, cr_payload = v\<rparr>
        | _ \<Rightarrow> None
      else None)"
| "credential_from_value _ = None"

section \<open>Reading what was recorded\<close>

definition find_latest_for_intent_type :: "db \<Rightarrow> string \<Rightarrow> PaymentEventType \<Rightarrow> PaymentEvent option" where
  "find_latest_for_intent_type s intent_id event_type =
     (case sort_key (\<lambda>e. (- uint (ev_attempt_no e), - ev_created_at e))
         (filter (\<lambda>e. ev_intent_id e = intent_id \<and> ev_event_type e = event_type) (pay_event s)) of
        [] \<Rightarrow> None
      | e # _ \<Rightarrow> Some e)"

definition event_of :: "PaymentIntent \<Rightarrow> PaymentEventType \<Rightarrow> PaymentEvent option service" where
  "event_of i event_type = db_read (\<lambda>s. Inr (find_for_intent_type s (pi_id i) event_type 0))"

definition latest_event_of :: "PaymentIntent \<Rightarrow> PaymentEventType \<Rightarrow> PaymentEvent option service" where
  "latest_event_of i event_type = db_read (\<lambda>s. Inr (find_latest_for_intent_type s (pi_id i) event_type))"

definition challenge_of_event :: "PaymentIntent \<Rightarrow> PaymentEvent option \<Rightarrow> PaymentChallenge result" where
  "challenge_of_event i e =
     (case Option.bind e (\<lambda>e. json_get (ev_payload e) ''challenge'') of
        None \<Rightarrow> Inl (Storage ''durable challenge event is missing or inconsistent'')
      | Some v \<Rightarrow>
          and_then (ok_or (challenge_from_value v) json_error) (\<lambda>ch.
          if pi_challenge_hash i = Some (pc_challenge_hash ch) then Inr ch
          else Inl (Storage ''durable challenge event is missing or inconsistent'')))"

definition load_intent_challenge :: "PaymentIntent \<Rightarrow> PaymentChallenge service" where
  "load_intent_challenge i =
     svc_then (event_of i (case pi_direction i of Inbound \<Rightarrow> ChallengeCreated | Outbound \<Rightarrow> ChallengeReceived)) (\<lambda>e.
     svc_result (challenge_of_event i e))"

definition sealed_of_event :: "string \<Rightarrow> error \<Rightarrow> PaymentEvent \<Rightarrow> SealedSensitiveMaterial result" where
  "sealed_of_event field missing e =
     (case json_get (ev_payload e) field of
        None \<Rightarrow> Inl missing
      | Some v \<Rightarrow> ok_or (sealed_from_value v) json_error)"

definition submission_of_event ::
  "primitives \<Rightarrow> SettlementCoordinator \<Rightarrow> PaymentIntent \<Rightarrow> PaymentEvent option \<Rightarrow> (string \<times> ProtocolSettlement) result"
where
  "submission_of_event K C i e =
     and_then (ok_or e (Storage ''durable submission event is missing'')) (\<lambda>e.
     and_then (ok_or (json_as_str (json_get (ev_payload e) ''credential_fingerprint''))
       (Storage ''durable credential fingerprint is missing'')) (\<lambda>fingerprint.
     and_then (sealed_of_event ''sealed_settlement'' (Storage ''durable settlement material is missing'') e) (\<lambda>sealed.
     and_then (material_open K (co_protector C) (settlement_material_context i) sealed) (\<lambda>plaintext.
     and_then (ok_or (Option.bind (k_from_slice K plaintext) settlement_from_value) json_error) (\<lambda>p.
     Inr (fingerprint, p))))))"

definition load_submission ::
  "primitives \<Rightarrow> SettlementCoordinator \<Rightarrow> PaymentIntent \<Rightarrow> (string \<times> ProtocolSettlement) service" where
  "load_submission K C i =
     svc_then (event_of i EvSubmitted) (\<lambda>e. svc_result (submission_of_event K C i e))"

definition verification_ref_of_event :: "PaymentEvent option \<Rightarrow> string result" where
  "verification_ref_of_event e =
     and_then (ok_or e (Storage ''credential verification event is missing'')) (\<lambda>e.
     ok_or (json_as_str (json_get (ev_payload e) ''verification_ref'')) (Storage ''verification reference is missing''))"

definition load_verification :: "PaymentIntent \<Rightarrow> IncomingVerification service" where
  "load_verification i =
     svc_then (latest_event_of i CredentialVerified) (\<lambda>e.
     svc_then (svc_result (verification_ref_of_event e)) (\<lambda>r.
     svc_result (Inr \<lparr>iv_intent = i, iv_valid = True, iv_verification_ref = Some r\<rparr>)))"

definition load_settlement_material ::
  "primitives \<Rightarrow> SettlementCoordinator \<Rightarrow> PaymentIntent \<Rightarrow> (string \<times> ProtocolSettlement) service" where
  "load_settlement_material K C i =
     svc_then (latest_event_of i CredentialVerified) (\<lambda>e.
     svc_then (svc_result (verification_ref_of_event e)) (\<lambda>verification_ref.
     svc_then (load_submission K C i) (\<lambda>(_, p).
     svc_result (Inr (verification_ref, p)))))"

definition load_receipt :: "PaymentIntent \<Rightarrow> PaymentReceipt service" where
  "load_receipt i =
     svc_then (latest_event_of i EvSettled) (\<lambda>settled.
     svc_then (if settled \<noteq> None then svc_result (Inr None) else latest_event_of i Reconciled) (\<lambda>reconciled.
     svc_result (durable_receipt settled reconciled)))"

section \<open>Issuing a challenge\<close>

record PreparedInboundChallenge =
  pic_access :: AccessContext
  pic_price :: PaymentPrice
  pic_policy :: PaymentPolicy
  pic_wallet :: PaymentWallet
  pic_challenge :: PaymentChallenge

definition ensure_inbound_capacity ::
  "externals \<Rightarrow> IssuePaymentChallenge \<Rightarrow> PaymentPrice \<Rightarrow> PaymentPolicy \<Rightarrow> PaymentChallenge \<Rightarrow> int \<Rightarrow> unit service" where
  "ensure_inbound_capacity X c price policy ch now =
     svc_then (db_read (budget_snapshot X (ic_scenario_id c) (pr_wallet_id price) Inbound (budget_unit (pr_asset price))
       (utc_day_start now) now)) (\<lambda>b.
     svc_then (svc_result (PolicyEngine_evaluate X policy
       \<lparr>pe_direction = Inbound, pe_challenge = ch, pe_wallet_id = pr_wallet_id price, pe_origin = ic_origin c,
        pe_scenario_usage = bs_scenario_spent_and_reserved b,
        pe_wallet_budget = \<lparr>wb_usage = bs_wallet_spent_and_reserved b,
          wb_shared_across_scenarios = bs_wallet_shared_across_scenarios b,
          wb_max_per_payment = bs_wallet_max_per_payment b, wb_max_per_day = bs_wallet_max_per_day b\<rparr>,
        pe_now = now\<rparr>)) (\<lambda>decision.
     svc_result (case decision of
         Allowed \<Rightarrow> Inr ()
       | PdRequiresApproval \<Rightarrow>
           Inl (PolicyDenied ''inbound capacity requires administrator approval before challenge issuance'')
       | PdDenied reason \<Rightarrow> Inl (PolicyDenied reason))))"

definition prepare_inbound_challenge ::
  "externals \<Rightarrow> SettlementCoordinator \<Rightarrow> AccessContext \<Rightarrow> IssuePaymentChallenge \<Rightarrow> int \<Rightarrow>
     PreparedInboundChallenge service" where
  "prepare_inbound_challenge X C access c now =
     svc_then (db_read (\<lambda>s. ok_or (filter_opt (\<lambda>p. pr_enabled p \<and> pr_scenario_id p = ic_scenario_id c
         \<and> pr_resource p = ic_resource c \<and> supports_protocol p (ic_protocol c)) (select_price s (ic_price_id c)))
       (NotFound ''payment price''))) (\<lambda>price.
     svc_then (svc_result (canonical_http_origin X (pr_resource price))) (\<lambda>origin.
     if origin \<noteq> ic_origin c
     then svc_result (Inl (InvalidRequest ''protected resource origin does not match the price''))
     else svc_then (db_read (\<lambda>s. ok_or (filter_opt (\<lambda>p. pp_enabled p \<and> pp_scenario_id p = ic_scenario_id c
         \<and> allows_direction p Inbound \<and> allows_wallet p (pr_wallet_id price)) (load_policy s (pr_policy_id price)))
       (PolicyDenied ''price has no enabled inbound policy-wallet binding''))) (\<lambda>policy.
     svc_then (db_read (\<lambda>s. load_payment_wallet X s (pr_wallet_id price))) (\<lambda>stored.
     svc_then (svc_result (ok_or (filter_opt pw_enabled stored) (NotFound ''price recipient wallet''))) (\<lambda>stored.
     svc_then (svc_result (map_err (\<lambda>field. Storage (''invalid price recipient wallet '' @ field))
       (PaymentWallet_canonicalized_for_payment_network X stored (ai_network (pr_asset price))))) (\<lambda>wallet.
     svc_then (svc_result (registry_get (co_protocols C) (ic_protocol c))) (\<lambda>adapter.
     svc_then (svc_result (pt_build_challenge adapter price (w_address (pw_wallet wallet)) now)) (\<lambda>ch.
     svc_then (svc_result (validate_payee_challenge X ch price (pw_wallet wallet) now)) (\<lambda>_.
     svc_then (ensure_inbound_capacity X c price policy ch now) (\<lambda>_.
     svc_result (Inr \<lparr>pic_access = access, pic_price = price, pic_policy = policy, pic_wallet = wallet,
       pic_challenge = ch\<rparr>)))))))))))"

definition challenge_guard :: "PreparedInboundChallenge \<Rightarrow> IssuePaymentChallenge \<Rightarrow> int \<Rightarrow> ChallengeIssuanceGuard" where
  "challenge_guard p c now =
     \<lparr>cg_principal = ac_principal (pic_access p), cg_client = ac_client (pic_access p),
      cg_scenario = ac_scenario (pic_access p), cg_price = pic_price p, cg_policy = pic_policy p,
      cg_wallet = pic_wallet p, cg_origin = ic_origin c, cg_day_started_at = utc_day_start now,
      cg_evaluated_at = now\<rparr>"

definition record_prepared ::
  "externals \<Rightarrow> settlement_ids \<Rightarrow> PreparedInboundChallenge \<Rightarrow> IssuePaymentChallenge \<Rightarrow> int \<Rightarrow> PaymentChallenge service"
where
  "record_prepared X ids p c now =
     svc_then (svc_result (build_inbound_intent (st_intent ids) c (pic_price p) (pw_wallet (pic_wallet p))
       (pic_challenge p) now)) (\<lambda>i.
     svc_then (db_write (record_challenge X i (pic_challenge p) (challenge_guard p c now)
       [fresh_event (st_created ids) i ChallengeCreated
          (json_object [(''challenge'', challenge_to_value (pic_challenge p))]) now] [])) (\<lambda>written.
     case written of
       Inserted stored \<Rightarrow> svc_then (svc_result (ensure_replay_identity stored c)) (\<lambda>_. svc_result (Inr (pic_challenge p)))
     | ReplayOf stored \<Rightarrow> svc_then (svc_result (ensure_replay_identity stored c)) (\<lambda>_. load_intent_challenge stored)))"

definition issue_challenge ::
  "externals \<Rightarrow> SettlementCoordinator \<Rightarrow> settlement_ids \<Rightarrow> string \<Rightarrow> IssuePaymentChallenge \<Rightarrow> int \<Rightarrow>
     PaymentChallenge service" where
  "issue_challenge X C ids who c now =
     svc_then (svc_result (validate_issue_command X c)) (\<lambda>_.
     svc_then (db_read (\<lambda>s. scenario_authorize s who (ic_scenario_id c))) (\<lambda>access.
     svc_then (db_read (\<lambda>s. Inr (find_run s (ic_scenario_id c) (ic_run_id c)))) (\<lambda>run.
     case run of
       Some existing \<Rightarrow>
         svc_then (svc_result (ensure_replay_identity (arec_intent existing) c)) (\<lambda>_.
         if pi_direction (arec_intent existing) \<noteq> Inbound
         then svc_result (Inl (PaymentConflict ''run_id is already bound to an outbound payment''))
         else load_intent_challenge (arec_intent existing))
     | None \<Rightarrow>
         svc_then (prepare_inbound_challenge X C access c now) (\<lambda>p. record_prepared X ids p c now))))"

section \<open>Recording an outcome\<close>

definition non_settlement_intent ::
  "SettlementCoordinator \<Rightarrow> PaymentIntent \<Rightarrow> PaymentStatus \<Rightarrow> int \<Rightarrow> PaymentIntent" where
  "non_settlement_intent C i status now =
     i\<lparr>pi_status := status,
       pi_reservation_status := reservation_after_non_settlement status (pi_reservation_status i),
       pi_updated_at := next_timestamp (pi_updated_at i) now,
       pi_next_reconcile_at :=
         (if status = Unknown \<or> status = PendingSettlement
          then Some (saturating_add now (co_reconciliation_delay_seconds C)) else None)\<rparr>"

definition record_non_settlement ::
  "SettlementCoordinator \<Rightarrow> settlement_ids \<Rightarrow> PaymentIntent \<Rightarrow> PaymentStatus \<Rightarrow> PaymentEventType \<Rightarrow> json \<Rightarrow> int \<Rightarrow>
     PaymentIntent service" where
  "record_non_settlement C ids i status event_type payload now =
     (let updated = non_settlement_intent C i status now in
      db_write (commit_progress updated (pi_updated_at i)
        [fresh_event (st_outcome ids) i event_type payload (pi_updated_at updated)] []))"

definition commit_confirmed ::
  "externals \<Rightarrow> primitives \<Rightarrow> settlement_ids \<Rightarrow> PaymentIntent \<Rightarrow> string \<Rightarrow> SettlementProviderResult \<Rightarrow> int \<Rightarrow>
     int option \<Rightarrow> SettledIncomingPayment service" where
  "commit_confirmed X K ids i authority r now effective =
     (let confirmed_at = next_timestamp (pi_updated_at i) now;
          effective_at = (case effective of Some e \<Rightarrow> e | None \<Rightarrow> confirmed_at) in
      svc_then (svc_result (validate_trusted_effective_time (pi_created_at i) effective_at now)) (\<lambda>_.
      svc_then (svc_result (confirmed_receipt X K i r effective_at)) (\<lambda>receipt.
      svc_then (svc_result (confirmed_ledger X (st_ledger ids) i authority r effective_at confirmed_at)) (\<lambda>entry.
      svc_match (db_write (commit_settlement (confirmed_intent i r confirmed_at effective_at) (pi_updated_at i)
          [confirmed_event (st_settled ids) i r receipt confirmed_at] [entry]
          [confirmed_outbox (st_message ids) i confirmed_at]))
        (\<lambda>stored. svc_result (Inr \<lparr>sd_intent = stored, sd_receipt = receipt\<rparr>))
        (\<lambda>e. case e of
           PaymentConflict reason \<Rightarrow>
             svc_then (db_read (\<lambda>s. ok_or (load_intent s (pi_id i))
               (Storage ''concurrently settled payment intent disappeared''))) (\<lambda>current.
             if \<not> is_concurrent_settlement_winner i current then svc_result (Inl (PaymentConflict reason))
             else svc_then (load_receipt current) (\<lambda>receipt.
               svc_result (Inr \<lparr>sd_intent = current, sd_receipt = receipt\<rparr>)))
         | _ \<Rightarrow> svc_result (Inl e))))))"

section \<open>Verifying a credential\<close>

definition submitted_intent :: "SettlementCoordinator \<Rightarrow> PaymentIntent \<Rightarrow> int \<Rightarrow> PaymentIntent" where
  "submitted_intent C i now =
     i\<lparr>pi_status := Submitted, pi_next_reconcile_at := Some (saturating_add now (co_reconciliation_delay_seconds C)),
       pi_updated_at := next_timestamp (pi_updated_at i) now\<rparr>"

definition submit_credential ::
  "primitives \<Rightarrow> SettlementCoordinator \<Rightarrow> settlement_ids \<Rightarrow> PaymentIntent \<Rightarrow> PaymentCredential \<Rightarrow> int \<Rightarrow>
     (PaymentIntent \<times> SettlementProviderRequest) service" where
  "submit_credential K C ids i credential now =
     svc_then (load_intent_challenge i) (\<lambda>ch.
     svc_then (svc_result (registry_get (co_protocols C) (pi_protocol i))) (\<lambda>adapter.
     svc_then (svc_result (pt_verify_credential adapter ch credential now)) (\<lambda>_.
     svc_then (svc_result (pt_credential_fingerprint adapter ch credential)) (\<lambda>fingerprint.
     let credential = credential\<lparr>cr_credential_hash := fingerprint\<rparr> in
     svc_then (svc_result (pt_settle_payment adapter ch credential)) (\<lambda>p.
     svc_then (svc_result (material_seal K (co_protector C) (st_nonce ids) (settlement_material_context i)
       (k_to_vec K (settlement_to_value p)))) (\<lambda>sealed.
     let submitted = submitted_intent C i now in
     svc_then (db_write (verify_incoming submitted credential (pi_updated_at i)
       [fresh_event (st_submitted ids) i EvSubmitted
          (json_object [(''credential_fingerprint'', JString fingerprint),
            (''sealed_settlement'', sealed_to_value sealed)]) (pi_updated_at submitted)] [])) (\<lambda>stored.
     svc_result (Inr (stored, provider_request p (pi_run_id stored))))))))))"

definition resume_submitted ::
  "primitives \<Rightarrow> SettlementCoordinator \<Rightarrow> PaymentIntent \<Rightarrow> PaymentCredential \<Rightarrow> int \<Rightarrow>
     (PaymentIntent \<times> SettlementProviderRequest) service" where
  "resume_submitted K C i credential now =
     svc_then (load_intent_challenge i) (\<lambda>ch.
     svc_then (svc_result (registry_get (co_protocols C) (pi_protocol i))) (\<lambda>adapter.
     svc_then (svc_result (pt_verify_credential adapter ch credential now)) (\<lambda>_.
     svc_then (svc_result (pt_credential_fingerprint adapter ch credential)) (\<lambda>fingerprint.
     svc_then (load_submission K C i) (\<lambda>(stored_fingerprint, p).
     if fingerprint \<noteq> stored_fingerprint
     then svc_result (Inl (PaymentConflict ''credential retry does not match the submitted payment proof''))
     else svc_result (Inr (i, provider_request p (pi_run_id i))))))))"

definition ensure_credential_replay ::
  "primitives \<Rightarrow> SettlementCoordinator \<Rightarrow> PaymentIntent \<Rightarrow> PaymentCredential \<Rightarrow> unit service" where
  "ensure_credential_replay K C i credential =
     svc_then (load_intent_challenge i) (\<lambda>ch.
     if cr_protocol credential \<noteq> pi_protocol i \<or> cr_challenge_hash credential \<noteq> pc_challenge_hash ch
     then svc_result (Inl (PaymentConflict ''credential retry is bound to another protocol or challenge''))
     else svc_then (svc_result (registry_get (co_protocols C) (pi_protocol i))) (\<lambda>adapter.
     svc_then (svc_result (pt_credential_fingerprint adapter ch credential)) (\<lambda>fingerprint.
     svc_then (load_submission K C i) (\<lambda>(stored_fingerprint, _).
     if fingerprint \<noteq> stored_fingerprint
     then svc_result (Inl (PaymentConflict ''credential retry does not match the submitted payment proof''))
     else svc_result (Inr ())))))"

definition record_verification ::
  "externals \<Rightarrow> primitives \<Rightarrow> SettlementCoordinator \<Rightarrow> settlement_ids \<Rightarrow> PaymentIntent \<Rightarrow> SettlementProviderResult \<Rightarrow>
     int \<Rightarrow> IncomingVerification service" where
  "record_verification X K C ids submitted r now =
     (if \<not> rs_valid r then
        svc_then (record_non_settlement C ids submitted Failed EvFailed
          (json_object [(''stage'', JString ''verify''),
            (''provider_evidence_hash'', JString (evidence_hash X K (provider_result_to_value r)))]) now) (\<lambda>failed.
        svc_result (Inr \<lparr>iv_intent = failed, iv_valid = False, iv_verification_ref = None\<rparr>))
      else let verification_ref = provider_verification_ref X K (pi_id submitted) r in
        svc_then (record_non_settlement C ids submitted PendingSettlement CredentialVerified
          (json_object [(''verification_ref'', JString verification_ref)]) now) (\<lambda>pending.
        svc_result (Inr \<lparr>iv_intent = pending, iv_valid = True, iv_verification_ref = Some verification_ref\<rparr>)))"

definition submit_or_resume ::
  "primitives \<Rightarrow> SettlementCoordinator \<Rightarrow> settlement_ids \<Rightarrow> PaymentIntent \<Rightarrow> PaymentCredential \<Rightarrow> int \<Rightarrow>
     (PaymentIntent \<times> SettlementProviderRequest) service" where
  "submit_or_resume K C ids i credential now =
     (case pi_status i of
        Created \<Rightarrow> submit_credential K C ids i credential now
      | Submitted \<Rightarrow> resume_submitted K C i credential now
      | status \<Rightarrow> svc_result (Inl (InvalidTransition
          (''cannot verify inbound payment in '' @ PaymentStatus_as_str status))))"

definition verify_payment ::
  "externals \<Rightarrow> primitives \<Rightarrow> SettlementCoordinator \<Rightarrow> settlement_ids \<Rightarrow> string \<Rightarrow> VerifyIncomingPayment \<Rightarrow> int \<Rightarrow>
     IncomingVerification service" where
  "verify_payment X K C ids who c now =
     svc_then (svc_result (validate_verify_command c)) (\<lambda>_.
     svc_then (db_read (\<lambda>s. scenario_authorize s who (vp_scenario_id c))) (\<lambda>_.
     svc_then (db_read (\<lambda>s. ok_or (get_for_challenge s (vp_scenario_id c) (vp_challenge_hash c))
       (NotFound ''payment challenge''))) (\<lambda>i.
     svc_then (svc_result (ensure_incoming_identity i (vp_run_id c) (vp_request_hash c))) (\<lambda>_.
     if pi_status i = Settled \<or> pi_status i = PendingSettlement
     then svc_then (ensure_credential_replay K C i (vp_credential c)) (\<lambda>_. load_verification i)
     else if pi_status i = Failed \<or> pi_status i = Expired
     then svc_result (Inr \<lparr>iv_intent = i, iv_valid = False, iv_verification_ref = None\<rparr>)
     else svc_then (submit_or_resume K C ids i (vp_credential c) now) (\<lambda>(submitted, request).
     svc_then (svc_result (provider_get (co_providers C) (pi_protocol submitted))) (\<lambda>provider.
     svc_then (provider_execute provider Verify (pi_id submitted) request) (\<lambda>r.
     record_verification X K C ids submitted r now)))))))"

section \<open>Recovering a requested settlement\<close>

definition settlement_requested_event :: "PaymentIntent \<Rightarrow> PaymentEvent option service" where
  "settlement_requested_event i = event_of i SettlementRequested"

definition authorization_result_of ::
  "PaymentIntent \<Rightarrow> EvmAuthorizationQuery \<Rightarrow> bool \<Rightarrow> bool \<Rightarrow> SettlementProviderResult" where
  "authorization_result_of i q valid settled =
     \<lparr>rs_valid = valid, rs_settled = settled, rs_payer = Some (eq_payer q), rs_transaction = None,
      rs_settlement_ref = None, rs_effect_ref = None, rs_invalid_reason = None, rs_asset = Some (pi_asset i),
      rs_amount = Some (pi_amount i), rs_recipient = Some (pi_recipient i), rs_confirmations = None,
      rs_extensions = []\<rparr>"

definition authorization_observation ::
  "PaymentIntent \<Rightarrow> EvmAuthorizationQuery \<Rightarrow> int \<Rightarrow> int \<Rightarrow> EvmAuthorizationObservation \<Rightarrow>
     ReconciliationProviderObservation" where
  "authorization_observation i q expiry observed_at ob =
     (let chain = ''evm-rpc:'' @ ai_network (pi_asset i);
          waiting = Observed chain 0 (authorization_result_of i q True False) None in
      case ob of
        EvmConfirmed t \<Rightarrow>
          Observed (ct_authority t) (ct_minimum_confirmations t)
            ((authorization_result_of i q True True)
               \<lparr>rs_transaction := Some (ct_transaction t), rs_effect_ref := Some (ct_effect_ref t),
                rs_confirmations := Some (ct_confirmations t)\<rparr>)
            (Some (ct_effective_at t))
      | EvmNoEffect _ chain_observed_at \<Rightarrow>
          if authorization_is_definitively_expired observed_at chain_observed_at expiry
          then ObExpired ''EIP-3009 authorization expired without an on-chain AuthorizationUsed effect''
          else waiting
      | EvmPending \<Rightarrow> waiting
      | EvmMismatch reason \<Rightarrow>
          Observed chain 0
            ((authorization_result_of i q False False)
               \<lparr>rs_invalid_reason := Some reason, rs_asset := None, rs_amount := None, rs_recipient := None\<rparr>) None)"

definition authorization_reconciliation_observation ::
  "SettlementCoordinator \<Rightarrow> PaymentIntent \<Rightarrow> ProtocolSettlement \<Rightarrow> PaymentEvent \<Rightarrow> int \<Rightarrow>
     ReconciliationProviderObservation result" where
  "authorization_reconciliation_observation C i p requested observed_at =
     and_then (settlement_request_from_block i requested) (\<lambda>checkpoint.
     and_then (ok_or checkpoint (Storage ''x402 settlement checkpoint is missing'')) (\<lambda>from_block.
     and_then (authorization_query (co_authorization_identity C) i p from_block) (\<lambda>(q, valid_before).
     and_then (co_lookup_authorization C q) (\<lambda>ob.
     Inr (authorization_observation i q (authorization_expiry_deadline i valid_before) observed_at ob)))))"

definition outbound_settlement ::
  "primitives \<Rightarrow> SettlementCoordinator \<Rightarrow> PaymentIntent \<Rightarrow> PaymentChallenge \<Rightarrow> PaymentEvent option \<Rightarrow>
     ProtocolSettlement result" where
  "outbound_settlement K C i ch e =
     and_then (ok_or e (Storage ''outbound reconciliation has no durable signed credential'')) (\<lambda>e.
     and_then (sealed_of_event ''sealed_credential'' (Storage ''signed event has no sealed credential'') e) (\<lambda>sealed.
     and_then (material_open K (co_protector C) (outbound_credential_context (pi_id i)) sealed) (\<lambda>plaintext.
     and_then (ok_or (Option.bind (k_from_slice K plaintext) credential_from_value) json_error) (\<lambda>credential.
     and_then (registry_get (co_protocols C) (pi_protocol i)) (\<lambda>adapter.
     and_then (pt_credential_fingerprint adapter ch credential) (\<lambda>fingerprint.
     if ev_signature_ref e \<noteq> Some fingerprint \<or> cr_credential_hash credential \<noteq> fingerprint
     then Inl (PaymentConflict ''durable outbound credential fingerprint is inconsistent'')
     else pt_settle_payment adapter ch credential))))))"

definition load_reconciliation_settlement ::
  "primitives \<Rightarrow> SettlementCoordinator \<Rightarrow> PaymentIntent \<Rightarrow> ProtocolSettlement service" where
  "load_reconciliation_settlement K C i =
     svc_then (event_of i EvSubmitted) (\<lambda>submitted.
     if submitted \<noteq> None then svc_then (load_submission K C i) (\<lambda>(_, p). svc_result (Inr p))
     else if pi_direction i \<noteq> Outbound
     then svc_result (Inl (Storage ''inbound reconciliation has no durable provider submission''))
     else svc_then (load_intent_challenge i) (\<lambda>ch.
     svc_then (event_of i EvSigned) (\<lambda>e. svc_result (outbound_settlement K C i ch e))))"

definition reconciliation_observation ::
  "primitives \<Rightarrow> SettlementCoordinator \<Rightarrow> PaymentIntent \<Rightarrow> int \<Rightarrow> ReconciliationProviderObservation service" where
  "reconciliation_observation K C i observed_at =
     svc_then (load_reconciliation_settlement K C i) (\<lambda>p.
     if uses_eip3009_recovery i then
       svc_then (settlement_requested_event i) (\<lambda>requested.
       case requested of
         None \<Rightarrow> svc_result (Inl (Storage ''inbound x402 reconciliation has no durable settlement operation''))
       | Some e \<Rightarrow> svc_result (authorization_reconciliation_observation C i p e observed_at))
     else
       svc_then (svc_result (provider_get (co_providers C) (pi_protocol i))) (\<lambda>b.
       svc_then (provider_execute b Verify (pi_id i) (provider_request p (pi_run_id i))) (\<lambda>r.
       svc_then (svc_result (confirmation_depth b (ai_network (pi_asset i)))) (\<lambda>depth.
       svc_result (Inr (Observed (sb_authority b) depth r None))))))"

definition apply_recovery ::
  "externals \<Rightarrow> primitives \<Rightarrow> SettlementCoordinator \<Rightarrow> settlement_ids \<Rightarrow> PaymentIntent \<Rightarrow> int \<Rightarrow>
     ReconciliationProviderObservation \<Rightarrow> SettledIncomingPayment service" where
  "apply_recovery X K C ids i now observation =
     (case observation of
        ObExpired reason \<Rightarrow>
          svc_then (record_non_settlement C ids i Expired EvFailed
            (json_object [(''stage'', JString ''settlement_recovery''), (''reason'', JString reason)]) now) (\<lambda>expired.
          svc_result (Inl (Settlement (''settlement authorization expired; intent '' @ pi_id expired @ '' is ''
            @ PaymentStatus_as_str (pi_status expired)))))
      | Observed authority minimum_confirmations r effective_at \<Rightarrow>
          if rs_valid r \<and> rs_settled r then
            svc_then (svc_result (validate_confirmed_for X r i minimum_confirmations)) (\<lambda>_.
            commit_confirmed X K ids i authority r now effective_at)
          else
            svc_then (if \<not> rs_valid r then
                svc_then (record_non_settlement C ids i Unknown Retried
                  (json_object [(''stage'', JString ''settlement_recovery''),
                    (''provider_evidence_hash'', JString (evidence_hash X K (provider_result_to_value r)))]) now)
                  (\<lambda>_. svc_result (Inr ()))
              else svc_result (Inr ())) (\<lambda>_.
            svc_result (Inl (Settlement
              ''durably requested settlement is awaiting trusted chain or provider evidence''))))"

definition recover_requested_settlement ::
  "externals \<Rightarrow> primitives \<Rightarrow> SettlementCoordinator \<Rightarrow> settlement_ids \<Rightarrow> PaymentIntent \<Rightarrow> int \<Rightarrow>
     SettledIncomingPayment service" where
  "recover_requested_settlement X K C ids i now =
     svc_then (reconciliation_observation K C i now) (apply_recovery X K C ids i now)"

section \<open>Settling\<close>

datatype SettlementRequestRecord = SrInserted PaymentIntent | SrReplay PaymentIntent

definition requested_intent :: "SettlementCoordinator \<Rightarrow> PaymentIntent \<Rightarrow> int \<Rightarrow> PaymentIntent" where
  "requested_intent C i now =
     i\<lparr>pi_updated_at := next_timestamp (pi_updated_at i) now,
       pi_next_reconcile_at := Some (saturating_add now (co_reconciliation_delay_seconds C))\<rparr>"

definition replay_requested :: "PaymentIntent \<Rightarrow> PaymentEvent \<Rightarrow> SettlementRequestRecord service" where
  "replay_requested i e =
     svc_then (svc_result (settlement_request_from_block i e)) (\<lambda>_.
     svc_then (db_read (\<lambda>s. ok_or (load_intent s (pi_id i)) (Storage ''settlement intent disappeared''))) (\<lambda>current.
     svc_result (Inr (SrReplay current))))"

definition write_requested ::
  "SettlementCoordinator \<Rightarrow> settlement_ids \<Rightarrow> PaymentIntent \<Rightarrow> u64 option \<Rightarrow> int \<Rightarrow> SettlementRequestRecord service" where
  "write_requested C ids i from_block now =
     (let requested = requested_intent C i now in
      svc_match (db_write (commit_progress requested (pi_updated_at i)
          [fresh_event (st_requested ids) i SettlementRequested (settlement_request_payload i from_block)
            (pi_updated_at requested)] []))
        (\<lambda>stored. svc_result (Inr (SrInserted stored)))
        (\<lambda>error. svc_then (settlement_requested_event i) (\<lambda>winner.
           case winner of None \<Rightarrow> svc_result (Inl error) | Some e \<Rightarrow> replay_requested i e)))"

definition checkpoint_block :: "SettlementCoordinator \<Rightarrow> PaymentIntent \<Rightarrow> u64 option result" where
  "checkpoint_block C i =
     (if uses_eip3009_recovery i
      then and_then (co_latest_block C (ai_network (pi_asset i))) (\<lambda>b. Inr (Some (if b = 0 then 0 else b - 1)))
      else Inr None)"

definition record_settlement_requested ::
  "SettlementCoordinator \<Rightarrow> settlement_ids \<Rightarrow> PaymentIntent \<Rightarrow> int \<Rightarrow> SettlementRequestRecord service" where
  "record_settlement_requested C ids i now =
     svc_then (settlement_requested_event i) (\<lambda>found.
     case found of
       Some e \<Rightarrow> replay_requested i e
     | None \<Rightarrow>
         svc_then (svc_result (checkpoint_block C i)) (\<lambda>from_block. write_requested C ids i from_block now))"

definition apply_settle_result ::
  "externals \<Rightarrow> primitives \<Rightarrow> SettlementCoordinator \<Rightarrow> settlement_ids \<Rightarrow> PaymentIntent \<Rightarrow> string \<Rightarrow> u64 \<Rightarrow>
     SettlementProviderResult \<Rightarrow> int \<Rightarrow> SettledIncomingPayment service" where
  "apply_settle_result X K C ids i authority minimum_confirmations r now =
     (let provider_evidence_hash = JString (evidence_hash X K (provider_result_to_value r)) in
      if \<not> rs_valid r \<or> \<not> rs_settled r \<or> (rs_transaction r = None \<and> rs_settlement_ref r = None) then
        let status = (if \<not> rs_valid r \<and> rs_invalid_reason r \<noteq> None then Failed else Unknown) in
        svc_then (record_non_settlement C ids i status (if status = Failed then EvFailed else Retried)
          (json_object [(''stage'', JString ''settle''), (''provider_evidence_hash'', provider_evidence_hash)]) now)
          (\<lambda>updated.
        svc_result (Inl (Settlement (''settlement is not confirmed; intent '' @ pi_id updated @ '' is ''
          @ PaymentStatus_as_str (pi_status updated)))))
      else case validate_confirmed_for X r i minimum_confirmations of
          Inl e \<Rightarrow>
            svc_then (record_non_settlement C ids i Unknown Retried
              (json_object [(''stage'', JString ''settle_evidence_validation''),
                (''provider_evidence_hash'', provider_evidence_hash)]) now) (\<lambda>_. svc_result (Inl e))
        | Inr _ \<Rightarrow> commit_confirmed X K ids i authority r now None)"

definition request_settlement ::
  "externals \<Rightarrow> primitives \<Rightarrow> SettlementCoordinator \<Rightarrow> settlement_ids \<Rightarrow> PaymentIntent \<Rightarrow> ProtocolSettlement \<Rightarrow> int \<Rightarrow>
     SettledIncomingPayment service" where
  "request_settlement X K C ids i p now =
     svc_then (svc_result (provider_get (co_providers C) (pi_protocol i))) (\<lambda>provider.
     svc_then (svc_result (confirmation_depth provider (ai_network (pi_asset i)))) (\<lambda>minimum_confirmations.
     svc_then (provider_execute provider Settle (pi_id i) (provider_request p (pi_run_id i))) (\<lambda>r.
     apply_settle_result X K C ids i (sb_authority provider) minimum_confirmations r now)))"

definition settled_answer :: "PaymentIntent \<Rightarrow> SettledIncomingPayment service" where
  "settled_answer i =
     svc_then (load_receipt i) (\<lambda>receipt. svc_result (Inr \<lparr>sd_intent = i, sd_receipt = receipt\<rparr>))"

definition settle_payment ::
  "externals \<Rightarrow> primitives \<Rightarrow> SettlementCoordinator \<Rightarrow> settlement_ids \<Rightarrow> string \<Rightarrow> SettleIncomingPayment \<Rightarrow> int \<Rightarrow>
     SettledIncomingPayment service" where
  "settle_payment X K C ids who c now =
     svc_then (svc_result (validate_settle_command c)) (\<lambda>_.
     svc_then (db_read (\<lambda>s. scenario_authorize s who (sp_scenario_id c))) (\<lambda>_.
     svc_then (db_read (\<lambda>s. ok_or (get_for_scenario s (sp_scenario_id c) (sp_intent_id c))
       (NotFound ''payment intent''))) (\<lambda>i.
     svc_then (svc_result (ensure_settlement_intent_binding i c)) (\<lambda>_.
     if pi_status i = Settled then settled_answer i
     else if pi_status i \<noteq> PendingSettlement
     then svc_result (Inl (InvalidTransition
       (''cannot settle inbound payment in '' @ PaymentStatus_as_str (pi_status i))))
     else svc_then (load_settlement_material K C i) (\<lambda>(stored_ref, p).
     if stored_ref \<noteq> sp_verification_ref c
     then svc_result (Inl (PaymentConflict ''verification reference does not match the verified credential''))
     else svc_then (record_settlement_requested C ids i now) (\<lambda>recorded.
     case recorded of
       SrInserted stored \<Rightarrow> request_settlement X K C ids stored p now
     | SrReplay current \<Rightarrow>
         if pi_status current = Settled then settled_answer current
         else recover_requested_settlement X K C ids current now))))))"

end
