(* ===== verification/Settle_Once.thy ===== *)
theory Settle_Once
  imports Settlement
begin

text \<open>
  What the settlement services guarantee while other workers run between their database accesses: they only
  take steps of the repositories, and a run asks the external provider to settle a payment only as the owner of
  the payment's one request event, which it wrote before the call; of all the runs of all the workers, at most
  one owns it.
\<close>

section \<open>Every service takes steps of the repositories\<close>

lemma one_step_transactions [service_intros]:
  "one_step X (record_challenge X i ch g es ms)"
  "one_step X (verify_incoming i c u es ms)"
  "one_step X (commit_progress i u es ms)"
  "one_step X (commit_settlement i u es ls ms)"
  unfolding one_step_def
  by (metis prod.collapse step_record_challenge step_verify_incoming step_commit_progress step_commit_settlement)+

lemma steps_only_option [service_intros]:
  "steps_only X n \<Longrightarrow> (\<And>a. steps_only X (f a)) \<Longrightarrow> steps_only X (case x of None \<Rightarrow> n | Some a \<Rightarrow> f a)"
  by (cases x) simp_all

lemma steps_only_pair [service_intros]: "(\<And>a b. steps_only X (f a b)) \<Longrightarrow> steps_only X (case x of (a, b) \<Rightarrow> f a b)"
  by (cases x) simp

lemmas load_defs = event_of_def latest_event_of_def load_intent_challenge_def load_submission_def load_verification_def
  load_settlement_material_def load_receipt_def settlement_requested_event_def settled_answer_def

lemma load_steps [service_intros]:
  "steps_only X (event_of i ty)" "steps_only X (latest_event_of i ty)" "steps_only X (load_intent_challenge i)"
  "steps_only X (load_submission K C i)" "steps_only X (load_verification i)"
  "steps_only X (load_settlement_material K C i)" "steps_only X (load_receipt i)"
  "steps_only X (settlement_requested_event i)" "steps_only X (settled_answer i)"
  by (auto simp: load_defs intro!: service_intros)

lemma record_non_settlement_steps [service_intros]:
  "steps_only X (record_non_settlement C ids i status ty payload now)"
  by (auto simp: record_non_settlement_def Let_def intro!: service_intros)

lemma commit_confirmed_steps [service_intros]:
  "steps_only X (commit_confirmed X K ids i authority r now effective)"
  by (auto simp: commit_confirmed_def Let_def intro!: service_intros split: error.split)

lemma observation_steps [service_intros]: "steps_only X (reconciliation_observation K C i observed_at)"
  by (auto simp: reconciliation_observation_def load_reconciliation_settlement_def intro!: service_intros)

lemma recovery_steps [service_intros]: "steps_only X (recover_requested_settlement X K C ids i now)"
  by (auto simp: recover_requested_settlement_def apply_recovery_def intro!: service_intros
      split: ReconciliationProviderObservation.split)

lemma record_requested_steps [service_intros]: "steps_only X (record_settlement_requested C ids i now)"
  by (auto simp: record_settlement_requested_def write_requested_def replay_requested_def Let_def intro!: service_intros)

lemma apply_settle_steps [service_intros]:
  "steps_only X (apply_settle_result X K C ids i authority n r now)"
  by (auto simp: apply_settle_result_def Let_def intro!: service_intros split: sum.split)

lemma request_settlement_steps [service_intros]: "steps_only X (request_settlement X K C ids i p now)"
  by (auto simp: request_settlement_def intro!: service_intros)

lemma settle_payment_steps [service_intros]: "steps_only X (settle_payment X K C ids who c now)"
  by (auto simp: settle_payment_def intro!: service_intros split: SettlementRequestRecord.split)

lemma verify_payment_steps [service_intros]: "steps_only X (verify_payment X K C ids who c now)"
  by (auto simp: verify_payment_def submit_or_resume_def submit_credential_def resume_submitted_def
      ensure_credential_replay_def record_verification_def Let_def intro!: service_intros split: PaymentStatus.split)

lemma issue_challenge_steps [service_intros]: "steps_only X (issue_challenge X C ids who c now)"
  by (auto simp: issue_challenge_def record_prepared_def prepare_inbound_challenge_def ensure_inbound_capacity_def
      intro!: service_intros split: IdempotentWrite.split)

section \<open>Only one service settles\<close>

definition settle_calls :: "string \<Rightarrow> provider_call list \<Rightarrow> nat" where
  "settle_calls i cs = length (filter (\<lambda>c. ca_operation c = Settle \<and> ca_intent_id c = i) cs)"

definition quiet :: "'a service \<Rightarrow> bool" where
  "quiet m \<longleftrightarrow> (\<forall>w i. settle_calls i (wd_calls (snd (m w))) = settle_calls i (wd_calls w))"

named_theorems quiet_intros \<open>services that never ask a provider to settle\<close>

lemma quiet_result [quiet_intros]: "quiet (svc_result r)"
  by (simp add: quiet_def svc_result_def)

lemma quiet_match [quiet_intros]:
  assumes "quiet m" "\<And>a. quiet (f a)" "\<And>e. quiet (g e)"
  shows "quiet (svc_match m f g)"
  unfolding quiet_def
proof (intro allI)
  fix w i
  obtain r v where m: "m w = (r, v)" by fastforce
  with assms(1) have "settle_calls i (wd_calls v) = settle_calls i (wd_calls w)"
    by (auto simp: quiet_def dest!: spec [of _ w])
  with assms(2,3) show "settle_calls i (wd_calls (snd (svc_match m f g w))) = settle_calls i (wd_calls w)"
    by (cases r) (auto simp: svc_match_def m quiet_def)
qed

lemma quiet_then [quiet_intros]: "quiet m \<Longrightarrow> (\<And>a. quiet (f a)) \<Longrightarrow> quiet (svc_then m f)"
  unfolding svc_then_def by (intro quiet_intros) auto

lemma quiet_accesses [quiet_intros]: "quiet (db_read q)" "quiet (db_write tx)"
  by (simp_all add: quiet_def db_read_def db_write_def Let_def split: prod.split)

lemma quiet_verify [quiet_intros]: "quiet (provider_execute b Verify i request)"
  by (simp add: quiet_def provider_execute_def settle_calls_def)

lemma quiet_if [quiet_intros]: "quiet m \<Longrightarrow> quiet n \<Longrightarrow> quiet (if c then m else n)"
  by simp

lemma quiet_option [quiet_intros]: "quiet n \<Longrightarrow> (\<And>a. quiet (f a)) \<Longrightarrow> quiet (case x of None \<Rightarrow> n | Some a \<Rightarrow> f a)"
  by (cases x) simp_all

lemma quiet_pair [quiet_intros]: "(\<And>a b. quiet (f a b)) \<Longrightarrow> quiet (case x of (a, b) \<Rightarrow> f a b)"
  by (cases x) simp

lemma quiet_loads [quiet_intros]:
  "quiet (event_of i ty)" "quiet (load_intent_challenge i)" "quiet (load_submission K C i)" "quiet (load_verification i)"
  "quiet (load_settlement_material K C i)" "quiet (load_receipt i)" "quiet (settlement_requested_event i)"
  "quiet (settled_answer i)"
  by (auto simp: load_defs intro!: quiet_intros)

lemma quiet_non_settlement [quiet_intros]: "quiet (record_non_settlement C ids i status ty payload now)"
  by (auto simp: record_non_settlement_def Let_def intro!: quiet_intros)

lemma quiet_confirmed [quiet_intros]: "quiet (commit_confirmed X K ids i authority r now effective)"
  by (auto simp: commit_confirmed_def Let_def intro!: quiet_intros split: error.split)

lemma quiet_observation [quiet_intros]: "quiet (reconciliation_observation K C i observed_at)"
  by (auto simp: reconciliation_observation_def load_reconciliation_settlement_def intro!: quiet_intros)

lemma quiet_recovery [quiet_intros]: "quiet (recover_requested_settlement X K C ids i now)"
  by (auto simp: recover_requested_settlement_def apply_recovery_def intro!: quiet_intros
      split: ReconciliationProviderObservation.split)

lemma quiet_record_requested [quiet_intros]: "quiet (record_settlement_requested C ids i now)"
  by (auto simp: record_settlement_requested_def write_requested_def replay_requested_def Let_def intro!: quiet_intros)

lemma quiet_apply_settle [quiet_intros]: "quiet (apply_settle_result X K C ids i authority n r now)"
  by (auto simp: apply_settle_result_def Let_def intro!: quiet_intros split: sum.split)

lemma quiet_verify_payment: "quiet (verify_payment X K C ids who c now)"
  by (auto simp: verify_payment_def submit_or_resume_def submit_credential_def resume_submitted_def
      ensure_credential_replay_def record_verification_def Let_def intro!: quiet_intros split: PaymentStatus.split)

lemma quiet_issue_challenge: "quiet (issue_challenge X C ids who c now)"
  by (auto simp: issue_challenge_def record_prepared_def prepare_inbound_challenge_def ensure_inbound_capacity_def
      intro!: quiet_intros split: IdempotentWrite.split)

section \<open>A settlement is requested once\<close>

text \<open>
  The journal holds the request that a run wrote, under the random identifier that the run drew. A run is
  its owner when it asks the provider only after that event is in the journal.
\<close>

definition request_event :: "db \<Rightarrow> string \<Rightarrow> string \<Rightarrow> bool" where
  "request_event s eid i \<longleftrightarrow> (\<exists>e \<in> set (pay_event s).
     ev_id e = eid \<and> ev_intent_id e = i \<and> ev_event_type e = SettlementRequested \<and> ev_attempt_no e = 0)"

definition settles_as_owner :: "string \<Rightarrow> world \<Rightarrow> world \<Rightarrow> bool" where
  "settles_as_owner eid w v \<longleftrightarrow> (\<forall>i. settle_calls i (wd_calls v) = settle_calls i (wd_calls w)
     \<or> settle_calls i (wd_calls v) = Suc (settle_calls i (wd_calls w)) \<and> request_event (wd_db v) eid i)"

definition owner :: "externals \<Rightarrow> string \<Rightarrow> 'a service \<Rightarrow> bool" where
  "owner X eid m \<longleftrightarrow>
     (\<forall>w. polite X w \<longrightarrow> reachable X (wd_db w) \<longrightarrow> settles_as_owner eid w (snd (m w)))"

lemma request_event_mono:
  assumes "(vault_step X)\<^sup>*\<^sup>* s t" "reachable X s" "request_event s eid i"
  shows "request_event t eid i"
  using set_mono_prefix [OF run_journals(1) [OF assms(2,1)]] assms(3) by (auto simp: request_event_def)

text \<open>Two requests for one payment are the same event.\<close>

lemma request_event_unique:
  assumes "reachable X s" "request_event s eid i" "request_event s fid i"
  shows "eid = fid"
proof -
  have "unique_rows pay_event_clash (pay_event s)"
    using reachable_inv [OF assms(1)] by (simp add: vault_inv_def journal_inv_def)
  note same = unique_rows_eq [OF this]
  from assms(2,3) obtain e f where "e \<in> set (pay_event s)" "f \<in> set (pay_event s)" "ev_id e = eid" "ev_id f = fid"
    "pay_event_clash e f" "pay_event_clash f e"
    by (auto simp: request_event_def pay_event_clash_def)
  with same [of e f] show ?thesis by simp
qed

lemma owner_quiet: "quiet m \<Longrightarrow> owner X eid m"
  by (simp add: owner_def settles_as_owner_def quiet_def)

lemma owner_then:
  assumes "quiet m" "steps_only X m" "\<And>a. owner X eid (f a)"
  shows "owner X eid (svc_then m f)"
  unfolding owner_def
proof (intro allI impI)
  fix w
  assume w: "polite X w" "reachable X (wd_db w)"
  obtain r v where m: "m w = (r, v)" by fastforce
  have calls: "settle_calls i (wd_calls v) = settle_calls i (wd_calls w)" for i
    using assms(1) [unfolded quiet_def, rule_format, of i w] by (simp add: m)
  have "settles_as_owner eid v (snd (f a v))" for a
    using steps_only_reachable(1,2) [OF assms(2) w m] assms(3) [of a] by (simp add: owner_def)
  then show "settles_as_owner eid w (snd (svc_then m f w))"
    by (cases r) (simp_all add: svc_then_def svc_match_def m svc_result_def settles_as_owner_def calls)
qed

section \<open>The settling service\<close>

lemma svc_then_assoc: "svc_then (svc_then m f) g = svc_then m (\<lambda>a. svc_then (f a) g)"
  by (rule ext) (simp add: svc_then_def svc_match_def svc_result_def split: prod.split sum.split)

lemma commit_request_recorded:
  assumes "commit_progress j u [fresh_event eid i SettlementRequested payload at] [] s = (Inr stored, t)"
  shows "stored = j" "request_event t eid (pi_id i)"
proof -
  let ?e = "fresh_event eid i SettlementRequested payload at"
  from assms obtain v where stored: "stored = j" and eff: "append_side_effects [?e] [] v = Inr t"
    by (cases rule: commit_progress_cases) auto
  then obtain x where ins: "insert_event ?e v = Inr (x, t)"
    by (auto simp: append_side_effects_def state_of_def result_simps)
  show "stored = j" by (rule stored)
  from ins have "?e \<in> set (pay_event t)" by (auto simp: insert_event_ok filter_eq_Cons_iff)
  then show "request_event t eid (pi_id i)" unfolding request_event_def by (rule bexI [rotated]) simp
qed

lemma replay_not_inserted: "replay_requested i e w \<noteq> (Inr (SrInserted stored), v)"
  by (simp add: replay_requested_def svc_then_def svc_match_def svc_result_def split: prod.split sum.split)

lemma write_requested_inserted:
  assumes "write_requested C ids i b now w = (Inr (SrInserted stored), v)"
  shows "request_event (wd_db v) (st_requested ids) (pi_id stored)"
proof -
  let ?e = "fresh_event (st_requested ids) i SettlementRequested (settlement_request_payload i b)
    (pi_updated_at (requested_intent C i now))"
  obtain r t where c: "commit_progress (requested_intent C i now) (pi_updated_at i) [?e] [] (wd_db (meanwhile w)) = (r, t)"
    by fastforce
  have r: "r = Inr stored" and v: "v = (meanwhile w)\<lparr>wd_db := t\<rparr>"
    using assms c
    by (auto simp: write_requested_def Let_def svc_match_def db_write_def svc_then_def svc_result_def
        replay_not_inserted settlement_requested_event_def event_of_def db_read_def
        split: sum.splits option.splits prod.splits)
  from commit_request_recorded [OF c [unfolded r]] show ?thesis by (simp add: v requested_intent_def)
qed

lemma request_settlement_owned:
  assumes "polite X w" "reachable X (wd_db w)" "request_event (wd_db w) eid (pi_id i)"
  shows "settles_as_owner eid w (snd (request_settlement X K C ids i p now w))"
proof -
  have "settles_as_owner eid w (snd (svc_then (provider_execute b Settle (pi_id i) q)
      (\<lambda>r. apply_settle_result X K C ids i (sb_authority b) n r now) w))" for b q n
  proof -
    let ?m = "\<lambda>r. apply_settle_result X K C ids i (sb_authority b) n r now"
    obtain r v where v: "provider_execute b Settle (pi_id i) q w = (r, v)" by fastforce
    have calls: "settle_calls j (wd_calls v) = settle_calls j (wd_calls w) + (if j = pi_id i then 1 else 0)"
      and same: "wd_db v = wd_db w" for j
      using v by (auto simp: provider_execute_def settle_calls_def)
    have pv: "polite X v" "reachable X (wd_db v)"
      using steps_only_reachable [OF steps_only_execute assms(1,2) v] by blast+
    show ?thesis
    proof (cases r)
      case (Inr a)
      obtain x u where u: "?m a v = (x, u)" by fastforce
      have "request_event (wd_db u) eid (pi_id i)"
        using request_event_mono [OF steps_only_reachable(4) [OF apply_settle_steps pv u]] pv assms(3) same by simp
      moreover have "settle_calls j (wd_calls u) = settle_calls j (wd_calls v)" for j
        using quiet_apply_settle [unfolded quiet_def, rule_format, of j X K C ids i "sb_authority b" n a now v]
        by (simp add: u)
      ultimately show ?thesis
        by (simp add: svc_then_def svc_match_def v Inr u settles_as_owner_def calls)
    qed (use assms(3) in \<open>simp add: svc_then_def svc_match_def v svc_result_def settles_as_owner_def calls same\<close>)
  qed
  then show ?thesis
    by (simp add: request_settlement_def svc_then_def svc_match_def svc_result_def settles_as_owner_def
        split: sum.split)
qed

definition after_record ::
  "externals \<Rightarrow> primitives \<Rightarrow> SettlementCoordinator \<Rightarrow> settlement_ids \<Rightarrow> ProtocolSettlement \<Rightarrow> int \<Rightarrow>
     SettlementRequestRecord \<Rightarrow> SettledIncomingPayment service" where
  "after_record X K C ids p now recorded =
     (case recorded of
        SrInserted stored \<Rightarrow> request_settlement X K C ids stored p now
      | SrReplay current \<Rightarrow>
          if pi_status current = Settled then settled_answer current
          else recover_requested_settlement X K C ids current now)"

lemma quiet_after_replay [quiet_intros]: "quiet (after_record X K C ids p now (SrReplay j))"
  by (auto simp: after_record_def intro!: quiet_intros)

lemma write_requested_owned:
  "owner X (st_requested ids) (svc_then (write_requested C ids i b now) (after_record X K C ids p now))"
  unfolding owner_def
proof (intro allI impI)
  fix w
  assume w: "polite X w" "reachable X (wd_db w)"
  have steps: "steps_only X (write_requested C ids i b now)" and quiet: "quiet (write_requested C ids i b now)"
    by (auto simp: write_requested_def replay_requested_def Let_def intro!: service_intros quiet_intros)
  obtain r v where v: "write_requested C ids i b now w = (r, v)" by fastforce
  note pv = steps_only_reachable [OF steps w v]
  have calls: "settle_calls j (wd_calls v) = settle_calls j (wd_calls w)" for j
    using quiet [unfolded quiet_def, rule_format, of j w] by (simp add: v)
  have "settles_as_owner (st_requested ids) v (snd (after_record X K C ids p now a v))" if "r = Inr a" for a
  proof (cases a)
    case (SrInserted j)
    then show ?thesis
      using request_settlement_owned [OF pv(2,1) write_requested_inserted [OF v [unfolded that SrInserted]]]
      by (simp add: after_record_def)
  next
    case (SrReplay j)
    then show ?thesis
      using owner_quiet [OF quiet_after_replay] pv(1,2) by (simp add: owner_def)
  qed
  then show "settles_as_owner (st_requested ids) w (snd (svc_then (write_requested C ids i b now)
      (after_record X K C ids p now) w))"
    by (cases r) (simp_all add: svc_then_def svc_match_def v svc_result_def settles_as_owner_def calls)
qed

lemma replay_requested_owned: "owner X eid (svc_then (replay_requested i e) (after_record X K C ids p now))"
proof -
  have "svc_then (replay_requested i e) (after_record X K C ids p now)
      = svc_then (svc_result (settlement_request_from_block i e)) (\<lambda>_.
        svc_then (db_read (\<lambda>s. ok_or (load_intent s (pi_id i)) (Storage ''settlement intent disappeared'')))
          (\<lambda>current. after_record X K C ids p now (SrReplay current)))"
    by (rule ext) (simp add: replay_requested_def svc_then_def svc_match_def svc_result_def split: prod.split sum.split)
  then show ?thesis by (auto intro!: owner_quiet quiet_intros)
qed

lemma record_requested_owned:
  "owner X (st_requested ids) (svc_then (record_settlement_requested C ids i now) (after_record X K C ids p now))"
proof -
  have "owner X (st_requested ids) (svc_then (case found of
        Some e \<Rightarrow> replay_requested i e
      | None \<Rightarrow> svc_then (svc_result (checkpoint_block C i)) (\<lambda>b. write_requested C ids i b now))
      (after_record X K C ids p now))" for found
    by (cases found)
      (auto simp: svc_then_assoc intro!: owner_then write_requested_owned replay_requested_owned quiet_intros service_intros)
  then show ?thesis
    unfolding record_settlement_requested_def svc_then_assoc
    by (rule owner_then [OF quiet_loads(7) load_steps(8)])
qed

lemma settle_payment_owner: "owner X (st_requested ids) (settle_payment X K C ids who c now)"
proof -
  have answers: "owner X (st_requested ids) (settled_answer i)" "owner X (st_requested ids) (svc_result r)"
    for i and r :: "SettledIncomingPayment result"
    by (intro owner_quiet quiet_intros)+
  show ?thesis
    unfolding settle_payment_def after_record_def [symmetric]
    by (intro owner_then quiet_intros service_intros)
      (auto intro!: owner_then [OF quiet_loads(5) load_steps(6)] record_requested_owned answers)
qed

text \<open>The other two services never settle.\<close>

lemma other_services_quiet:
  "quiet (verify_payment X K C ids who c now)" "quiet (issue_challenge X C ids who d now)"
  by (rule quiet_verify_payment, rule quiet_issue_challenge)

end
