(* ===== verification/Service_Logic.thy ===== *)
theory Service_Logic
  imports Service
begin

text \<open>
  A small logic of services. It follows a fact about the database from one access of a service to the next,
  through whatever other workers commit in between: such a fact must be stable under the repositories' writes.
\<close>

section \<open>Facts that other workers cannot undo\<close>

definition stable :: "externals \<Rightarrow> (db \<Rightarrow> bool) \<Rightarrow> bool" where
  "stable X P \<longleftrightarrow> (\<forall>s t. reachable X s \<longrightarrow> P s \<longrightarrow> (vault_step X)\<^sup>*\<^sup>* s t \<longrightarrow> P t)"

definition yields :: "externals \<Rightarrow> (db \<Rightarrow> bool) \<Rightarrow> 'a service \<Rightarrow> ('a \<Rightarrow> db \<Rightarrow> bool) \<Rightarrow> bool" where
  "yields X P m Q \<longleftrightarrow> (\<forall>w a v. polite X w \<longrightarrow> reachable X (wd_db w) \<longrightarrow> P (wd_db w) \<longrightarrow> m w = (Inr a, v) \<longrightarrow> Q a (wd_db v))"

lemma yieldsI:
  "(\<And>w a v. polite X w \<Longrightarrow> reachable X (wd_db w) \<Longrightarrow> P (wd_db w) \<Longrightarrow> m w = (Inr a, v) \<Longrightarrow> Q a (wd_db v)) \<Longrightarrow> yields X P m Q"
  unfolding yields_def by blast

lemma yieldsD:
  "yields X P m Q \<Longrightarrow> polite X w \<Longrightarrow> reachable X (wd_db w) \<Longrightarrow> P (wd_db w) \<Longrightarrow> m w = (Inr a, v) \<Longrightarrow> Q a (wd_db v)"
  unfolding yields_def by blast

lemma stable_true: "stable X (\<lambda>_. True)"
  by (simp add: stable_def)

lemma meanwhile_reachable:
  assumes "polite X w" "reachable X (wd_db w)"
  shows "(vault_step X)\<^sup>*\<^sup>* (wd_db w) (wd_db (meanwhile w))" "reachable X (wd_db (meanwhile w))"
  using meanwhile_evolves [OF assms(1)] reachable_trans [OF assms(2)] by (auto simp: world_evolves_def)

lemma svc_match_ok:
  "svc_match m f g w = (r, v) \<longleftrightarrow> (\<exists>a u. m w = (Inr a, u) \<and> f a u = (r, v)) \<or> (\<exists>e u. m w = (Inl e, u) \<and> g e u = (r, v))"
  by (auto simp: svc_match_def split: prod.splits sum.splits)

lemma db_write_ok:
  "db_write tx w = (r, v) \<longleftrightarrow> (\<exists>t. tx (wd_db (meanwhile w)) = (r, t) \<and> v = (meanwhile w)\<lparr>wd_db := t\<rparr>)"
  by (auto simp: db_write_def Let_def split: prod.splits)

lemma yields_match:
  assumes steps: "steps_only X m" and m: "yields X P m Q" and P: "stable X P"
    and f: "\<And>a. yields X (Q a) (f a) R" and g: "\<And>e. yields X P (g e) R"
  shows "yields X P (svc_match m f g) R"
proof (rule yieldsI)
  fix w b v
  assume w: "polite X w" "reachable X (wd_db w)" "P (wd_db w)" and run: "svc_match m f g w = (Inr b, v)"
  from run consider a u where "m w = (Inr a, u)" "f a u = (Inr b, v)" | e u where "m w = (Inl e, u)" "g e u = (Inr b, v)"
    unfolding svc_match_ok by blast
  then show "R b (wd_db v)"
  proof cases
    case 1
    note u = steps_only_reachable [OF steps w(1,2) 1(1)]
    show ?thesis using yieldsD [OF f u(2,1) yieldsD [OF m w 1(1)] 1(2)] .
  next
    case 2
    note u = steps_only_reachable [OF steps w(1,2) 2(1)]
    show ?thesis using yieldsD [OF g u(2,1) _ 2(2)] P u(4) w(2,3) unfolding stable_def by blast
  qed
qed

lemma yields_fail: "yields X P (svc_result (Inl e)) Q"
  by (simp add: yields_def svc_result_def)

lemma yields_then:
  assumes "steps_only X m" "yields X P m Q" "\<And>a. yields X (Q a) (f a) R"
  shows "yields X P (svc_then m f) R"
proof (rule yieldsI)
  fix w b v
  assume w: "polite X w" "reachable X (wd_db w)" "P (wd_db w)" and "svc_then m f w = (Inr b, v)"
  then obtain a u where u: "m w = (Inr a, u)" "f a u = (Inr b, v)"
    by (auto simp: svc_then_def svc_match_ok svc_result_def)
  from yieldsD [OF assms(3) steps_only_reachable(2,1) [OF assms(1) w(1,2) u(1)] yieldsD [OF assms(2) w u(1)] u(2)]
  show "R b (wd_db v)" .
qed

lemma yields_after:
  assumes "steps_only X m" "stable X P" "\<And>a. yields X P (f a) R"
  shows "yields X P (svc_then m f) R"
proof (rule yields_then [OF assms(1) _ assms(3)])
  show "yields X P m (\<lambda>_. P)"
  proof (rule yieldsI)
    fix w a v
    assume w: "polite X w" "reachable X (wd_db w)" "P (wd_db w)" and m: "m w = (Inr a, v)"
    from steps_only_reachable(4) [OF assms(1) w(1,2) m] show "P (wd_db v)"
      using assms(2) w(2,3) unfolding stable_def by blast
  qed
qed

lemma yields_ok: "(\<And>s. reachable X s \<Longrightarrow> P s \<Longrightarrow> Q a s) \<Longrightarrow> yields X P (svc_result (Inr a)) Q"
  by (auto simp: yields_def svc_result_def)

lemma yields_read:
  "(\<And>s a. reachable X s \<Longrightarrow> q s = Inr a \<Longrightarrow> Q a s) \<Longrightarrow> yields X P (db_read q) Q"
  by (auto simp: yields_def db_read_def Let_def meanwhile_reachable)

lemma yields_write:
  "(\<And>s a t. reachable X s \<Longrightarrow> tx s = (Inr a, t) \<Longrightarrow> Q a t) \<Longrightarrow> yields X P (db_write tx) Q"
  by (auto simp: yields_def db_write_def Let_def split: prod.splits) (metis meanwhile_reachable(2))

lemma yields_if: "(c \<Longrightarrow> yields X P m Q) \<Longrightarrow> (\<not> c \<Longrightarrow> yields X P n Q) \<Longrightarrow> yields X P (if c then m else n) Q"
  by simp

lemma yields_weaken: "yields X (\<lambda>_. True) m Q \<Longrightarrow> yields X P m Q"
  by (simp add: yields_def)

end
