(* ===== verification/Settle_Answer.thy ===== *)
theory Settle_Answer
  imports Settle_Once Service_Logic
begin

text \<open>
  What the settlement service tells its caller: \<^verbatim>\<open>settle_payment\<close> reports a settlement only when the payment is
  settled in the database, whichever worker committed it.
\<close>

section \<open>A payment that was read or written\<close>

definition seen :: "string \<Rightarrow> PaymentIntent \<Rightarrow> db \<Rightarrow> bool" where
  "seen k i s \<longleftrightarrow> pi_id i = k \<and> (\<exists>j. load_intent s k = Some j \<and> evolves i j)"

definition answered :: "string \<Rightarrow> SettledIncomingPayment \<Rightarrow> db \<Rightarrow> bool" where
  "answered k d s \<longleftrightarrow> pi_status (sd_intent d) = Settled \<and> seen k (sd_intent d) s"

lemma stable_seen: "stable X (seen k i)"
proof -
  have "seen k i t" if "reachable X s" "seen k i s" "(vault_step X)\<^sup>*\<^sup>* s t" for s t
  proof -
    from that(2) obtain j where j: "pi_id i = k" "load_intent s k = Some j" "evolves i j" by (auto simp: seen_def)
    from run_intent [OF that(1,3) j(2)] obtain l where "load_intent t k = Some l" "evolves j l" .
    with j show ?thesis by (auto simp: seen_def intro: evolves_trans)
  qed
  then show ?thesis by (simp add: stable_def)
qed

lemma load_seen: "load_intent s k = Some i \<Longrightarrow> seen k i s"
  by (auto simp: seen_def evolves_refl dest: load_intent_id)

lemma settled_answer_yields:
  "pi_status i = Settled \<Longrightarrow> yields X (seen k i) (settled_answer i) (answered k)"
  unfolding settled_answer_def
  by (intro yields_after stable_seen load_steps yields_ok) (simp add: answered_def)

lemma settlement_stored:
  assumes "commit_settlement i u es ls ms s = (Inr stored, t)"
  shows "stored = i" "load_intent t (pi_id i) = Some i"
  using assms
proof (atomize (full), cases rule: commit_settlement_cases)
  case (committed old l v)
  obtain es os where "t = v\<lparr>pay_event := es, pay_outbox := os\<rparr>"
    using append_side_effects_frame [OF committed(6)] by blast
  then show "stored = i \<and> load_intent t (pi_id i) = Some i"
    using load_intent_update(1) [OF committed(5)] committed(1) by (simp add: load_intent_def)
qed simp

lemma confirmed_stored:
  assumes "commit_settlement (confirmed_intent i r at effective) u es ls ms s = (Inr j, t)"
  shows "pi_status j = Settled \<and> seen (pi_id i) j t"
proof -
  have "pi_id (confirmed_intent i r at effective) = pi_id i" "pi_status (confirmed_intent i r at effective) = Settled"
    by (simp_all add: confirmed_intent_def)
  then show ?thesis using settlement_stored [OF assms] by (metis load_seen)
qed

lemma winner_yields:
  "yields X P (svc_then (db_read (\<lambda>s. ok_or (load_intent s k) e)) (\<lambda>current.
     if \<not> is_concurrent_settlement_winner i current then svc_result (Inl e')
     else svc_then (load_receipt current) (\<lambda>receipt.
       svc_result (Inr \<lparr>sd_intent = current, sd_receipt = receipt\<rparr>)))) (answered k)"
  by (intro yields_then [where Q = "seen k"] service_intros yields_read yields_if yields_fail yields_after stable_seen
      yields_ok)
    (auto simp: ok_or_def answered_def is_concurrent_settlement_winner_def intro: load_seen split: option.splits)

lemma commit_confirmed_yields:
  "yields X (\<lambda>_. True) (commit_confirmed X K ids i authority r now effective) (answered (pi_id i))"
  unfolding commit_confirmed_def Let_def
  by (intro yields_after yields_match [where Q = "\<lambda>j s. pi_status j = Settled \<and> seen (pi_id i) j s"] service_intros
      stable_true yields_write yields_ok confirmed_stored, assumption)
    (auto simp: answered_def winner_yields yields_fail split: error.split)

section \<open>Settling answers only for settled payments\<close>

lemmas yields_intros = yields_after stable_true service_intros yields_fail commit_confirmed_yields

lemma recovery_yields:
  "yields X (\<lambda>_. True) (recover_requested_settlement X K C ids i now) (answered (pi_id i))"
proof -
  have "yields X (\<lambda>_. True) (apply_recovery X K C ids i now ob) (answered (pi_id i))" for ob
    by (cases ob) (auto simp: apply_recovery_def intro!: yields_intros)
  then show ?thesis unfolding recover_requested_settlement_def by (intro yields_intros)
qed

lemma request_yields: "yields X (\<lambda>_. True) (request_settlement X K C ids i p now) (answered (pi_id i))"
proof -
  have "yields X (\<lambda>_. True) (apply_settle_result X K C ids i authority n r now) (answered (pi_id i))" for authority n r
    by (auto simp: apply_settle_result_def Let_def intro!: yields_intros split: sum.split)
  then show ?thesis unfolding request_settlement_def by (intro yields_intros)
qed

definition recorded :: "string \<Rightarrow> SettlementRequestRecord \<Rightarrow> db \<Rightarrow> bool" where
  "recorded k r s = (case r of SrInserted j \<Rightarrow> pi_id j = k | SrReplay j \<Rightarrow> seen k j s)"

lemma replay_requested_yields: "yields X (\<lambda>_. True) (replay_requested i e) (recorded (pi_id i))"
  unfolding replay_requested_def
  by (intro yields_after yields_then [where Q = "seen (pi_id i)"] service_intros stable_true yields_read yields_ok)
    (auto simp: recorded_def ok_or_def intro: load_seen split: option.splits)

lemma record_requested_yields:
  "yields X (\<lambda>_. True) (record_settlement_requested C ids i now) (recorded (pi_id i))"
proof -
  have "commit_progress (requested_intent C i now) u es ms s = (Inr j, t) \<Longrightarrow> pi_id j = pi_id i" for u es ms s j t
    by (cases rule: commit_progress_cases) (auto simp: requested_intent_def)
  then have "yields X (\<lambda>_. True) (write_requested C ids i b now) (recorded (pi_id i))" for b
    unfolding write_requested_def Let_def
    by (intro yields_match [where Q = "\<lambda>j _. pi_id j = pi_id i"] service_intros stable_true yields_write yields_ok yields_after)
      (auto simp: recorded_def intro!: replay_requested_yields yields_fail service_intros split: option.split)
  then show ?thesis
    unfolding record_settlement_requested_def
    by (auto intro!: yields_intros replay_requested_yields split: option.split)
qed

lemma settle_payment_yields:
  "yields X (\<lambda>_. True) (settle_payment X K C ids who c now) (answered (sp_intent_id c))"
proof -
  let ?k = "sp_intent_id c"
  have after: "yields X (recorded ?k r) (case r of SrInserted j \<Rightarrow> request_settlement X K C ids j p now
      | SrReplay j \<Rightarrow> if pi_status j = Settled then settled_answer j else recover_requested_settlement X K C ids j now)
      (answered ?k)" for r p
  proof (cases r)
    case (SrInserted j)
    then show ?thesis using request_yields [of X K C ids j p now] by (auto simp: yields_def recorded_def)
  next
    case (SrReplay j)
    then show ?thesis
      using recovery_yields [of X K C ids j now] settled_answer_yields [of j X ?k]
      by (auto simp: yields_def recorded_def seen_def)
  qed
  have read: "seen ?k i s" if "reachable X s" "ok_or (get_for_scenario s (sp_scenario_id c) ?k) e = Inr i" for s i e
  proof -
    from that(2) obtain r where "r \<in> set (pay_intent s)" "i = ir_intent r" "pi_id i = ?k"
      by (auto simp: ok_or_def get_for_scenario_def split: option.splits dest!: find_Some_in)
    then show ?thesis using reachable_intent(1) [OF that(1)] by (metis load_seen)
  qed
  have settle: "yields X (seen ?k i) (svc_then (load_settlement_material K C i) (\<lambda>(ref, p).
      if ref \<noteq> sp_verification_ref c then svc_result (Inl e)
      else svc_then (record_settlement_requested C ids i now) (\<lambda>r. case r of
          SrInserted j \<Rightarrow> request_settlement X K C ids j p now
        | SrReplay j \<Rightarrow> if pi_status j = Settled then settled_answer j else recover_requested_settlement X K C ids j now)))
      (answered ?k)" for i e
  proof (rule yields_after [OF load_steps(6) stable_seen], clarsimp simp: yields_fail)
    fix p
    have "yields X (seen ?k i) (record_settlement_requested C ids i now) (recorded ?k)"
      using record_requested_yields [of X C ids i now] by (auto simp: yields_def seen_def)
    from yields_then [OF record_requested_steps this after]
    show "yields X (seen ?k i) (svc_then (record_settlement_requested C ids i now) (\<lambda>r. case r of
          SrInserted j \<Rightarrow> request_settlement X K C ids j p now
        | SrReplay j \<Rightarrow> if pi_status j = Settled then settled_answer j else recover_requested_settlement X K C ids j now))
      (answered ?k)" .
  qed
  show ?thesis
    unfolding settle_payment_def
    apply (rule yields_after [OF steps_only_result stable_true])
    apply (rule yields_after [OF steps_only_read stable_true])
    apply (rule yields_then [OF steps_only_read yields_read [where Q = "seen ?k"]])
    apply (erule (1) read)
    by (auto intro!: yields_after [OF steps_only_result stable_seen] yields_fail settled_answer_yields settle)
qed

end
