(* ===== verification/Demo_Services.thy ===== *)
theory Demo_Services
  imports Demo Approval_Workflow Authorizer_Commit Settle_Answer
begin

text \<open>
  Concrete runs of the services, on the database of the earlier runs: an authorization, an approval decision
  and its replay, and a payee settlement from its challenge to the ledger. The primitives are small functions
  that have the documented laws.
\<close>

section \<open>Primitives\<close>

text \<open>
  The cipher writes the associated data before the message, behind its length in unary, so that no other
  associated data opens it. Tokens exist for one set of claims. JSON text is read for one document.
\<close>

definition demo_frame :: "string \<Rightarrow> string" where
  "demo_frame ad = replicate (length ad) (CHR ''1'') @ CHR ''0'' # ad"

definition demo_header :: jwt_header where
  "demo_header = \<lparr>jh_alg = ''HS256'', jh_typ = Some ''JWT'', jh_kid = Some ''k''\<rparr>"

definition demo_document :: json where
  "demo_document = JObject [(''protocol'', JString ''x''), (''payment_payload'', JNull), (''payment_requirements'', JNull)]"

definition demo_K :: primitives where
  "demo_K = \<lparr>k_to_vec = (\<lambda>v. if v = demo_document then ''d'' else ''v''),
     k_from_slice = (\<lambda>b. if b = ''d'' then Some demo_document else None),
     k_b64 = (\<lambda>v. v), k_unb64 = Some, k_uuid_v4 = (\<lambda>v. v = replicate 16 (CHR ''n'')),
     k_encrypt = (\<lambda>key n ad m. Some (demo_frame ad @ m)),
     k_decrypt = (\<lambda>key n ad c. strip_prefix (demo_frame ad) c),
     k_jwt_encode = (\<lambda>h c key. if h = demo_header \<and> c = claims_to_value demo_claims then Some ''t'' else None),
     k_jwt_header = (\<lambda>t. if t = ''t'' then Some demo_header else None),
     k_jwt_decode = (\<lambda>t key aud iss. if t = ''t'' then Some (claims_to_value demo_claims) else None),
     k_debug = (\<lambda>v. v)\<rparr>"

lemma demo_frame_unique: "demo_frame a @ m = demo_frame b @ n \<Longrightarrow> a = b"
proof -
  assume eq: "demo_frame a @ m = demo_frame b @ n"
  have "takeWhile (\<lambda>c. c = CHR ''1'') (demo_frame x @ y) = replicate (length x) (CHR ''1'')" for x y
    by (simp add: demo_frame_def takeWhile_append)
  then have "length a = length b" by (metis eq length_replicate)
  with eq show "a = b" by (simp add: demo_frame_def)
qed

lemma demo_laws: "base64_inverts demo_K" "aead_decrypts demo_K" "aead_authenticates demo_K" "jwt_decodes demo_K"
proof -
  show "base64_inverts demo_K" by (simp add: base64_inverts_def demo_K_def)
  show "aead_decrypts demo_K" by (simp add: aead_decrypts_def demo_K_def strip_prefix_def)
  have "strip_prefix (demo_frame ad') (demo_frame ad @ m) = None" if "ad' \<noteq> ad" for ad ad' m
  proof (rule ccontr)
    assume "strip_prefix (demo_frame ad') (demo_frame ad @ m) \<noteq> None"
    then have "take (length (demo_frame ad')) (demo_frame ad @ m) = demo_frame ad'"
      by (simp add: strip_prefix_def split: if_splits)
    then have "demo_frame ad @ m = demo_frame ad' @ drop (length (demo_frame ad')) (demo_frame ad @ m)"
      by (metis append_take_drop_id)
    with that show False using demo_frame_unique by metis
  qed
  then show "aead_authenticates demo_K" by (auto simp: aead_authenticates_def demo_K_def)
  show "jwt_decodes demo_K" by (auto simp: jwt_decodes_def demo_K_def ascii_def)
qed

definition demo_protector :: Aes256GcmMaterialProtector where
  "demo_protector = \<lparr>mp_active_key_id = ''k'', mp_keys = [(''k'', replicate 32 (CHR ''s''))]\<rparr>"

definition demo_nonce :: string where
  "demo_nonce = replicate 16 (CHR ''n'')"

section \<open>A decided approval\<close>

definition demo_T :: JwtApprovalGrantTokenService where
  "demo_T = \<lparr>gt_issuer = ''v'', gt_audience = ''p'', gt_active_key_id = ''k'',
     gt_signing_keys = [(''k'', replicate 32 (CHR ''z''))], gt_material_protector = demo_protector\<rparr>"

definition demo_approver :: PaymentScenarioApprover where
  "demo_approver = \<lparr>sa_scenario_id = ''s'', sa_auth_principal = ''b'', sa_enabled = True, sa_created_at = 1,
     sa_updated_at = 1\<rparr>"

definition demo_staffed :: db where
  "demo_staffed = demo_pending\<lparr>pay_scenario_approver := [demo_approver]\<rparr>"

definition demo_decision_request :: SubmitApprovalDecision where
  "demo_decision_request = \<lparr>sd_approval_id = ''a'', sd_intent_id = ''j'', sd_decision = Approve,
     sd_approved_amount = Some 45, sd_reason = None\<rparr>"

definition demo_decision_ids :: decision_ids where
  "demo_decision_ids = \<lparr>di_jti = ''j'', di_nonce = demo_nonce, di_event = ''8'', di_message = ''9''\<rparr>"

definition demo_decided :: "ApprovalRequest result \<times> db" where
  "demo_decided = submit_decision demo_X demo_K demo_T 590 demo_decision_ids ''b'' demo_decision_request 210 demo_staffed"

lemma demo_staff: "approver_upsert demo_approver demo_pending = Inr (demo_approver, demo_staffed)"
  by code_simp

lemma demo_decided_ok: "is_ok (fst demo_decided)"
  by code_simp

section \<open>An authorized payment\<close>

definition demo_adapter :: PaymentProtocol where
  "demo_adapter = \<lparr>pt_name = ''x'', pt_decode_http_challenge = (\<lambda>_ _ _. Inr None),
     pt_merchant_evidence_header = ''e'', pt_decode_merchant_evidence = (\<lambda>_. Inl Forbidden),
     pt_credential_payer = (\<lambda>_ _. Inr ''B''), pt_validate_payment = (\<lambda>_ _. Inr ()),
     pt_prepare_signing = (\<lambda>_ _ _. Inl Forbidden), pt_complete_signing = (\<lambda>_ _ _. Inl Forbidden),
     pt_build_challenge = (\<lambda>price recipient now. Inr \<lparr>pc_scenario_id = pr_scenario_id price,
       pc_price_id = Some (pr_id price), pc_resource = pr_resource price, pc_protocol = ''x'',
       pc_asset = pr_asset price, pc_amount = pr_amount price, pc_recipient = recipient, pc_nonce = ''n'',
       pc_challenge_hash = ''h'', pc_expires_at = now + 900, pc_payload = JNull\<rparr>),
     pt_verify_credential = (\<lambda>_ _ _. Inr \<lparr>pv_payer = None, pv_requires_external_settlement = True\<rparr>),
     pt_credential_fingerprint = (\<lambda>_ _. Inr ''f''),
     pt_settle_payment = (\<lambda>_ _. Inr \<lparr>ps_protocol = ''x'', ps_payment_payload = JNull, ps_payment_requirements = JNull\<rparr>)\<rparr>"

definition demo_registry :: ProtocolRegistry where
  "demo_registry = \<lparr>rg_adapters = [(''x'', demo_adapter)], rg_priority = [''x'']\<rparr>"

definition demo_authorizer :: PaymentAuthorizer where
  "demo_authorizer = \<lparr>pa_protocols = demo_registry, pa_approval_ttl_seconds = 600,
     pa_wallet_selection_strategy = LeastSpent\<rparr>"

definition demo_command :: AuthorizePayment where
  "demo_command = \<lparr>ap_scenario_id = ''s'', ap_run_id = ''r'', ap_challenge = demo_challenge\<rparr>"

definition demo_authorization_ids :: authorization_ids where
  "demo_authorization_ids = \<lparr>ids_intent = ''i'', ids_received = ''1'', ids_decided = ''2'', ids_approval = ''3'',
     ids_message = ''4''\<rparr>"

definition demo_plan :: "authorization_plan result" where
  "demo_plan = authorization_plan demo_X demo_K demo_authorizer ''i'' ''u'' demo_command 100 demo_catalog"

definition reserving_wallet :: "authorization_plan result \<Rightarrow> string option" where
  "reserving_wallet r = (case r of Inr (WritePayment _ sel _ Reserve) \<Rightarrow> Some (pwc_wallet_id sel) | _ \<Rightarrow> None)"

lemma demo_plan_reserves: "reserving_wallet demo_plan = Some ''w''"
  by code_simp

section \<open>A settled payee payment\<close>

definition demo_policy_in :: PaymentPolicy where
  "demo_policy_in = demo_policy\<lparr>pp_inbound_limits := Some demo_limits, pp_allowed_recipients := [''A'', ''B'']\<rparr>"

definition demo_price :: PaymentPrice where
  "demo_price = \<lparr>pr_id = ''z'', pr_scenario_id = ''s'', pr_policy_id = ''p'', pr_resource = ''v'',
     pr_protocols = [''x''], pr_asset = demo_asset, pr_amount = 30, pr_wallet_id = ''w'', pr_enabled = True,
     pr_created_at = 1, pr_updated_at = 1\<rparr>"

definition demo_shop0 :: db where
  "demo_shop0 = demo_wallets\<lparr>pay_scenario := [demo_scenario],
     pay_policy := [demo_policy_in\<lparr>pp_wallet_ids := []\<rparr>],
     pay_policy_wallet := [\<lparr>pm_policy_id = ''p'', pm_wallet_id = ''w'', pm_created_at = 1\<rparr>]\<rparr>"

definition demo_shop :: db where
  "demo_shop = demo_shop0\<lparr>pay_price := [demo_price]\<rparr>"

lemma demo_register_in:
  "register_with_policy demo_scenario demo_policy_in demo_wallets
     = (Inr (Inserted \<lparr>cfg_scenario = demo_scenario, cfg_policy = demo_policy_in\<rparr>), demo_shop0)"
  by code_simp

lemma demo_price_insert: "price_insert demo_price demo_shop0 = (Inr demo_price, demo_shop)"
  by code_simp

lemma demo_reachable_shop: "reachable demo_X demo_shop"
  unfolding reachable_def
  by (meson converse_rtranclp_into_rtranclp rtranclp.rtrancl_refl step_client_insert step_create_local
      step_scenario_policy step_price_insert demo_client_insert demo_create_local demo_register_in demo_price_insert)

definition demo_provider :: SettlementProviderBinding where
  "demo_provider = \<lparr>sb_authority = ''q'', sb_confirmation_depths = [(''solana:1'', 1)],
     sb_execute = (\<lambda>operation _. Inr \<lparr>rs_valid = True, rs_settled = (operation = Settle), rs_payer = Some ''B'',
       rs_transaction = None, rs_settlement_ref = Some ''y'', rs_effect_ref = None, rs_invalid_reason = None,
       rs_asset = Some demo_asset, rs_amount = Some 30, rs_recipient = Some ''A'', rs_confirmations = Some 1,
       rs_extensions = []\<rparr>)\<rparr>"

definition demo_coordinator :: SettlementCoordinator where
  "demo_coordinator = \<lparr>co_protocols = demo_registry, co_providers = [(''x'', demo_provider)],
     co_protector = demo_protector, co_authorization_identity = (\<lambda>_. Inl Forbidden),
     co_latest_block = (\<lambda>_. Inl Forbidden), co_lookup_authorization = (\<lambda>_. Inl Forbidden),
     co_reconciliation_delay_seconds = 30\<rparr>"

definition demo_settlement_ids :: "string \<Rightarrow> settlement_ids" where
  "demo_settlement_ids t = \<lparr>st_intent = ''i'', st_created = t @ ''1'', st_nonce = demo_nonce, st_submitted = t @ ''2'',
     st_outcome = t @ ''3'', st_requested = t @ ''4'', st_settled = t @ ''5'', st_ledger = t @ ''6'', st_message = t @ ''7''\<rparr>"

definition demo_issue :: IssuePaymentChallenge where
  "demo_issue = \<lparr>ic_scenario_id = ''s'', ic_run_id = ''r'', ic_price_id = ''z'', ic_resource = ''v'',
     ic_origin = ''o'', ic_protocol = ''x'', ic_request_hash = ''g''\<rparr>"

definition demo_inbound :: PaymentIntent where
  "demo_inbound = \<lparr>pi_id = ''i'', pi_scenario_id = ''s'', pi_run_id = ''r'', pi_wallet_id = Some ''w'',
     pi_policy_id = Some ''p'', pi_price_id = Some ''z'', pi_direction = Inbound, pi_protocol = ''x'',
     pi_asset = demo_asset, pi_recipient = ''A'', pi_amount = 30, pi_settled_amount = 0, pi_resource = ''v'',
     pi_challenge_hash = Some ''h'', pi_request_hash = ''g'', pi_status = Created, pi_reservation_status = Reserved,
     pi_reserved_amount = 30, pi_tx_hash = None, pi_settlement_ref = None, pi_next_reconcile_at = None,
     pi_created_at = 100, pi_updated_at = 100, pi_expires_at = Some 1000, pi_settled_at = None\<rparr>"

definition demo_issued_event :: PaymentEvent where
  "demo_issued_event = fresh_event ''a1'' demo_inbound ChallengeCreated (json_object [(''challenge'',
     challenge_to_value (demo_challenge\<lparr>pc_price_id := Some ''z'', pc_recipient := ''A''\<rparr>))]) 100"

definition demo_issued :: db where
  "demo_issued = demo_shop\<lparr>pay_intent := [demo_row demo_inbound], pay_event := [demo_issued_event]\<rparr>"

definition demo_world :: "db \<Rightarrow> provider_call list \<Rightarrow> world" where
  "demo_world s cs = \<lparr>wd_db = s, wd_others = [], wd_calls = cs\<rparr>"

definition demo_pending_in :: PaymentIntent where
  "demo_pending_in = demo_inbound\<lparr>pi_status := PendingSettlement, pi_next_reconcile_at := Some 140, pi_updated_at := 111\<rparr>"

definition demo_sealed_in :: SealedSensitiveMaterial where
  "demo_sealed_in = \<lparr>sm_version = 2, sm_key_id = ''k'', sm_nonce = demo_nonce,
     sm_ciphertext = demo_frame (material_aad ''payment-intent:i:x'' ''k'') @ ''d''\<rparr>"

definition demo_ref :: string where
  "demo_ref = ''6167656e747661756c742e736574746c656d656e742d65766964656e63652e76''"

definition demo_challenge_guard :: ChallengeIssuanceGuard where
  "demo_challenge_guard = \<lparr>cg_principal = ''u'', cg_client = demo_client, cg_scenario = demo_scenario,
     cg_price = demo_price, cg_policy = demo_policy_in,
     cg_wallet = demo_wallet_row\<lparr>pw_active_key_version := Some 1\<rparr>, cg_origin = ''o'', cg_day_started_at = 0,
     cg_evaluated_at = 100\<rparr>"

lemma demo_record_challenge:
  "record_challenge demo_X demo_inbound (demo_challenge\<lparr>pc_price_id := Some ''z'', pc_recipient := ''A''\<rparr>)
     demo_challenge_guard [demo_issued_event] [] demo_shop = (Inr (Inserted demo_inbound), demo_issued)"
  by code_simp

definition demo_submitted_in :: PaymentIntent where
  "demo_submitted_in = demo_inbound\<lparr>pi_status := Submitted, pi_next_reconcile_at := Some 140, pi_updated_at := 110\<rparr>"

definition demo_submitted_event :: PaymentEvent where
  "demo_submitted_event = fresh_event ''b2'' demo_inbound EvSubmitted (json_object
     [(''credential_fingerprint'', JString ''f''), (''sealed_settlement'', sealed_to_value demo_sealed_in)]) 110"

definition demo_verified_event :: PaymentEvent where
  "demo_verified_event = fresh_event ''b3'' demo_inbound CredentialVerified
     (json_object [(''verification_ref'', JString demo_ref)]) 111"

definition demo_submitted :: db where
  "demo_submitted = demo_issued\<lparr>pay_intent := [(demo_row demo_submitted_in)\<lparr>ir_credential_hash := Some ''f''\<rparr>],
     pay_event := [demo_issued_event, demo_submitted_event]\<rparr>"

definition demo_verified_in :: db where
  "demo_verified_in = demo_issued\<lparr>pay_intent := [(demo_row demo_pending_in)\<lparr>ir_credential_hash := Some ''f''\<rparr>],
     pay_event := [demo_issued_event, demo_submitted_event, demo_verified_event]\<rparr>"

lemma demo_verify_incoming:
  "verify_incoming demo_submitted_in \<lparr>cr_protocol = ''x'', cr_challenge_hash = ''h'', cr_credential_hash = ''f'',
     cr_payload = JNull\<rparr> 100 [demo_submitted_event] [] demo_issued = (Inr demo_submitted_in, demo_submitted)"
  by code_simp

lemma demo_record_verified:
  "commit_progress demo_pending_in 110 [demo_verified_event] [] demo_submitted = (Inr demo_pending_in, demo_verified_in)"
  by code_simp

lemma demo_reachable_verified: "reachable demo_X demo_verified_in"
  using demo_reachable_shop reachable_step step_record_challenge [OF demo_record_challenge]
    step_verify_incoming [OF demo_verify_incoming] step_commit_progress [OF demo_record_verified] by meson

section \<open>The provider is asked to settle\<close>

definition demo_settle :: SettleIncomingPayment where
  "demo_settle = \<lparr>sp_scenario_id = ''s'', sp_run_id = ''r'', sp_intent_id = ''i'', sp_verification_ref = demo_ref\<rparr>"

definition demo_requested_in :: PaymentIntent where
  "demo_requested_in = demo_pending_in\<lparr>pi_next_reconcile_at := Some 150, pi_updated_at := 120\<rparr>"

definition demo_settlement :: ProtocolSettlement where
  "demo_settlement = \<lparr>ps_protocol = ''x'', ps_payment_payload = JNull, ps_payment_requirements = JNull\<rparr>"

definition demo_requested_db :: db where
  "demo_requested_db = demo_verified_in\<lparr>pay_intent := [(demo_row demo_requested_in)\<lparr>ir_credential_hash := Some ''f''\<rparr>],
     pay_event := pay_event demo_verified_in @ [fresh_event ''c4'' demo_pending_in SettlementRequested
       (settlement_request_payload demo_pending_in None) 120]\<rparr>"

lemma demo_settle_reads:
  "validate_settle_command demo_settle = Inr ()"
  "scenario_authorize demo_verified_in ''u'' (sp_scenario_id demo_settle)
     = Inr \<lparr>ac_principal = ''u'', ac_client = demo_client, ac_scenario = demo_scenario\<rparr>"
  "get_for_scenario demo_verified_in (sp_scenario_id demo_settle) (sp_intent_id demo_settle) = Some demo_pending_in"
  "ensure_settlement_intent_binding demo_pending_in demo_settle = Inr ()"
  "find_latest_for_intent_type demo_verified_in (pi_id demo_pending_in) CredentialVerified = Some demo_verified_event"
  "verification_ref_of_event (Some demo_verified_event) = Inr (sp_verification_ref demo_settle)"
  "find_for_intent_type demo_verified_in (pi_id demo_pending_in) EvSubmitted 0 = Some demo_submitted_event"
  "submission_of_event demo_K demo_coordinator demo_pending_in (Some demo_submitted_event) = Inr (''f'', demo_settlement)"
  "find_for_intent_type demo_verified_in (pi_id demo_pending_in) SettlementRequested 0 = None"
  "checkpoint_block demo_coordinator demo_pending_in = Inr None"
  "pi_status demo_pending_in = PendingSettlement"
  by code_simp+

lemma demo_settle_requests:
  "commit_progress (requested_intent demo_coordinator demo_pending_in 120) (pi_updated_at demo_pending_in)
     [fresh_event (st_requested (demo_settlement_ids ''c'')) demo_pending_in SettlementRequested
        (settlement_request_payload demo_pending_in None)
        (pi_updated_at (requested_intent demo_coordinator demo_pending_in 120))] [] demo_verified_in
   = (Inr demo_requested_in, demo_requested_db)"
  by code_simp

lemma demo_polite: "polite X (demo_world s cs)"
  by (simp add: polite_def demo_world_def)

lemma svc_then_ok: "m w = (Inr a, v) \<Longrightarrow> svc_then m f w = f a v"
  by (simp add: svc_then_def svc_match_def)

lemma svc_then_run:
  "svc_then (svc_result (Inr a)) f w = f a w"
  "q (wd_db (meanwhile w)) = Inr a \<Longrightarrow> svc_then (db_read q) f w = f a (meanwhile w)"
  by (simp_all add: svc_then_ok svc_result_def db_read_def Let_def)

lemma demo_world_simps [simp]:
  "meanwhile (demo_world s cs) = demo_world s cs" "wd_db (demo_world s cs) = s"
  "(demo_world s cs)\<lparr>wd_db := t\<rparr> = demo_world t cs"
  by (simp_all add: demo_world_def meanwhile_def)

lemma demo_record_requested:
  "record_settlement_requested demo_coordinator (demo_settlement_ids ''c'') demo_pending_in 120 (demo_world demo_verified_in cs)
     = (Inr (SrInserted demo_requested_in), demo_world demo_requested_db cs)"
proof -
  have "write_requested demo_coordinator (demo_settlement_ids ''c'') demo_pending_in None 120 (demo_world demo_verified_in cs)
      = (Inr (SrInserted demo_requested_in), demo_world demo_requested_db cs)"
    unfolding write_requested_def Let_def svc_match_def db_write_def
    by (simp add: demo_settle_requests svc_result_def)
  then show ?thesis
    by (simp add: record_settlement_requested_def settlement_requested_event_def event_of_def svc_then_run
        demo_settle_reads)
qed

lemma demo_settle_reaches:
  "settle_payment demo_X demo_K demo_coordinator (demo_settlement_ids ''c'') ''u'' demo_settle 120 (demo_world demo_verified_in cs)
     = request_settlement demo_X demo_K demo_coordinator (demo_settlement_ids ''c'') demo_requested_in demo_settlement 120
         (demo_world demo_requested_db cs)"
proof -
  have "load_settlement_material demo_K demo_coordinator demo_pending_in (demo_world demo_verified_in cs)
      = (Inr (sp_verification_ref demo_settle, demo_settlement), demo_world demo_verified_in cs)"
    by (simp add: load_settlement_material_def load_submission_def latest_event_of_def event_of_def svc_then_run
        svc_then_assoc svc_result_def demo_settle_reads)
  then show ?thesis
    by (simp add: settle_payment_def svc_then_run demo_settle_reads svc_then_ok demo_record_requested ok_or_def)
qed

definition demo_result :: SettlementProviderResult where
  "demo_result = \<lparr>rs_valid = True, rs_settled = True, rs_payer = Some ''B'', rs_transaction = None,
     rs_settlement_ref = Some ''y'', rs_effect_ref = None, rs_invalid_reason = None, rs_asset = Some demo_asset,
     rs_amount = Some 30, rs_recipient = Some ''A'', rs_confirmations = Some 1, rs_extensions = []\<rparr>"

lemma demo_requested_in_facts:
  "pi_id demo_requested_in = ''i''"
  "provider_get (co_providers demo_coordinator) (pi_protocol demo_requested_in) = Inr demo_provider"
  "confirmation_depth demo_provider (ai_network (pi_asset demo_requested_in)) = Inr 1"
  "sb_execute demo_provider Settle q = Inr demo_result"
proof -
  show "pi_id demo_requested_in = ''i''" by code_simp
  show "provider_get (co_providers demo_coordinator) (pi_protocol demo_requested_in) = Inr demo_provider"
    by (simp add: provider_get_def demo_coordinator_def demo_requested_in_def demo_pending_in_def demo_inbound_def ok_or_def)
  show "confirmation_depth demo_provider (ai_network (pi_asset demo_requested_in)) = Inr 1" by code_simp
  show "sb_execute demo_provider Settle q = Inr demo_result" by (simp add: demo_provider_def demo_result_def)
qed

text \<open>A verified payment whose settlement nobody has requested is settled with one call.\<close>

lemma demo_settle_calls:
  "settle_calls ''i'' (wd_calls (snd (settle_payment demo_X demo_K demo_coordinator (demo_settlement_ids ''c'') ''u''
     demo_settle 120 (demo_world demo_verified_in cs)))) = Suc (settle_calls ''i'' cs)"
  by (simp add: demo_settle_reaches request_settlement_def svc_then_def svc_match_def svc_result_def
      provider_execute_def demo_requested_in_facts quiet_apply_settle [unfolded quiet_def, rule_format])
    (simp add: settle_calls_def demo_world_def)

section \<open>The provider's answer settles the payment\<close>

definition demo_receipt_in :: PaymentReceipt where
  "demo_receipt_in = \<lparr>rc_intent_id = ''i'', rc_scenario_id = ''s'', rc_direction = Inbound, rc_protocol = ''x'',
     rc_asset = demo_asset, rc_recipient = ''A'', rc_payer = Some ''B'', rc_requested_amount = 30, rc_settled_amount = 30,
     rc_status = Settled, rc_tx_hash = None, rc_settlement_ref = Some ''y'', rc_evidence_hash = demo_ref,
     rc_confirmed_at = 121\<rparr>"

definition demo_entry_in :: PaymentLedgerEntry where
  "demo_entry_in = \<lparr>le_id = ''c6'', le_intent_id = Some ''i'', le_scenario_id = Some ''s'', le_wallet_id = ''w'',
     le_entry_type = Payment, le_direction = Inbound, le_asset = demo_asset, le_amount = 30,
     le_posting_key = ''provider:6167656e747661756c742e70726f76696465722d666163742e76310000000000'', le_tx_hash = None,
     le_settlement_ref = Some ''y'', le_effect_ref = None, le_transfer_ref = None, le_reversal_of = None,
     le_effective_at = 121, le_created_at = 121\<rparr>"

definition demo_settlement_commit :: "PaymentIntent result \<times> db" where
  "demo_settlement_commit = commit_settlement (confirmed_intent demo_requested_in demo_result 121 121)
     (pi_updated_at demo_requested_in)
     [confirmed_event (st_settled (demo_settlement_ids ''c'')) demo_requested_in demo_result demo_receipt_in 121]
     [demo_entry_in] [confirmed_outbox (st_message (demo_settlement_ids ''c'')) demo_requested_in 121] demo_requested_db"

lemma demo_confirms:
  "validate_confirmed_for demo_X demo_result demo_requested_in 1 = Inr ()"
  "next_timestamp (pi_updated_at demo_requested_in) 120 = 121"
  "validate_trusted_effective_time (pi_created_at demo_requested_in) 121 120 = Inr ()"
  "confirmed_receipt demo_X demo_K demo_requested_in demo_result 121 = Inr demo_receipt_in"
  "confirmed_ledger demo_X (st_ledger (demo_settlement_ids ''c'')) demo_requested_in ''q'' demo_result 121 121 = Inr demo_entry_in"
  by code_simp+

lemma demo_settlement_commits: "is_ok (fst demo_settlement_commit)"
  by code_simp

lemma demo_settle_answers:
  "\<exists>d v. settle_payment demo_X demo_K demo_coordinator (demo_settlement_ids ''c'') ''u'' demo_settle 120
     (demo_world demo_verified_in cs) = (Inr d, v)"
proof -
  from demo_settlement_commits obtain j t where commit: "demo_settlement_commit = (Inr j, t)"
    by (auto simp: is_ok_def split: sum.splits) (metis prod.collapse)
  have "\<exists>d v. commit_confirmed demo_X demo_K (demo_settlement_ids ''c'') demo_requested_in ''q'' demo_result 120 None
      (demo_world demo_requested_db cs) = (Inr d, v)" for cs
    unfolding commit_confirmed_def Let_def option.case demo_confirms svc_then_run
    by (simp add: svc_match_def db_write_def Let_def commit [unfolded demo_settlement_commit_def] svc_result_def)
  moreover have "apply_settle_result demo_X demo_K demo_coordinator (demo_settlement_ids ''c'') demo_requested_in ''q'' 1
      demo_result 120 = commit_confirmed demo_X demo_K (demo_settlement_ids ''c'') demo_requested_in ''q'' demo_result 120 None"
    unfolding apply_settle_result_def demo_confirms by (simp add: demo_result_def)
  moreover have "sb_authority demo_provider = ''q''" by (simp add: demo_provider_def)
  moreover have "(demo_world s cs)\<lparr>wd_calls := ds\<rparr> = demo_world s ds" for s cs ds by (simp add: demo_world_def)
  ultimately show ?thesis
    by (simp add: demo_settle_reaches request_settlement_def svc_then_run demo_requested_in_facts svc_then_ok
        provider_execute_def)
qed

end
