(* ===== verification/Dispatcher.thy ===== *)
theory Dispatcher
  imports Service_Logic
begin

text \<open>
  The payment-event dispatcher (\<^verbatim>\<open>payment/outbox.rs\<close>, \<^verbatim>\<open>model/event.rs\<close>): it leases a batch of outbox messages,
  delivers each to a sink and records the outcome. The sink is a parameter: what it answers to a message, or
  that it timed out. The lemmas show that the worker only takes the repositories' steps, that its summary
  accounts for every message it claimed, that its delays stay in their bounds, and that it hands a message
  out at most as often as its configuration allows.
\<close>

section \<open>Configuration\<close>

record Duration =
  du_secs :: u64
  du_nanos :: u32

record PaymentEventDispatcherConfig =
  dc_worker_id :: string
  dc_batch_size :: u32
  dc_lease_duration :: Duration
  dc_delivery_timeout :: Duration
  dc_poll_interval :: Duration
  dc_initial_backoff :: Duration
  dc_max_backoff :: Duration
  dc_max_attempts :: u32

definition MAX_BATCH_SIZE :: u32 where "MAX_BATCH_SIZE = 1000"

definition MAX_ERROR_CHARS :: nat where "MAX_ERROR_CHARS = 512"

definition dispatcher_duration_seconds :: "Duration \<Rightarrow> string \<Rightarrow> int result" where
  "dispatcher_duration_seconds d field =
     (if uint (du_secs d) > i64_max then Inl (Config (''payment event dispatcher '' @ field @ '' is too large''))
      else if du_secs d = 0
      then Inl (Config (''payment event dispatcher '' @ field @ '' must be at least one second''))
      else Inr (uint (du_secs d)))"

definition PaymentEventDispatcherConfig_validate :: "PaymentEventDispatcherConfig \<Rightarrow> unit result" where
  "PaymentEventDispatcherConfig_validate c =
     (if is_blank (dc_worker_id c) then Inl (Config ''payment event dispatcher worker_id must not be empty'')
      else if dc_batch_size c = 0 \<or> dc_batch_size c > MAX_BATCH_SIZE
      then Inl (Config ''payment event dispatcher batch_size must be between 1 and 1000'')
      else if dc_max_attempts c = 0 then Inl (Config ''payment event dispatcher max_attempts must be positive'')
      else and_then (dispatcher_duration_seconds (dc_lease_duration c) ''lease_duration'') (\<lambda>_.
      and_then (dispatcher_duration_seconds (dc_delivery_timeout c) ''delivery_timeout'') (\<lambda>_.
      and_then (dispatcher_duration_seconds (dc_poll_interval c) ''poll_interval'') (\<lambda>_.
      and_then (dispatcher_duration_seconds (dc_initial_backoff c) ''initial_backoff'') (\<lambda>initial.
      and_then (dispatcher_duration_seconds (dc_max_backoff c) ''max_backoff'') (\<lambda>maximum.
      if initial > maximum
      then Inl (Config ''payment event dispatcher initial_backoff must not exceed max_backoff'')
      else Inr ()))))))"

datatype PaymentEventDelivery = EventDelivered | Retryable string | PermanentFailure string

record PaymentEventDispatchRun =
  dr_claimed :: u32
  dr_delivered :: u32
  dr_rescheduled :: u32
  dr_dead_lettered :: u32

text \<open>A sink that does not answer before the delivery timeout answers \<^const>\<open>None\<close>.\<close>

record PaymentEventDispatcher =
  pd_config :: PaymentEventDispatcherConfig
  pd_sink :: "OutboxMessage \<Rightarrow> PaymentEventDelivery option"
  pd_lease_seconds :: int
  pd_initial_backoff_seconds :: int
  pd_max_backoff_seconds :: int

definition PaymentEventDispatcher_new ::
  "(OutboxMessage \<Rightarrow> PaymentEventDelivery option) \<Rightarrow> PaymentEventDispatcherConfig \<Rightarrow> PaymentEventDispatcher result" where
  "PaymentEventDispatcher_new sink c =
     and_then (PaymentEventDispatcherConfig_validate c) (\<lambda>_.
     and_then (dispatcher_duration_seconds (dc_lease_duration c) ''lease_duration'') (\<lambda>lease_seconds.
     and_then (dispatcher_duration_seconds (dc_initial_backoff c) ''initial_backoff'') (\<lambda>initial_backoff_seconds.
     and_then (dispatcher_duration_seconds (dc_max_backoff c) ''max_backoff'') (\<lambda>max_backoff_seconds.
     Inr \<lparr>pd_config = c, pd_sink = sink, pd_lease_seconds = lease_seconds,
       pd_initial_backoff_seconds = initial_backoff_seconds, pd_max_backoff_seconds = max_backoff_seconds\<rparr>))))"

section \<open>Recording an outcome\<close>

definition timestamp_add :: "int \<Rightarrow> int \<Rightarrow> string \<Rightarrow> int result" where
  "timestamp_add timestamp delta field =
     ok_or (i64_checked_add timestamp delta) (Storage (field @ '' timestamp overflow''))"

text \<open>
  \<^verbatim>\<open>chars().take(n)\<close> on UTF-8 bytes: a byte that continues a character goes with the character.
\<close>

fun take_chars :: "nat \<Rightarrow> string \<Rightarrow> string" where
  "take_chars n [] = []"
| "take_chars n (c # cs) =
     (if 128 \<le> ascii c \<and> ascii c < 192 then c # take_chars n cs
      else case n of 0 \<Rightarrow> [] | Suc k \<Rightarrow> c # take_chars k cs)"

definition bounded_reason :: "string \<Rightarrow> string" where
  "bounded_reason reason =
     (let v = take_chars MAX_ERROR_CHARS reason in if is_blank v then ''payment event delivery failed'' else v)"

definition saturating_mul :: "int \<Rightarrow> int \<Rightarrow> int" where
  "saturating_mul a b = i64_clamp (a * b)"

definition u32_saturating_inc :: "u32 \<Rightarrow> u32" where
  "u32_saturating_inc n = (if n = 4294967295 then n else n + 1)"

definition retry_delay :: "PaymentEventDispatcher \<Rightarrow> u32 \<Rightarrow> int" where
  "retry_delay D attempt_count =
     (let exponent = min (if attempt_count = 0 then 0 else attempt_count - 1) 62;
          multiplier = 2 ^ unat exponent in
      min (saturating_mul (pd_initial_backoff_seconds D) multiplier) (pd_max_backoff_seconds D))"

definition dead_letter :: "PaymentEventDispatcher \<Rightarrow> OutboxMessage \<Rightarrow> string \<Rightarrow> unit service" where
  "dead_letter D m reason =
     db_write (transaction (mark_dead_letter (ob_id m) (dc_worker_id (pd_config D)) (bounded_reason reason)))"

definition persist_disposition ::
  "PaymentEventDispatcher \<Rightarrow> OutboxMessage \<Rightarrow> PaymentEventDelivery \<Rightarrow> int \<Rightarrow> PaymentEventDispatchRun \<Rightarrow>
     PaymentEventDispatchRun service" where
  "persist_disposition D m disposition now r =
     (case disposition of
        EventDelivered \<Rightarrow>
          svc_then (db_write (transaction (mark_delivered (ob_id m) (dc_worker_id (pd_config D)) now))) (\<lambda>_.
          svc_result (Inr (r\<lparr>dr_delivered := u32_saturating_inc (dr_delivered r)\<rparr>)))
      | Retryable reason \<Rightarrow>
          if ob_attempt_count m < dc_max_attempts (pd_config D) then
            svc_then (svc_result (timestamp_add now (retry_delay D (ob_attempt_count m)) ''outbox retry'')) (\<lambda>available_at.
            svc_then (db_write (transaction (reschedule (ob_id m) (dc_worker_id (pd_config D)) available_at
              (bounded_reason reason)))) (\<lambda>_.
            svc_result (Inr (r\<lparr>dr_rescheduled := u32_saturating_inc (dr_rescheduled r)\<rparr>))))
          else
            svc_then (dead_letter D m (''delivery attempts exhausted: '' @ bounded_reason reason)) (\<lambda>_.
            svc_result (Inr (r\<lparr>dr_dead_lettered := u32_saturating_inc (dr_dead_lettered r)\<rparr>)))
      | PermanentFailure reason \<Rightarrow>
          svc_then (dead_letter D m reason) (\<lambda>_.
          svc_result (Inr (r\<lparr>dr_dead_lettered := u32_saturating_inc (dr_dead_lettered r)\<rparr>))))"

section \<open>A dispatch run\<close>

definition disposition_of :: "PaymentEventDispatcher \<Rightarrow> OutboxMessage \<Rightarrow> PaymentEventDelivery" where
  "disposition_of D m =
     (case pd_sink D m of Some d \<Rightarrow> d | None \<Rightarrow> Retryable ''payment event delivery timed out'')"

fun dispatch_messages ::
  "PaymentEventDispatcher \<Rightarrow> int \<Rightarrow> OutboxMessage list \<Rightarrow> PaymentEventDispatchRun \<Rightarrow> PaymentEventDispatchRun service" where
  "dispatch_messages D now [] r = svc_result (Inr r)"
| "dispatch_messages D now (m # ms) r =
     (if \<not> OutboxDeliveryClass_matches PaymentEvents m
      then svc_result (Inl (Storage ''payment event outbox claim returned a foreign delivery class''))
      else svc_then (persist_disposition D m (disposition_of D m) now r) (dispatch_messages D now ms))"

definition dispatch_lease :: "PaymentEventDispatcher \<Rightarrow> int \<Rightarrow> int \<Rightarrow> OutboxLeaseRequest" where
  "dispatch_lease D now lease_until =
     \<lparr>lr_owner = dc_worker_id (pd_config D), lr_class = PaymentEvents, lr_now = now, lr_lease_until = lease_until,
      lr_limit = dc_batch_size (pd_config D)\<rparr>"

definition dispatch_once :: "PaymentEventDispatcher \<Rightarrow> int \<Rightarrow> PaymentEventDispatchRun service" where
  "dispatch_once D now =
     (if now < 0 then svc_result (Inl (InvalidRequest ''payment event dispatcher timestamp must be non-negative''))
      else svc_then (svc_result (timestamp_add now (pd_lease_seconds D) ''payment event outbox lease'')) (\<lambda>lease_until.
      svc_then (db_write (outbox_claim (dispatch_lease D now lease_until))) (\<lambda>ms.
      dispatch_messages D now ms
        \<lparr>dr_claimed = of_nat (min (length ms) 4294967295), dr_delivered = 0, dr_rescheduled = 0, dr_dead_lettered = 0\<rparr>)))"

section \<open>Delays stay in their bounds\<close>

lemma duration_seconds_ok:
  "dispatcher_duration_seconds d field = Inr n \<longleftrightarrow> n = uint (du_secs d) \<and> 0 < n \<and> n \<le> i64_max"
  by (auto simp: dispatcher_duration_seconds_def uint_0_iff less_le)

lemma dispatcher_ok:
  assumes "PaymentEventDispatcher_new sink c = Inr D"
  shows "pd_config D = c" "0 < pd_lease_seconds D" "0 < pd_initial_backoff_seconds D"
    and "pd_initial_backoff_seconds D \<le> pd_max_backoff_seconds D" "pd_max_backoff_seconds D \<le> i64_max"
    and "0 < dc_max_attempts c" "0 < dc_batch_size c" "dc_batch_size c \<le> 1000" "\<not> is_blank (dc_worker_id c)"
  using assms
  by (auto simp: PaymentEventDispatcher_new_def PaymentEventDispatcherConfig_validate_def MAX_BATCH_SIZE_def result_simps
      duration_seconds_ok word_neq_0_conv split: if_splits)

lemma retry_delay_bounds:
  assumes "0 < pd_initial_backoff_seconds D" "pd_initial_backoff_seconds D \<le> pd_max_backoff_seconds D"
    and "pd_max_backoff_seconds D \<le> i64_max"
  shows "pd_initial_backoff_seconds D \<le> retry_delay D n" "retry_delay D n \<le> pd_max_backoff_seconds D"
proof -
  have "pd_initial_backoff_seconds D * 1 \<le> pd_initial_backoff_seconds D * 2 ^ k" for k :: nat
    using assms(1) by (intro mult_left_mono) auto
  then show "pd_initial_backoff_seconds D \<le> retry_delay D n"
    using assms by (simp add: retry_delay_def Let_def saturating_mul_def i64_clamp_def le_max_iff_disj)
  show "retry_delay D n \<le> pd_max_backoff_seconds D" by (simp add: retry_delay_def Let_def)
qed

text \<open>The delay never shrinks from one attempt to the next.\<close>

lemma retry_delay_eq:
  "retry_delay D n = min (saturating_mul (pd_initial_backoff_seconds D) (2 ^ min (unat n - 1) 62)) (pd_max_backoff_seconds D)"
proof -
  have "unat (min (if n = 0 then 0 else n - 1) 62) = min (unat n - 1) 62"
    by (cases "n = 0") (auto simp: min_def word_le_nat_alt unat_sub_if' Suc_le_eq unat_gt_0)
  then show ?thesis by (simp add: retry_delay_def Let_def)
qed

lemma retry_delay_mono:
  assumes "0 < pd_initial_backoff_seconds D" "m \<le> n"
  shows "retry_delay D m \<le> retry_delay D n"
proof -
  have "min (unat m - 1) 62 \<le> min (unat n - 1) 62" using assms(2) by (simp add: word_le_nat_alt min_le_iff_disj diff_le_mono)
  then have "pd_initial_backoff_seconds D * 2 ^ min (unat m - 1) 62 \<le> pd_initial_backoff_seconds D * 2 ^ min (unat n - 1) 62"
    using assms(1) by (intro mult_left_mono power_increasing) auto
  then show ?thesis unfolding retry_delay_eq saturating_mul_def i64_clamp_def by (intro min.mono max.mono order_refl)
qed

section \<open>The dispatcher only takes the repositories' steps\<close>

lemma one_step_claim [service_intros]: "one_step X (outbox_claim q)"
  unfolding one_step_def by (metis prod.collapse step_outbox_claim)

lemma one_step_transition [service_intros]:
  "one_step X (transaction (mark_delivered i holder n))" "one_step X (transaction (reschedule i holder n e))"
  "one_step X (transaction (mark_dead_letter i holder e))"
  unfolding one_step_def transaction_def
  by (auto split: sum.splits intro: step_delivered step_reschedule step_dead_letter)

lemma persist_steps [service_intros]: "steps_only X (persist_disposition D m d now r)"
  by (auto simp: persist_disposition_def dead_letter_def intro!: service_intros split: PaymentEventDelivery.split)

lemma dispatch_messages_steps [service_intros]: "steps_only X (dispatch_messages D now ms r)"
  by (induction ms arbitrary: r) (auto intro!: service_intros)

lemma dispatch_steps [service_intros]: "steps_only X (dispatch_once D now)"
  by (auto simp: dispatch_once_def intro!: service_intros)

section \<open>Claimed messages\<close>

abbreviation message :: "db \<Rightarrow> string \<Rightarrow> OutboxMessage option" where
  "message s k \<equiv> find (\<lambda>m. ob_id m = k) (pay_outbox s)"

lemma message_row:
  assumes "outbox_wf s" "r \<in> set (pay_outbox s)"
  shows "message s (ob_id r) = Some r"
proof -
  have "message s (ob_id r) \<noteq> None" using assms(2) by (auto simp: find_None_iff)
  then obtain q where q: "message s (ob_id r) = Some q" by blast
  from find_Some_in [OF q] have "q = r"
    using distinct_key [of ob_id "pay_outbox s" q r] assms by (simp add: outbox_wf_def)
  with q show ?thesis by simp
qed

lemma messages_evolve_message:
  "messages_evolve s t \<Longrightarrow> message s k = Some m \<Longrightarrow> \<exists>n. message t k = Some n \<and> message_evolves m n"
  by (auto simp: messages_evolve_def elim: message_history.grows_find)

lemma claim_one_message:
  assumes "outbox_claim_one q k s = Inr (m, t)" "outbox_wf s"
  shows "messages_evolve s t" "ob_id m = k" "message t k = Some m"
    and "\<exists>r. message s k = Some r \<and> ob_status r = ObPending \<and> unat (ob_attempt_count r) < unat (ob_attempt_count m)"
    and "\<And>j r. message t j = Some r \<Longrightarrow> \<exists>q. message s j = Some q"
proof -
  show "messages_evolve s t" using outbox_claim_one_keeps [OF assms(1)] by (simp add: keeps_def)
  from assms(1) obtain r where r: "r \<in> set (pay_outbox s)" "outbox_hit q k r"
    and t: "t = s\<lparr>pay_outbox := update_where (outbox_hit q k) (outbox_take q) (pay_outbox s)\<rparr>"
    and m: "message t k = Some m"
    by (rule outbox_claim_one_ok)
  show "\<And>j r. message t j = Some r \<Longrightarrow> \<exists>q. message s j = Some q"
    using find_update_where [of ob_id "outbox_take q"] by (auto simp: t)
  have row: "message s k = Some r" using message_row [OF assms(2) r(1)] r(2) by (simp add: outbox_hit_def)
  then have "message t k = Some (outbox_take q r)"
    using r(2) find_update_where [of ob_id "outbox_take q" k "outbox_hit q k" "pay_outbox s"] by (simp add: t)
  with m have m': "m = outbox_take q r" by simp
  show "ob_id m = k" "message t k = Some m" using m r(2) by (simp_all add: m' outbox_hit_def)
  have "unat (ob_attempt_count r + 1) = unat (ob_attempt_count r) + 1"
    using r(2) by (simp add: outbox_hit_def word_less_nat_alt unat_word_ariths)
  then show "\<exists>r. message s k = Some r \<and> ob_status r = ObPending \<and> unat (ob_attempt_count r) < unat (ob_attempt_count m)"
    using row r(2) by (simp add: m' outbox_take_def outbox_hit_def outbox_due_def)
qed

text \<open>A claimed message was pending, and its attempt is a new one.\<close>

lemma claims_message:
  assumes "collect_steps (outbox_claim_one q) ids s = Inr (ms, t)" "outbox_wf s" "m \<in> set ms"
  shows "(\<exists>r. message s (ob_id m) = Some r \<and> ob_status r = ObPending
      \<and> unat (ob_attempt_count r) < unat (ob_attempt_count m))
    \<and> (\<exists>n. message t (ob_id m) = Some n \<and> message_evolves m n)"
  using assms
proof (induction ids arbitrary: s ms)
  case (Cons k ids)
  then obtain c u ns where c: "outbox_claim_one q k s = Inr (c, u)"
    and ns: "collect_steps (outbox_claim_one q) ids u = Inr (ns, t)" and ms: "ms = c # ns"
    by (auto simp: result_simps)
  note one = claim_one_message [OF c Cons.prems(2)] and wf = outbox_queue.one_wf [OF c Cons.prems(2)]
  have ut: "messages_evolve u t"
    using collect_steps_keeps [OF ns outbox_claim_one_keeps] by (simp add: keeps_def)
  show ?case
  proof (cases "m = c")
    case True
    then show ?thesis using one(2-4) messages_evolve_message [OF ut one(3)] by auto
  next
    case False
    with Cons.prems(3) ms have "m \<in> set ns" by simp
    from Cons.IH [OF ns wf this] obtain r n where r: "message u (ob_id m) = Some r" "ob_status r = ObPending"
      "unat (ob_attempt_count r) < unat (ob_attempt_count m)" and n: "message t (ob_id m) = Some n" "message_evolves m n"
      by blast
    from one(5) [OF r(1)] obtain q where q: "message s (ob_id m) = Some q" by blast
    with messages_evolve_message [OF one(1) this] r(1) have "message_evolves q r" by simp
    then have "ob_status q = ObPending" "unat (ob_attempt_count q) \<le> unat (ob_attempt_count r)"
      using r(2) by (auto simp: message_evolves_def word_le_nat_alt)
    with q r(3) n show ?thesis by auto
  qed
qed simp

section \<open>The summary accounts for every claimed message\<close>

definition outcomes :: "PaymentEventDispatchRun \<Rightarrow> nat" where
  "outcomes r = unat (dr_delivered r) + unat (dr_rescheduled r) + unat (dr_dead_lettered r)"

lemma saturating_inc_unat: "unat n < 4294967295 \<Longrightarrow> unat (u32_saturating_inc n) = Suc (unat n)"
  by (auto simp: u32_saturating_inc_def unat_word_ariths)

lemma persist_accounts:
  assumes "persist_disposition D m d now r w = (Inr q, v)" "outcomes r < 4294967295"
  shows "outcomes q = Suc (outcomes r)" "dr_claimed q = dr_claimed r"
  using assms
  by (auto simp: persist_disposition_def outcomes_def svc_then_def svc_match_ok svc_result_def saturating_inc_unat
      split: PaymentEventDelivery.splits if_splits)

lemma dispatch_messages_account:
  assumes "dispatch_messages D now ms r w = (Inr q, v)" "outcomes r + length ms \<le> 4294967295"
  shows "outcomes q = outcomes r + length ms \<and> dr_claimed q = dr_claimed r"
  using assms
proof (induction ms arbitrary: r w)
  case (Cons m ms)
  from Cons.prems(1) obtain p u where p: "persist_disposition D m (disposition_of D m) now r w = (Inr p, u)"
    and u: "dispatch_messages D now ms p u = (Inr q, v)"
    by (auto simp: svc_then_def svc_match_ok svc_result_def split: if_splits)
  from persist_accounts [OF p] Cons.prems(2) have "outcomes p = Suc (outcomes r)" "dr_claimed p = dr_claimed r"
    by simp_all
  with Cons.IH [OF u] Cons.prems(2) show ?case by simp
qed (simp add: svc_result_def)

lemma claim_length:
  assumes "outbox_claim q s = (Inr ms, t)" "outbox_wf s"
  shows "length ms \<le> unat (lr_limit q)"
proof -
  from assms(1) have "lr_now q < lr_lease_until q" "collect_steps (outbox_claim_one q) (outbox_due_ids q s) s = Inr (ms, t)"
    by (auto simp: outbox_claim_def transaction_ok outbox_claim_step_def split: if_splits)
  from outbox_queue.batch(1) [OF this(2) assms(2) this(1)] have "length ms = length (outbox_due_ids q s)"
    by (metis length_map)
  then show ?thesis by (simp add: outbox_due_ids_def)
qed

lemma dispatch_ok:
  assumes "dispatch_once D now w = (Inr r, v)"
  obtains until ms t where "timestamp_add now (pd_lease_seconds D) ''payment event outbox lease'' = Inr until"
    "outbox_claim (dispatch_lease D now until) (wd_db (meanwhile w)) = (Inr ms, t)"
    "dispatch_messages D now ms \<lparr>dr_claimed = of_nat (min (length ms) 4294967295), dr_delivered = 0, dr_rescheduled = 0,
       dr_dead_lettered = 0\<rparr> ((meanwhile w)\<lparr>wd_db := t\<rparr>) = (Inr r, v)"
  using assms that
  by (auto simp: dispatch_once_def svc_then_def svc_match_ok svc_result_def db_write_ok split: if_splits)

lemma dispatch_accounts:
  assumes "polite X w" "reachable X (wd_db w)" "dispatch_once D now w = (Inr r, v)"
  shows "unat (dr_claimed r) = unat (dr_delivered r) + unat (dr_rescheduled r) + unat (dr_dead_lettered r)"
    and "dr_claimed r \<le> dc_batch_size (pd_config D)"
proof -
  obtain until ms t where "outbox_claim (dispatch_lease D now until) (wd_db (meanwhile w)) = (Inr ms, t)"
    and run: "dispatch_messages D now ms \<lparr>dr_claimed = of_nat (min (length ms) 4294967295), dr_delivered = 0,
       dr_rescheduled = 0, dr_dead_lettered = 0\<rparr> ((meanwhile w)\<lparr>wd_db := t\<rparr>) = (Inr r, v)"
    using dispatch_ok [OF assms(3)] by blast
  then have len: "length ms \<le> unat (dc_batch_size (pd_config D))"
    using claim_length [of "dispatch_lease D now until", OF _ reachable_outbox_wf [OF meanwhile_reachable(2) [OF assms(1,2)]]]
    by (simp add: dispatch_lease_def)
  moreover have "unat (dc_batch_size (pd_config D)) \<le> 4294967295"
    using unsigned_less [of "dc_batch_size (pd_config D)", where 'a = nat] by simp
  ultimately have "length ms \<le> 4294967295" by simp
  with dispatch_messages_account [OF run] have "outcomes r = length ms" "unat (dr_claimed r) = length ms"
    by (simp_all add: outcomes_def unat_of_nat)
  with len show "unat (dr_claimed r) = unat (dr_delivered r) + unat (dr_rescheduled r) + unat (dr_dead_lettered r)"
    "dr_claimed r \<le> dc_batch_size (pd_config D)"
    by (simp_all add: outcomes_def word_le_nat_alt)
qed

section \<open>A message is handed out a bounded number of times\<close>

definition finished :: "string \<Rightarrow> db \<Rightarrow> bool" where
  "finished k s \<longleftrightarrow> (\<exists>m. message s k = Some m \<and> ob_status m \<noteq> ObPending)"

lemma stable_finished: "stable X (finished k)"
proof -
  have "finished k t" if "reachable X s" "finished k s" "(vault_step X)\<^sup>*\<^sup>* s t" for s t
  proof -
    from that(2) obtain m where m: "message s k = Some m" "ob_status m \<noteq> ObPending" by (auto simp: finished_def)
    from run_message [OF that(1,3) m(1)] obtain n where "message t k = Some n" "message_evolves m n" .
    with m(2) show ?thesis by (auto simp: finished_def message_evolves_def)
  qed
  then show ?thesis by (simp add: stable_def)
qed

lemma transition_finishes:
  assumes "transition_lease change k holder op s = Inr (u, t)" "outbox_wf s"
    and "\<And>m. ob_id (change m) = ob_id m" "\<And>m. ob_status (change m) \<noteq> ObPending"
  shows "finished k t"
proof -
  let ?hit = "\<lambda>m. ob_id m = k \<and> ob_status m = ObPending \<and> ob_lease_owner m = Some holder"
  from assms(1) have t: "t = s\<lparr>pay_outbox := update_where ?hit change (pay_outbox s)\<rparr>"
    and one: "rows_affected ?hit (pay_outbox s) = Suc 0"
    by (auto simp: transition_lease_def Let_def split: if_splits)
  from rows_affected_one [OF one] obtain r where r: "r \<in> set (pay_outbox s)" "?hit r" by blast
  with message_row [OF assms(2) r(1)] have "message s k = Some r" by simp
  then have "message t k = Some (change r)"
    using r(2) find_update_where [of ob_id change k ?hit "pay_outbox s"] assms(3) by (simp add: t)
  then show ?thesis using assms(4) by (simp add: finished_def)
qed

lemma persist_finishes:
  assumes "dc_max_attempts (pd_config D) \<le> ob_attempt_count m"
  shows "yields X (\<lambda>_. True) (persist_disposition D m d now r) (\<lambda>_. finished (ob_id m))"
proof -
  have delivered: "finished k t" if "reachable X s" "transaction (mark_delivered k holder n) s = (Inr u, t)" for k s holder n u t
    using that reachable_outbox_wf transition_finishes [of _ k holder _ s u t]
    by (auto simp: transaction_ok mark_delivered_def)
  have dead: "finished k t" if "reachable X s" "transaction (mark_dead_letter k holder e) s = (Inr u, t)" for k s holder e u t
    using that reachable_outbox_wf transition_finishes [of _ k holder _ s u t]
    by (auto simp: transaction_ok mark_dead_letter_def)
  have "\<not> ob_attempt_count m < dc_max_attempts (pd_config D)" using assms by simp
  then show ?thesis
    unfolding persist_disposition_def dead_letter_def
    by (cases d) (auto intro!: yields_then [OF steps_only_write [OF one_step_transition(1)] yields_write [OF delivered]]
        yields_then [OF steps_only_write [OF one_step_transition(3)] yields_write [OF dead]] yields_ok)
qed

lemma dispatch_finishes:
  assumes "m \<in> set ms" "dc_max_attempts (pd_config D) \<le> ob_attempt_count m"
  shows "yields X (\<lambda>_. True) (dispatch_messages D now ms r) (\<lambda>_. finished (ob_id m))"
  using assms(1)
proof (induction ms arbitrary: r)
  case (Cons n ms)
  have rest: "yields X (finished (ob_id m)) (dispatch_messages D now ms q) (\<lambda>_. finished (ob_id m))" for q
  proof (rule yieldsI)
    fix w a v
    assume w: "polite X w" "reachable X (wd_db w)" "finished (ob_id m) (wd_db w)" "dispatch_messages D now ms q w = (Inr a, v)"
    from steps_only_reachable(4) [OF dispatch_messages_steps w(1,2,4)] show "finished (ob_id m) (wd_db v)"
      using stable_finished w(2,3) unfolding stable_def by blast
  qed
  show ?case
  proof (cases "m = n")
    case True
    show ?thesis
      using yields_then [OF persist_steps persist_finishes [OF assms(2)] rest] by (simp add: True yields_fail)
  next
    case False
    with Cons.prems have "m \<in> set ms" by simp
    from yields_after [OF persist_steps stable_true Cons.IH [OF this]] show ?thesis by (simp add: yields_fail)
  qed
qed simp

text \<open>
  A history of one message: repository writes of any worker, and runs of a dispatcher that claimed the message and
  completed. A run that fails is a sequence of repository writes.
\<close>

definition claimed_messages :: "PaymentEventDispatcher \<Rightarrow> int \<Rightarrow> world \<Rightarrow> OutboxMessage list" where
  "claimed_messages D now w =
     (case outbox_claim (dispatch_lease D now (now + pd_lease_seconds D)) (wd_db (meanwhile w)) of
        (Inr ms, _) \<Rightarrow> ms | _ \<Rightarrow> [])"

inductive dispatched :: "externals \<Rightarrow> u32 \<Rightarrow> string \<Rightarrow> db \<Rightarrow> nat \<Rightarrow> db \<Rightarrow> bool" for X M k s where
  start: "dispatched X M k s 0 s"
| others: "dispatched X M k s n t \<Longrightarrow> vault_step X t u \<Longrightarrow> dispatched X M k s n u"
| run: "dispatched X M k s n (wd_db w) \<Longrightarrow> polite X w \<Longrightarrow> dc_max_attempts (pd_config D) = M \<Longrightarrow>
    k \<in> ob_id ` set (claimed_messages D now w) \<Longrightarrow> dispatch_once D now w = (Inr r, v) \<Longrightarrow>
    dispatched X M k s (Suc n) (wd_db v)"

inductive_cases dispatched_none: "dispatched X M k s 0 t"

lemma dispatch_claims:
  assumes "dispatch_once D now w = (Inr r, v)"
  obtains t where "outbox_claim (dispatch_lease D now (now + pd_lease_seconds D)) (wd_db (meanwhile w))
      = (Inr (claimed_messages D now w), t)"
    "dispatch_messages D now (claimed_messages D now w) \<lparr>dr_claimed = of_nat (min (length (claimed_messages D now w)) 4294967295),
       dr_delivered = 0, dr_rescheduled = 0, dr_dead_lettered = 0\<rparr> ((meanwhile w)\<lparr>wd_db := t\<rparr>) = (Inr r, v)"
proof -
  obtain until ms t where "timestamp_add now (pd_lease_seconds D) ''payment event outbox lease'' = Inr until"
    and c: "outbox_claim (dispatch_lease D now until) (wd_db (meanwhile w)) = (Inr ms, t)"
    and m: "dispatch_messages D now ms \<lparr>dr_claimed = of_nat (min (length ms) 4294967295), dr_delivered = 0,
      dr_rescheduled = 0, dr_dead_lettered = 0\<rparr> ((meanwhile w)\<lparr>wd_db := t\<rparr>) = (Inr r, v)"
    using dispatch_ok [OF assms] by blast
  then have until: "until = now + pd_lease_seconds D"
    by (auto simp: timestamp_add_def ok_or_def i64_checked_add_def split: option.splits if_splits)
  have "ms = claimed_messages D now w" using c by (simp add: claimed_messages_def until)
  with that c m until show thesis by simp
qed

text \<open>After a completed run, a message is finished or has attempts left, and its attempts were counted up.\<close>

lemma dispatch_progress:
  assumes "polite X w" "reachable X (wd_db w)" "dispatch_once D now w = (Inr r, v)"
    and "m \<in> set (claimed_messages D now w)"
  shows "\<not> finished (ob_id m) (wd_db w)" "0 < unat (ob_attempt_count m)"
    and "\<exists>q. message (wd_db v) (ob_id m) = Some q \<and> unat (ob_attempt_count m) \<le> unat (ob_attempt_count q)"
    and "\<And>p. message (wd_db w) (ob_id m) = Some p \<Longrightarrow> unat (ob_attempt_count p) < unat (ob_attempt_count m)"
    and "dc_max_attempts (pd_config D) \<le> ob_attempt_count m \<Longrightarrow> finished (ob_id m) (wd_db v)"
proof -
  let ?k = "ob_id m" and ?u = "meanwhile w"
  obtain t where c: "outbox_claim (dispatch_lease D now (now + pd_lease_seconds D)) (wd_db ?u)
      = (Inr (claimed_messages D now w), t)"
    and d: "dispatch_messages D now (claimed_messages D now w) \<lparr>dr_claimed = of_nat (min (length (claimed_messages D now w)) 4294967295),
      dr_delivered = 0, dr_rescheduled = 0, dr_dead_lettered = 0\<rparr> (?u\<lparr>wd_db := t\<rparr>) = (Inr r, v)"
    using dispatch_claims [OF assms(3)] by blast
  note u = meanwhile_reachable [OF assms(1,2)]
  from c obtain ids where "collect_steps (outbox_claim_one (dispatch_lease D now (now + pd_lease_seconds D))) ids (wd_db ?u)
      = Inr (claimed_messages D now w, t)"
    by (auto simp: outbox_claim_def transaction_ok outbox_claim_step_def split: if_splits)
  from claims_message [OF this reachable_outbox_wf [OF u(2)] assms(4)] obtain p q
    where p: "message (wd_db ?u) ?k = Some p" "ob_status p = ObPending" "unat (ob_attempt_count p) < unat (ob_attempt_count m)"
      and q: "message t ?k = Some q" "message_evolves m q" by blast
  have t: "polite X (?u\<lparr>wd_db := t\<rparr>)" "reachable X (wd_db (?u\<lparr>wd_db := t\<rparr>))"
    using world_evolves_polite [OF meanwhile_evolves [OF assms(1)]] reachable_step [OF u(2) step_outbox_claim [OF c]]
    by (simp_all add: polite_def)
  note v = steps_only_reachable(4) [OF dispatch_messages_steps t d]
  show "0 < unat (ob_attempt_count m)" using p(3) by linarith
  show "\<not> finished ?k (wd_db w)"
  proof
    assume "finished ?k (wd_db w)"
    then have "finished ?k (wd_db ?u)" using stable_finished u(1) assms(2) unfolding stable_def by blast
    with p(1,2) show False by (simp add: finished_def)
  qed
  show "\<exists>q. message (wd_db v) ?k = Some q \<and> unat (ob_attempt_count m) \<le> unat (ob_attempt_count q)"
  proof (rule run_message [OF t(2) v])
    show "message (wd_db (?u\<lparr>wd_db := t\<rparr>)) ?k = Some q" using q(1) by simp
    show "\<exists>q. message (wd_db v) ?k = Some q \<and> unat (ob_attempt_count m) \<le> unat (ob_attempt_count q)"
      if "message (wd_db v) ?k = Some z" "message_evolves q z" for z
      using that q(2) order_trans by (fastforce simp: message_evolves_def word_le_nat_alt)
  qed
  show "unat (ob_attempt_count p0) < unat (ob_attempt_count m)" if "message (wd_db w) ?k = Some p0" for p0
  proof (rule run_message [OF assms(2) u(1) that])
    show "unat (ob_attempt_count p0) < unat (ob_attempt_count m)"
      if "message (wd_db ?u) ?k = Some z" "message_evolves p0 z" for z
      using that p(1,3) by (simp add: message_evolves_def word_le_nat_alt)
  qed
  show "finished ?k (wd_db v)" if "dc_max_attempts (pd_config D) \<le> ob_attempt_count m"
    using yieldsD [OF dispatch_finishes [OF assms(4) that] t _ d] by simp
qed

lemma dispatched_bounded:
  assumes "dispatched X M k s n t" "reachable X s" "0 < M"
  shows "n \<le> unat M"
proof -
  have "reachable X t \<and> n \<le> unat M \<and> (0 < n \<longrightarrow> (\<exists>m. message t k = Some m \<and> n \<le> unat (ob_attempt_count m)))
      \<and> (unat M \<le> n \<longrightarrow> finished k t)"
    using assms(1)
  proof induction
    case start
    then show ?case using assms(2,3) by (simp add: word_less_nat_alt)
  next
    case (others n t u)
    note run = r_into_rtranclp [of "vault_step X", OF others(2)]
    have "finished k u" if "finished k t"
      using that stable_finished others run unfolding stable_def by blast
    moreover have "\<exists>m. message u k = Some m \<and> n \<le> unat (ob_attempt_count m)"
      if m: "message t k = Some m" "n \<le> unat (ob_attempt_count m)" for m
    proof (rule run_message [OF _ run m(1)])
      show "reachable X t" using others by blast
      show "\<exists>m. message u k = Some m \<and> n \<le> unat (ob_attempt_count m)"
        if "message u k = Some z" "message_evolves m z" for z
        using that m(2) by (simp add: message_evolves_def word_le_nat_alt)
    qed
    ultimately show ?case using others reachable_step by blast
  next
    case (run n w D now r v)
    from run(4) obtain m where m: "m \<in> set (claimed_messages D now w)" "ob_id m = k" by blast
    have w: "reachable X (wd_db w)" using run by blast
    note p = dispatch_progress [OF run(2) w run(5) m(1), unfolded m(2)]
    have lt: "n < unat M"
    proof (rule ccontr)
      assume "\<not> n < unat M"
      with run.IH p(1) show False by simp
    qed
    have count: "n < unat (ob_attempt_count m)"
    proof (cases "n = 0")
      case False
      with run.IH obtain q where "message (wd_db w) k = Some q" "n \<le> unat (ob_attempt_count q)" by blast
      with p(4) show ?thesis by fastforce
    qed (use p(2) in simp)
    have "finished k (wd_db v)" if "unat M \<le> Suc n"
      using p(5) count that run(3) by (simp add: word_le_nat_alt)
    moreover have "reachable X (wd_db v)" using steps_only_reachable(1) [OF dispatch_steps run(2) w run(5)] .
    moreover obtain q where "message (wd_db v) k = Some q" "unat (ob_attempt_count m) \<le> unat (ob_attempt_count q)"
      using p(3) by blast
    ultimately show ?case using lt count by auto
  qed
  then show ?thesis by blast
qed

end
