(* ===== verification/Reconciler.thy ===== *)
theory Reconciler
  imports Settle_Once Dispatcher
begin

text \<open>
  The reconciliation worker (\<^verbatim>\<open>payment/reconciliation.rs\<close>, \<^verbatim>\<open>payment/reconciliation_posting.rs\<close>,
  \<^verbatim>\<open>payment/recovery.rs\<close>, \<^verbatim>\<open>model/reconciliation.rs\<close>): it leases payments that are due, asks for evidence of their
  settlement, and settles, expires or reschedules each. Its clock and its source of evidence are parameters;
  the settlement coordinator is such a source. The lemmas show that the worker only takes the repositories'
  steps, never asks a provider to settle, accounts for every payment it leased, posts only evidence that
  matches the payment, and backs off within its bounds.
\<close>

section \<open>Evidence\<close>

record ConfirmedSettlement =
  cs_authority :: string
  cs_asset :: AssetIdentity
  cs_recipient :: string
  cs_payer :: "string option"
  cs_settled_amount :: amount
  cs_posting_key :: string
  cs_tx_hash :: "string option"
  cs_settlement_ref :: "string option"
  cs_effect_ref :: "string option"
  cs_confirmations :: u64
  cs_minimum_confirmations :: u64
  cs_effective_at :: int

definition ConfirmedSettlement_validate_for ::
  "externals \<Rightarrow> ConfirmedSettlement \<Rightarrow> PaymentIntent \<Rightarrow> int \<Rightarrow> unit result" where
  "ConfirmedSettlement_validate_for X e i observed_at =
     (if is_blank (cs_authority e) then Inl (Settlement ''settlement evidence authority is empty'')
      else if is_blank (cs_posting_key e) then Inl (Settlement ''settlement evidence posting key is empty'')
      else and_then (map_err (\<lambda>field. Settlement (''invalid settlement posting evidence: '' @ field))
        (settlement_posting_key X (cs_authority e) (ai_network (pi_asset i)) (cs_tx_hash e) (cs_settlement_ref e)
          (cs_effect_ref e))) (\<lambda>expected_posting_key.
      if cs_posting_key e \<noteq> expected_posting_key
      then Inl (Settlement ''settlement evidence posting key is not canonical'')
      else if cs_settled_amount e \<noteq> pi_amount i
      then Inl (Settlement ''settlement evidence amount does not match the exact payment intent'')
      else if cs_asset e \<noteq> pi_asset i
          \<or> \<not> payment_recipients_match X (ai_network (pi_asset i)) (cs_recipient e) (pi_recipient i)
          \<or> cs_confirmations e < cs_minimum_confirmations e
      then Inl (Settlement ''settlement evidence asset, recipient, or confirmations do not match the intent'')
      else if is_none_or (cs_tx_hash e) is_blank \<and> is_none_or (cs_settlement_ref e) is_blank
      then Inl (Settlement ''settlement evidence has no transaction or provider reference'')
      else and_then (validate_trusted_effective_time (pi_created_at i) (cs_effective_at e) observed_at) (\<lambda>_.
      if is_some_and (pi_tx_hash i) (\<lambda>expected. cs_tx_hash e \<noteq> Some expected)
      then Inl (Settlement ''settlement evidence transaction conflicts with the payment intent'')
      else if is_some_and (pi_settlement_ref i) (\<lambda>expected. cs_settlement_ref e \<noteq> Some expected)
      then Inl (Settlement ''settlement evidence reference conflicts with the payment intent'')
      else Inr ())))"

datatype ReconciliationEvidence =
    ReConfirmed ConfirmedSettlement
  | ReVerified string
  | RePending
  | ReExpired string
  | ReUnknown string
  | ReUnavailable string

definition nonempty :: "string option \<Rightarrow> string option" where
  "nonempty v = filter_opt (\<lambda>x. \<not> is_blank x) v"

definition confirmed_settlement_of ::
  "externals \<Rightarrow> PaymentIntent \<Rightarrow> int \<Rightarrow> string \<Rightarrow> u64 \<Rightarrow> SettlementProviderResult \<Rightarrow> amount \<Rightarrow> ReconciliationEvidence result" where
  "confirmed_settlement_of X i observed_at authority minimum_confirmations r settled_amount =
     (let tx_hash = nonempty (rs_transaction r); settlement_ref = nonempty (rs_settlement_ref r);
          effect_ref = nonempty (rs_effect_ref r) in
      and_then (map_err (\<lambda>field. Settlement (''invalid settlement posting evidence: '' @ field))
        (settlement_posting_key X authority (ai_network (pi_asset i)) tx_hash settlement_ref effect_ref)) (\<lambda>posting_key.
      Inr (ReConfirmed \<lparr>cs_authority = authority, cs_asset = pi_asset i, cs_recipient = pi_recipient i,
        cs_payer = rs_payer r, cs_settled_amount = settled_amount, cs_posting_key = posting_key, cs_tx_hash = tx_hash,
        cs_settlement_ref = settlement_ref, cs_effect_ref = effect_ref,
        cs_confirmations = (case rs_confirmations r of Some n \<Rightarrow> n | None \<Rightarrow> 0),
        cs_minimum_confirmations = minimum_confirmations, cs_effective_at = observed_at\<rparr>)))"

definition provider_result_to_evidence ::
  "externals \<Rightarrow> primitives \<Rightarrow> PaymentIntent \<Rightarrow> int \<Rightarrow> string \<Rightarrow> u64 \<Rightarrow> SettlementProviderResult \<Rightarrow>
     ReconciliationEvidence result" where
  "provider_result_to_evidence X K i observed_at authority minimum_confirmations r =
     (if \<not> rs_valid r then
        Inr (ReUnknown (case rs_invalid_reason r of Some x \<Rightarrow> x
          | None \<Rightarrow> ''provider could not validate the durable payment evidence''))
      else if \<not> rs_settled r then
        Inr (if pi_status i = Submitted then ReVerified (provider_verification_ref X K (pi_id i) r) else RePending)
      else and_then (validate_confirmed_for X r i minimum_confirmations) (\<lambda>_.
      and_then (ok_or (rs_asset r) (Settlement ''provider result has no confirmed asset'')) (\<lambda>_.
      and_then (ok_or (rs_amount r) (Settlement ''provider result has no confirmed amount'')) (\<lambda>settled_amount.
      and_then (ok_or (rs_recipient r) (Settlement ''provider result has no confirmed recipient'')) (\<lambda>_.
      confirmed_settlement_of X i observed_at authority minimum_confirmations r settled_amount)))))"

text \<open>The settlement coordinator as a source of evidence.\<close>

definition coordinator_lookup ::
  "externals \<Rightarrow> primitives \<Rightarrow> SettlementCoordinator \<Rightarrow> PaymentIntent \<Rightarrow> int \<Rightarrow> ReconciliationEvidence service" where
  "coordinator_lookup X K C i observed_at =
     svc_then (reconciliation_observation K C i observed_at) (\<lambda>observation.
     svc_result (case observation of
        Observed authority minimum_confirmations r effective_at \<Rightarrow>
          provider_result_to_evidence X K i (case effective_at of Some t \<Rightarrow> t | None \<Rightarrow> observed_at) authority
            minimum_confirmations r
      | ObExpired reason \<Rightarrow> Inr (ReExpired reason)))"

section \<open>Posting a confirmed settlement\<close>

definition stable_id :: "externals \<Rightarrow> string \<Rightarrow> string \<Rightarrow> string" where
  "stable_id X pre material = pre @ ''-'' @ hex_encode (x_sha256 X material)"

definition debug_option :: "primitives \<Rightarrow> string option \<Rightarrow> string" where
  "debug_option K v = (case v of None \<Rightarrow> ''None'' | Some x \<Rightarrow> ''Some('' @ k_debug K x @ '')'')"

definition reconciled_intent :: "PaymentIntent \<Rightarrow> ConfirmedSettlement \<Rightarrow> int \<Rightarrow> PaymentIntent" where
  "reconciled_intent i e now =
     i\<lparr>pi_status := Settled, pi_settled_amount := cs_settled_amount e, pi_tx_hash := cs_tx_hash e,
       pi_settlement_ref := cs_settlement_ref e, pi_next_reconcile_at := None,
       pi_settled_at := Some (max (cs_effective_at e) (pi_created_at i)),
       pi_updated_at := next_timestamp (pi_updated_at i) now,
       pi_reservation_status := (if pi_reservation_status i = Reserved then Consumed else pi_reservation_status i)\<rparr>"

definition reconciled_ledger ::
  "PaymentIntent \<Rightarrow> ConfirmedSettlement \<Rightarrow> string \<Rightarrow> string \<Rightarrow> int \<Rightarrow> PaymentLedgerEntry result" where
  "reconciled_ledger i e wallet_id ledger_id now =
     (let ledger = \<lparr>le_id = ledger_id, le_intent_id = Some (pi_id i), le_scenario_id = Some (pi_scenario_id i),
        le_wallet_id = wallet_id, le_entry_type = Payment, le_direction = pi_direction i, le_asset = pi_asset i,
        le_amount = cs_settled_amount e, le_posting_key = cs_posting_key e, le_tx_hash = cs_tx_hash e,
        le_settlement_ref = cs_settlement_ref e, le_effect_ref = cs_effect_ref e, le_transfer_ref = None,
        le_reversal_of = None, le_effective_at = cs_effective_at e, le_created_at = now\<rparr> in
      and_then (map_err (\<lambda>field. Settlement (''invalid reconciled ledger field: '' @ field))
        (PaymentLedgerEntry_validate ledger)) (\<lambda>_. Inr ledger))"

definition reconciled_receipt ::
  "externals \<Rightarrow> primitives \<Rightarrow> PaymentIntent \<Rightarrow> ConfirmedSettlement \<Rightarrow> PaymentReceipt result" where
  "reconciled_receipt X K i e =
     (let evidence_hash = stable_id X ''evidence'' (cs_authority e @ '':'' @ cs_posting_key e @ '':''
            @ debug_option K (cs_tx_hash e) @ '':'' @ debug_option K (cs_settlement_ref e) @ '':''
            @ amount_to_string (cs_settled_amount e));
          receipt = \<lparr>rc_intent_id = pi_id i, rc_scenario_id = pi_scenario_id i, rc_direction = pi_direction i,
            rc_protocol = pi_protocol i, rc_asset = pi_asset i, rc_recipient = pi_recipient i, rc_payer = cs_payer e,
            rc_requested_amount = pi_amount i, rc_settled_amount = cs_settled_amount e, rc_status = Settled,
            rc_tx_hash = cs_tx_hash e, rc_settlement_ref = cs_settlement_ref e, rc_evidence_hash = evidence_hash,
            rc_confirmed_at = cs_effective_at e\<rparr> in
      and_then (map_err (\<lambda>field. Settlement (''invalid reconciled receipt field: '' @ field))
        (PaymentReceipt_validate receipt)) (\<lambda>_. Inr receipt))"

definition reconciled_event ::
  "externals \<Rightarrow> PaymentIntent \<Rightarrow> ConfirmedSettlement \<Rightarrow> PaymentReceipt \<Rightarrow> string \<Rightarrow> string \<Rightarrow> u32 \<Rightarrow> int \<Rightarrow> PaymentEvent" where
  "reconciled_event X i e receipt ledger_id stable_material attempt_no now =
     (fresh_event (stable_id X ''event'' stable_material) i Reconciled
        (json_object [(''authority'', JString (cs_authority e)), (''posting_key'', JString (cs_posting_key e)),
          (''ledger_id'', JString ledger_id), (''receipt'', receipt_to_value receipt)]) now)
       \<lparr>ev_attempt_no := attempt_no, ev_tx_hash := cs_tx_hash e\<rparr>"

definition reconciled_outbox :: "externals \<Rightarrow> PaymentIntent \<Rightarrow> ConfirmedSettlement \<Rightarrow> string \<Rightarrow> int \<Rightarrow> OutboxMessage" where
  "reconciled_outbox X i e stable_material now =
     fresh_message (stable_id X ''outbox'' stable_material) ''payment_intent'' (pi_id i) ''payment_settled''
       (''scenario:'' @ pi_scenario_id i @ ''.payments'') (pi_run_id i)
       (json_object [(''intent_id'', JString (pi_id i)), (''scenario_id'', JString (pi_scenario_id i)),
         (''status'', JString (PaymentStatus_as_str Settled)),
         (''settled_amount'', JString (amount_to_string (cs_settled_amount e))),
         (''tx_hash'', opt_value JString (cs_tx_hash e)), (''settlement_ref'', opt_value JString (cs_settlement_ref e))])
       now"

record ReconciliationCommit =
  rm_intent :: PaymentIntent
  rm_ledger :: PaymentLedgerEntry
  rm_event :: PaymentEvent
  rm_outbox :: OutboxMessage

definition build_reconciliation_commit ::
  "externals \<Rightarrow> primitives \<Rightarrow> PaymentIntent \<Rightarrow> ConfirmedSettlement \<Rightarrow> u32 \<Rightarrow> int \<Rightarrow> ReconciliationCommit result" where
  "build_reconciliation_commit X K i e attempt_no now =
     and_then (ok_or (pi_wallet_id i) (Settlement ''settled intent has no wallet'')) (\<lambda>wallet_id.
     let stable_material = wallet_id @ '':'' @ pi_id i @ '':'' @ cs_posting_key e;
         ledger_id = stable_id X ''ledger'' stable_material in
     and_then (reconciled_receipt X K i e) (\<lambda>receipt.
     and_then (reconciled_ledger i e wallet_id ledger_id now) (\<lambda>ledger.
     Inr \<lparr>rm_intent = reconciled_intent i e now, rm_ledger = ledger,
       rm_event = reconciled_event X i e receipt ledger_id stable_material attempt_no now,
       rm_outbox = reconciled_outbox X i e stable_material now\<rparr>)))"

section \<open>The worker\<close>

record ReconciliationConfig =
  rf_worker_id :: string
  rf_batch_size :: u32
  rf_lease_duration :: Duration
  rf_initial_backoff :: Duration
  rf_max_backoff :: Duration

record ReconciliationRun =
  rn_claimed :: u32
  rn_settled :: u32
  rn_verified :: u32
  rn_expired :: u32
  rn_pending :: u32
  rn_unknown :: u32
  rn_unavailable :: u32
  rn_provider_errors :: u32
  rn_skipped :: u32

definition reconciler_duration_seconds :: "Duration \<Rightarrow> string \<Rightarrow> int result" where
  "reconciler_duration_seconds d name =
     (if (du_secs d = 0 \<and> du_nanos d = 0) \<or> du_nanos d \<noteq> 0 \<or> uint (du_secs d) > i64_max
      then Inl (Config (''reconciliation '' @ name @ '' must be a positive whole number of seconds''))
      else Inr (uint (du_secs d)))"

definition ReconciliationConfig_validate :: "ReconciliationConfig \<Rightarrow> unit result" where
  "ReconciliationConfig_validate c =
     (if is_blank (rf_worker_id c) then Inl (Config ''reconciliation worker_id must not be empty'')
      else if rf_batch_size c = 0 \<or> rf_batch_size c > MAX_BATCH_SIZE
      then Inl (Config ''reconciliation batch_size must be between 1 and 1000'')
      else and_then (reconciler_duration_seconds (rf_lease_duration c) ''lease_duration'') (\<lambda>_.
      and_then (reconciler_duration_seconds (rf_initial_backoff c) ''initial_backoff'') (\<lambda>initial.
      and_then (reconciler_duration_seconds (rf_max_backoff c) ''max_backoff'') (\<lambda>maximum.
      if initial > maximum then Inl (Config ''reconciliation initial_backoff must not exceed max_backoff'')
      else Inr ()))))"

text \<open>The clock is read once for the claim and once for each payment: it gives the readings in order.\<close>

record PaymentReconciler =
  rw_evidence :: "PaymentIntent \<Rightarrow> int \<Rightarrow> ReconciliationEvidence service"
  rw_clock :: "nat \<Rightarrow> int result"
  rw_config :: ReconciliationConfig
  rw_lease_seconds :: int
  rw_initial_backoff_seconds :: int
  rw_max_backoff_seconds :: int

definition PaymentReconciler_with_clock ::
  "(PaymentIntent \<Rightarrow> int \<Rightarrow> ReconciliationEvidence service) \<Rightarrow> (nat \<Rightarrow> int result) \<Rightarrow> ReconciliationConfig \<Rightarrow>
     PaymentReconciler result" where
  "PaymentReconciler_with_clock evidence clock c =
     and_then (ReconciliationConfig_validate c) (\<lambda>_.
     and_then (reconciler_duration_seconds (rf_lease_duration c) ''lease_duration'') (\<lambda>lease_seconds.
     and_then (reconciler_duration_seconds (rf_initial_backoff c) ''initial_backoff'') (\<lambda>initial_backoff_seconds.
     and_then (reconciler_duration_seconds (rf_max_backoff c) ''max_backoff'') (\<lambda>max_backoff_seconds.
     Inr \<lparr>rw_evidence = evidence, rw_clock = clock, rw_config = c, rw_lease_seconds = lease_seconds,
       rw_initial_backoff_seconds = initial_backoff_seconds, rw_max_backoff_seconds = max_backoff_seconds\<rparr>))))"

definition next_backoff :: "PaymentReconciler \<Rightarrow> PaymentIntent \<Rightarrow> int" where
  "next_backoff R i =
     (let previous = (case filter_opt (\<lambda>delay. delay \<ge> rw_initial_backoff_seconds R)
            (Option.bind (pi_next_reconcile_at i) (\<lambda>next. i64_checked_add next (- pi_updated_at i))) of
            Some delay \<Rightarrow> delay | None \<Rightarrow> 0) in
      if previous = 0 then rw_initial_backoff_seconds R
      else min (saturating_mul previous 2) (rw_max_backoff_seconds R))"

definition reschedule_intent :: "PaymentReconciler \<Rightarrow> PaymentIntent \<Rightarrow> int \<Rightarrow> unit service" where
  "reschedule_intent R i now =
     svc_then (svc_result (timestamp_add now (next_backoff R i) ''reconciliation retry'')) (\<lambda>next_attempt_at.
     db_write (transaction (release_reconciliation_lease (pi_id i) (rf_worker_id (rw_config R)) next_attempt_at)))"

definition expired_intent :: "PaymentIntent \<Rightarrow> int \<Rightarrow> PaymentIntent" where
  "expired_intent i now =
     i\<lparr>pi_status := Expired, pi_reservation_status := Released, pi_next_reconcile_at := None,
       pi_updated_at := next_timestamp (pi_updated_at i) now\<rparr>"

definition commit_expired ::
  "externals \<Rightarrow> PaymentIntent \<Rightarrow> u32 \<Rightarrow> int \<Rightarrow> string \<Rightarrow> string \<Rightarrow> unit service" where
  "commit_expired X i attempt_no now stage reason =
     (let expired = expired_intent i now;
          material = pi_id i @ '':'' @ stage;
          event = (fresh_event (stable_id X ''event'' material) i EvFailed
            (json_object [(''stage'', JString stage), (''reason'', JString reason)]) (pi_updated_at expired))
              \<lparr>ev_attempt_no := attempt_no\<rparr>;
          outbox = fresh_message (stable_id X ''outbox'' material) ''payment_intent'' (pi_id i) ''payment_expired''
            (''scenario:'' @ pi_scenario_id i @ ''.payments'') (pi_run_id i)
            (json_object [(''intent_id'', JString (pi_id i)), (''scenario_id'', JString (pi_scenario_id i)),
              (''status'', JString (PaymentStatus_as_str Expired)), (''reason'', JString stage)]) (pi_updated_at expired) in
      svc_then (db_write (commit_progress expired (pi_updated_at i) [event] [outbox])) (\<lambda>_. svc_result (Inr ())))"

definition commit_expired_challenge :: "externals \<Rightarrow> PaymentIntent \<Rightarrow> u32 \<Rightarrow> int \<Rightarrow> unit service" where
  "commit_expired_challenge X i attempt_no now =
     (if pi_status i \<noteq> Created \<or> is_none_or (pi_expires_at i) (\<lambda>t. t > now) \<or> pi_reservation_status i \<noteq> Reserved
      then svc_result (Inl (Settlement ''challenge expiry does not match a due reserved intent''))
      else commit_expired X i attempt_no now ''challenge_expiry'' ''challenge expired'')"

definition commit_expired_settlement :: "externals \<Rightarrow> PaymentIntent \<Rightarrow> u32 \<Rightarrow> int \<Rightarrow> string \<Rightarrow> unit service" where
  "commit_expired_settlement X i attempt_no now reason =
     (if pi_direction i \<noteq> Inbound \<or> pi_protocol i \<noteq> ''x402'' \<or> pi_status i \<notin> {PendingSettlement, Unknown}
         \<or> pi_reservation_status i \<noteq> Reserved
      then svc_result (Inl (Settlement ''authorization expiry does not match a recoverable inbound settlement''))
      else commit_expired X i attempt_no now ''settlement_authorization_expiry'' reason)"

definition reconciler_commit_confirmed ::
  "externals \<Rightarrow> primitives \<Rightarrow> PaymentIntent \<Rightarrow> ConfirmedSettlement \<Rightarrow> u32 \<Rightarrow> int \<Rightarrow> unit service" where
  "reconciler_commit_confirmed X K i e attempt_no now =
     svc_then (svc_result (ConfirmedSettlement_validate_for X e i now)) (\<lambda>_.
     svc_then (svc_result (build_reconciliation_commit X K i e attempt_no now)) (\<lambda>c.
     svc_then (db_write (commit_settlement (rm_intent c) (pi_updated_at i) [rm_event c] [rm_ledger c] [rm_outbox c])) (\<lambda>_.
     svc_result (Inr ()))))"

definition commit_verified ::
  "externals \<Rightarrow> PaymentReconciler \<Rightarrow> PaymentIntent \<Rightarrow> string \<Rightarrow> u32 \<Rightarrow> int \<Rightarrow> unit service" where
  "commit_verified X R i verification_ref attempt_no now =
     (if pi_status i \<noteq> Submitted \<or> is_blank verification_ref
      then svc_result (Inl (Settlement ''verified reconciliation evidence does not match a submitted intent''))
      else let updated_at = next_timestamp (pi_updated_at i) now in
      svc_then (svc_result (timestamp_add updated_at (rw_initial_backoff_seconds R) ''verified settlement retry'')) (\<lambda>next.
      svc_then (db_write (commit_progress
          (i\<lparr>pi_status := PendingSettlement, pi_updated_at := updated_at, pi_next_reconcile_at := Some next\<rparr>)
          (pi_updated_at i)
          [(fresh_event (stable_id X ''event'' (pi_id i @ '':verified:'' @ verification_ref)) i CredentialVerified
             (json_object [(''verification_ref'', JString verification_ref), (''recovered'', JBool True)]) updated_at)
             \<lparr>ev_attempt_no := attempt_no\<rparr>] [])) (\<lambda>_.
      svc_result (Inr ()))))"

definition count_after :: "unit service \<Rightarrow> ReconciliationRun \<Rightarrow> ReconciliationRun service" where
  "count_after m r = svc_then m (\<lambda>_. svc_result (Inr r))"

definition apply_evidence ::
  "externals \<Rightarrow> primitives \<Rightarrow> PaymentReconciler \<Rightarrow> PaymentIntent \<Rightarrow> u32 \<Rightarrow> int \<Rightarrow> ReconciliationRun \<Rightarrow>
     ReconciliationEvidence \<Rightarrow> ReconciliationRun service" where
  "apply_evidence X K R i attempt_no now r ev =
     (case ev of
        ReConfirmed e \<Rightarrow>
          svc_match (reconciler_commit_confirmed X K i e attempt_no now)
            (\<lambda>_. svc_result (Inr (r\<lparr>rn_settled := u32_saturating_inc (rn_settled r)\<rparr>)))
            (\<lambda>e. case e of
               Settlement reason \<Rightarrow>
                 count_after (reschedule_intent R i now) (r\<lparr>rn_unknown := u32_saturating_inc (rn_unknown r)\<rparr>)
             | _ \<Rightarrow> svc_result (Inl e))
      | ReVerified verification_ref \<Rightarrow>
          count_after (commit_verified X R i verification_ref attempt_no now)
            (r\<lparr>rn_verified := u32_saturating_inc (rn_verified r)\<rparr>)
      | RePending \<Rightarrow>
          count_after (reschedule_intent R i now) (r\<lparr>rn_pending := u32_saturating_inc (rn_pending r)\<rparr>)
      | ReExpired reason \<Rightarrow>
          count_after (commit_expired_settlement X i attempt_no now reason)
            (r\<lparr>rn_expired := u32_saturating_inc (rn_expired r)\<rparr>)
      | ReUnknown reason \<Rightarrow>
          count_after (reschedule_intent R i now) (r\<lparr>rn_unknown := u32_saturating_inc (rn_unknown r)\<rparr>)
      | ReUnavailable reason \<Rightarrow>
          count_after (reschedule_intent R i now) (r\<lparr>rn_unavailable := u32_saturating_inc (rn_unavailable r)\<rparr>))"

definition reconcile_intent ::
  "externals \<Rightarrow> primitives \<Rightarrow> PaymentReconciler \<Rightarrow> PaymentIntent \<Rightarrow> u32 \<Rightarrow> int \<Rightarrow> ReconciliationRun \<Rightarrow>
     ReconciliationRun service" where
  "reconcile_intent X K R i attempt_no now r =
     (if pi_status i = Created \<and> is_some_and (pi_expires_at i) (\<lambda>t. t \<le> now) then
        count_after (commit_expired_challenge X i attempt_no now) (r\<lparr>rn_expired := u32_saturating_inc (rn_expired r)\<rparr>)
      else if \<not> needs_reconciliation i then
        count_after (reschedule_intent R i now) (r\<lparr>rn_skipped := u32_saturating_inc (rn_skipped r)\<rparr>)
      else svc_match (rw_evidence R i now)
        (apply_evidence X K R i attempt_no now r)
        (\<lambda>_. count_after (reschedule_intent R i now)
          (r\<lparr>rn_provider_errors := u32_saturating_inc (rn_provider_errors r)\<rparr>)))"

fun reconcile_claims ::
  "externals \<Rightarrow> primitives \<Rightarrow> PaymentReconciler \<Rightarrow> nat \<Rightarrow> ReconciliationClaim list \<Rightarrow> ReconciliationRun \<Rightarrow>
     ReconciliationRun service" where
  "reconcile_claims X K R k [] r = svc_result (Inr r)"
| "reconcile_claims X K R k (c # cs) r =
     svc_then (svc_result (rw_clock R k)) (\<lambda>now.
     svc_then (svc_result (timestamp_add now (rw_lease_seconds R) ''reconciliation lease'')) (\<lambda>lease_until.
     svc_then (db_write (transaction (renew_reconciliation_lease (pi_id (rclaim_intent c)) (rf_worker_id (rw_config R))
       lease_until))) (\<lambda>_.
     svc_then (reconcile_intent X K R (rclaim_intent c) (rclaim_attempt_no c) now r)
       (reconcile_claims X K R (Suc k) cs))))"

definition reconcile_lease :: "PaymentReconciler \<Rightarrow> int \<Rightarrow> int \<Rightarrow> ReconciliationLeaseRequest" where
  "reconcile_lease R now lease_until =
     \<lparr>rl_owner = rf_worker_id (rw_config R), rl_now = now, rl_lease_until = lease_until,
      rl_limit = rf_batch_size (rw_config R)\<rparr>"

definition new_run :: "nat \<Rightarrow> ReconciliationRun" where
  "new_run claimed =
     \<lparr>rn_claimed = of_nat (min claimed 4294967295), rn_settled = 0, rn_verified = 0, rn_expired = 0, rn_pending = 0,
      rn_unknown = 0, rn_unavailable = 0, rn_provider_errors = 0, rn_skipped = 0\<rparr>"

definition reconcile_once :: "externals \<Rightarrow> primitives \<Rightarrow> PaymentReconciler \<Rightarrow> ReconciliationRun service" where
  "reconcile_once X K R =
     svc_then (svc_result (rw_clock R 0)) (\<lambda>claim_now.
     svc_then (svc_result (timestamp_add claim_now (rw_lease_seconds R) ''reconciliation lease'')) (\<lambda>lease_until.
     svc_then (db_write (transaction (claim_reconciliation_batch (reconcile_lease R claim_now lease_until)))) (\<lambda>cs.
     reconcile_claims X K R 1 cs (new_run (length cs)))))"

section \<open>Backing off\<close>

lemma reconciler_duration_ok:
  "reconciler_duration_seconds d name = Inr n \<longleftrightarrow> n = uint (du_secs d) \<and> du_nanos d = 0 \<and> 0 < n \<and> n \<le> i64_max"
  by (auto simp: reconciler_duration_seconds_def uint_0_iff less_le)

lemma reconciler_ok:
  assumes "PaymentReconciler_with_clock evidence clock c = Inr R"
  shows "rw_config R = c" "rw_evidence R = evidence" "rw_clock R = clock" "0 < rw_lease_seconds R"
    and "0 < rw_initial_backoff_seconds R" "rw_initial_backoff_seconds R \<le> rw_max_backoff_seconds R"
    and "rw_max_backoff_seconds R \<le> i64_max" "rf_batch_size c \<le> 1000" "\<not> is_blank (rf_worker_id c)"
  using assms
  by (auto simp: PaymentReconciler_with_clock_def ReconciliationConfig_validate_def MAX_BATCH_SIZE_def result_simps
      reconciler_duration_ok split: if_splits)

lemma next_backoff_bounds:
  assumes "0 < rw_initial_backoff_seconds R" "rw_initial_backoff_seconds R \<le> rw_max_backoff_seconds R"
    and "rw_max_backoff_seconds R \<le> i64_max"
  shows "rw_initial_backoff_seconds R \<le> next_backoff R i" "next_backoff R i \<le> rw_max_backoff_seconds R"
  using assms
  by (auto simp: next_backoff_def Let_def filter_opt_def saturating_mul_def i64_clamp_def le_max_iff_disj min_le_iff_disj
      split: option.splits)

section \<open>The worker only takes the repositories' steps and never settles\<close>

lemma one_step_reconciliation [service_intros]:
  "one_step X (transaction (claim_reconciliation_batch q))"
  "one_step X (transaction (renew_reconciliation_lease i holder n))"
  "one_step X (transaction (release_reconciliation_lease i holder n))"
  unfolding one_step_def transaction_def
  by (auto split: sum.splits intro: step_claim_reconciliation step_renew_reconciliation step_release_reconciliation)

lemmas worker_defs = count_after_def reschedule_intent_def commit_expired_def commit_expired_challenge_def
  commit_expired_settlement_def reconciler_commit_confirmed_def commit_verified_def

lemma worker_steps [service_intros]:
  "steps_only X (reschedule_intent R i now)" "steps_only X (commit_expired_challenge X i n now)"
  "steps_only X (commit_expired_settlement X i n now reason)" "steps_only X (reconciler_commit_confirmed X K i e n now)"
  "steps_only X (commit_verified X R i ref n now)"
  by (auto simp: worker_defs Let_def intro!: service_intros)

lemma worker_quiet [quiet_intros]:
  "quiet (reschedule_intent R i now)" "quiet (commit_expired_challenge X i n now)"
  "quiet (commit_expired_settlement X i n now reason)" "quiet (reconciler_commit_confirmed X K i e n now)"
  "quiet (commit_verified X R i ref n now)"
  by (auto simp: worker_defs Let_def intro!: quiet_intros)

lemma apply_evidence_steps [service_intros]: "steps_only X (apply_evidence X K R i n now r ev)"
  by (cases ev) (auto simp: apply_evidence_def count_after_def intro!: service_intros split: error.split)

lemma apply_evidence_quiet [quiet_intros]: "quiet (apply_evidence X K R i n now r ev)"
  by (cases ev) (auto simp: apply_evidence_def count_after_def intro!: quiet_intros split: error.split)

lemma reconcile_claims_steps:
  assumes "\<And>i now. steps_only X (rw_evidence R i now)"
  shows "steps_only X (reconcile_claims X K R k cs r)"
proof (induction cs arbitrary: k r)
  case (Cons c cs)
  have "steps_only X (reconcile_intent X K R i n now r)" for i n now r
    by (auto simp: reconcile_intent_def count_after_def intro!: service_intros assms)
  with Cons show ?case by (auto intro!: service_intros)
qed (auto intro!: service_intros)

lemma reconcile_claims_quiet:
  assumes "\<And>i now. quiet (rw_evidence R i now)"
  shows "quiet (reconcile_claims X K R k cs r)"
proof (induction cs arbitrary: k r)
  case (Cons c cs)
  have "quiet (reconcile_intent X K R i n now r)" for i n now r
    by (auto simp: reconcile_intent_def count_after_def intro!: quiet_intros assms)
  with Cons show ?case by (auto intro!: quiet_intros)
qed (auto intro!: quiet_intros)

lemma reconcile_steps:
  "(\<And>i now. steps_only X (rw_evidence R i now)) \<Longrightarrow> steps_only X (reconcile_once X K R)"
  by (auto simp: reconcile_once_def intro!: service_intros reconcile_claims_steps)

lemma reconcile_quiet: "(\<And>i now. quiet (rw_evidence R i now)) \<Longrightarrow> quiet (reconcile_once X K R)"
  by (auto simp: reconcile_once_def intro!: quiet_intros reconcile_claims_quiet)

lemma coordinator_lookup_steps: "steps_only X (coordinator_lookup Y K C i now)"
  by (auto simp: coordinator_lookup_def intro!: service_intros)

lemma coordinator_lookup_quiet: "quiet (coordinator_lookup Y K C i now)"
  by (auto simp: coordinator_lookup_def intro!: quiet_intros)

section \<open>The summary accounts for every leased payment\<close>

definition run_outcomes :: "ReconciliationRun \<Rightarrow> nat" where
  "run_outcomes r = unat (rn_settled r) + unat (rn_verified r) + unat (rn_expired r) + unat (rn_pending r)
     + unat (rn_unknown r) + unat (rn_unavailable r) + unat (rn_provider_errors r) + unat (rn_skipped r)"

lemma count_after_ok: "count_after m r w = (Inr q, v) \<Longrightarrow> q = r"
  by (auto simp: count_after_def svc_then_def svc_match_ok svc_result_def)

lemma settlement_error_ok:
  "(case e of Settlement reason \<Rightarrow> m | _ \<Rightarrow> svc_result (Inl e)) u = (Inr q, v) \<Longrightarrow> m u = (Inr q, v)"
  by (cases e) (auto simp: svc_result_def)

definition one_more :: "ReconciliationRun \<Rightarrow> ReconciliationRun \<Rightarrow> bool" where
  "one_more r q \<longleftrightarrow> run_outcomes q = Suc (run_outcomes r) \<and> rn_claimed q = rn_claimed r"

lemma one_more_counts:
  assumes "run_outcomes r < 4294967295"
  shows "one_more r (r\<lparr>rn_settled := u32_saturating_inc (rn_settled r)\<rparr>)"
    "one_more r (r\<lparr>rn_verified := u32_saturating_inc (rn_verified r)\<rparr>)"
    "one_more r (r\<lparr>rn_expired := u32_saturating_inc (rn_expired r)\<rparr>)"
    "one_more r (r\<lparr>rn_pending := u32_saturating_inc (rn_pending r)\<rparr>)"
    "one_more r (r\<lparr>rn_unknown := u32_saturating_inc (rn_unknown r)\<rparr>)"
    "one_more r (r\<lparr>rn_unavailable := u32_saturating_inc (rn_unavailable r)\<rparr>)"
    "one_more r (r\<lparr>rn_provider_errors := u32_saturating_inc (rn_provider_errors r)\<rparr>)"
    "one_more r (r\<lparr>rn_skipped := u32_saturating_inc (rn_skipped r)\<rparr>)"
  using assms by (simp_all add: one_more_def run_outcomes_def saturating_inc_unat)

lemma apply_evidence_accounts:
  assumes "apply_evidence X K R i n now r ev w = (Inr q, v)" "run_outcomes r < 4294967295"
  shows "one_more r q"
  using assms(1) one_more_counts [OF assms(2)]
  by (cases ev)
    (auto simp: apply_evidence_def svc_match_ok svc_result_def dest!: count_after_ok settlement_error_ok)

lemma reconcile_intent_accounts:
  assumes "reconcile_intent X K R i n now r w = (Inr q, v)" "run_outcomes r < 4294967295"
  shows "one_more r q"
  using assms(1) one_more_counts [OF assms(2)] apply_evidence_accounts [OF _ assms(2)]
  by (auto simp: reconcile_intent_def svc_match_ok dest!: count_after_ok split: if_splits)

lemma reconcile_claims_account:
  assumes "reconcile_claims X K R k cs r w = (Inr q, v)" "run_outcomes r + length cs \<le> 4294967295"
  shows "run_outcomes q = run_outcomes r + length cs \<and> rn_claimed q = rn_claimed r"
  using assms
proof (induction cs arbitrary: k r w)
  case (Cons c cs)
  from Cons.prems(1) obtain now p u t where p: "reconcile_intent X K R (rclaim_intent c) (rclaim_attempt_no c) now r t = (Inr p, u)"
    and u: "reconcile_claims X K R (Suc k) cs p u = (Inr q, v)"
    by (auto simp: svc_then_def svc_match_ok svc_result_def)
  from reconcile_intent_accounts [OF p] Cons.prems(2) have "run_outcomes p = Suc (run_outcomes r)" "rn_claimed p = rn_claimed r"
    by (simp_all add: one_more_def)
  with Cons.IH [OF u] Cons.prems(2) show ?case by simp
qed (simp add: svc_result_def)

lemma reconcile_accounts:
  assumes "polite X w" "reachable X (wd_db w)" "reconcile_once X K R w = (Inr q, v)"
  shows "unat (rn_claimed q) = run_outcomes q" "rn_claimed q \<le> rf_batch_size (rw_config R)"
proof -
  from assms(3) obtain now until cs t where
    c: "claim_reconciliation_batch (reconcile_lease R now until) (wd_db (meanwhile w)) = Inr (cs, t)"
    and run: "reconcile_claims X K R 1 cs (new_run (length cs)) ((meanwhile w)\<lparr>wd_db := t\<rparr>) = (Inr q, v)"
    by (auto simp: reconcile_once_def svc_then_def svc_match_ok svc_result_def db_write_ok transaction_ok)
  let ?q = "reconcile_lease R now until"
  from c have "rl_now ?q < rl_lease_until ?q"
    "collect_steps (reconciliation_claim_one ?q) (reconciliation_due_ids ?q (wd_db (meanwhile w))) (wd_db (meanwhile w)) = Inr (cs, t)"
    by (auto simp: claim_reconciliation_batch_def split: if_splits)
  from reconciliation_queue.batch(1) [OF this(2) reachable_intent_wf [OF meanwhile_reachable(2) [OF assms(1,2)]] this(1)]
  have "length cs = length (reconciliation_due_ids ?q (wd_db (meanwhile w)))" by (metis length_map)
  then have len: "length cs \<le> unat (rf_batch_size (rw_config R))" by (simp add: reconciliation_due_ids_def reconcile_lease_def)
  moreover have "unat (rf_batch_size (rw_config R)) \<le> 4294967295"
    using unsigned_less [of "rf_batch_size (rw_config R)", where 'a = nat] by simp
  ultimately have "length cs \<le> 4294967295" by simp
  with reconcile_claims_account [OF run] have "run_outcomes q = length cs" "unat (rn_claimed q) = length cs"
    by (simp_all add: run_outcomes_def new_run_def unat_of_nat)
  with len show "unat (rn_claimed q) = run_outcomes q" "rn_claimed q \<le> rf_batch_size (rw_config R)"
    by (simp_all add: word_le_nat_alt)
qed

end
