(* ===== verification/Demo_Workers.thy ===== *)
theory Demo_Workers
  imports Demo_Services Reconciler
begin

text \<open>
  Concrete runs of the background workers: a dispatcher that delivers the message of a verified payment, and a
  reconciler that finds a payment still pending.
\<close>

section \<open>A delivered message\<close>

definition demo_note :: OutboxMessage where
  "demo_note = fresh_message ''m1'' ''payment_intent'' ''i'' ''payment_verified'' ''scenario:s.payments'' ''r'' JNull 111"

definition demo_noted :: db where
  "demo_noted = demo_verified_in\<lparr>pay_outbox := [demo_note]\<rparr>"

lemma demo_record_noted:
  "commit_progress demo_pending_in 110 [demo_verified_event] [demo_note] demo_submitted = (Inr demo_pending_in, demo_noted)"
  by code_simp

lemma demo_reachable_noted: "reachable demo_X demo_noted"
  using demo_reachable_shop reachable_step step_record_challenge [OF demo_record_challenge]
    step_verify_incoming [OF demo_verify_incoming] step_commit_progress [OF demo_record_noted] by meson

definition demo_seconds :: "u64 \<Rightarrow> Duration" where
  "demo_seconds n = \<lparr>du_secs = n, du_nanos = 0\<rparr>"

definition demo_dispatch_config :: PaymentEventDispatcherConfig where
  "demo_dispatch_config = \<lparr>dc_worker_id = ''o'', dc_batch_size = 10, dc_lease_duration = demo_seconds 30,
     dc_delivery_timeout = demo_seconds 5, dc_poll_interval = demo_seconds 1, dc_initial_backoff = demo_seconds 2,
     dc_max_backoff = demo_seconds 60, dc_max_attempts = 5\<rparr>"

definition demo_dispatcher :: PaymentEventDispatcher where
  "demo_dispatcher = \<lparr>pd_config = demo_dispatch_config, pd_sink = (\<lambda>_. Some EventDelivered), pd_lease_seconds = 30,
     pd_initial_backoff_seconds = 2, pd_max_backoff_seconds = 60\<rparr>"

lemma demo_dispatcher_new:
  "PaymentEventDispatcher_new (\<lambda>_. Some EventDelivered) demo_dispatch_config = Inr demo_dispatcher"
proof -
  have "PaymentEventDispatcherConfig_validate demo_dispatch_config = Inr ()" by code_simp
  then show ?thesis
    by (simp add: PaymentEventDispatcher_new_def dispatcher_duration_seconds_def demo_dispatcher_def demo_dispatch_config_def
        demo_seconds_def i64_max_def)
qed

definition demo_taken :: OutboxMessage where
  "demo_taken = demo_note\<lparr>ob_lease_owner := Some ''o'', ob_lease_expires_at := Some 180, ob_attempt_count := 1\<rparr>"

definition demo_delivered :: OutboxMessage where
  "demo_delivered = demo_note\<lparr>ob_status := Delivered, ob_delivered_at := Some 150, ob_attempt_count := 1\<rparr>"

lemma demo_dispatch_steps:
  "outbox_claim (dispatch_lease demo_dispatcher 150 180) demo_noted = (Inr [demo_taken], demo_noted\<lparr>pay_outbox := [demo_taken]\<rparr>)"
  "transaction (mark_delivered (ob_id demo_taken) (dc_worker_id demo_dispatch_config) 150) (demo_noted\<lparr>pay_outbox := [demo_taken]\<rparr>)
     = (Inr (), demo_noted\<lparr>pay_outbox := [demo_delivered]\<rparr>)"
  "OutboxDeliveryClass_matches PaymentEvents demo_taken"
  by code_simp+

lemma svc_then_write:
  "tx (wd_db (meanwhile w)) = (Inr a, t) \<Longrightarrow> svc_then (db_write tx) f w = f a ((meanwhile w)\<lparr>wd_db := t\<rparr>)"
  by (simp add: svc_then_ok db_write_ok)

lemma demo_dispatches:
  "dispatch_once demo_dispatcher 150 (demo_world demo_noted [])
     = (Inr \<lparr>dr_claimed = 1, dr_delivered = 1, dr_rescheduled = 0, dr_dead_lettered = 0\<rparr>,
        demo_world (demo_noted\<lparr>pay_outbox := [demo_delivered]\<rparr>) [])"
proof -
  have "timestamp_add 150 (pd_lease_seconds demo_dispatcher) f = Inr 180" for f
    by (simp add: timestamp_add_def demo_dispatcher_def i64_checked_add_def in_i64_def i64_min_def i64_max_def ok_or_def)
  moreover have "disposition_of demo_dispatcher demo_taken = EventDelivered" "pd_config demo_dispatcher = demo_dispatch_config"
    by (simp_all add: disposition_of_def demo_dispatcher_def)
  moreover have "u32_saturating_inc 0 = 1" by (simp add: u32_saturating_inc_def)
  ultimately show ?thesis
    by (simp add: dispatch_once_def persist_disposition_def svc_then_assoc svc_then_run svc_then_write demo_dispatch_steps
        del: OutboxDeliveryClass_matches.simps) (simp add: svc_result_def)
qed

section \<open>A payment that is still pending\<close>

definition demo_reconcile_config :: ReconciliationConfig where
  "demo_reconcile_config = \<lparr>rf_worker_id = ''o'', rf_batch_size = 10, rf_lease_duration = demo_seconds 30,
     rf_initial_backoff = demo_seconds 2, rf_max_backoff = demo_seconds 60\<rparr>"

definition demo_reconciler :: PaymentReconciler where
  "demo_reconciler = \<lparr>rw_evidence = coordinator_lookup demo_X demo_K demo_coordinator, rw_clock = (\<lambda>_. Inr 150),
     rw_config = demo_reconcile_config, rw_lease_seconds = 30, rw_initial_backoff_seconds = 2, rw_max_backoff_seconds = 60\<rparr>"

lemma demo_reconciler_new:
  "PaymentReconciler_with_clock (coordinator_lookup demo_X demo_K demo_coordinator) (\<lambda>_. Inr 150) demo_reconcile_config
     = Inr demo_reconciler"
proof -
  have "ReconciliationConfig_validate demo_reconcile_config = Inr ()" by code_simp
  then show ?thesis
    by (simp add: PaymentReconciler_with_clock_def reconciler_duration_seconds_def demo_reconciler_def
        demo_reconcile_config_def demo_seconds_def i64_max_def)
qed

definition demo_leased :: db where
  "demo_leased = demo_verified_in\<lparr>pay_intent := [(demo_row demo_pending_in)\<lparr>ir_credential_hash := Some ''f'',
     ir_reconcile_attempts := 1, ir_lease_owner := Some ''o'', ir_lease_expires_at := Some 180\<rparr>]\<rparr>"

definition demo_rescheduled :: db where
  "demo_rescheduled = demo_verified_in\<lparr>pay_intent := [(demo_row (demo_pending_in\<lparr>pi_next_reconcile_at := Some 208\<rparr>))
     \<lparr>ir_credential_hash := Some ''f'', ir_reconcile_attempts := 1\<rparr>]\<rparr>"

lemma demo_reconcile_steps:
  "transaction (claim_reconciliation_batch (reconcile_lease demo_reconciler 150 180)) demo_verified_in
     = (Inr [\<lparr>rclaim_intent = demo_pending_in, rclaim_attempt_no = 1\<rparr>], demo_leased)"
  "transaction (renew_reconciliation_lease (pi_id demo_pending_in) (rf_worker_id (rw_config demo_reconciler)) 180) demo_leased
     = (Inr (), demo_leased)"
  "transaction (release_reconciliation_lease (pi_id demo_pending_in) (rf_worker_id (rw_config demo_reconciler)) 208) demo_leased
     = (Inr (), demo_rescheduled)"
  "next_backoff demo_reconciler demo_pending_in = 58" "needs_reconciliation demo_pending_in"
  "pi_status demo_pending_in = PendingSettlement" "\<not> uses_eip3009_recovery demo_pending_in"
  by code_simp+

definition demo_waiting :: SettlementProviderResult where
  "demo_waiting = demo_result\<lparr>rs_settled := False\<rparr>"

lemma demo_lookup:
  "\<exists>cs. coordinator_lookup demo_X demo_K demo_coordinator demo_pending_in 150 (demo_world demo_leased [])
     = (Inr RePending, demo_world demo_leased cs)"
proof -
  have event: "find_for_intent_type demo_leased (pi_id demo_pending_in) EvSubmitted 0 = Some demo_submitted_event"
    using demo_settle_reads(7) by (simp add: find_for_intent_type_def demo_leased_def)
  have load: "load_reconciliation_settlement demo_K demo_coordinator demo_pending_in (demo_world demo_leased [])
      = (Inr demo_settlement, demo_world demo_leased [])"
    by (simp add: load_reconciliation_settlement_def load_submission_def event_of_def svc_then_assoc svc_then_run event
        demo_settle_reads) (simp add: svc_result_def)
  have provider: "provider_get (co_providers demo_coordinator) (pi_protocol demo_pending_in) = Inr demo_provider"
    "confirmation_depth demo_provider (ai_network (pi_asset demo_pending_in)) = Inr 1"
    "sb_execute demo_provider Verify q = Inr demo_waiting" for q
    using demo_requested_in_facts(2,3)
    by (simp_all add: demo_requested_in_def demo_provider_def demo_waiting_def demo_result_def)
  have "provider_result_to_evidence demo_X demo_K demo_pending_in 150 a 1 demo_waiting = Inr RePending" for a
    by (simp add: provider_result_to_evidence_def demo_waiting_def demo_result_def demo_reconcile_steps)
  moreover have "(demo_world s cs)\<lparr>wd_calls := ds\<rparr> = demo_world s ds" for s cs ds by (simp add: demo_world_def)
  ultimately show ?thesis
    by (simp add: coordinator_lookup_def reconciliation_observation_def svc_then_assoc load
        demo_reconcile_steps svc_then_run provider provider_execute_def svc_then_ok)
      (auto simp: svc_result_def)
qed

lemma demo_reconciles:
  "\<exists>cs. reconcile_once demo_X demo_K demo_reconciler (demo_world demo_verified_in [])
     = (Inr ((new_run 1)\<lparr>rn_pending := 1\<rparr>), demo_world demo_rescheduled cs)"
proof -
  obtain cs where look: "rw_evidence demo_reconciler demo_pending_in 150 (demo_world demo_leased [])
      = (Inr RePending, demo_world demo_leased cs)"
    using demo_lookup by (auto simp: demo_reconciler_def)
  have clock: "rw_clock demo_reconciler k = Inr 150" "timestamp_add 150 (rw_lease_seconds demo_reconciler) f = Inr 180"
    "timestamp_add 150 58 f = Inr 208" for k f
    by (simp_all add: demo_reconciler_def timestamp_add_def i64_checked_add_def in_i64_def i64_min_def i64_max_def ok_or_def)
  have "reconcile_intent demo_X demo_K demo_reconciler demo_pending_in 1 150 (new_run 1) (demo_world demo_leased [])
      = (Inr ((new_run 1)\<lparr>rn_pending := 1\<rparr>), demo_world demo_rescheduled cs)"
    unfolding reconcile_intent_def
    by (simp add: demo_reconcile_steps svc_match_def look apply_evidence_def count_after_def reschedule_intent_def svc_then_assoc
        svc_then_run clock svc_then_write) (simp add: svc_result_def new_run_def u32_saturating_inc_def)
  then show ?thesis
    by (simp add: reconcile_once_def svc_then_run clock svc_then_write demo_reconcile_steps svc_then_ok)
      (auto simp: svc_result_def)
qed

section \<open>A submitted x402 payment\<close>

definition demo_x402 :: PaymentIntent where
  "demo_x402 = demo_submitted_in\<lparr>pi_protocol := ''x402'', pi_asset := demo_asset\<lparr>ai_network := ''eip155:1''\<rparr>\<rparr>"

definition demo_x402_db :: db where
  "demo_x402_db = demo_submitted\<lparr>pay_event := [fresh_event ''b2'' demo_x402 EvSubmitted (json_object
     [(''credential_fingerprint'', JString ''f''),
      (''sealed_settlement'', sealed_to_value \<lparr>sm_version = 2, sm_key_id = ''k'', sm_nonce = demo_nonce,
        sm_ciphertext = demo_frame (material_aad ''payment-intent:i:x402'' ''k'') @ ''d''\<rparr>)]) 110]\<rparr>"

lemma demo_x402_facts:
  "uses_eip3009_recovery demo_x402"
  "find_for_intent_type demo_x402_db (pi_id demo_x402) SettlementRequested 0 = None"
  "\<not> Option.is_none (find_for_intent_type demo_x402_db (pi_id demo_x402) EvSubmitted 0)"
  "is_ok (submission_of_event demo_K demo_coordinator demo_x402 (find_for_intent_type demo_x402_db (pi_id demo_x402) EvSubmitted 0))"
  by code_simp+

end
