(* ===== verification/Spec2Isabelle.thy ===== *)
theory Spec2Isabelle
  imports Demo_Workers
begin

text \<open>
  AgentVault is a payment vault: a server that holds wallets, evaluates payment policies, reserves
  budgets, collects human approvals, signs outbound payments, and posts settlements to a ledger.
  This development models its payment core.
\<close>

section \<open>Spending limits\<close>

text \<open>
  C1. A reservation never exceeds a limit: when \<^verbatim>\<open>authorize\<close> reserves a payment, the whole of what
  the scenario has confirmed today and holds in reserve, the new payment included, is at most the
  policy's daily limit, the same holds for the wallet and its own daily limit, and the payment is within
  both per-payment limits.
\<close>

theorem reserve_within_limits:
  assumes "authorize X i approval Reserve g es ms s = (Inr (Inserted r), t)" "pi_wallet_id i = Some w"
  shows "\<exists>l pw. limits_for (g_policy g) Outbound = Some l \<and> load_payment_wallet X s w = Inr (Some pw)
    \<and> pi_amount i \<le> pl_max_per_payment l
    \<and> scenario_usage (pi_scenario_id i) Outbound (budget_unit (pi_asset i)) (g_day_started_at g)
        (g_evaluated_at g) t \<le> unat (pl_max_per_day l)
    \<and> is_none_or (pw_max_per_payment pw) (\<lambda>m. pi_amount i \<le> m)
    \<and> is_none_or (pw_max_per_day pw) (\<lambda>m. wallet_usage w Outbound (budget_unit (pi_asset i))
        (g_day_started_at g) (g_evaluated_at g) t \<le> unat m)"
  using assms(1)
proof (cases rule: authorize_cases)
  case (inserted e q)
  note act = authorization_action_ok [OF inserted(5)]
  have res: "pi_reservation_status i = Reserved" "pi_reserved_amount i = pi_amount i" using act by simp_all
  have rows: "pay_intent t = pay_intent s @ [new_row i None]" "pay_ledger t = pay_ledger s"
    using inserted(9) by simp_all
  have "enforce_budget X i (g_day_started_at g) (g_evaluated_at g) False s = Inr ()" using act(2) res(1) by blast
  then obtain pid wid p l m pw where ids: "authority_ids i = Inr (pid, wid)" "load_policy s pid = Some p"
    "limits_for p (pi_direction i) = Some l" "daily_ceiling False l = Some m"
    "load_payment_wallet X s wid = Inr (Some pw)" "pi_amount i \<le> pl_max_per_payment l"
    and use: "scenario_usage (pi_scenario_id i) (pi_direction i) (budget_unit (pi_asset i)) (g_day_started_at g)
       (g_evaluated_at g) s + unat (pi_amount i) \<le> unat m"
    "is_none_or (pw_max_per_payment pw) (\<lambda>k. pi_amount i \<le> k)"
    "is_none_or (pw_max_per_day pw) (\<lambda>k. wallet_usage wid (pi_direction i) (budget_unit (pi_asset i))
       (g_day_started_at g) (g_evaluated_at g) s + unat (pi_amount i) \<le> unat k)"
    by (rule enforce_budget_usage)
  from inserted(3) have "pi_direction i = Outbound" "pi_policy_id i = Some (pp_id (g_policy g))"
    "load_policy s (pp_id (g_policy g)) = Some (g_policy g)"
    by (auto elim: authorization_guard_ok)
  with ids assms(2) have eq: "wid = w" "p = g_policy g" "m = pl_max_per_day l" "pi_direction i = Outbound"
    by (auto simp: authority_ids_ok daily_ceiling_def)
  have self: "intent_in_unit Outbound (budget_unit (pi_asset i)) i" using intent_in_unit_self [of i] eq(4) by simp
  show ?thesis
    using ids use eq res self assms(2)
    by (intro exI [of _ l] exI [of _ pw])
      (simp add: scenario_usage_def wallet_usage_def usage_new_intent [OF rows])
qed simp

theorem reserve_within_limits_witness:
  "\<exists>l pw. limits_for (g_policy demo_guard) Outbound = Some l
    \<and> load_payment_wallet demo_X demo_catalog ''w'' = Inr (Some pw)
    \<and> pi_amount demo_intent \<le> pl_max_per_payment l
    \<and> scenario_usage (pi_scenario_id demo_intent) Outbound (budget_unit (pi_asset demo_intent))
        (g_day_started_at demo_guard) (g_evaluated_at demo_guard) demo_reserved \<le> unat (pl_max_per_day l)
    \<and> is_none_or (pw_max_per_payment pw) (\<lambda>m. pi_amount demo_intent \<le> m)
    \<and> is_none_or (pw_max_per_day pw) (\<lambda>m. wallet_usage ''w'' Outbound (budget_unit (pi_asset demo_intent))
        (g_day_started_at demo_guard) (g_evaluated_at demo_guard) demo_reserved \<le> unat m)"
  by (rule reserve_within_limits [OF demo_authorize]) (simp add: demo_intent_def)

text \<open>
  C5. An approval lifts a payment over the automatic limit but never over the hard one: when
  \<^verbatim>\<open>consume_and_reserve\<close> turns a grant into a reservation, the scenario's usage, the payment included,
  is at most the policy's hard daily limit, and the wallet's own limits hold unchanged.
\<close>

theorem approved_reserve_within_hard_limit:
  assumes "consume_and_reserve X vg i origin day now u c e ms s = (Inr j, t)" "pi_wallet_id i = Some w"
  shows "\<exists>p l h pw. pi_policy_id i = Some (pp_id p) \<and> load_policy s (pp_id p) = Some p
    \<and> limits_for p Outbound = Some l \<and> hard_daily_limit l = Some h
    \<and> load_payment_wallet X s w = Inr (Some pw) \<and> pi_amount i \<le> pl_max_per_payment l
    \<and> scenario_usage (pi_scenario_id i) Outbound (budget_unit (pi_asset i)) day now t \<le> unat h
    \<and> is_none_or (pw_max_per_payment pw) (\<lambda>m. pi_amount i \<le> m)
    \<and> is_none_or (pw_max_per_day pw)
        (\<lambda>m. wallet_usage w Outbound (budget_unit (pi_asset i)) day now t \<le> unat m)"
  using assms(1)
proof (rule consume_writes)
  fix a old
  assume g: "validate_verified_grant a i vg now = Inr ()" and b: "enforce_budget X i day now True s = Inr ()"
    and use: "\<And>scope entries d v latest. usage scope entries d v day latest t
       = usage scope entries d v day latest s + held scope d v i"
  note grant = validate_verified_grant_ok [OF g]
  from b obtain pid wid p l h pw where ids: "authority_ids i = Inr (pid, wid)" "load_policy s pid = Some p"
    "limits_for p (pi_direction i) = Some l" "daily_ceiling True l = Some h"
    "load_payment_wallet X s wid = Inr (Some pw)" "pi_amount i \<le> pl_max_per_payment l"
    "scenario_usage (pi_scenario_id i) (pi_direction i) (budget_unit (pi_asset i)) day now s
       + unat (pi_amount i) \<le> unat h"
    "is_none_or (pw_max_per_payment pw) (\<lambda>k. pi_amount i \<le> k)"
    "is_none_or (pw_max_per_day pw) (\<lambda>k. wallet_usage wid (pi_direction i) (budget_unit (pi_asset i)) day now s
       + unat (pi_amount i) \<le> unat k)"
    by (rule enforce_budget_usage)
  have "pid = pp_id p" using ids(2) by (auto simp: load_policy_def dest: find_Some_in)
  moreover have "intent_in_unit Outbound (budget_unit (pi_asset i)) i"
    using intent_in_unit_self [of i] grant(11) by simp
  ultimately show ?thesis
    using ids assms(2) grant(11,13,14)
    by (intro exI [of _ p] exI [of _ l] exI [of _ h] exI [of _ pw])
      (simp add: scenario_usage_def wallet_usage_def use held_def authority_ids_ok daily_ceiling_def)
qed

theorem approved_reserve_within_hard_limit_witness:
  "\<exists>p l h pw. pi_policy_id demo_approved_intent = Some (pp_id p) \<and> load_policy demo_approved (pp_id p) = Some p
    \<and> limits_for p Outbound = Some l \<and> hard_daily_limit l = Some h
    \<and> load_payment_wallet demo_X demo_approved ''w'' = Inr (Some pw)
    \<and> pi_amount demo_approved_intent \<le> pl_max_per_payment l
    \<and> scenario_usage (pi_scenario_id demo_approved_intent) Outbound
        (budget_unit (pi_asset demo_approved_intent)) 0 220 demo_consumed \<le> unat h
    \<and> is_none_or (pw_max_per_payment pw) (\<lambda>m. pi_amount demo_approved_intent \<le> m)
    \<and> is_none_or (pw_max_per_day pw) (\<lambda>m. wallet_usage ''w'' Outbound
        (budget_unit (pi_asset demo_approved_intent)) 0 220 demo_consumed \<le> unat m)"
  by (rule approved_reserve_within_hard_limit [OF demo_consume])
    (simp add: demo_approved_intent_def demo_pending_intent_def demo_intent_def)

section \<open>Every reachable database\<close>

text \<open>
  C3. Money and ledger agree in every reachable database: whatever the clients do, in whatever order,
  a payment is found by its identifier, an open reservation holds the whole amount of its payment, nothing
  settles more than its amount, and a consumed reservation has its confirmed fact in the ledger.
\<close>

theorem payments_backed:
  assumes "reachable X s" "r \<in> set (pay_intent s)"
  shows "load_intent s (pi_id (ir_intent r)) = Some (ir_intent r)
    \<and> (pi_reservation_status (ir_intent r) = Reserved \<longrightarrow>
        pi_reserved_amount (ir_intent r) = pi_amount (ir_intent r))
    \<and> pi_settled_amount (ir_intent r) \<le> pi_amount (ir_intent r)
    \<and> (pi_reservation_status (ir_intent r) = Consumed \<longrightarrow>
        (\<exists>l \<in> set (pay_ledger s). ledger_fact_for (ir_intent r) l))"
  using reachable_intent [OF assms]
  by (simp add: row_ok_def consumed_backed_def list_ex_iff PaymentIntent_validate_ok(3))

theorem payments_backed_witness:
  "\<exists>l \<in> set (pay_ledger demo_settled). ledger_fact_for demo_settled_intent l"
  using payments_backed [OF demo_reachable(3), of "demo_signed_row demo_settled_intent"]
  by (simp add: demo_settled_def demo_signed_row_def demo_row_def demo_settled_intent_def)

text \<open>
  C8. A payment keeps its identity and only moves forward: along every run, its immutable fields never
  change, its settled amount and revision never go back, its status never returns to an earlier phase, a
  settled, failed or expired payment keeps that status, and a reservation that was released or consumed
  stays so.
\<close>

theorem payment_lifecycle:
  assumes "reachable X s" "(vault_step X)\<^sup>*\<^sup>* s t" "load_intent s k = Some i"
  shows "\<exists>j. load_intent t k = Some j \<and> same_immutable_identity_as i j
    \<and> pi_settled_amount i \<le> pi_settled_amount j \<and> pi_updated_at i \<le> pi_updated_at j
    \<and> phase (pi_status i) \<le> phase (pi_status j)
    \<and> (is_final (pi_status i) \<longrightarrow> pi_status j = pi_status i)
    \<and> (pi_reservation_status i \<in> {Released, Consumed} \<longrightarrow> pi_reservation_status j = pi_reservation_status i)"
  using assms
proof (rule run_intent)
  fix j
  assume "load_intent t k = Some j" "evolves i j"
  then show ?thesis
    by (intro exI [of _ j]) (auto simp: evolves_def dest: reach_phase reach_final released_stays)
qed

theorem payment_lifecycle_witness:
  "\<exists>j. load_intent demo_settled ''i'' = Some j \<and> same_immutable_identity_as demo_intent j
    \<and> pi_settled_amount demo_intent \<le> pi_settled_amount j \<and> pi_updated_at demo_intent \<le> pi_updated_at j
    \<and> phase (pi_status demo_intent) \<le> phase (pi_status j)"
proof -
  have "(vault_step demo_X)\<^sup>*\<^sup>* demo_reserved demo_settled" using demo_steps(2,3) by auto
  moreover have "load_intent demo_reserved ''i'' = Some demo_intent"
    by (simp add: load_intent_def demo_reserved_def demo_row_def demo_intent_def)
  ultimately show ?thesis using payment_lifecycle [OF demo_reachable(1)] by blast
qed

text \<open>
  C4. Exactly one signature per payment: once \<^verbatim>\<open>commit_signed\<close> has stored a credential, every later
  successful commit for that payment, after any run and whatever credential it carries, is a replay that
  returns the first credential and its sealed material and changes nothing.
\<close>

theorem signed_once:
  assumes "reachable X s" "commit_signed X i c h m g es ms s = (Inr (Inserted p), t)"
    and "(vault_step X)\<^sup>*\<^sup>* t u" "pi_id j = pi_id i"
    and "commit_signed X j c' h' m' g' es' ms' u = (Inr w, v)"
  shows "\<exists>q. w = ReplayOf q \<and> sp_credential_hash q = h \<and> sp_sealed_credential q = m \<and> v = u"
proof -
  have t: "reachable X t" using reachable_step [OF assms(1) step_commit_signed [OF assms(2)]] .
  note inv = reachable_inv [OF reachable_trans [OF t assms(3)], unfolded vault_inv_def journal_inv_def]
  note st = signed_stores [OF assms(2)]
  have "payment_inv s" using reachable_inv [OF assms(1)] by (simp add: vault_inv_def)
  then have cred: "intent_credential u (pi_id j) = Some h" using run_credential [OF t assms(3) st(4)] assms(4) by simp
  from st(3) obtain e where e: "e \<in> set (pay_event u)" "ev_intent_id e = pi_id j" "ev_event_type e = EvSigned"
    "ev_attempt_no e = 0" "ev_signature_ref e = Some h"
    "Option.bind (json_get (ev_payload e) ''sealed_credential'') sealed_from_value = Some m"
    using set_mono_prefix [OF run_journals(1) [OF t assms(3)]] assms(4) by auto
  show ?thesis
    using assms(5) by (rule signed_again [OF _ _ _ cred e]) (use inv in auto)
qed

theorem signed_once_witness:
  "\<exists>q. ReplayOf demo_signed_payment = ReplayOf q \<and> sp_credential_hash q = ''h''
    \<and> sp_sealed_credential q = demo_sealed \<and> demo_signed = demo_signed"
proof (rule signed_once [OF demo_reachable(1) demo_commit_signed rtranclp.rtrancl_refl refl])
  show "commit_signed demo_X demo_signed_intent demo_challenge ''z'' demo_sealed demo_signing_guard [] []
      demo_signed = (Inr (ReplayOf demo_signed_payment), demo_signed)"
    by code_simp
qed

text \<open>
  C7. A grant pays once: after \<^verbatim>\<open>consume_and_reserve\<close> has consumed an approval, no later call, after
  any run and with any grant, payment or time, succeeds for that approval.
\<close>

theorem grant_consumed_once:
  assumes "reachable X s" "consume_and_reserve X vg i origin day now u c e ms s = (Inr j, t)"
    and "(vault_step X)\<^sup>*\<^sup>* t v" "gc_approval_id (vg_claims vg') = gc_approval_id (vg_claims vg)"
  shows "\<exists>err. consume_and_reserve X vg' i' origin' day' now' u' c' e' ms' v = (Inl err, v)"
proof -
  have t: "reachable X t" using reachable_step [OF assms(1) step_consume [OF assms(2)]] .
  from assms(2) obtain a where "find_approval t (gc_approval_id (vg_claims vg)) = Some (consume_row c a)"
    by (rule consume_writes)
  with t assms(3) obtain b where b: "find_approval v (gc_approval_id (vg_claims vg)) = Some b"
    "approval_evolves (consume_row c a) b"
    by (rule run_approval)
  have "ar_status b = ApConsumed"
    using b(2) approval_final_absorbing [of ApConsumed "ar_status b"]
    by (simp add: approval_evolves_def approval_rows approval_final_def)
  then have "ar_status b \<noteq> ApApproved" by simp
  obtain r v' where r: "consume_and_reserve X vg' i' origin' day' now' u' c' e' ms' v = (r, v')" by force
  show ?thesis
  proof (cases r)
    case (Inl err)
    with r show ?thesis by (auto simp: consume_and_reserve_def dest: transaction_err)
  next
    case (Inr k)
    with r have "consume_and_reserve X vg' i' origin' day' now' u' c' e' ms' v = (Inr k, v')" by simp
    then show ?thesis
      by (rule consume_writes) (use b(1) \<open>ar_status b \<noteq> ApApproved\<close> assms(4) validate_verified_grant_ok(1) in auto)
  qed
qed

theorem grant_consumed_once_witness:
  "\<exists>err. consume_and_reserve demo_X demo_verified demo_approved_intent ''o'' 0 220 200 220 demo_consumed_event []
     demo_consumed = (Inl err, demo_consumed)"
  by (rule grant_consumed_once [OF demo_reachable(5) demo_consume rtranclp.rtrancl_refl refl])

text \<open>
  C12. An approval is decided once: along every run the request stays what was asked for, its deadline
  never moves out, an issued grant is never exchanged, and a rejected, expired or consumed approval keeps
  that status.
\<close>

theorem approval_lifecycle:
  assumes "reachable X s" "(vault_step X)\<^sup>*\<^sup>* s t" "find_approval s k = Some a"
  shows "\<exists>b. find_approval t k = Some b
    \<and> ar_intent_id b = ar_intent_id a \<and> ar_intent_hash b = ar_intent_hash a
    \<and> ar_requested_amount b = ar_requested_amount a \<and> ar_requested_by b = ar_requested_by a
    \<and> ar_expires_at b \<le> ar_expires_at a
    \<and> (ar_grant_jti a \<noteq> None \<longrightarrow> ar_grant_jti b = ar_grant_jti a \<and> ar_approved_amount b = ar_approved_amount a
        \<and> ar_sealed_grant_token b = ar_sealed_grant_token a \<and> ar_approved_by b = ar_approved_by a)
    \<and> (ar_status a \<in> {ApRejected, ApExpired, ApConsumed} \<longrightarrow> ar_status b = ar_status a)"
  using assms
proof (rule run_approval)
  fix b
  assume b: "find_approval t k = Some b" "approval_evolves a b"
  then have "ar_status a \<in> {ApRejected, ApExpired, ApConsumed} \<Longrightarrow> ar_status b = ar_status a"
    using approval_final_absorbing by (simp add: approval_evolves_def approval_final_def)
  with b show ?thesis by (intro exI [of _ b]) (simp add: approval_evolves_def)
qed

theorem approval_lifecycle_witness:
  "\<exists>b. find_approval demo_consumed ''a'' = Some b
    \<and> ar_intent_id b = ar_intent_id demo_approval \<and> ar_intent_hash b = ar_intent_hash demo_approval
    \<and> ar_requested_amount b = ar_requested_amount demo_approval
    \<and> ar_requested_by b = ar_requested_by demo_approval \<and> ar_expires_at b \<le> ar_expires_at demo_approval"
proof -
  have run: "(vault_step demo_X)\<^sup>*\<^sup>* demo_pending demo_consumed" using demo_steps(5,6) by auto
  have "find_approval demo_pending ''a'' = Some demo_approval"
    by (simp add: find_approval_def demo_pending_def demo_approval_def)
  from approval_lifecycle [OF demo_reachable(4) run this] show ?thesis by blast
qed

text \<open>
  C14. A run identifier pays at most once: after a payment was authorized, another authorization of the same
  scenario and run, after any steps of the store, either returns the payment on record, when it is for the
  same request, or fails with a conflict, and in both cases changes nothing.
\<close>

theorem authorize_idempotent:
  assumes "reachable X s" "authorize X i ap act g es ms s = (Inr (Inserted r), t)"
    and "(vault_step X)\<^sup>*\<^sup>* t u" "pi_scenario_id j = pi_scenario_id i" "pi_run_id j = pi_run_id i"
  shows "\<exists>k. same_immutable_identity_as i (arec_intent k)
    \<and> authorize X j ap' act' g' es' ms' u =
        (if pi_request_hash j = pi_request_hash i then Inr (ReplayOf k)
         else Inl (PaymentConflict ''payment run_id is bound to a different request''), u)"
proof -
  have t: "reachable X t" using reachable_step [OF assms(1) step_authorize [OF assms(2)]] .
  from assms(2) have "load_intent_by_run t (pi_scenario_id i) (pi_run_id i) = Some i"
  proof (cases rule: authorize_cases)
    case (inserted e q)
    then have "load_intent_by_run s (pi_scenario_id i) (pi_run_id i) = None" by (simp add: load_run_def)
    with inserted(9) show ?thesis by (simp add: load_intent_by_run_def find_append new_row_def)
  qed simp
  with t assms(3) obtain k where k: "load_intent_by_run u (pi_scenario_id i) (pi_run_id i) = Some k" "evolves i k"
    by (rule run_of_intent)
  let ?rec = "\<lparr>arec_intent = k, arec_approval = latest_approval u (pi_id k)\<rparr>"
  have "load_run u (pi_scenario_id j) (pi_run_id j) = Some ?rec" using k(1) assms(4,5) by (simp add: load_run_def)
  with k(2) show ?thesis
    by (intro exI [of _ ?rec])
      (auto simp: authorize_def transaction_def conflict_def evolves_def same_immutable_identity_as_def)
qed

theorem authorize_idempotent_witness:
  "\<exists>k. same_immutable_identity_as demo_intent (arec_intent k)
    \<and> authorize demo_X demo_intent None Reserve demo_guard [] [] demo_settled = (Inr (ReplayOf k), demo_settled)"
proof -
  have "(vault_step demo_X)\<^sup>*\<^sup>* demo_reserved demo_settled" using demo_steps(2,3) by auto
  from authorize_idempotent [OF demo_reachable_catalog demo_authorize this refl refl] show ?thesis by simp
qed



text \<open>
  C11. The journals only grow: along every run events and ledger entries are appended and never changed or
  dropped, and in every reachable ledger a posting key is used once per wallet, every entry is valid, and a
  reversal negates an entry of the ledger that no other entry reverses.
\<close>

theorem journals_append_only:
  assumes "reachable X s" "(vault_step X)\<^sup>*\<^sup>* s t"
  shows "prefix (pay_event s) (pay_event t) \<and> prefix (pay_ledger s) (pay_ledger t)
    \<and> distinct (map (\<lambda>e. (le_wallet_id e, le_posting_key e)) (pay_ledger t))
    \<and> (\<forall>e \<in> set (pay_ledger t). PaymentLedgerEntry_validate e = Inr ())
    \<and> (\<forall>e \<in> set (pay_ledger t). \<forall>k. le_reversal_of e = Some k \<longrightarrow>
        (\<exists>x \<in> set (pay_ledger t). le_id x = k \<and> validate_reversal_of e x = Inr ())
        \<and> (\<forall>f \<in> set (pay_ledger t). le_reversal_of f = Some k \<longrightarrow> f = e))"
proof -
  have inv: "ledger_inv (pay_ledger t)"
    using reachable_inv [OF reachable_trans [OF assms]] by (simp add: vault_inv_def journal_inv_def)
  then have uni: "unique_rows pay_ledger_clash (pay_ledger t)" by (simp add: ledger_inv_def)
  have "distinct (map (\<lambda>e. (le_wallet_id e, le_posting_key e)) (pay_ledger t))"
    using uni by (simp add: unique_rows_def distinct_conv_nth sorted_wrt_iff_nth_less pay_ledger_clash_def
        same_posting_as_def) (metis linorder_neqE_nat)
  moreover have "f = e" if "e \<in> set (pay_ledger t)" "f \<in> set (pay_ledger t)" "le_reversal_of e = Some k"
    "le_reversal_of f = Some k" for e f k
  proof -
    have "f \<in> set (filter (\<lambda>y. pay_ledger_clash y e) (pay_ledger t))" using that by (simp add: pay_ledger_clash_def)
    also have "filter (\<lambda>y. pay_ledger_clash y e) (pay_ledger t) = [e]"
      using filter_clash_unique [OF uni that(1) clash_sym(3)] by (simp add: pay_ledger_clash_def)
    finally show ?thesis by simp
  qed
  ultimately show ?thesis using inv run_journals [OF assms] by (simp add: ledger_inv_def)
qed

theorem journals_append_only_witness:
  "prefix (pay_event demo_reserved) (pay_event demo_settled)
    \<and> distinct (map (\<lambda>e. (le_wallet_id e, le_posting_key e)) (pay_ledger demo_settled))
    \<and> PaymentLedgerEntry_validate demo_transfer = Inr ()"
proof -
  have "(vault_step demo_X)\<^sup>*\<^sup>* demo_reserved demo_settled" using demo_steps(2,3) by auto
  moreover have "demo_transfer \<in> set (pay_ledger demo_settled)" by (simp add: demo_settled_def)
  ultimately show ?thesis using journals_append_only [OF demo_reachable(1)] by blast
qed

text \<open>
  C16. Every reference holds: in every reachable database a payment names a scenario, a policy of that
  scenario, a wallet bound to the policy and, if it has one, a price of both; events, approvals and ledger
  entries name payments that exist, with their scenario and wallet; scenarios name clients, policies and
  approvers name scenarios, and prices name their policy and wallet.
\<close>

theorem references_hold:
  assumes "reachable X s"
  shows "(\<forall>r \<in> set (pay_intent s). pay_intent_fk s (ir_intent r))
    \<and> (\<forall>e \<in> set (pay_event s). pay_event_fk s e) \<and> (\<forall>l \<in> set (pay_ledger s). pay_ledger_fk s l)
    \<and> (\<forall>a \<in> set (pay_approval s). pay_approval_fk s a) \<and> (\<forall>c \<in> set (pay_scenario s). pay_scenario_fk s c)
    \<and> (\<forall>p \<in> set (pay_policy s). scenario_exists s (pp_scenario_id p))
    \<and> (\<forall>a \<in> set (pay_scenario_approver s). scenario_exists s (sa_scenario_id a))
    \<and> (\<forall>p \<in> set (pay_price s). pay_price_fk s p)"
  using reachable_inv [OF assms]
  by (simp add: vault_inv_def payment_refs_inv_def approval_inv_def admin_inv_def catalog_inv_def)

theorem references_hold_witness:
  "pay_intent_fk demo_settled (ir_intent (demo_signed_row demo_settled_intent))
    \<and> pay_ledger_fk demo_settled demo_transfer \<and> pay_event_fk demo_settled demo_settled_event"
proof -
  have "demo_signed_row demo_settled_intent \<in> set (pay_intent demo_settled)"
    "demo_transfer \<in> set (pay_ledger demo_settled)" "demo_settled_event \<in> set (pay_event demo_settled)"
    by (simp_all add: demo_settled_def)
  with references_hold [OF demo_reachable(3)] show ?thesis by blast
qed

text \<open>
  C18. One active key: in every reachable database the key versions of a wallet are 1, 2, ..., n in the order
  they were added, at most the last one is active, and an active key belongs to a wallet in local custody
  with exactly its algorithm, address and public key, so a wallet never signs with a key of another address.
\<close>

theorem one_active_key:
  assumes "reachable X s"
  shows "map (\<lambda>k. unat (kv_version k)) (wallet_keys s i) = [1..<Suc (length (wallet_keys s i))]
    \<and> (\<forall>k \<in> set (wallet_keys s i). kv_status k = Active \<longrightarrow>
        k = last (wallet_keys s i) \<and> load_active_key s i = Some k
        \<and> (\<exists>r. find_wallet s i = Some r \<and> pw_custody r = Local \<and> w_algorithm (pw_wallet r) = kv_algorithm k
             \<and> w_address (pw_wallet r) = kv_address k \<and> w_public_key (pw_wallet r) = kv_public_key k))"
proof -
  have inv: "key_inv s" using reachable_inv [OF assms] by (simp add: vault_inv_def admin_inv_def)
  then have hist: "key_history (wallet_keys s i)" by (simp add: key_inv_def)
  have "k = last (wallet_keys s i) \<and> load_active_key s i = Some k
      \<and> (\<exists>r. find_wallet s i = Some r \<and> key_matches r k)"
    if k: "k \<in> set (wallet_keys s i)" "kv_status k = Active" for k
  proof -
    have last: "j = last (wallet_keys s i)" if "j \<in> set (wallet_keys s i)" "kv_status j = Active" for j
      using key_history_active(1) [OF hist that] by (metis last_snoc)
    obtain a where a: "load_active_key s i = Some a"
      using k find_None_notin [of "\<lambda>k. kv_wallet_id k = i \<and> kv_status k = Active" "wallet_key_version s" k]
      by (cases "load_active_key s i") (auto simp: load_active_key_def wallet_keys_def)
    have "a = k" using last [OF k] last load_active_key_in [OF a] by simp
    moreover have "k \<in> set (wallet_key_version s)" "kv_wallet_id k = i" using k(1) by (auto simp: wallet_keys_def)
    ultimately show ?thesis using inv k last [OF k] a by (fastforce simp: key_inv_def)
  qed
  then show ?thesis using hist by (auto simp: key_history_def key_matches_def)
qed

theorem one_active_key_witness:
  "wallet_keys demo_catalog ''w'' = [demo_key] \<and> kv_status demo_key = Active
    \<and> load_active_key demo_catalog ''w'' = Some demo_key"
proof -
  have keys: "wallet_keys demo_catalog ''w'' = [demo_key]" "kv_status demo_key = Active"
    by (simp_all add: wallet_keys_def demo_catalog_def demo_wallets_def demo_key_def)
  with one_active_key [OF demo_reachable_catalog, of "''w''"] show ?thesis by simp
qed

text \<open>
  C33. A shared wallet has a hard ceiling: in every reachable database, when two enabled policies of
  different identity spend from one wallet, they belong to different scenarios, they use the wallet's budget
  unit, and the wallet carries both its own per-payment and its own daily limit.
\<close>

theorem shared_wallet_has_limits:
  assumes "reachable X s" "find_wallet s i = Some r"
    and "p \<in> set (wallet_policies s i)" "q \<in> set (wallet_policies s i)"
    and "pp_enabled p" "pp_enabled q" "pp_id p \<noteq> pp_id q"
  shows "pp_scenario_id p \<noteq> pp_scenario_id q \<and> pw_budget_unit r = Some (pp_budget_unit p)
    \<and> pw_budget_unit r = Some (pp_budget_unit q) \<and> pw_max_per_payment r \<noteq> None \<and> pw_max_per_day r \<noteq> None"
proof -
  have "binding_inv s" using reachable_inv [OF assms(1)] by (simp add: vault_inv_def admin_inv_def)
  then have "binding_ok (set (wallet_policies s i)) r" using assms(2) by (simp add: binding_inv_def)
  then show ?thesis using assms(3-) unfolding binding_ok_def has_hard_limits_def by blast
qed

theorem shared_wallet_has_limits_witness:
  "pp_scenario_id demo_policy \<noteq> pp_scenario_id demo_policy2 \<and> pw_max_per_day demo_wallet_row \<noteq> None"
proof -
  have "find_wallet demo_shared ''w'' = Some demo_wallet_row" by code_simp
  moreover have "demo_policy\<lparr>pp_wallet_ids := []\<rparr> \<in> set (wallet_policies demo_shared ''w'')"
    "demo_policy2\<lparr>pp_wallet_ids := []\<rparr> \<in> set (wallet_policies demo_shared ''w'')"
    by code_simp+
  ultimately show ?thesis
    using shared_wallet_has_limits [OF demo_reachable_shared, of "''w''" demo_wallet_row
        "demo_policy\<lparr>pp_wallet_ids := []\<rparr>" "demo_policy2\<lparr>pp_wallet_ids := []\<rparr>"]
    by (simp add: demo_policy_def demo_policy2_def)
qed

text \<open>
  C37. A resource has one price: in every reachable database, looking up the price of a resource never meets
  two enabled prices, so the lookup does not fail.
\<close>

theorem price_lookup_total:
  assumes "reachable X s"
  shows "(\<exists>p. resolve_price s scenario resource protocol = Inr p)
    \<and> (\<exists>p. resolve_resource s scenario resource = Inr p)"
  using resolve_price_total [of s] reachable_inv [OF assms] by (simp add: vault_inv_def admin_inv_def)

theorem price_lookup_total_witness:
  "(\<exists>p. resolve_price demo_catalog ''s'' ''v'' ''x'' = Inr p) \<and> (\<exists>p. resolve_resource demo_catalog ''s'' ''v'' = Inr p)"
  by (rule price_lookup_total [OF demo_reachable_catalog])

section \<open>Work queues\<close>

text \<open>
  C21. One worker per message: while a lease on outbox messages runs, no claim of any other worker, however
  many claims come in between, hands out one of these messages.
\<close>

theorem outbox_lease_exclusive:
  assumes "reachable X s" "outbox_claim q s = (Inr ms, t)"
    and "(\<lambda>a b. \<exists>p ns. outbox_claim p a = (Inr ns, b) \<and> lr_now p < lr_lease_until q)\<^sup>*\<^sup>* t u"
    and "outbox_claim p u = (Inr ns, v)" "lr_now p < lr_lease_until q"
  shows "ob_id ` set ms \<inter> ob_id ` set ns = {}"
proof (rule outbox_queue.exclusive)
  show "outbox_wf s" using reachable_outbox_wf [OF assms(1)] .
  show "outbox_claim_step q s = Inr (ms, t)" "outbox_claim_step p u = Inr (ns, v)"
    using assms(2,4) by (simp_all add: outbox_claim_def transaction_ok)
  show "(\<lambda>a b. \<exists>p ns. outbox_claim_step p a = Inr (ns, b) \<and> lr_now p < lr_lease_until q)\<^sup>*\<^sup>* t u"
    using assms(3) by (simp add: outbox_claim_def transaction_ok)
qed (rule assms(5))

theorem outbox_lease_exclusive_witness:
  "ob_id ` set [outbox_take demo_lease demo_message] \<inter> ob_id ` set ([] :: OutboxMessage list) = {}"
proof (rule outbox_lease_exclusive [OF demo_reachable(4) demo_claim rtranclp.rtrancl_refl])
  show "outbox_claim (demo_lease\<lparr>lr_owner := ''b'', lr_now := 301, lr_lease_until := 401\<rparr>) demo_claimed
      = (Inr [], demo_claimed)" by code_simp
  show "lr_now (demo_lease\<lparr>lr_owner := ''b'', lr_now := 301, lr_lease_until := 401\<rparr>) < lr_lease_until demo_lease"
    by (simp add: demo_lease_def)
qed

text \<open>
  C28. Due messages get delivered: in every reachable database a well-formed claim succeeds and hands out
  exactly the due messages of its class in their order, up to its limit, each with the claimer's lease,
  provided that no due message has used up its attempt counter.
\<close>

theorem outbox_claim_succeeds:
  assumes "reachable X s" "\<not> is_blank (lr_owner q)" "lr_now q < lr_lease_until q" "0 \<le> lr_lease_until q"
    and "lr_limit q \<noteq> 0" "\<forall>m \<in> set (pay_outbox s). outbox_due q m \<longrightarrow> ob_attempt_count m < 4294967295"
  shows "\<exists>ms t. outbox_claim q s = (Inr ms, t) \<and> map ob_id ms = outbox_due_ids q s
    \<and> (\<forall>k \<in> set (outbox_due_ids q s). outbox_lease t k = Some (Some (lr_owner q), Some (lr_lease_until q)))"
proof -
  have "journal_inv s" using reachable_inv [OF assms(1)] by (simp add: vault_inv_def)
  then have "pay_outbox_check m" if "m \<in> set (pay_outbox s)" for m using that by (simp add: journal_inv_def)
  from outbox_claim_progress [OF reachable_outbox_wf [OF assms(1)] assms(2-5) this]
  show ?thesis using assms(6) by (metis (no_types))
qed

theorem outbox_claim_succeeds_witness:
  "\<exists>ms t. outbox_claim demo_lease demo_pending = (Inr ms, t) \<and> map ob_id ms = [ob_id demo_message]
    \<and> outbox_lease t (ob_id demo_message) = Some (Some (lr_owner demo_lease), Some (lr_lease_until demo_lease))"
proof -
  have "outbox_due_ids demo_lease demo_pending = [ob_id demo_message]" "\<not> is_blank (lr_owner demo_lease)"
    by code_simp+
  with outbox_claim_succeeds [OF demo_reachable(4), of demo_lease] show ?thesis
    by (simp add: demo_lease_def demo_pending_def demo_message_def)
qed

text \<open>
  C29. Reconciliation does not stall: in every reachable database a well-formed claim of payments to reconcile
  succeeds and hands out exactly the due payments in their order, up to its limit, each with the claimer's
  lease, provided that no due payment has used up its attempt counter.
\<close>

theorem reconciliation_claim_succeeds:
  assumes "reachable X s" "\<not> is_blank (rl_owner q)" "rl_now q < rl_lease_until q" "0 \<le> rl_lease_until q"
    and "rl_limit q \<noteq> 0"
    and "\<forall>r \<in> set (pay_intent s). reconciliation_due (rl_now q) r \<longrightarrow> ir_reconcile_attempts r < 4294967295"
  shows "\<exists>cs t. claim_reconciliation_batch q s = Inr (cs, t)
    \<and> map (\<lambda>c. pi_id (rclaim_intent c)) cs = reconciliation_due_ids q s
    \<and> (\<forall>k \<in> set (reconciliation_due_ids q s).
        intent_lease t k = Some (Some (rl_owner q), Some (rl_lease_until q)))"
proof -
  have "pay_intent_check r" if "r \<in> set (pay_intent s)" for r
    using reachable_intent(2) [OF assms(1) that] by (simp add: row_ok_def)
  from reconciliation_claim_progress [OF reachable_intent_wf [OF assms(1)] assms(2-5) this]
  show ?thesis using assms(6) by (metis (no_types))
qed

theorem reconciliation_claim_succeeds_witness:
  "\<exists>cs t. claim_reconciliation_batch demo_reconcile demo_signed = Inr (cs, t)
    \<and> map (\<lambda>c. pi_id (rclaim_intent c)) cs = [pi_id demo_signed_intent]
    \<and> intent_lease t (pi_id demo_signed_intent)
        = Some (Some (rl_owner demo_reconcile), Some (rl_lease_until demo_reconcile))"
proof -
  have "reconciliation_due_ids demo_reconcile demo_signed = [pi_id demo_signed_intent]"
    "\<not> is_blank (rl_owner demo_reconcile)"
    by code_simp+
  with reconciliation_claim_succeeds [OF demo_reachable(2), of demo_reconcile] show ?thesis
    by (simp add: demo_reconcile_def demo_signed_def demo_signed_row_def demo_row_def)
qed

section \<open>Settling a payee payment\<close>

text \<open>
  C2. A payment is settled once, however many workers settle it: each run of \<^verbatim>\<open>settle_payment\<close> that asks a provider to
  settle the payment asks once, and two such runs whose databases meet in one later database have drawn the
  same identifier for their request event, so they are the same run. The runs may interleave with any
  repository writes of other workers, and may use different coordinators, principals and times.
\<close>

theorem settled_once:
  assumes "polite X w" "reachable X (wd_db w)" "settle_payment X K C ids who c now w = (r, v)"
    and "polite X w'" "reachable X (wd_db w')" "settle_payment X K' C' ids' who' c' now' w' = (r', v')"
    and "(vault_step X)\<^sup>*\<^sup>* (wd_db v) t" "(vault_step X)\<^sup>*\<^sup>* (wd_db v') t"
    and "settle_calls i (wd_calls v) \<noteq> settle_calls i (wd_calls w)"
    and "settle_calls i (wd_calls v') \<noteq> settle_calls i (wd_calls w')"
  shows "st_requested ids = st_requested ids' \<and> settle_calls i (wd_calls v) = Suc (settle_calls i (wd_calls w))"
proof -
  have "settles_as_owner (st_requested ids) w v" "settles_as_owner (st_requested ids') w' v'"
    using settle_payment_owner [of X ids K C who c now] settle_payment_owner [of X ids' K' C' who' c' now'] assms(1-6)
    unfolding owner_def by (metis snd_conv)+
  then have once: "settle_calls i (wd_calls v) = Suc (settle_calls i (wd_calls w))"
    and asked: "request_event (wd_db v) (st_requested ids) i" "request_event (wd_db v') (st_requested ids') i"
    using assms(9,10) unfolding settles_as_owner_def by blast+
  have v: "reachable X (wd_db v)" and v': "reachable X (wd_db v')"
    using steps_only_reachable(1) [OF settle_payment_steps assms(1-3)]
      steps_only_reachable(1) [OF settle_payment_steps assms(4-6)] by simp_all
  from request_event_unique [OF reachable_trans [OF v assms(7)] request_event_mono [OF assms(7) v asked(1)]
      request_event_mono [OF assms(8) v' asked(2)]]
  show ?thesis using once by simp
qed

theorem settled_once_witness:
  "settle_calls ''i'' (wd_calls (snd (settle_payment demo_X demo_K demo_coordinator (demo_settlement_ids ''c'') ''u''
     demo_settle 120 (demo_world demo_verified_in [])))) = Suc (settle_calls ''i'' (wd_calls (demo_world demo_verified_in [])))"
proof -
  let ?w = "demo_world demo_verified_in []"
  let ?m = "settle_payment demo_X demo_K demo_coordinator (demo_settlement_ids ''c'') ''u'' demo_settle 120"
  have r: "reachable demo_X (wd_db ?w)" and calls: "settle_calls ''i'' (wd_calls (snd (?m ?w))) \<noteq> settle_calls ''i'' (wd_calls ?w)"
    using demo_reachable_verified by (simp_all add: demo_settle_calls) (simp add: demo_world_def)
  show ?thesis
    using settled_once [OF demo_polite r prod.collapse [symmetric] demo_polite r prod.collapse [symmetric] rtranclp.rtrancl_refl
        rtranclp.rtrancl_refl calls calls] by simp
qed

text \<open>
  C9. The settlement services refine the repositories: a run of \<^verbatim>\<open>issue_challenge\<close>, \<^verbatim>\<open>verify_payment\<close> or
  \<^verbatim>\<open>settle_payment\<close>, whatever repository writes of other workers come between its own accesses, moves the database
  by repository writes only, so every invariant of the reachable databases holds after it, and it only appends to the
  calls of the providers. Issuing and verifying never ask a provider to settle.
\<close>

theorem settlement_services_refine:
  assumes "polite X w" "reachable X (wd_db w)"
    and "v = snd (settle_payment X K C ids who c now w) \<or> v = snd (verify_payment X K C ids who d now w)
      \<or> v = snd (issue_challenge X C ids who e now w)"
  shows "(vault_step X)\<^sup>*\<^sup>* (wd_db w) (wd_db v) \<and> vault_inv (wd_db v) \<and> prefix (wd_calls w) (wd_calls v)
    \<and> settle_calls i (wd_calls (snd (verify_payment X K C ids who d now w))) = settle_calls i (wd_calls w)
    \<and> settle_calls i (wd_calls (snd (issue_challenge X C ids who e now w))) = settle_calls i (wd_calls w)"
proof -
  have "world_evolves X w v"
    using assms(1,3) settle_payment_steps verify_payment_steps issue_challenge_steps unfolding steps_only_def by metis
  then have "(vault_step X)\<^sup>*\<^sup>* (wd_db w) (wd_db v)" "prefix (wd_calls w) (wd_calls v)"
    by (simp_all add: world_evolves_def)
  then show ?thesis
    using reachable_inv [OF reachable_trans [OF assms(2)]] quiet_verify_payment quiet_issue_challenge
    unfolding quiet_def by metis
qed

theorem settlement_services_refine_witness:
  "vault_inv (wd_db (snd (settle_payment demo_X demo_K demo_coordinator (demo_settlement_ids ''c'') ''u''
     demo_settle 120 (demo_world demo_verified_in []))))"
  using settlement_services_refine [OF demo_polite [of demo_X demo_verified_in "[]"], of _ demo_K demo_coordinator
      "demo_settlement_ids ''c''" "''u''" demo_settle 120] demo_reachable_verified
  by simp

text \<open>
  C6. A reported settlement is real: when \<^verbatim>\<open>settle_payment\<close> returns a settled payment, the payment it was asked for is
  settled in the database and stays settled in every later one, whoever committed the settlement, and a
  payment whose reservation the settlement consumed has its confirmed fact in the ledger.
\<close>

theorem settle_answer_durable:
  assumes "polite X w" "reachable X (wd_db w)" "settle_payment X K C ids who c now w = (Inr d, v)"
    and "(vault_step X)\<^sup>*\<^sup>* (wd_db v) t"
  shows "pi_id (sd_intent d) = sp_intent_id c \<and> (\<exists>j. load_intent t (sp_intent_id c) = Some j \<and> pi_status j = Settled
    \<and> same_immutable_identity_as (sd_intent d) j
    \<and> (pi_reservation_status (sd_intent d) = Consumed \<longrightarrow> (\<exists>l \<in> set (pay_ledger t). ledger_fact_for j l)))"
proof -
  note v = steps_only_reachable(1) [OF settle_payment_steps assms(1-3)]
  note t = reachable_trans [OF v assms(4)]
  have "answered (sp_intent_id c) d (wd_db v)"
    using yieldsD [OF settle_payment_yields assms(1,2) _ assms(3)] by simp
  then have settled: "pi_status (sd_intent d) = Settled" and "seen (sp_intent_id c) (sd_intent d) t"
    using stable_seen [of X "sp_intent_id c" "sd_intent d"] v assms(4) by (auto simp: answered_def stable_def)
  then obtain j where j: "pi_id (sd_intent d) = sp_intent_id c" "load_intent t (sp_intent_id c) = Some j" "evolves (sd_intent d) j"
    by (auto simp: seen_def)
  then obtain r where r: "r \<in> set (pay_intent t)" "ir_intent r = j" by (auto simp: load_intent_def dest: find_Some_in)
  have "pi_reservation_status (sd_intent d) = Consumed \<longrightarrow> (\<exists>l \<in> set (pay_ledger t). ledger_fact_for j l)"
    using released_stays [of "pi_reservation_status (sd_intent d)" "pi_reservation_status j"] j(3)
      reachable_intent(3) [OF t r(1)] r(2)
    by (auto simp: evolves_def consumed_backed_def list_ex_iff)
  moreover have "pi_status j = Settled" using j(3) settled reach_final [of Settled "pi_status j"] by (simp add: evolves_def is_final_def)
  ultimately show ?thesis using j by (auto simp: evolves_def)
qed

theorem settle_answer_durable_witness:
  "\<exists>d v j. settle_payment demo_X demo_K demo_coordinator (demo_settlement_ids ''c'') ''u'' demo_settle 120
     (demo_world demo_verified_in []) = (Inr d, v) \<and> load_intent (wd_db v) ''i'' = Some j \<and> pi_status j = Settled"
proof -
  obtain d v where run: "settle_payment demo_X demo_K demo_coordinator (demo_settlement_ids ''c'') ''u'' demo_settle 120
     (demo_world demo_verified_in []) = (Inr d, v)"
    using demo_settle_answers by blast
  from settle_answer_durable [OF demo_polite _ run rtranclp.rtrancl_refl] demo_reachable_verified
  show ?thesis using run by (auto simp: demo_settle_def)
qed

section \<open>Authorizing a payment\<close>



text \<open>
  C23. The authorizer chooses the best wallet: the candidate it selects is bound to an eligible policy of the scenario,
  is decided as the policy engine decides it on the budget read, and no other eligible policy and wallet
  has a better decision, where allowed is better than needing approval and that better than denied.
\<close>

theorem authorizer_selects_best:
  assumes "policy_decision X strategy c hash now s = Inr best"
  shows "\<exists>origin. canonical_http_origin X (pc_resource (ap_challenge c)) = Inr origin
    \<and> eligible X c origin s (pwc_policy best) (pwc_wallet_id best)
    \<and> wallet_candidate X c hash origin now s (pwc_policy best) (pwc_wallet_id best) = Inr best
    \<and> PaymentPolicy_validate (pwc_policy best) = Inr ()
    \<and> (\<forall>p w. eligible X c origin s p w \<longrightarrow> (\<exists>d. wallet_candidate X c hash origin now s p w = Inr d
        \<and> decision_rank (pwc_decision best) \<le> decision_rank (pwc_decision d)))"
  using assms
proof (rule policy_decision_ok)
  fix origin
  assume "canonical_http_origin X (pc_resource (ap_challenge c)) = Inr origin"
    "eligible X c origin s (pwc_policy best) (pwc_wallet_id best)"
    "wallet_candidate X c hash origin now s (pwc_policy best) (pwc_wallet_id best) = Inr best"
    "PaymentPolicy_validate (pwc_policy best) = Inr ()"
    "\<And>p w. eligible X c origin s p w \<Longrightarrow> \<exists>d. wallet_candidate X c hash origin now s p w = Inr d
       \<and> decision_rank (pwc_decision best) \<le> decision_rank (pwc_decision d)"
  then show ?thesis by blast
qed

theorem authorizer_selects_best_witness:
  "\<exists>best origin. policy_decision demo_X LeastSpent demo_command (request_hash demo_X demo_K demo_command) 100 demo_catalog
      = Inr best \<and> eligible demo_X demo_command origin demo_catalog (pwc_policy best) (pwc_wallet_id best)"
proof -
  from demo_plan_reserves obtain access best i where "demo_plan = Inr (WritePayment access best i Reserve)"
    by (auto simp: reserving_wallet_def split: sum.splits authorization_plan.splits AuthorizationAction.splits)
  then have best: "policy_decision demo_X LeastSpent demo_command (request_hash demo_X demo_K demo_command) 100 demo_catalog
      = Inr best"
    unfolding demo_plan_def
    by (auto simp: authorization_plan_def Let_def result_simps demo_authorizer_def split: option.splits)
  from authorizer_selects_best [OF this] best show ?thesis by blast
qed

section \<open>Approvals\<close>





text \<open>
  C20. A grant that was issued verifies: the token service, after restarts and key rotations that keep the old keys,
  reads back from the approved row exactly the claims it issued, until the grant expires.
\<close>

theorem issued_grant_verifies:
  assumes "grant_issue X K T jti nonce a d e = Inr g" "base64_inverts K" "aead_decrypts K" "jwt_decodes K"
    and "length nonce = 16" "k_uuid_v4 K nonce" "is_identifier (mp_active_key_id (gt_material_protector T))"
    and "retains_keys T U" "ad_decided_at d \<le> now" "now < e" "in_i64 (ad_decided_at d)" "in_i64 e"
  shows "grant_verify X K U (approve_row g (ad_decided_at d) a) now
    = Inr \<lparr>vg_claims = ag_claims g, vg_claims_hash = ag_claims_hash g\<rparr>"
  using assms by (rule grant_verify_issued)

theorem issued_grant_verifies_witness:
  "\<exists>g. grant_issue demo_X demo_K demo_T ''j'' demo_nonce demo_approval demo_decision 800 = Inr g
    \<and> grant_verify demo_X demo_K demo_T (approve_row g 210 demo_approval) 300
      = Inr \<lparr>vg_claims = ag_claims g, vg_claims_hash = ag_claims_hash g\<rparr>"
proof -
  have "is_ok (grant_issue demo_X demo_K demo_T ''j'' demo_nonce demo_approval demo_decision 800)" by code_simp
  then obtain g where g: "grant_issue demo_X demo_K demo_T ''j'' demo_nonce demo_approval demo_decision 800 = Inr g"
    by (auto simp: is_ok_def split: sum.splits)
  have "length demo_nonce = 16" "k_uuid_v4 demo_K demo_nonce" "is_identifier (mp_active_key_id (gt_material_protector demo_T))"
    "ad_decided_at demo_decision = 210"
    by code_simp+
  with issued_grant_verifies [OF g demo_laws(1,2,4), of demo_T 300] g show ?thesis
    by (simp add: in_i64_def i64_min_def i64_max_def retains_keys_def)
qed

section \<open>Secrets and access\<close>

text \<open>
  C25. Sealed material opens in its own context only: what \<^verbatim>\<open>seal\<close> wrote, a protector that still has the key opens to
  the same bytes under the same context, and refuses under every other context.
\<close>

theorem sealed_material_bound:
  assumes "material_seal K P nonce context m = Inr e" "base64_inverts K" "aead_decrypts K" "aead_authenticates K"
    and "length nonce = 16" "k_uuid_v4 K nonce" "is_identifier (mp_active_key_id P)"
    and "map_of (mp_keys Q) (sm_key_id e) = map_of (mp_keys P) (sm_key_id e)"
  shows "material_open K Q context e = Inr m \<and> (d \<noteq> context \<longrightarrow> (\<exists>err. material_open K Q d e = Inl err))"
  using material_open_sealed [OF assms(1,2,3,5,6,7,8)] material_open_other_context [OF assms(1,2,4,8)] by blast

theorem sealed_material_bound_witness:
  "\<exists>e err. material_seal demo_K demo_protector demo_nonce ''payment-intent:i:x'' ''m'' = Inr e
    \<and> material_open demo_K demo_protector ''payment-intent:i:x'' e = Inr ''m''
    \<and> material_open demo_K demo_protector ''payment-intent:j:x'' e = Inl err"
proof -
  have "is_ok (material_seal demo_K demo_protector demo_nonce ''payment-intent:i:x'' ''m'')"
    "length demo_nonce = 16" "k_uuid_v4 demo_K demo_nonce" "is_identifier (mp_active_key_id demo_protector)"
    by code_simp+
  then obtain e where e: "material_seal demo_K demo_protector demo_nonce ''payment-intent:i:x'' ''m'' = Inr e"
    and n: "length demo_nonce = 16" "k_uuid_v4 demo_K demo_nonce" "is_identifier (mp_active_key_id demo_protector)"
    by (auto simp: is_ok_def split: sum.splits)
  from sealed_material_bound [OF e demo_laws(1,2,3) n refl, of "''payment-intent:j:x''"] e show ?thesis by simp
qed

text \<open>
  C26. Access is what the caller's own client may use: \<^verbatim>\<open>authorize\<close> of the scenario handler grants only an enabled
  scenario, the one asked for, together with the enabled client that owns it, and, unless the edge is deliberately
  open, that client is the one the caller authenticates as.
\<close>

theorem access_sound:
  assumes "scenario_authorize s who scenario_id = Inr a"
  shows "ac_client a \<in> set (pay_client s) \<and> cl_enabled (ac_client a) \<and> cl_auth_principal (ac_client a) = ac_principal a
    \<and> ac_scenario a \<in> set (pay_scenario s) \<and> sc_id (ac_scenario a) = scenario_id \<and> sc_enabled (ac_scenario a)
    \<and> sc_client_id (ac_scenario a) = cl_id (ac_client a)
    \<and> (who \<noteq> UNRESTRICTED_PRINCIPAL \<longrightarrow> ac_principal a = who \<and> authenticates (ac_client a) who)"
  using scenario_authorize_ok [OF assms] by blast

theorem access_sound_witness:
  "\<exists>a. scenario_authorize demo_catalog ''u'' ''s'' = Inr a \<and> sc_id (ac_scenario a) = ''s'' \<and> cl_enabled (ac_client a)"
proof -
  have "is_ok (scenario_authorize demo_catalog ''u'' ''s'')" by code_simp
  then obtain a where "scenario_authorize demo_catalog ''u'' ''s'' = Inr a" by (auto simp: is_ok_def split: sum.splits)
  with access_sound [OF this] show ?thesis by blast
qed

section \<open>Identities\<close>

text \<open>
  C27. Two settlements share a posting key only when they are the same fact: if \<^verbatim>\<open>settlement_posting_key\<close> gives one key for
  two settlements, they name the same network and transaction, or the same authority and reference, and the
  same effect, provided that the hash does not collide on the two preimages.
\<close>

theorem posting_key_identifies_fact:
  assumes "settlement_posting_key X a n t r e = Inr k" "settlement_posting_key X a' n' t' r' e' = Inr k"
    and "settlement_fact_of X a n t r e = Inr f" "settlement_fact_of X a' n' t' r' e' = Inr g"
    and "x_sha256 X (fact_preimage f) = x_sha256 X (fact_preimage g) \<longrightarrow> fact_preimage f = fact_preimage g"
    and "fact_fits f" "fact_fits g"
  shows "f = g"
proof -
  have "fact_tag f @ hex_encode (x_sha256 X (fact_preimage f)) = fact_tag g @ hex_encode (x_sha256 X (fact_preimage g))"
    using assms(1-4) by (simp add: settlement_posting_key_fact and_then_ok)
  from fact_tag_inj [OF this] assms(5-7) show ?thesis using fact_preimage_inj by blast
qed

theorem posting_key_identifies_fact_witness:
  "\<exists>f. settlement_fact_of demo_X ''q'' ''n'' None (Some ''y'') None = Inr f
    \<and> settlement_fact_of demo_X '' q'' ''n'' None (Some ''y '') None = Inr f"
proof -
  have k: "settlement_posting_key demo_X ''q'' ''n'' None (Some ''y'') None
      = Inr ''provider:6167656e747661756c742e70726f76696465722d666163742e76310000000000''"
    "settlement_posting_key demo_X '' q'' ''n'' None (Some ''y '') None
      = Inr ''provider:6167656e747661756c742e70726f76696465722d666163742e76310000000000''"
    by code_simp+
  have f: "settlement_fact_of demo_X ''q'' ''n'' None (Some ''y'') None = Inr (ProviderFact ''q'' ''y'')"
    "settlement_fact_of demo_X '' q'' ''n'' None (Some ''y '') None = Inr (ProviderFact ''q'' ''y'')"
    by code_simp+
  from posting_key_identifies_fact [OF k f] f show ?thesis by (simp add: fact_fits_def)
qed

section \<open>Agreement of the components\<close>

text \<open>
  C19. The policy engine and the transaction apply the same limits: on the budget that the transaction reads, the
  engine allows a payment exactly when the transaction's budget check accepts it and the policy is valid, the
  challenge in scope and unexpired, and the amount below the approval threshold.
\<close>

theorem budget_checks_agree:
  assumes "authority_ids i = Inr (pid, wid)" "scenario_exists s (pi_scenario_id i)"
    and "load_policy s pid = Some p" "limits_for p (pi_direction i) = Some l"
    and "budget_snapshot_connection X (pi_scenario_id i) wid (pi_direction i) (budget_unit (pi_asset i)) day now s = Inr b"
    and "pe_direction e = pi_direction i" "pc_amount (pe_challenge e) = pi_amount i"
    and "pe_scenario_usage e = bs_scenario_spent_and_reserved b" "pe_wallet_budget e = snapshot_wallet_budget b"
  shows "PolicyEngine_evaluate X p e = Inr Allowed \<longleftrightarrow>
    enforce_budget X i day now False s = Inr () \<and> PaymentPolicy_validate p = Inr ()
    \<and> pe_now e < pc_expires_at (pe_challenge e) \<and> policy_scope_matches X p e \<and> \<not> limits_requires_approval l (pi_amount i)"
  unfolding engine_allows_iff enforce_budget_iff [OF assms(1-4) daily_ceiling_def [of False l, simplified] assms(5)]
  using assms(4,6-9) by auto

theorem budget_checks_agree_witness:
  "\<exists>b. budget_snapshot_connection demo_X ''s'' ''w'' Outbound demo_unit 0 100 demo_catalog = Inr b
    \<and> (PolicyEngine_evaluate demo_X demo_policy \<lparr>pe_direction = Outbound, pe_challenge = demo_challenge, pe_wallet_id = ''w'',
        pe_origin = ''o'', pe_scenario_usage = bs_scenario_spent_and_reserved b, pe_wallet_budget = snapshot_wallet_budget b,
        pe_now = 100\<rparr> = Inr Allowed)
      = (enforce_budget demo_X demo_intent 0 100 False demo_catalog = Inr () \<and> PaymentPolicy_validate demo_policy = Inr ()
        \<and> 100 < pc_expires_at demo_challenge
        \<and> policy_scope_matches demo_X demo_policy \<lparr>pe_direction = Outbound, pe_challenge = demo_challenge, pe_wallet_id = ''w'',
            pe_origin = ''o'', pe_scenario_usage = bs_scenario_spent_and_reserved b, pe_wallet_budget = snapshot_wallet_budget b,
            pe_now = 100\<rparr> \<and> \<not> limits_requires_approval demo_limits 30)"
proof -
  have "is_ok (budget_snapshot_connection demo_X (pi_scenario_id demo_intent) ''w'' (pi_direction demo_intent)
      (budget_unit (pi_asset demo_intent)) 0 100 demo_catalog)"
    by code_simp
  then obtain b where b: "budget_snapshot_connection demo_X (pi_scenario_id demo_intent) ''w'' (pi_direction demo_intent)
      (budget_unit (pi_asset demo_intent)) 0 100 demo_catalog = Inr b"
    by (auto simp: is_ok_def split: sum.splits)
  have "authority_ids demo_intent = Inr (''p'', ''w'')" "scenario_exists demo_catalog (pi_scenario_id demo_intent)"
    "load_policy demo_catalog ''p'' = Some demo_policy" "limits_for demo_policy (pi_direction demo_intent) = Some demo_limits"
    by code_simp+
  note agree = budget_checks_agree [OF this b]
  have "pi_scenario_id demo_intent = ''s''" "pi_direction demo_intent = Outbound" "budget_unit (pi_asset demo_intent) = demo_unit"
    "pi_amount demo_intent = 30" "pc_amount demo_challenge = 30"
    by code_simp+
  with agree b show ?thesis by simp
qed

text \<open>
  C35. The coordinator reads back what it recorded: the receipt of a settlement event, the challenge of an issued
  payment, and the block from which a requested settlement is searched are read as they were written.
\<close>

theorem settlement_records_read_back:
  assumes "in_i64 (rc_confirmed_at receipt)" "in_i64 (pc_expires_at ch)"
    and "pi_challenge_hash i = Some (pc_challenge_hash ch)" "uses_eip3009_recovery i \<longleftrightarrow> block \<noteq> None"
  shows "durable_receipt (Some (confirmed_event e1 i r receipt at)) reconciled = Inr receipt
    \<and> challenge_of_event i (Some (fresh_event e2 i ChallengeCreated (json_object [(''challenge'', challenge_to_value ch)]) at))
        = Inr ch
    \<and> settlement_request_from_block i (fresh_event e3 i SettlementRequested (settlement_request_payload i block) at) = Inr block"
  using durable_receipt_settled [OF assms(1)] challenge_round_trip [OF assms(2)] settlement_request_read_back [OF assms(4)] assms(3)
  by (simp add: challenge_of_event_def json_object_def ok_or_def and_then_def)

theorem settlement_records_read_back_witness:
  "durable_receipt (Some (confirmed_event ''e'' demo_requested_in demo_result demo_receipt_in 121)) None = Inr demo_receipt_in"
proof -
  have "in_i64 (rc_confirmed_at demo_receipt_in)" "in_i64 (pc_expires_at demo_challenge)"
    "pi_challenge_hash demo_requested_in = Some (pc_challenge_hash demo_challenge)" "\<not> uses_eip3009_recovery demo_requested_in"
    by code_simp+
  with settlement_records_read_back [of demo_receipt_in demo_challenge demo_requested_in None] show ?thesis by blast
qed

text \<open>
  C36. The outbox query claims what the dispatcher delivers: the GLOB patterns of the claim query select exactly the
  messages whose destination belongs to the delivery class.
\<close>

theorem claim_query_selects_class:
  "claim_class_predicate (OutboxDeliveryClass_as_str c) m = OutboxDeliveryClass_matches c m"
  by (rule claim_class_predicate_matches)

section \<open>Background workers\<close>



text \<open>
  C22. A message is handed out a bounded number of times: however its deliveries fail, and whatever other workers do in
  between, completed runs of the dispatcher hand out a message at most as often as the configured number of
  attempts. After that it is delivered or given up.
\<close>

theorem dispatch_attempts_bounded:
  assumes "PaymentEventDispatcher_new sink c = Inr D" "reachable X s" "dispatched X (dc_max_attempts c) k s n t"
  shows "n \<le> unat (dc_max_attempts c)"
  using dispatched_bounded [OF assms(3,2)] dispatcher_ok(6) [OF assms(1)] by simp

theorem dispatch_attempts_bounded_witness:
  "\<exists>t. dispatched demo_X 5 ''m1'' demo_noted 1 t \<and> (1::nat) \<le> 5"
proof -
  let ?w = "demo_world demo_noted []"
  have "claimed_messages demo_dispatcher 150 ?w = [demo_taken]"
    using demo_dispatch_steps(1) by (simp add: claimed_messages_def demo_dispatcher_def)
  moreover have "ob_id demo_taken = ''m1''" by code_simp
  moreover have max: "dc_max_attempts demo_dispatch_config = 5" by code_simp
  ultimately have "dispatched demo_X 5 ''m1'' demo_noted (Suc 0) (demo_noted\<lparr>pay_outbox := [demo_delivered]\<rparr>)"
    using dispatched.run [of demo_X 5 "''m1''" demo_noted 0 ?w demo_dispatcher 150] dispatched.start demo_polite demo_dispatches
    by (simp add: demo_dispatcher_def)
  with dispatch_attempts_bounded [OF demo_dispatcher_new demo_reachable_noted, unfolded max] show ?thesis by fastforce
qed



text \<open>
  C32. Workers back off within their bounds: the delay of the dispatcher never shrinks from one attempt to the next, and
  the delays of both workers are at least the initial and at most the maximal one, with no overflow however
  many attempts were made.
\<close>

theorem backoff_bounds:
  assumes "PaymentEventDispatcher_new sink c = Inr D" "PaymentReconciler_with_clock evidence clock d = Inr R"
  shows "pd_initial_backoff_seconds D \<le> retry_delay D n \<and> retry_delay D n \<le> pd_max_backoff_seconds D
    \<and> (m \<le> n \<longrightarrow> retry_delay D m \<le> retry_delay D n)
    \<and> rw_initial_backoff_seconds R \<le> next_backoff R i \<and> next_backoff R i \<le> rw_max_backoff_seconds R"
  using retry_delay_bounds [OF dispatcher_ok(3,4,5) [OF assms(1)]] retry_delay_mono [OF dispatcher_ok(3) [OF assms(1)]]
    next_backoff_bounds [OF reconciler_ok(5,6,7) [OF assms(2)]] by blast

theorem backoff_bounds_witness:
  "2 \<le> retry_delay demo_dispatcher 4294967295 \<and> retry_delay demo_dispatcher 4294967295 \<le> 60
    \<and> next_backoff demo_reconciler demo_pending_in \<le> 60"
  using backoff_bounds [OF demo_dispatcher_new demo_reconciler_new, of 4294967295 _ demo_pending_in]
  by (simp add: demo_dispatcher_def demo_reconciler_def)



section \<open>Statements\<close>

text \<open>
  C34. A generic statement is built from the schema: whatever an entity, query or change carries, the text of the SQL that the
  repository builder produces consists of its fixed fragments and of the names of the entity's table and columns,
  and these names have only lower-case letters, digits and underscores. Values are only ever bound.
\<close>

theorem statements_built_from_names:
  assumes "select_sql E q c = Inr ps \<or> insert_sql E vs c = Inr ps \<or> update_sql E cs q = Inr ps \<or> delete_by_sql E q = Inr ps
    \<or> upsert_sql E vs ks us im rev_col = Inr ps"
    and "Sql x \<in> set ps" "x \<notin> set sql_fixed" "b \<in> set x"
  shows "(x = re_table E \<or> x \<in> set (re_columns E)) \<and> (is_ascii_lower b \<or> b = CHR ''_'' \<or> is_ascii_digit b)"
proof -
  have "sql_safe E ps"
    using assms(1)
    by (elim disjE) (blast dest: select_sql_safe(1) insert_sql_safe update_sql_safe(1) delete_by_sql_safe(1) upsert_sql_safe(1))+
  then have "sql_name E x" using assms(2,3) by (auto simp: sql_safe_def)
  then show ?thesis using sql_identifier_chars assms(4) by (auto simp: sql_name_def)
qed

theorem statements_built_from_names_witness:
  "\<exists>ps. delete_by_sql \<lparr>re_table = ''price'', re_columns = [''id''], re_write_mode = EwCatalog, re_keys = [''id''], re_immutable = [],
      re_revision = None\<rparr> \<lparr>eq_predicates = [(''id'', Equal, EText (Some ''x; DROP'') :: unit EntityValue)], eq_order = [],
      eq_range = None\<rparr> = Inr ps \<and> Sql ''id'' \<in> set ps \<and> is_ascii_lower (CHR ''d'')"
proof -
  let ?E = "\<lparr>re_table = ''price'', re_columns = [''id''], re_write_mode = EwCatalog, re_keys = [''id''], re_immutable = [],
      re_revision = None\<rparr>"
  let ?q = "\<lparr>eq_predicates = [(''id'', Equal, EText (Some ''x; DROP'') :: unit EntityValue)], eq_order = [], eq_range = None\<rparr>"
  have ps: "delete_by_sql ?E ?q = Inr [Sql ''DELETE FROM '', Sql ''price'', Sql '' WHERE '', Sql ''id'', Sql '' = '',
      Bind (EText (Some ''x; DROP''))]"
    by code_simp
  have "''id'' \<notin> set sql_fixed" by code_simp
  with ps statements_built_from_names [of ?E ?q _ _ _ _ _ _ _ _ "''id''" "CHR ''d''"] show ?thesis
    by (auto simp: is_ascii_lower_def ascii_def)
qed

end
